(* ===== verification/Prelude.thy ===== *)
theory Prelude
  imports Complex_Main "HOL-Library.List_Lexorder" "HOL-Library.Product_Lexorder"
    "HOL-Library.Char_ord"
begin

text \<open>
  Shared ground of the development: the exceptions of the Python backend as values, the
  sequencing of fallible steps, the text helpers every repository uses, and the few SQL
  statements (select one, update with a row count) on tables kept as lists of rows.

  Text is a list of characters, each one code point (the model covers the code points below
  256).  Times are rational numbers of seconds: the rounding of floats is not modelled.
\<close>

section \<open>Exceptions and fallible steps\<close>

text \<open>
  One constructor per exception class the modelled code raises; the string is the message
  (\<^verbatim>\<open>str(exc)\<close>) or the part of it that names the offending object.
\<close>

datatype py_err =
    ValueError string
  | TypeErr string
  | WorkNotFound string
  | WorkConflict string
  | InvalidTransition string
  | LeaseLost string
  | RepositoryCorrupt string
  | IntegrityError string
  | InjectedFault string
  | StrictJSONError string
  | RuntimeErr string
  | TimeoutErr string
  | CancelledError string
  | ExecutionUnavailable string
  | ExecutionValidationError string
  | BudgetExhausted string
  | GoalNotFound string
  | GoalConflict string
  | GoalTransitionError string
  | GoalValidationError string

type_synonym 'a res = "py_err + 'a"

named_theorems row_simps "rewrite rules for the rows and tables of the store"

definition ebind :: "'a res \<Rightarrow> ('a \<Rightarrow> 'b res) \<Rightarrow> 'b res" where
  "ebind m f = (case m of Inl e \<Rightarrow> Inl e | Inr x \<Rightarrow> f x)"

definition require :: "bool \<Rightarrow> py_err \<Rightarrow> unit res" where
  "require b e = (if b then Inr () else Inl e)"

lemma ebind_Inl [simp]: "ebind (Inl e) f = Inl e"
  by (simp add: ebind_def)

lemma ebind_Inr [simp]: "ebind (Inr x) f = f x"
  by (simp add: ebind_def)

lemma ebind_eq_Inr [simp]: "(ebind m f = Inr y) \<longleftrightarrow> (\<exists>x. m = Inr x \<and> f x = Inr y)"
  by (cases m) auto

lemma Inr_eq_ebind [simp]: "(Inr y = ebind m f) \<longleftrightarrow> (\<exists>x. m = Inr x \<and> f x = Inr y)"
  by (cases m) auto

lemma ebind_eq_Inl: "(ebind m f = Inl e) \<longleftrightarrow> m = Inl e \<or> (\<exists>x. m = Inr x \<and> f x = Inl e)"
  by (cases m) auto

lemma ebind_cong [fundef_cong]:
  "m = m' \<Longrightarrow> (\<And>x. m' = Inr x \<Longrightarrow> f x = f' x) \<Longrightarrow> ebind m f = ebind m' f'"
  by (cases m') auto

lemma require_eq_Inr [simp]: "(require b e = Inr u) \<longleftrightarrow> b"
  by (simp add: require_def)

lemma require_True [simp]: "require True e = Inr ()"
  by (simp add: require_def)

lemma require_False [simp]: "require False e = Inl e"
  by (simp add: require_def)

text \<open>A list of fallible values: the first failure wins, as an exception in a loop does.\<close>

fun emap :: "('a \<Rightarrow> 'b res) \<Rightarrow> 'a list \<Rightarrow> 'b list res" where
  "emap f [] = Inr []"
| "emap f (x # xs) = ebind (f x) (\<lambda>y. ebind (emap f xs) (\<lambda>ys. Inr (y # ys)))"

lemma emap_Inr_length: "emap f xs = Inr ys \<Longrightarrow> length ys = length xs"
  by (induction xs arbitrary: ys) auto

lemma emap_Inr_set: "emap f xs = Inr ys \<Longrightarrow> y \<in> set ys \<Longrightarrow> \<exists>x\<in>set xs. f x = Inr y"
  by (induction xs arbitrary: ys) auto

text \<open>A loop that threads a state through a list and stops at the first exception.\<close>

fun efold :: "('a \<Rightarrow> 's \<Rightarrow> 's res) \<Rightarrow> 'a list \<Rightarrow> 's \<Rightarrow> 's res" where
  "efold f [] s = Inr s"
| "efold f (x # xs) s = ebind (f x s) (efold f xs)"

lemma efold_invariant:
  assumes "efold f xs s = Inr s'" and "I s"
    and "\<And>x s s'. x \<in> set xs \<Longrightarrow> I s \<Longrightarrow> f x s = Inr s' \<Longrightarrow> I s'"
  shows "I s'"
  using assms by (induction xs arbitrary: s) auto

section \<open>Text\<close>

definition py_space :: "char \<Rightarrow> bool" where
  "py_space c = (let n = (of_char c :: nat) in
     (9 \<le> n \<and> n \<le> 13) \<or> (28 \<le> n \<and> n \<le> 32) \<or> n = 133 \<or> n = 160)"

definition py_strip :: "string \<Rightarrow> string" where
  "py_strip s = rev (dropWhile py_space (rev (dropWhile py_space s)))"

definition nul :: char where
  "nul = char_of (0 :: nat)"

definition digit_char :: "nat \<Rightarrow> char" where
  "digit_char d = char_of (48 + d)"

fun show_nat :: "nat \<Rightarrow> string" where
  "show_nat n = (if n < 10 then [digit_char n] else show_nat (n div 10) @ [digit_char (n mod 10)])"

declare show_nat.simps [simp del]

definition show_int :: "int \<Rightarrow> string" where
  "show_int i = (if i < 0 then ''-'' @ show_nat (nat (- i)) else show_nat (nat i))"

text \<open>
  The \<^verbatim>\<open>_text(value, field, required, limit)\<close> helper of the repositories: strip, then the
  checks in the code's order.
\<close>

definition text_arg :: "string \<Rightarrow> string \<Rightarrow> bool \<Rightarrow> nat \<Rightarrow> string res" where
  "text_arg v field required limit =
     (let t = py_strip v in
      if required \<and> t = [] then Inl (ValueError (field @ '' is required''))
      else if limit < length t then
        Inl (ValueError (field @ '' exceeds '' @ show_nat limit @ '' characters''))
      else if nul \<in> set t then Inl (ValueError (field @ '' contains a NUL character''))
      else Inr t)"

lemma dropWhile_fix: "(xs = [] \<or> \<not> P (hd xs)) \<Longrightarrow> dropWhile P xs = xs"
  by (cases xs) auto

lemma dropWhile_hd: "dropWhile P xs = [] \<or> \<not> P (hd (dropWhile P xs))"
  using hd_dropWhile by blast

lemma py_strip_idem [simp]: "py_strip (py_strip s) = py_strip s"
proof -
  define a where "a = dropWhile py_space s"
  define b where "b = dropWhile py_space (rev a)"
  have ha: "a = [] \<or> \<not> py_space (hd a)" unfolding a_def by (rule dropWhile_hd)
  have hb: "b = [] \<or> \<not> py_space (hd b)" unfolding b_def by (rule dropWhile_hd)
  have "rev b = [] \<or> \<not> py_space (hd (rev b))"
  proof (cases "b = []")
    case False
    obtain ps where ps: "rev a = ps @ b"
      unfolding b_def by (metis takeWhile_dropWhile_id)
    then have "a = rev b @ rev ps" by (metis rev_append rev_rev_ident)
    with False have "hd a = hd (rev b)" and "a \<noteq> []" by auto
    with ha show ?thesis by simp
  qed simp
  then have "dropWhile py_space (rev b) = rev b" by (rule dropWhile_fix)
  moreover from hb have "dropWhile py_space b = b" by (rule dropWhile_fix)
  ultimately show ?thesis by (simp add: py_strip_def a_def b_def)
qed

lemma text_arg_Inr:
  "text_arg v field required limit = Inr t \<longleftrightarrow>
     t = py_strip v \<and> (required \<longrightarrow> t \<noteq> []) \<and> length t \<le> limit \<and> nul \<notin> set t"
  by (auto simp: text_arg_def Let_def)

lemma text_arg_fixed: "text_arg v field r l = Inr t \<Longrightarrow> text_arg t field r l = Inr t"
  by (auto simp: text_arg_Inr)

section \<open>Tables\<close>

text \<open>
  \<^verbatim>\<open>UPDATE t SET .. WHERE P\<close>: the row count and the new table.  \<^verbatim>\<open>fetchone()\<close> of a
  \<^verbatim>\<open>SELECT\<close> is \<^const>\<open>find\<close>.
\<close>

definition sql_update :: "('r \<Rightarrow> bool) \<Rightarrow> ('r \<Rightarrow> 'r) \<Rightarrow> 'r list \<Rightarrow> nat \<times> 'r list" where
  "sql_update P f t = (length (filter P t), map (\<lambda>r. if P r then f r else r) t)"

lemma find_map_key:
  "(\<And>r. k (f r) = k r) \<Longrightarrow> find (\<lambda>r. k r = a) (map f t) = map_option f (find (\<lambda>r. k r = a) t)"
  by (induction t) auto

lemma find_update_key:
  assumes "\<And>r. k (f r) = k r"
  shows "find (\<lambda>r. k r = a) (map (\<lambda>r. if k r = b \<and> Q r then f r else r) t) =
    (case find (\<lambda>r. k r = a) t of None \<Rightarrow> None
     | Some r \<Rightarrow> Some (if a = b \<and> Q r then f r else r))"
  using assms by (induction t) auto

lemma find_Some_key: "find (\<lambda>r. k r = a) t = Some r \<Longrightarrow> k r = a \<and> r \<in> set t"
  by (induction t) (auto split: if_splits)

lemma find_None_key: "find (\<lambda>r. k r = a) t = None \<longleftrightarrow> a \<notin> k ` set t"
  by (induction t) auto

lemma find_append: "find P (xs @ ys) = (case find P xs of None \<Rightarrow> find P ys | Some x \<Rightarrow> Some x)"
  by (induction xs) auto

lemma find_distinct_key:
  "distinct (map k t) \<Longrightarrow> r \<in> set t \<Longrightarrow> find (\<lambda>x. k x = k r) t = Some r"
  by (induction t) force+

lemma filter_key_length:
  assumes "distinct (map k t)" and "find (\<lambda>r. k r = a) t = Some r"
  shows "length (filter (\<lambda>x. k x = a \<and> Q x) t) = (if Q r then 1 else 0)"
  using assms
proof (induction t)
  case (Cons x t)
  show ?case
  proof (cases "k x = a")
    case True
    with Cons.prems have "filter (\<lambda>y. k y = a \<and> Q y) t = []"
      by (auto simp: filter_empty_conv image_iff)
    with True Cons.prems show ?thesis by auto
  next
    case False
    with Cons show ?thesis by auto
  qed
qed simp

lemma map_key_update:
  "(\<And>r. k (f r) = k r) \<Longrightarrow> map k (map (\<lambda>r. if P r then f r else r) t) = map k t"
  by (induction t) auto

lemma set_key_update:
  assumes "distinct (map k t)" and "find (\<lambda>r. k r = a) t = Some r" and "Q r"
  shows "set (map (\<lambda>x. if k x = a \<and> Q x then f x else x) t) = insert (f r) (set t - {r})"
  using assms
proof (induction t)
  case (Cons x t)
  show ?case
  proof (cases "k x = a")
    case True
    with Cons.prems have xr: "x = r" by simp
    from Cons.prems True have "map (\<lambda>y. if k y = a \<and> Q y then f y else y) t = t"
      by (intro map_idI) (auto simp: image_iff)
    moreover from Cons.prems True xr have "r \<notin> set t" by auto
    ultimately show ?thesis using True xr Cons.prems(3) by auto
  next
    case False
    with Cons have IH: "set (map (\<lambda>x. if k x = a \<and> Q x then f x else x) t) = insert (f r) (set t - {r})"
      and rt: "k r = a" using find_Some_key[of k a t r] by auto
    have "x \<noteq> r" using False rt by auto
    with False IH show ?thesis by auto
  qed
qed simp

lemma sql_update_key:
  assumes "distinct (map k t)" and "find (\<lambda>r. k r = a) t = Some row"
  shows "sql_update (\<lambda>r. k r = a \<and> Q r) f t =
    (if Q row then (1, map (\<lambda>r. if k r = a then f r else r) t) else (0, t))"
proof -
  have only: "r = row" if "r \<in> set t" "k r = a" for r
    using find_distinct_key[OF assms(1) that(1)] assms(2) that(2) by simp
  have "map (\<lambda>r. if k r = a \<and> Q r then f r else r) t =
      (if Q row then map (\<lambda>r. if k r = a then f r else r) t else t)"
  proof (cases "Q row")
    case True
    with only show ?thesis by auto
  next
    case False
    with only show ?thesis by (auto intro!: map_idI)
  qed
  then show ?thesis
    using filter_key_length[OF assms] by (simp add: sql_update_def)
qed

lemma find_map_update:
  assumes "\<And>r. k (f r) = k r"
  shows "find (\<lambda>r. k r = a) (map (\<lambda>r. if k r = b then f r else r) t) =
    (case find (\<lambda>r. k r = a) t of None \<Rightarrow> None | Some r \<Rightarrow> Some (if a = b then f r else r))"
  using assms by (induction t) auto

lemma map_key_map:
  "(\<And>r. k (f r) = k r) \<Longrightarrow> map k (map (\<lambda>r. if k r = b then f r else r) t) = map k t"
  by (induction t) auto

section \<open>Counting\<close>

text \<open>The numbers 1, 2, .., n: the sequence numbers of a log, the versions of an aggregate.\<close>

definition counting :: "nat \<Rightarrow> int list" where
  "counting n = map int [1..<Suc n]"

lemma counting_0 [simp]: "counting 0 = []"
  by (simp add: counting_def)

lemma counting_Suc: "counting (Suc n) = counting n @ [int n + 1]"
  by (simp add: counting_def)

lemma length_counting [simp]: "length (counting n) = n"
  by (simp add: counting_def)

lemma nth_counting: "i < n \<Longrightarrow> counting n ! i = int i + 1"
  by (simp add: counting_def del: upt_Suc)

lemma set_counting: "set (counting n) = {1..int n}"
  by (simp add: counting_def atLeastLessThanSuc_atLeastAtMost image_int_atLeastAtMost del: upt_Suc)

lemma distinct_counting: "distinct (counting n)"
  by (simp add: counting_def distinct_map)

lemma sorted_counting: "sorted (counting n)"
  by (simp add: counting_def sorted_map strict_mono_less_eq sorted_iff_nth_mono del: upt_Suc)

lemma fold_max_le: "fold max (xs :: int list) m \<ge> m"
  by (induction xs arbitrary: m) (auto intro: order_trans[OF max.cobounded2])

lemma fold_max_counting: "fold max (counting n) 0 = int n"
  by (induction n) (simp_all add: counting_Suc)

section \<open>Decimal text\<close>

lemma digit_char_inj: 
  assumes "a < 10" "b < 10" "digit_char a = digit_char b" shows "a = b"
proof -
  have "(of_char (digit_char n) :: nat) = 48 + n" if "n < 10" for n
    using that by (simp add: digit_char_def)
  with assms show ?thesis by (metis add_left_cancel)
qed
lemma show_nat_inj: "show_nat m = show_nat n \<Longrightarrow> m = n"
proof (induction m arbitrary: n rule: less_induct)
  case (less m)
  have len: "show_nat k \<noteq> []" for k by (subst show_nat.simps) simp
  show ?case
  proof (cases "m < 10")
    case True
    then have m: "show_nat m = [digit_char m]" by (subst show_nat.simps) simp
    have "n < 10"
    proof (rule ccontr)
      assume "\<not> n < 10"
      then have "show_nat n = show_nat (n div 10) @ [digit_char (n mod 10)]" by (subst show_nat.simps) simp
      with m less.prems len[of "n div 10"] show False by (simp add: Cons_eq_append_conv)
    qed
    then have "show_nat n = [digit_char n]" by (subst show_nat.simps) simp
    with m less.prems True \<open>n < 10\<close> show ?thesis using digit_char_inj by simp
  next
    case False
    then have m: "show_nat m = show_nat (m div 10) @ [digit_char (m mod 10)]" by (subst show_nat.simps) simp
    show ?thesis
    proof (cases "n < 10")
      case True
      then have "show_nat n = [digit_char n]" by (subst show_nat.simps) simp
      with m less.prems len[of "m div 10"] show ?thesis by (simp add: append_eq_Cons_conv)
    next
      case n: False
      then have "show_nat n = show_nat (n div 10) @ [digit_char (n mod 10)]" by (subst show_nat.simps) simp
      with m less.prems have e: "show_nat (m div 10) = show_nat (n div 10)" "digit_char (m mod 10) = digit_char (n mod 10)"
        by simp_all
      have "m div 10 = n div 10" using less.IH[OF _ e(1)] False by simp
      moreover have "m mod 10 = n mod 10" using digit_char_inj[OF _ _ e(2)] by simp
      ultimately show ?thesis by (metis div_mult_mod_eq)
    qed
  qed
qed
lemma show_int_inj: "0 \<le> i \<Longrightarrow> 0 \<le> j \<Longrightarrow> show_int i = show_int j \<Longrightarrow> i = j"
  using show_nat_inj[of "nat i" "nat j"] by (simp add: show_int_def)

end
