(* ===== verification/Core_Json.thy ===== *)
theory Core_Json
  imports Prelude "HOL-Library.Multiset"
begin

text \<open>
  Strict JSON, canonical JSON text and request fingerprints
  (\<^verbatim>\<open>backend/core_invariants.py\<close>).  A Python value is a \<open>pyval\<close>; the detached value that
  \<^verbatim>\<open>strict_json_value\<close> returns is a \<open>json\<close>, whose objects keep the insertion order of their
  keys, as a dict does.  Values are trees, so the cycle check of the code (by object identity)
  has nothing to reject here.
\<close>

section \<open>Strict JSON values\<close>

datatype json =
    JNull
  | JBool bool
  | JInt int
  | JFloat rat
  | JStr string
  | JArr "json list"
  | JObj "(string \<times> json) list"

type_synonym jobject = "(string \<times> json) list"

subsection \<open>The host\<close>

text \<open>
  What the code takes from outside itself: SHA-256 (as a function of the text hashed),
  \<^verbatim>\<open>repr\<close> of a float, \<^verbatim>\<open>float\<close> of a text, \<^verbatim>\<open>str\<close> of a container, the sequence of \<^verbatim>\<open>uuid4()\<close> draws, the
  reading of \<^verbatim>\<open>time.time()\<close> the operation makes, and the configured bound on inline JSON.
\<close>

record host =
  sha256_hex :: "string \<Rightarrow> string"
  float_repr :: "rat \<Rightarrow> string"
  parse_float :: "string \<Rightarrow> rat option"
  container_str :: "json \<Rightarrow> string"
  uuid4 :: "nat \<Rightarrow> nat"
  clock :: rat
  max_inline_json :: nat
  faults :: "string list"

subsection \<open>Python values and their strict copies\<close>

text \<open>
  \<open>PNonFinite\<close> stands for nan and the infinities; \<open>PObject\<close> is any other object, with its
  type's name and what its \<open>to_dict\<close> method returns when it has one.
\<close>

datatype pyval =
    PNone
  | PBool bool
  | PInt int
  | PFloat rat
  | PNonFinite
  | PStr string
  | PList "pyval list"
  | PTuple "pyval list"
  | PDict "(pyval \<times> pyval) list"
  | PObject string "pyval option"

fun strict_json_value :: "pyval \<Rightarrow> string \<Rightarrow> json res"
  and strict_items :: "pyval list \<Rightarrow> string \<Rightarrow> nat \<Rightarrow> json list res"
  and strict_fields :: "(pyval \<times> pyval) list \<Rightarrow> string \<Rightarrow> jobject res" where
  "strict_json_value PNone path = Inr JNull"
| "strict_json_value (PBool b) path = Inr (JBool b)"
| "strict_json_value (PInt i) path = Inr (JInt i)"
| "strict_json_value (PStr s) path = Inr (JStr s)"
| "strict_json_value (PFloat r) path = Inr (JFloat r)"
| "strict_json_value PNonFinite path = Inl (StrictJSONError (''non-finite number at '' @ path))"
| "strict_json_value (PList xs) path = ebind (strict_items xs path 0) (\<lambda>ys. Inr (JArr ys))"
| "strict_json_value (PTuple xs) path = ebind (strict_items xs path 0) (\<lambda>ys. Inr (JArr ys))"
| "strict_json_value (PDict kvs) path = ebind (strict_fields kvs path) (\<lambda>fs. Inr (JObj fs))"
| "strict_json_value (PObject t (Some v)) path = strict_json_value v path"
| "strict_json_value (PObject t None) path =
     Inl (StrictJSONError (''unsupported JSON value at '' @ path @ '': '' @ t))"
| "strict_items [] path i = Inr []"
| "strict_items (x # xs) path i =
     ebind (strict_json_value x (path @ ''['' @ show_nat i @ '']'')) (\<lambda>y.
     ebind (strict_items xs path (Suc i)) (\<lambda>ys. Inr (y # ys)))"
| "strict_fields [] path = Inr []"
| "strict_fields ((k, v) # kvs) path =
     (case k of
        PStr key \<Rightarrow>
          ebind (strict_json_value v (path @ ''.'' @ key)) (\<lambda>y.
          ebind (strict_fields kvs path) (\<lambda>ys. Inr ((key, y) # ys)))
      | _ \<Rightarrow> Inl (StrictJSONError (''non-string JSON key at '' @ path)))"

text \<open>The strict values as Python values again: what the detached copy denotes.\<close>

fun embed :: "json \<Rightarrow> pyval" where
  "embed JNull = PNone"
| "embed (JBool b) = PBool b"
| "embed (JInt i) = PInt i"
| "embed (JFloat r) = PFloat r"
| "embed (JStr s) = PStr s"
| "embed (JArr xs) = PList (map embed xs)"
| "embed (JObj kvs) = PDict (map (\<lambda>p. (PStr (fst p), embed (snd p))) kvs)"

section \<open>Canonical text\<close>

definition hex_digit :: "nat \<Rightarrow> char" where
  "hex_digit d = (if d < 10 then char_of (48 + d) else char_of (87 + d))"

text \<open>
  One character of a JSON string with \<^verbatim>\<open>ensure_ascii=False\<close>: the two-character escapes, then
  \<^verbatim>\<open>\u00XX\<close> for the other control characters.
\<close>

definition json_char :: "char \<Rightarrow> string" where
  "json_char c = (let n = (of_char c :: nat) in
     if n = 34 then [char_of (92 :: nat), c]
     else if n = 92 then [c, c]
     else if n = 10 then char_of (92 :: nat) # ''n''
     else if n = 13 then char_of (92 :: nat) # ''r''
     else if n = 9 then char_of (92 :: nat) # ''t''
     else if n = 12 then char_of (92 :: nat) # ''f''
     else if n = 8 then char_of (92 :: nat) # ''b''
     else if n < 32 then char_of (92 :: nat) # ''u00'' @ [hex_digit (n div 16), hex_digit (n mod 16)]
     else [c])"

definition json_string :: "string \<Rightarrow> string" where
  "json_string s = char_of (34 :: nat) # concat (map json_char s) @ [char_of (34 :: nat)]"

fun comma_join :: "string list \<Rightarrow> string" where
  "comma_join [] = []"
| "comma_join [x] = x"
| "comma_join (x # y # ys) = x @ '','' @ comma_join (y # ys)"

text \<open>
  \<^verbatim>\<open>json.dumps(..., separators=(",", ":"), sort_keys=True)\<close>.  Keys are distinct, so sorting
  the pairs by key is sorting the items.
\<close>

fun json_text :: "host \<Rightarrow> json \<Rightarrow> string" where
  "json_text h JNull = ''null''"
| "json_text h (JBool b) = (if b then ''true'' else ''false'')"
| "json_text h (JInt i) = show_int i"
| "json_text h (JFloat r) = float_repr h r"
| "json_text h (JStr s) = json_string s"
| "json_text h (JArr xs) = ''['' @ comma_join (map (json_text h) xs) @ '']''"
| "json_text h (JObj kvs) = ''{'' @ comma_join
     (map (\<lambda>p. json_string (fst p) @ '':'' @ snd p)
       (sort_key fst (map (\<lambda>p. (fst p, json_text h (snd p))) kvs))) @ ''}''"

definition canonical_json :: "host \<Rightarrow> pyval \<Rightarrow> string res" where
  "canonical_json h v = ebind (strict_json_value v ''$'') (\<lambda>j. Inr (json_text h j))"

definition utf8_length :: "string \<Rightarrow> nat" where
  "utf8_length s = sum_list (map (\<lambda>c. if (of_char c :: nat) < 128 then 1 else 2) s)"

definition canonical_digest :: "host \<Rightarrow> pyval \<Rightarrow> string res" where
  "canonical_digest h v = ebind (canonical_json h v) (\<lambda>t. Inr (sha256_hex h t))"

definition request_fingerprint :: "host \<Rightarrow> string \<Rightarrow> pyval \<Rightarrow> string res" where
  "request_fingerprint h operation arguments =
     ebind (strict_json_value arguments ''$'') (\<lambda>a.
     canonical_digest h (PDict [(PStr ''operation'', PStr operation), (PStr ''arguments'', embed a)]))"

text \<open>
  The same fingerprint for arguments that already are strict JSON; \<open>request_fingerprint_embed\<close>
  below says that it is the one above.
\<close>

definition json_fingerprint :: "host \<Rightarrow> string \<Rightarrow> json \<Rightarrow> string" where
  "json_fingerprint h operation arguments =
     sha256_hex h (json_text h (JObj [(''operation'', JStr operation), (''arguments'', arguments)]))"

lemma strict_items_embed:
  "(\<And>x path. x \<in> set xs \<Longrightarrow> strict_json_value (embed x) path = Inr x) \<Longrightarrow>
     strict_items (map embed xs) path i = Inr xs"
  by (induction xs arbitrary: i) auto

lemma strict_fields_embed:
  "(\<And>p path. p \<in> set kvs \<Longrightarrow> strict_json_value (embed (snd p)) path = Inr (snd p)) \<Longrightarrow>
     strict_fields (map (\<lambda>p. (PStr (fst p), embed (snd p))) kvs) path = Inr kvs"
  by (induction kvs) auto

lemma strict_embed: "strict_json_value (embed j) path = Inr j"
proof (induction j arbitrary: path)
  case (JArr xs)
  then show ?case by (simp add: strict_items_embed)
next
  case (JObj kvs)
  have "strict_fields (map (\<lambda>p. (PStr (fst p), embed (snd p))) kvs) path = Inr kvs"
    by (rule strict_fields_embed) (use JObj in \<open>auto elim: snds.cases\<close>)
  then show ?case by simp
qed auto

lemma request_fingerprint_embed:
  "request_fingerprint h operation (embed j) = Inr (json_fingerprint h operation j)"
  by (simp add: request_fingerprint_def canonical_digest_def canonical_json_def
      json_fingerprint_def strict_embed)

section \<open>Identifiers\<close>

definition uuid_hex :: "nat \<Rightarrow> string" where
  "uuid_hex n = map (\<lambda>i. hex_digit ((n div 16 ^ i) mod 16)) (rev [0..<32])"

text \<open>\<^verbatim>\<open>_new_id(prefix)\<close>, from one draw.\<close>

definition new_id :: "string \<Rightarrow> nat \<Rightarrow> string" where
  "new_id prefix n = prefix @ ''_'' @ uuid_hex n"

section \<open>Dictionaries\<close>

fun jget :: "jobject \<Rightarrow> string \<Rightarrow> json option" where
  "jget [] k = None"
| "jget ((a, v) # o') k = (if a = k then Some v else jget o' k)"

text \<open>Assignment to a key keeps the key's place; a new key goes to the end.\<close>

fun jset :: "jobject \<Rightarrow> string \<Rightarrow> json \<Rightarrow> jobject" where
  "jset [] k v = [(k, v)]"
| "jset ((a, w) # o') k v = (if a = k then (a, v) # o' else (a, w) # jset o' k v)"

text \<open>\<^verbatim>\<open>{**old, **new}\<close> and \<^verbatim>\<open>old.update(new)\<close>.\<close>

definition jupdate :: "jobject \<Rightarrow> jobject \<Rightarrow> jobject" where
  "jupdate old new = foldl (\<lambda>o' p. jset o' (fst p) (snd p)) old new"

text \<open>What \<^verbatim>\<open>json.loads\<close> gives back for a canonical text: the keys sorted at every level.\<close>

fun jnorm :: "json \<Rightarrow> json" where
  "jnorm (JArr xs) = JArr (map jnorm xs)"
| "jnorm (JObj kvs) = JObj (sort_key fst (map (\<lambda>p. (fst p, jnorm (snd p))) kvs))"
| "jnorm JNull = JNull"
| "jnorm (JBool b) = JBool b"
| "jnorm (JInt i) = JInt i"
| "jnorm (JFloat r) = JFloat r"
| "jnorm (JStr s) = JStr s"

definition onorm :: "jobject \<Rightarrow> jobject" where
  "onorm kvs = sort_key fst (map (\<lambda>p. (fst p, jnorm (snd p))) kvs)"

text \<open>Truth of a value, and \<^verbatim>\<open>float(value or 0.0)\<close>.\<close>

fun truthy :: "json \<Rightarrow> bool" where
  "truthy JNull = False"
| "truthy (JBool b) = b"
| "truthy (JInt i) = (i \<noteq> 0)"
| "truthy (JFloat r) = (r \<noteq> 0)"
| "truthy (JStr s) = (s \<noteq> [])"
| "truthy (JArr xs) = (xs \<noteq> [])"
| "truthy (JObj kvs) = (kvs \<noteq> [])"

definition float_or_zero :: "host \<Rightarrow> json option \<Rightarrow> rat res" where
  "float_or_zero h v =
     (case v of None \<Rightarrow> Inr 0
      | Some w \<Rightarrow> if \<not> truthy w then Inr 0 else
         (case w of JBool b \<Rightarrow> Inr 1 | JInt i \<Rightarrow> Inr (of_int i) | JFloat r \<Rightarrow> Inr r
          | JStr s \<Rightarrow> (case parse_float h s of None \<Rightarrow> Inl (ValueError ''could not convert string to float'')
                      | Some r \<Rightarrow> Inr r)
          | _ \<Rightarrow> Inl (TypeErr ''float() argument must be a string or a real number'')))"

text \<open>Python's \<^verbatim>\<open>==\<close> on strict JSON values; bools, ints and floats compare as numbers.\<close>

fun num_of :: "json \<Rightarrow> rat option" where
  "num_of (JBool b) = Some (if b then 1 else 0)"
| "num_of (JInt i) = Some (of_int i)"
| "num_of (JFloat r) = Some r"
| "num_of _ = None"

fun py_eq :: "json \<Rightarrow> json \<Rightarrow> bool"
  and py_eq_items :: "json list \<Rightarrow> json list \<Rightarrow> bool"
  and py_eq_fields :: "jobject \<Rightarrow> jobject \<Rightarrow> bool" where
  "py_eq (JArr xs) (JArr ys) = py_eq_items xs ys"
| "py_eq (JObj xs) (JObj ys) = (length xs = length ys \<and> py_eq_fields xs ys)"
| "py_eq (JStr s) (JStr t) = (s = t)"
| "py_eq JNull JNull = True"
| "py_eq a b = (case (num_of a, num_of b) of (Some x, Some y) \<Rightarrow> x = y | _ \<Rightarrow> False)"
| "py_eq_items [] [] = True"
| "py_eq_items (x # xs) (y # ys) = (py_eq x y \<and> py_eq_items xs ys)"
| "py_eq_items _ _ = False"
| "py_eq_fields [] ys = True"
| "py_eq_fields ((k, v) # xs) ys =
     ((case jget ys k of None \<Rightarrow> False | Some w \<Rightarrow> py_eq v w) \<and> py_eq_fields xs ys)"

text \<open>
  The repositories' \<^verbatim>\<open>_json(value)\<close>: the canonical text, refused above the inline bound.  The
  TEXT column is kept as the value \<^verbatim>\<open>json.loads\<close> reads back from it.
\<close>

definition store_json :: "host \<Rightarrow> jobject \<Rightarrow> jobject res" where
  "store_json h v =
     (if max_inline_json h < utf8_length (json_text h (JObj v))
      then Inl (ValueError ''inline Work Fabric JSON exceeds the configured limit; store it as an artifact'')
      else Inr (onorm v))"

lemma hex_digit_code: "d < 16 \<Longrightarrow> 48 \<le> (of_char (hex_digit d) :: nat) \<and> (of_char (hex_digit d) :: nat) \<le> 102"
  by (auto simp: hex_digit_def)

lemma hex_digit_visible: "d < 16 \<Longrightarrow> \<not> py_space (hex_digit d) \<and> hex_digit d \<noteq> nul"
  by (auto simp: py_space_def nul_def Let_def hex_digit_def)

lemma uuid_hex_visible: "c \<in> set (uuid_hex n) \<Longrightarrow> \<not> py_space c \<and> c \<noteq> nul"
  by (auto simp: uuid_hex_def hex_digit_visible)

lemma dropWhile_none: "(\<And>c. c \<in> set s \<Longrightarrow> \<not> P c) \<Longrightarrow> dropWhile P s = s"
  by (cases s) auto

lemma py_strip_visible: "(\<And>c. c \<in> set s \<Longrightarrow> \<not> py_space c) \<Longrightarrow> py_strip s = s"
  using dropWhile_none[of s py_space] dropWhile_none[of "rev s" py_space]
  by (simp add: py_strip_def)

lemma underscore_visible: "\<not> py_space (CHR ''_'') \<and> CHR ''_'' \<noteq> nul"
  by (simp add: py_space_def nul_def Let_def char_of_def)

lemma new_id_clean:
  assumes "\<And>c. c \<in> set prefix \<Longrightarrow> \<not> py_space c \<and> c \<noteq> nul"
  shows "py_strip (new_id prefix n) = new_id prefix n" and "nul \<notin> set (new_id prefix n)"
    and "new_id prefix n \<noteq> []" and "length (new_id prefix n) = length prefix + 33"
proof -
  have v: "\<not> py_space c \<and> c \<noteq> nul" if "c \<in> set (new_id prefix n)" for c
    using that assms uuid_hex_visible underscore_visible by (auto simp: new_id_def)
  show "py_strip (new_id prefix n) = new_id prefix n" using v by (intro py_strip_visible) blast
  show "nul \<notin> set (new_id prefix n)" using v by blast
  show "new_id prefix n \<noteq> []" and "length (new_id prefix n) = length prefix + 33"
    by (simp_all add: new_id_def uuid_hex_def)
qed

lemma jget_jset: "jget (jset o' k v) a = (if a = k then Some v else jget o' a)"
  by (induction o' k v rule: jset.induct) auto

lemma jget_None_iff: "jget o' k = None \<longleftrightarrow> k \<notin> fst ` set o'"
  by (induction o' k rule: jget.induct) auto

lemma jset_keys: "map fst (jset o' k v) = (if k \<in> fst ` set o' then map fst o' else map fst o' @ [k])"
  by (induction o' k v rule: jset.induct) auto

lemma jset_distinct: "distinct (map fst o') \<Longrightarrow> distinct (map fst (jset o' k v))"
  by (simp add: jset_keys)

lemma jupdate_distinct: "distinct (map fst o') \<Longrightarrow> distinct (map fst (jupdate o' new))"
  unfolding jupdate_def by (induction new arbitrary: o') (auto simp: jset_distinct)

lemma jget_jupdate:
  "distinct (map fst new) \<Longrightarrow> jget (jupdate o' new) k =
     (case jget new k of None \<Rightarrow> jget o' k | Some v \<Rightarrow> Some v)"
proof (induction new arbitrary: o')
  case (Cons p new)
  obtain a v where p: "p = (a, v)" by (cases p)
  have step: "jupdate o' (p # new) = jupdate (jset o' a v) new"
    by (simp add: jupdate_def p)
  show ?case
  proof (cases "k = a")
    case True
    with Cons.prems p have "jget new k = None" by (simp add: jget_None_iff)
    with True Cons.IH[of "jset o' a v"] Cons.prems step p show ?thesis by (simp add: jget_jset)
  next
    case False
    with Cons.IH[of "jset o' a v"] Cons.prems step p show ?thesis
      by (simp add: jget_jset split: option.splits)
  qed
qed (simp add: jupdate_def)

section \<open>Reading a stored value back\<close>

text \<open>A dict has one value per key, at every level.\<close>

fun json_ok :: "json \<Rightarrow> bool" where
  "json_ok (JArr xs) = list_all json_ok xs"
| "json_ok (JObj kvs) = (distinct (map fst kvs) \<and> list_all (\<lambda>p. json_ok (snd p)) kvs)"
| "json_ok _ = True"

lemma jget_distinct: "distinct (map fst kvs) \<Longrightarrow> (k, v) \<in> set kvs \<Longrightarrow> jget kvs k = Some v"
  by (induction kvs k rule: jget.induct) (auto intro: rev_image_eqI)

lemma jget_Some_set: "jget kvs k = Some v \<Longrightarrow> (k, v) \<in> set kvs"
  by (induction kvs k rule: jget.induct) (auto split: if_splits)

lemma jget_onorm:
  assumes "distinct (map fst kvs)"
  shows "jget (onorm kvs) k = map_option jnorm (jget kvs k)"
proof -
  let ?m = "map (\<lambda>p. (fst p, jnorm (snd p))) kvs"
  have set: "set (onorm kvs) = set ?m" by (simp add: onorm_def)
  have "mset (map fst (onorm kvs)) = mset (map fst kvs)"
    by (simp add: onorm_def multiset.map_comp comp_def)
  then have "distinct (map fst (onorm kvs))"
    using assms mset_eq_imp_distinct_iff by blast
  note dn = this
  show ?thesis
  proof (cases "jget kvs k")
    case None
    then have "k \<notin> fst ` set ?m" by (auto simp: jget_None_iff image_iff)
    then have "jget (onorm kvs) k = None" unfolding jget_None_iff set .
    with None show ?thesis by simp
  next
    case (Some v)
    then have "(k, jnorm v) \<in> set ?m" using jget_Some_set by force
    then have "jget (onorm kvs) k = Some (jnorm v)" using jget_distinct[OF dn] set by simp
    with Some show ?thesis by simp
  qed
qed

lemma py_eq_fields_iff:
  "py_eq_fields xs ys \<longleftrightarrow> (\<forall>(k, v)\<in>set xs. \<exists>w. jget ys k = Some w \<and> py_eq v w)"
  by (induction xs) (auto split: option.splits)

lemma py_eq_items_map: "(\<And>x. x \<in> set xs \<Longrightarrow> py_eq (f x) x) \<Longrightarrow> py_eq_items (map f xs) xs"
  by (induction xs) auto

lemma py_eq_jnorm: "json_ok j \<Longrightarrow> py_eq (jnorm j) j"
proof (induction j)
  case (JArr xs)
  then show ?case by (auto simp: list_all_iff intro!: py_eq_items_map)
next
  case (JObj kvs)
  let ?A = "sort_key fst (map (\<lambda>p. (fst p, jnorm (snd p))) kvs)"
  have "py_eq_fields ?A kvs"
    unfolding py_eq_fields_iff
  proof safe
    fix k v assume "(k, v) \<in> set ?A"
    then obtain w where w: "(k, w) \<in> set kvs" "v = jnorm w" by auto
    have "json_ok w" using JObj.prems w(1) by (auto simp: list_all_iff)
    moreover have "w \<in> Basic_BNFs.snds (k, w)" by simp
    ultimately have "py_eq v w" using JObj.IH[of "(k, w)" w] w by simp
    moreover have "jget kvs k = Some w" using JObj.prems w(1) jget_distinct by simp
    ultimately show "\<exists>w. jget kvs k = Some w \<and> py_eq v w" by blast
  qed
  then show ?case by simp
qed auto

lemma py_eq_onorm: "json_ok (JObj kvs) \<Longrightarrow> py_eq (JObj (onorm kvs)) (JObj kvs)"
  using py_eq_jnorm[of "JObj kvs"] by (simp add: onorm_def)

text \<open>The text of an object does not depend on the order its keys were set in.\<close>

lemma json_text_order:
  assumes "mset kvs = mset kvs'" and "distinct (map fst kvs)"
  shows "json_text h (JObj kvs) = json_text h (JObj kvs')"
proof -
  let ?f = "\<lambda>p. (fst p, json_text h (snd p))"
  have "mset (map ?f kvs) = mset (map ?f kvs')" using assms(1) by simp
  moreover have "inj_on fst (set (map ?f kvs))"
    using assms(2) by (auto simp: inj_on_def distinct_map)
  ultimately have "sort_key fst (map ?f kvs) = sort_key fst (map ?f kvs')"
    by (metis (no_types, lifting) mset_sort set_mset_mset sort_key_inj_key_eq sorted_sort_key)
  then show ?thesis by simp
qed

end
