(* ===== verification/Core_Store.thy ===== *)
theory Core_Store
  imports Core_Json
begin

text \<open>
  The transaction boundary, the cancellation probe and the exhaustive keyset scan of
  \<^verbatim>\<open>backend/core_invariants.py\<close>.

  A transaction body maps the store to its result and the store it leaves, or to an
  exception.  A body that raises carries no store: SQLite's ROLLBACK gives back the one of
  BEGIN, so the wrapper returns that one.
\<close>

section \<open>Transactions\<close>

type_synonym ('s, 'a) body = "'s \<Rightarrow> ('a \<times> 's) res"

definition fault_point :: "host \<Rightarrow> string \<Rightarrow> unit res" where
  "fault_point h name = require (name \<notin> set (faults h)) (InjectedFault name)"

definition sqlite_transaction :: "host \<Rightarrow> string \<Rightarrow> ('s, 'a) body \<Rightarrow> 's \<Rightarrow> 'a res \<times> 's" where
  "sqlite_transaction h fault_name body s =
     (case ebind (body s) (\<lambda>r.
        ebind (if fault_name = [] then Inr () else fault_point h fault_name) (\<lambda>_. Inr r)) of
        Inl e \<Rightarrow> (Inl e, s)
      | Inr (x, s') \<Rightarrow> (Inr x, s'))"

text \<open>The writer lock and the short-lived connection make the body the only writer.\<close>

definition sqlite_unit_of_work :: "host \<Rightarrow> string \<Rightarrow> ('s, 'a) body \<Rightarrow> 's \<Rightarrow> 'a res \<times> 's" where
  "sqlite_unit_of_work h fault_name body s = sqlite_transaction h fault_name body s"

lemma unit_of_work_Inl: "sqlite_unit_of_work h n body s = (Inl e, s') \<Longrightarrow> s' = s"
  by (auto simp: sqlite_unit_of_work_def sqlite_transaction_def split: sum.splits prod.splits)

lemma unit_of_work_Inr:
  "sqlite_unit_of_work h n body s = (Inr x, s') \<longleftrightarrow>
     body s = Inr (x, s') \<and> (n = [] \<or> n \<notin> set (faults h))"
  by (auto simp: sqlite_unit_of_work_def sqlite_transaction_def fault_point_def require_def
      split: sum.splits prod.splits if_splits)

lemma unit_of_work_invariant:
  assumes "I s" and "\<And>x s'. body s = Inr (x, s') \<Longrightarrow> I s'"
  shows "I (snd (sqlite_unit_of_work h n body s))"
proof (cases "sqlite_unit_of_work h n body s")
  case (Pair r s')
  then show ?thesis using assms unit_of_work_Inl unit_of_work_Inr by (cases r) fastforce+
qed

section \<open>Cancellation probes\<close>

datatype poll = Answers bool | Raises string string | RaisesCancelled

datatype authority =
    NoAuthority
  | HasIsCancelled poll
  | HasIsSet poll
  | CallableAuthority poll
  | PlainAuthority bool

datatype cancellation_probe_result =
  Probe (probe_requested: bool) (authority_failed: bool) (probe_error: string)

fun poll_result :: "poll \<Rightarrow> cancellation_probe_result res" where
  "poll_result (Answers b) = Inr (Probe b False [])"
| "poll_result RaisesCancelled = Inl (CancelledError [])"
| "poll_result (Raises t m) = Inr (Probe True True (take 1000 (t @ '': '' @ m)))"

fun probe_cancellation :: "authority \<Rightarrow> cancellation_probe_result res" where
  "probe_cancellation NoAuthority = Inr (Probe False False [])"
| "probe_cancellation (HasIsCancelled p) = poll_result p"
| "probe_cancellation (HasIsSet p) = poll_result p"
| "probe_cancellation (CallableAuthority p) = poll_result p"
| "probe_cancellation (PlainAuthority b) = Inr (Probe b False [])"

definition cancellation_is_requested :: "authority \<Rightarrow> bool res" where
  "cancellation_is_requested a = ebind (probe_cancellation a) (\<lambda>p. Inr (probe_requested p))"

section \<open>Exhaustive keyset pagination\<close>

text \<open>
  The generator yields the items of each page before it looks at the cursor, so a run is the
  list it yields and the exception it ends with, if any; \<^const>\<open>None\<close> is a scan that never
  ends.  \<open>marker\<close> is the canonical JSON (or \<^verbatim>\<open>repr\<close>) of a cursor.
\<close>

partial_function (option) keyset_loop ::
  "('c option \<Rightarrow> nat \<Rightarrow> 'a list) \<Rightarrow> ('a \<Rightarrow> 'c) \<Rightarrow> ('c \<Rightarrow> string) \<Rightarrow> nat \<Rightarrow>
   'c option \<Rightarrow> string list \<Rightarrow> 'a list \<Rightarrow> ('a list \<times> py_err option) option" where
  "keyset_loop fetch cursor_of marker n cursor seen yielded =
     (let page = fetch cursor n in
      if page = [] then Some (yielded, None)
      else if marker (cursor_of (last page)) \<in> set seen then
        Some (yielded @ page, Some (RuntimeErr ''keyset pagination cursor did not advance''))
      else if length page < n then Some (yielded @ page, None)
      else keyset_loop fetch cursor_of marker n (Some (cursor_of (last page)))
             (marker (cursor_of (last page)) # seen) (yielded @ page))"

definition exhaustive_keyset_pages ::
  "('c option \<Rightarrow> nat \<Rightarrow> 'a list) \<Rightarrow> ('a \<Rightarrow> 'c) \<Rightarrow> ('c \<Rightarrow> string) \<Rightarrow> int \<Rightarrow>
   ('a list \<times> py_err option) option" where
  "exhaustive_keyset_pages fetch cursor_of marker page_size =
     keyset_loop fetch cursor_of marker (nat (max 1 page_size)) None [] []"

text \<open>
  The contract a repository's page query has to keep: in a good state, the query returns the
  rows after the cursor, in order, as many as asked up to its own cap; and two rows have
  different cursors.  A page larger than the cap would end the scan after its first page.
\<close>

locale keyset_source =
  fixes good :: "'s \<Rightarrow> bool"
    and rows :: "'s \<Rightarrow> 'a list"
    and fetch :: "'s \<Rightarrow> 'c option \<Rightarrow> nat \<Rightarrow> 'a list"
    and cursor_of :: "'a \<Rightarrow> 'c"
    and marker :: "'c \<Rightarrow> string"
    and cap :: nat
  assumes fetch_start: "good s \<Longrightarrow> 1 \<le> n \<Longrightarrow> n \<le> cap \<Longrightarrow> fetch s None n = take n (rows s)"
    and fetch_after: "good s \<Longrightarrow> 1 \<le> n \<Longrightarrow> n \<le> cap \<Longrightarrow> i < length (rows s) \<Longrightarrow>
      fetch s (Some (cursor_of (rows s ! i))) n = take n (drop (Suc i) (rows s))"
    and marker_inj: "good s \<Longrightarrow> i < length (rows s) \<Longrightarrow> j < length (rows s) \<Longrightarrow>
      marker (cursor_of (rows s ! i)) = marker (cursor_of (rows s ! j)) \<Longrightarrow> i = j"
begin

lemma keyset_loop_all:
  assumes "good s" and "1 \<le> n" and cap: "n \<le> cap" and "k \<le> length (rows s)"
    and "cursor = (if k = 0 then None else Some (cursor_of (rows s ! (k - 1))))"
    and "\<And>m. m \<in> set seen \<Longrightarrow> \<exists>i<k. m = marker (cursor_of (rows s ! i))"
  shows "keyset_loop (fetch s) cursor_of marker n cursor seen (take k (rows s)) =
    Some (rows s, None)"
  using assms(4-)
proof (induction "length (rows s) - k" arbitrary: k cursor seen rule: less_induct)
  case less
  let ?rs = "rows s"
  let ?p = "take n (drop k ?rs)"
  define p where "p = ?p"
  have page: "fetch s cursor n = p"
  proof (cases "k = 0")
    case True
    then show ?thesis using less.prems(2) fetch_start[OF assms(1,2) cap] by (simp add: p_def)
  next
    case False
    then show ?thesis
      using less.prems(1,2) fetch_after[OF assms(1,2) cap, of "k - 1"] by (simp add: p_def)
  qed
  show ?case
  proof (cases "k = length ?rs")
    case True
    with page show ?thesis by (subst keyset_loop.simps) (simp add: p_def)
  next
    case False
    with less.prems(1) have k: "k < length ?rs" by simp
    define l where "l = k + length p - 1"
    from k assms(2) have ne: "p \<noteq> []" by (simp add: p_def)
    from k assms(2) have l: "k \<le> l" "l < length ?rs" "Suc l = k + length p"
      by (auto simp: l_def p_def min_def)
    have last: "last p = ?rs ! l"
      using ne k by (auto simp: last_conv_nth l_def p_def)
    have fresh: "marker (cursor_of (last p)) \<notin> set seen"
      using less.prems(3) marker_inj[OF assms(1) l(2)] last l(1) k
      by (metis leD order.strict_trans)
    have acc: "take k ?rs @ p = take (Suc l) ?rs"
      using l(3) by (simp add: take_add min_def p_def)
    show ?thesis
    proof (cases "length p < n")
      case True
      with k have "Suc l = length ?rs" using l(3) by (simp add: p_def)
      with acc have "take k ?rs @ p = ?rs" by simp
      with page ne fresh True show ?thesis by (subst keyset_loop.simps) (simp add: Let_def)
    next
      case False
      let ?seen = "marker (cursor_of (last p)) # seen"
      have seen: "\<exists>i<Suc l. m = marker (cursor_of (?rs ! i))" if "m \<in> set ?seen" for m
        using that less.prems(3)[of m] l(1) last by (auto simp: less_Suc_eq) (metis less_le_trans)
      have step: "keyset_loop (fetch s) cursor_of marker n (Some (cursor_of (last p)))
          ?seen (take (Suc l) ?rs) = Some (?rs, None)"
        by (rule less.hyps[of "Suc l"]) (use l(1,2) k last seen in auto)
      with page ne fresh False acc show ?thesis
        by (subst keyset_loop.simps) (simp add: Let_def)
    qed
  qed
qed

lemma pages_exhaustive:
  assumes "good s" and "nat (max 1 page_size) \<le> cap"
  shows "exhaustive_keyset_pages (fetch s) cursor_of marker page_size = Some (rows s, None)"
  unfolding exhaustive_keyset_pages_def
  using keyset_loop_all[OF assms(1) _ assms(2), of 0 None "[]"] by simp

end

end
