(* ===== verification/Work_Scope.thy ===== *)
theory Work_Scope
  imports Core_Store
begin

text \<open>
  The correlation identity of Work Fabric operations (\<^verbatim>\<open>backend/work_fabric/scope.py\<close>): its
  validation and coercions, the visibility rule, the two SQL predicates that stand for that
  rule, and the context variable that carries the current scope.
\<close>

section \<open>Fields and their validation\<close>

record work_scope =
  chat_id :: string
  conversation_id :: string
  branch_id :: string
  workspace_id :: string
  workspace_revision :: int
  goal_id :: string
  goal_run_id :: string
  step_id :: string
  scope_attempt :: int
  worktree_id :: string
  kernel_generation :: int
  catalog_release_id :: string

definition empty_work_scope :: work_scope where
  "empty_work_scope = \<lparr>chat_id = [], conversation_id = [], branch_id = [], workspace_id = [],
     workspace_revision = 0, goal_id = [], goal_run_id = [], step_id = [], scope_attempt = 0,
     worktree_id = [], kernel_generation = 0, catalog_release_id = []\<rparr>"

fun py_str :: "host \<Rightarrow> json \<Rightarrow> string" where
  "py_str h JNull = ''None''"
| "py_str h (JBool b) = (if b then ''True'' else ''False'')"
| "py_str h (JInt i) = show_int i"
| "py_str h (JFloat r) = float_repr h r"
| "py_str h (JStr s) = s"
| "py_str h v = container_str h v"

text \<open>\<^verbatim>\<open>_identifier\<close>: None is the empty text; anything else is stripped and bounded.\<close>

definition identifier_text :: "string \<Rightarrow> string \<Rightarrow> string res" where
  "identifier_text v field =
     (let t = py_strip v in
      if 512 < length t then Inl (ValueError (''work scope '' @ field @ '' exceeds 512 characters''))
      else if nul \<in> set t then
        Inl (ValueError (''work scope '' @ field @ '' contains a NUL character''))
      else Inr t)"

definition scope_identifier :: "host \<Rightarrow> json option \<Rightarrow> string \<Rightarrow> string res" where
  "scope_identifier h v field =
     (case v of None \<Rightarrow> Inr [] | Some JNull \<Rightarrow> Inr []
      | Some w \<Rightarrow> identifier_text (py_str h w) field)"

text \<open>
  \<^verbatim>\<open>int(text)\<close>: surrounding space, one sign, digits with single underscores between them, and
  the interpreter's limit of 4300 digits.
\<close>

definition is_digit :: "char \<Rightarrow> bool" where
  "is_digit c = (let n = (of_char c :: nat) in 48 \<le> n \<and> n \<le> 57)"

fun digits_value :: "string \<Rightarrow> bool \<Rightarrow> nat \<Rightarrow> nat option" where
  "digits_value [] after_digit acc = (if after_digit then Some acc else None)"
| "digits_value (c # cs) after_digit acc =
     (if is_digit c then digits_value cs True (acc * 10 + (of_char c - 48))
      else if c = CHR ''_'' \<and> after_digit then digits_value cs False acc
      else None)"

definition int_of_text :: "string \<Rightarrow> int option" where
  "int_of_text s =
     (let t = py_strip s;
          negative = (t \<noteq> [] \<and> hd t = CHR ''-'');
          body = (if t \<noteq> [] \<and> hd t \<in> {CHR ''+'', CHR ''-''} then tl t else t)
      in if 4300 < length (filter is_digit body) then None
         else map_option (\<lambda>n. if negative then - int n else int n) (digits_value body False 0))"

definition trunc_rat :: "rat \<Rightarrow> int" where
  "trunc_rat r = (if 0 \<le> r then \<lfloor>r\<rfloor> else \<lceil>r\<rceil>)"

fun int_of_json :: "json \<Rightarrow> int option" where
  "int_of_json (JInt i) = Some i"
| "int_of_json (JBool b) = Some (if b then 1 else 0)"
| "int_of_json (JFloat r) = Some (trunc_rat r)"
| "int_of_json (JStr s) = int_of_text s"
| "int_of_json _ = None"

definition nonnegative_int :: "json option \<Rightarrow> string \<Rightarrow> int res" where
  "nonnegative_int v field =
     (if v \<in> {None, Some JNull, Some (JStr [])} then Inr 0
      else case int_of_json (the v) of
        None \<Rightarrow> Inl (ValueError (''work scope '' @ field @ '' must be an integer''))
      | Some n \<Rightarrow> if n < 0 then Inl (ValueError (''work scope '' @ field @ '' cannot be negative''))
                  else Inr n)"

text \<open>The constructor: \<^verbatim>\<open>__post_init__\<close> normalises every field, first the texts, then the ints.\<close>

definition post_init :: "work_scope \<Rightarrow> work_scope res" where
  "post_init s =
     ebind (identifier_text (chat_id s) ''chat_id'') (\<lambda>a1.
     ebind (identifier_text (conversation_id s) ''conversation_id'') (\<lambda>a2.
     ebind (identifier_text (branch_id s) ''branch_id'') (\<lambda>a3.
     ebind (identifier_text (workspace_id s) ''workspace_id'') (\<lambda>a4.
     ebind (identifier_text (goal_id s) ''goal_id'') (\<lambda>a5.
     ebind (identifier_text (goal_run_id s) ''goal_run_id'') (\<lambda>a6.
     ebind (identifier_text (step_id s) ''step_id'') (\<lambda>a7.
     ebind (identifier_text (worktree_id s) ''worktree_id'') (\<lambda>a8.
     ebind (identifier_text (catalog_release_id s) ''catalog_release_id'') (\<lambda>a9.
     ebind (nonnegative_int (Some (JInt (workspace_revision s))) ''workspace_revision'') (\<lambda>n1.
     ebind (nonnegative_int (Some (JInt (scope_attempt s))) ''attempt'') (\<lambda>n2.
     ebind (nonnegative_int (Some (JInt (kernel_generation s))) ''kernel_generation'') (\<lambda>n3.
     Inr \<lparr>chat_id = a1, conversation_id = a2, branch_id = a3, workspace_id = a4,
          workspace_revision = n1, goal_id = a5, goal_run_id = a6, step_id = a7,
          scope_attempt = n2, worktree_id = a8, kernel_generation = n3,
          catalog_release_id = a9\<rparr>))))))))))))"

definition from_mapping :: "host \<Rightarrow> jobject option \<Rightarrow> work_scope res" where
  "from_mapping h value =
     (case value of None \<Rightarrow> Inr empty_work_scope
      | Some v \<Rightarrow>
        (let raw = (case jget v ''scope'' of Some (JObj nested) \<Rightarrow> nested | _ \<Rightarrow> v) in
         ebind (scope_identifier h (jget raw ''chat_id'') ''chat_id'') (\<lambda>a1.
         ebind (scope_identifier h (jget raw ''conversation_id'') ''conversation_id'') (\<lambda>a2.
         ebind (scope_identifier h (jget raw ''branch_id'') ''branch_id'') (\<lambda>a3.
         ebind (scope_identifier h (jget raw ''workspace_id'') ''workspace_id'') (\<lambda>a4.
         ebind (nonnegative_int (jget raw ''workspace_revision'') ''workspace_revision'') (\<lambda>n1.
         ebind (scope_identifier h (jget raw ''goal_id'') ''goal_id'') (\<lambda>a5.
         ebind (scope_identifier h (jget raw ''goal_run_id'') ''goal_run_id'') (\<lambda>a6.
         ebind (scope_identifier h (jget raw ''step_id'') ''step_id'') (\<lambda>a7.
         ebind (nonnegative_int (jget raw ''attempt'') ''attempt'') (\<lambda>n2.
         ebind (scope_identifier h (jget raw ''worktree_id'') ''worktree_id'') (\<lambda>a8.
         ebind (nonnegative_int (jget raw ''kernel_generation'') ''kernel_generation'') (\<lambda>n3.
         ebind (scope_identifier h (jget raw ''catalog_release_id'') ''catalog_release_id'') (\<lambda>a9.
         post_init \<lparr>chat_id = a1, conversation_id = a2, branch_id = a3, workspace_id = a4,
            workspace_revision = n1, goal_id = a5, goal_run_id = a6, step_id = a7,
            scope_attempt = n2, worktree_id = a8, kernel_generation = n3,
            catalog_release_id = a9\<rparr>))))))))))))))"

definition to_dict :: "work_scope \<Rightarrow> jobject" where
  "to_dict s =
     [(''chat_id'', JStr (chat_id s)),
      (''conversation_id'', JStr (conversation_id s)),
      (''branch_id'', JStr (branch_id s)),
      (''workspace_id'', JStr (workspace_id s)),
      (''workspace_revision'', JInt (workspace_revision s)),
      (''goal_id'', JStr (goal_id s)),
      (''goal_run_id'', JStr (goal_run_id s)),
      (''step_id'', JStr (step_id s)),
      (''attempt'', JInt (scope_attempt s)),
      (''worktree_id'', JStr (worktree_id s)),
      (''kernel_generation'', JInt (kernel_generation s)),
      (''catalog_release_id'', JStr (catalog_release_id s))]"

definition unpinned :: "json \<Rightarrow> bool" where
  "unpinned v \<longleftrightarrow> v = JStr [] \<or> v = JInt 0"

definition to_dict_nonempty :: "work_scope \<Rightarrow> jobject" where
  "to_dict_nonempty s = filter (\<lambda>p. \<not> unpinned (snd p)) (to_dict s)"

definition scope_empty :: "work_scope \<Rightarrow> bool" where
  "scope_empty s \<longleftrightarrow> to_dict_nonempty s = []"

text \<open>
  What \<^verbatim>\<open>coerce_work_scope\<close> takes: nothing, a scope, a mapping, an object with a \<^verbatim>\<open>to_dict\<close>
  (and whether that returned a mapping), or something else.
\<close>

datatype scope_arg =
    NoScope
  | AScope work_scope
  | AMapping jobject
  | AnObject "jobject option"
  | OtherValue string

fun coerce_work_scope :: "host \<Rightarrow> scope_arg \<Rightarrow> work_scope res" where
  "coerce_work_scope h NoScope = Inr empty_work_scope"
| "coerce_work_scope h (AScope s) = Inr s"
| "coerce_work_scope h (AMapping m) = from_mapping h (Some m)"
| "coerce_work_scope h (AnObject (Some m)) = from_mapping h (Some m)"
| "coerce_work_scope h (AnObject None) = Inl (TypeErr ''cannot coerce to WorkScope'')"
| "coerce_work_scope h (OtherValue t) = Inl (TypeErr (''cannot coerce '' @ t @ '' to WorkScope''))"

text \<open>The admitted invocation's effective scope: its own chat fills an unpinned chat.\<close>

definition effective_work_scope :: "host \<Rightarrow> scope_arg \<Rightarrow> string \<Rightarrow> work_scope res" where
  "effective_work_scope h scope chat =
     ebind (coerce_work_scope h scope) (\<lambda>s.
     if chat \<noteq> [] \<and> chat_id s = [] then post_init (s\<lparr>chat_id := chat\<rparr>) else Inr s)"

definition ascii_lower :: "char \<Rightarrow> char" where
  "ascii_lower c = (let n = (of_char c :: nat) in if 65 \<le> n \<and> n \<le> 90 then char_of (n + 32) else c)"

definition scoped_owner_id :: "host \<Rightarrow> string \<Rightarrow> string \<Rightarrow> scope_arg \<Rightarrow> string res" where
  "scoped_owner_id h owner_kind owner_id scope =
     (if map ascii_lower owner_kind \<noteq> ''chat'' then Inr owner_id
      else ebind (coerce_work_scope h scope) (\<lambda>s.
        Inr (if branch_id s \<noteq> [] then branch_id s
             else if chat_id s \<noteq> [] then chat_id s
             else if conversation_id s \<noteq> [] then conversation_id s
             else owner_id)))"

section \<open>Visibility\<close>

text \<open>Every field the record pins must match the caller's.\<close>

definition scope_visible :: "work_scope \<Rightarrow> work_scope \<Rightarrow> bool" where
  "scope_visible record requested =
     list_all (\<lambda>(field, expected).
       unpinned expected \<or> jget (to_dict requested) field = Some expected) (to_dict record)"

definition work_scope_visible :: "host \<Rightarrow> scope_arg \<Rightarrow> scope_arg \<Rightarrow> bool res" where
  "work_scope_visible h record_scope requested_scope =
     ebind (coerce_work_scope h record_scope) (\<lambda>record.
     ebind (coerce_work_scope h requested_scope) (\<lambda>requested.
     Inr (scope_visible record requested)))"

definition scope_text_fields :: "string list" where
  "scope_text_fields = [''chat_id'', ''conversation_id'', ''branch_id'', ''workspace_id'', ''goal_id'',
     ''goal_run_id'', ''step_id'', ''worktree_id'', ''catalog_release_id'']"

definition scope_int_fields :: "string list" where
  "scope_int_fields = [''workspace_revision'', ''attempt'', ''kernel_generation'']"

text \<open>
  One SQL clause on a JSON column that holds a scope's dictionary: the value
  \<^verbatim>\<open>json_extract\<close> finds, with \<^verbatim>\<open>COALESCE\<close> for an absent or null one.
\<close>

definition json_text_clause :: "string \<Rightarrow> string \<Rightarrow> jobject \<Rightarrow> bool" where
  "json_text_clause field v col =
     (case jget col field of None \<Rightarrow> True | Some JNull \<Rightarrow> True
      | Some (JStr s) \<Rightarrow> s = [] \<or> s = v | Some _ \<Rightarrow> False)"

definition json_int_clause :: "string \<Rightarrow> int \<Rightarrow> jobject \<Rightarrow> bool" where
  "json_int_clause field v col =
     (case jget col field of None \<Rightarrow> True | Some JNull \<Rightarrow> True
      | Some w \<Rightarrow> (case int_of_json w of Some i \<Rightarrow> i = 0 \<or> i = v | None \<Rightarrow> False))"

definition dict_text :: "jobject \<Rightarrow> string \<Rightarrow> string" where
  "dict_text d field = (case jget d field of Some (JStr s) \<Rightarrow> s | _ \<Rightarrow> [])"

definition dict_int :: "jobject \<Rightarrow> string \<Rightarrow> int" where
  "dict_int d field = (case jget d field of Some (JInt i) \<Rightarrow> i | _ \<Rightarrow> 0)"

text \<open>\<^verbatim>\<open>append_json_scope_visibility\<close>: the clauses it appends, as predicates on the column.\<close>

definition append_json_scope_visibility ::
  "host \<Rightarrow> scope_arg \<Rightarrow> string list \<Rightarrow> (jobject \<Rightarrow> bool) list res" where
  "append_json_scope_visibility h requested omit =
     (if requested = NoScope then Inr []
      else ebind (coerce_work_scope h requested) (\<lambda>s.
        Inr (map (\<lambda>f. json_text_clause f (dict_text (to_dict s) f))
               (filter (\<lambda>f. f \<notin> set omit) scope_text_fields) @
             map (\<lambda>f. json_int_clause f (dict_int (to_dict s) f))
               (filter (\<lambda>f. f \<notin> set omit) scope_int_fields))))"

text \<open>\<^verbatim>\<open>append_column_scope_visibility\<close>: the same on normalised columns of a row's scope.\<close>

definition append_column_scope_visibility ::
  "host \<Rightarrow> scope_arg \<Rightarrow> string list \<Rightarrow> (work_scope \<Rightarrow> bool) list res" where
  "append_column_scope_visibility h requested omit =
     (if requested = NoScope then Inr []
      else ebind (coerce_work_scope h requested) (\<lambda>s.
        Inr (map (\<lambda>f row. dict_text (to_dict row) f = [] \<or>
                 dict_text (to_dict row) f = dict_text (to_dict s) f)
               (filter (\<lambda>f. f \<notin> set omit) scope_text_fields) @
             map (\<lambda>f row. dict_int (to_dict row) f = 0 \<or>
                 dict_int (to_dict row) f = dict_int (to_dict s) f)
               (filter (\<lambda>f. f \<notin> set omit) scope_int_fields))))"

section \<open>The context variable\<close>

text \<open>The code under \<^verbatim>\<open>with bind_work_scope(..)\<close> runs in the new binding and may replace it.\<close>

definition replace_current_work_scope ::
  "host \<Rightarrow> scope_arg \<Rightarrow> work_scope \<Rightarrow> work_scope res \<times> work_scope" where
  "replace_current_work_scope h scope current =
     (case coerce_work_scope h scope of Inl e \<Rightarrow> (Inl e, current) | Inr s \<Rightarrow> (Inr s, s))"

definition bind_work_scope ::
  "host \<Rightarrow> scope_arg \<Rightarrow> (work_scope \<Rightarrow> work_scope \<Rightarrow> 'a res \<times> work_scope) \<Rightarrow>
   work_scope \<Rightarrow> 'a res \<times> work_scope" where
  "bind_work_scope h scope body current =
     (case coerce_work_scope h scope of
        Inl e \<Rightarrow> (Inl e, current)
      | Inr s \<Rightarrow> (case body s s of (r, inner) \<Rightarrow> (r, current)))"

section \<open>Lemmas\<close>

definition scope_wf :: "work_scope \<Rightarrow> bool" where
  "scope_wf s \<longleftrightarrow> post_init s = Inr s"

lemma identifier_text_Inr:
  "identifier_text v f = Inr t \<longleftrightarrow> t = py_strip v \<and> length t \<le> 512 \<and> nul \<notin> set t"
  by (auto simp: identifier_text_def Let_def)

lemma nonnegative_int_JInt:
  "nonnegative_int (Some (JInt i)) f = Inr n \<longleftrightarrow> n = i \<and> 0 \<le> i"
  by (auto simp: nonnegative_int_def)

lemma post_init_idem: "post_init s = Inr t \<Longrightarrow> post_init t = Inr t"
  by (auto simp: post_init_def identifier_text_Inr nonnegative_int_JInt)

lemma scope_wf_empty [simp]: "scope_wf empty_work_scope"
  by (simp add: scope_wf_def empty_work_scope_def post_init_def identifier_text_def
      nonnegative_int_def py_strip_def)

lemma from_mapping_wf: "from_mapping h m = Inr s \<Longrightarrow> scope_wf s"
  by (cases m) (auto simp: from_mapping_def Let_def scope_wf_def[of s] dest: post_init_idem
      intro: scope_wf_empty[unfolded scope_wf_def])

lemma coerce_work_scope_wf:
  "coerce_work_scope h a = Inr s \<Longrightarrow> (\<And>r. a = AScope r \<Longrightarrow> scope_wf r) \<Longrightarrow> scope_wf s"
  by (cases "(h, a)" rule: coerce_work_scope.cases) (auto dest: from_mapping_wf)

text \<open>A field of the record is free, or pinned to the caller's value.\<close>

definition pins :: "'a \<Rightarrow> 'a \<Rightarrow> 'a \<Rightarrow> bool" where
  "pins free a b \<longleftrightarrow> a = free \<or> b = a"

lemma pins_refl [simp]: "pins z a a"
  by (simp add: pins_def)

lemma pins_free [simp]: "pins z z b"
  by (simp add: pins_def)

lemma pins_trans: "pins z a b \<Longrightarrow> pins z b c \<Longrightarrow> pins z a c"
  by (auto simp: pins_def)

lemma scope_visible_fields:
  "scope_visible r q \<longleftrightarrow>
     pins [] (chat_id r) (chat_id q) \<and>
     pins [] (conversation_id r) (conversation_id q) \<and>
     pins [] (branch_id r) (branch_id q) \<and>
     pins [] (workspace_id r) (workspace_id q) \<and>
     pins 0 (workspace_revision r) (workspace_revision q) \<and>
     pins [] (goal_id r) (goal_id q) \<and>
     pins [] (goal_run_id r) (goal_run_id q) \<and>
     pins [] (step_id r) (step_id q) \<and>
     pins 0 (scope_attempt r) (scope_attempt q) \<and>
     pins [] (worktree_id r) (worktree_id q) \<and>
     pins 0 (kernel_generation r) (kernel_generation q) \<and>
     pins [] (catalog_release_id r) (catalog_release_id q)"
  by (simp add: scope_visible_def to_dict_def unpinned_def pins_def)

lemma scope_visible_refl [simp]: "scope_visible s s"
  by (simp add: scope_visible_fields)

lemma scope_visible_empty [simp]: "scope_visible empty_work_scope q"
  by (simp add: scope_visible_fields empty_work_scope_def)

lemma scope_visible_trans: "scope_visible a b \<Longrightarrow> scope_visible b c \<Longrightarrow> scope_visible a c"
  unfolding scope_visible_fields by (elim conjE, intro conjI; erule (1) pins_trans)

lemma json_text_clause_pins:
  "jget col f = Some (JStr a) \<Longrightarrow> json_text_clause f v col \<longleftrightarrow> pins [] a v"
  by (auto simp: json_text_clause_def pins_def)

lemma json_int_clause_pins:
  "jget col f = Some (JInt a) \<Longrightarrow> json_int_clause f v col \<longleftrightarrow> pins 0 a v"
  by (auto simp: json_int_clause_def pins_def)

lemma column_pins: "(a = z \<or> a = b) \<longleftrightarrow> pins z a b"
  by (auto simp: pins_def)

text \<open>Both SQL predicates are the visibility rule, on what \<open>to_dict\<close> stores.\<close>

lemma json_clauses_visible:
  assumes "append_json_scope_visibility h (AScope q) [] = Inr clauses"
  shows "list_all (\<lambda>c. c (to_dict r)) clauses \<longleftrightarrow> scope_visible r q"
proof -
  have "clauses = map (\<lambda>f. json_text_clause f (dict_text (to_dict q) f)) scope_text_fields @
      map (\<lambda>f. json_int_clause f (dict_int (to_dict q) f)) scope_int_fields"
    using assms by (simp add: append_json_scope_visibility_def)
  then show ?thesis
    by (simp add: scope_text_fields_def scope_int_fields_def json_text_clause_pins
        json_int_clause_pins to_dict_def dict_text_def dict_int_def scope_visible_fields conj_ac)
qed

lemma column_clauses_visible:
  assumes "append_column_scope_visibility h (AScope q) [] = Inr clauses"
  shows "list_all (\<lambda>c. c r) clauses \<longleftrightarrow> scope_visible r q"
proof -
  have "clauses = map (\<lambda>f row. dict_text (to_dict row) f = [] \<or>
        dict_text (to_dict row) f = dict_text (to_dict q) f) scope_text_fields @
      map (\<lambda>f row. dict_int (to_dict row) f = 0 \<or>
        dict_int (to_dict row) f = dict_int (to_dict q) f) scope_int_fields"
    using assms by (simp add: append_column_scope_visibility_def)
  then show ?thesis
    by (simp add: scope_text_fields_def scope_int_fields_def column_pins to_dict_def
        dict_text_def dict_int_def scope_visible_fields conj_ac)
qed

end
