(* ===== verification/Core_Properties.thy ===== *)
theory Core_Properties
  imports Core_Store Work_Scope
begin

text \<open>
  Properties of the shared invariants (\<^verbatim>\<open>core_invariants.py\<close>) and of the work scope
  (\<^verbatim>\<open>work_fabric/scope.py\<close>), each with a concrete instance.
\<close>

section \<open>Strict JSON and fingerprints\<close>

text \<open>The path only names the place in an error: it decides neither success nor the value.\<close>

lemma strict_path:
  "strict_json_value v p = Inr j \<Longrightarrow> strict_json_value v p' = Inr j"
  "strict_items xs q i = Inr js \<Longrightarrow> strict_items xs q' i' = Inr js"
  "strict_fields kvs r = Inr fs \<Longrightarrow> strict_fields kvs r' = Inr fs"
proof (induction v p and xs q i and kvs r arbitrary: p' j and q' i' js and r' fs
    rule: strict_json_value_strict_items_strict_fields.induct)
  case (7 xs path)
  from "7.prems" obtain ys where ys: "strict_items xs path 0 = Inr ys" and j: "j = JArr ys" by auto
  show ?case by (simp add: "7.IH"[OF ys] j)
next
  case (8 xs path)
  from "8.prems" obtain ys where ys: "strict_items xs path 0 = Inr ys" and j: "j = JArr ys" by auto
  show ?case by (simp add: "8.IH"[OF ys] j)
next
  case (9 kvs path)
  from "9.prems" obtain ys where ys: "strict_fields kvs path = Inr ys" and j: "j = JObj ys" by auto
  show ?case by (simp add: "9.IH"[OF ys] j)
next
  case (10 t v path)
  from "10.IH"[of j] "10.prems" show ?case by simp
next
  case (13 x xs path i)
  from "13.prems" obtain y ys where y: "strict_json_value x (path @ ''['' @ show_nat i @ '']'') = Inr y"
    and ys: "strict_items xs path (Suc i) = Inr ys" and js: "js = y # ys" by auto
  show ?case by (simp add: "13.IH"(1)[OF y] "13.IH"(2)[OF y ys] js)
next
  case (15 k v kvs path)
  from "15.prems" obtain t where k: "k = PStr t" by (cases k) auto
  with "15.prems" obtain y ys where y: "strict_json_value v (path @ ''.'' @ t) = Inr y"
    and ys: "strict_fields kvs path = Inr ys" and fs: "fs = (t, y) # ys" by auto
  show ?case by (simp add: k "15.IH"(1)[OF k y] "15.IH"(2)[OF k y ys] fs)
qed simp_all

text \<open>
  A value the backend accepts as strict JSON has the fingerprint of its detached copy, so a
  request that was stored and read back (or handed over by another object with the same
  content) is recognised as the same request.
\<close>

theorem fingerprint_of_detached_copy:
  assumes "strict_json_value v path = Inr j"
  shows "request_fingerprint h operation v = Inr (json_fingerprint h operation j) \<and>
    request_fingerprint h operation (embed j) = request_fingerprint h operation v"
proof -
  have "strict_json_value v p = Inr j" for p by (rule strict_path(1)[OF assms])
  then have "request_fingerprint h operation v = request_fingerprint h operation (embed j)"
    by (simp add: request_fingerprint_def strict_embed)
  then show ?thesis by (simp add: request_fingerprint_embed)
qed

lemma fingerprint_of_detached_copy_witness:
  "\<forall>h. request_fingerprint h ''op'' (PTuple [PInt 1, PDict [(PStr ''k'', PNone)]]) =
     Inr (json_fingerprint h ''op'' (JArr [JInt 1, JObj [(''k'', JNull)]]))"
  using fingerprint_of_detached_copy[of "PTuple [PInt 1, PDict [(PStr ''k'', PNone)]]" "''$''"
      "JArr [JInt 1, JObj [(''k'', JNull)]]" _ "''op''"] by simp

section \<open>Cancellation\<close>

text \<open>
  The cancellation probe fails closed.  It answers "not requested" only when there is no
  authority or the authority itself said so; an authority that raises counts as a request, with
  an error text of at most 1000 characters.
\<close>

theorem cancellation_fails_closed:
  "(cancellation_is_requested a = Inr False \<longleftrightarrow>
      a \<in> {NoAuthority, HasIsCancelled (Answers False), HasIsSet (Answers False),
           CallableAuthority (Answers False), PlainAuthority False}) \<and>
   (case probe_cancellation a of Inl e \<Rightarrow> e = CancelledError []
    | Inr p \<Rightarrow> length (probe_error p) \<le> 1000 \<and> (authority_failed p, probe_requested p) \<noteq> (True, False))"
proof -
  have poll: "(ebind (poll_result p) (\<lambda>p. Inr (probe_requested p)) = Inr False \<longleftrightarrow> p = Answers False) \<and>
      (case poll_result p of Inl e \<Rightarrow> e = CancelledError []
       | Inr p \<Rightarrow> length (probe_error p) \<le> 1000 \<and> (authority_failed p, probe_requested p) \<noteq> (True, False))" for p
    by (cases p) auto
  show ?thesis
    by (cases a) (use poll in \<open>simp_all add: cancellation_is_requested_def\<close>)
qed

section \<open>Scopes\<close>

text \<open>
  C35: both SQL visibility filters (on a JSON column and on normalised columns) select exactly the
  records the in-memory rule \<^verbatim>\<open>work_scope_visible\<close> admits.
\<close>

theorem sql_visibility_equivalent:
  "(case append_json_scope_visibility h (AScope q) [] of
      Inl e \<Rightarrow> False | Inr clauses \<Rightarrow> list_all (\<lambda>c. c (to_dict r)) clauses = scope_visible r q) \<and>
   (case append_column_scope_visibility h (AScope q) [] of
      Inl e \<Rightarrow> False | Inr clauses \<Rightarrow> list_all (\<lambda>c. c r) clauses = scope_visible r q) \<and>
   work_scope_visible h (AScope r) (AScope q) = Inr (scope_visible r q)"
  using json_clauses_visible[of h q _ r] column_clauses_visible[of h q _ r]
  by (simp add: append_json_scope_visibility_def append_column_scope_visibility_def work_scope_visible_def)

text \<open>
  Isolation of scopes.  What a record pins, a caller that sees it has: the same chat, goal
  and worktree; and visibility composes, so a record visible to a scope stays visible to every
  more specific one.
\<close>

theorem visible_scope_isolated:
  assumes "scope_visible r q"
  shows "(chat_id r = [] \<or> chat_id q = chat_id r) \<and> (goal_id r = [] \<or> goal_id q = goal_id r) \<and>
    (worktree_id r = [] \<or> worktree_id q = worktree_id r) \<and>
    (kernel_generation r = 0 \<or> kernel_generation q = kernel_generation r) \<and>
    {p. scope_visible q p} \<subseteq> {p. scope_visible r p}"
proof -
  have "{p. scope_visible q p} \<subseteq> {p. scope_visible r p}"
    using scope_visible_trans[OF assms] by blast
  with assms show ?thesis unfolding scope_visible_fields[of r q] pins_def by blast
qed

lemma visible_scope_isolated_witness:
  "{p. scope_visible (empty_work_scope\<lparr>chat_id := ''c'', goal_id := ''g''\<rparr>) p}
     \<subseteq> {p. scope_visible (empty_work_scope\<lparr>chat_id := ''c''\<rparr>) p}"
proof -
  have "scope_visible (empty_work_scope\<lparr>chat_id := ''c''\<rparr>) (empty_work_scope\<lparr>chat_id := ''c'', goal_id := ''g''\<rparr>)"
    by (simp add: scope_visible_fields pins_def empty_work_scope_def)
  from visible_scope_isolated[OF this] show ?thesis by blast
qed

text \<open>Reading a stored dictionary, whatever the order of its keys.\<close>

lemma to_dict_keys: "distinct (map fst (to_dict s))"
  by (simp add: to_dict_def)

lemma scope_identifier_JStr: "scope_identifier h (Some (JStr t)) f = identifier_text t f"
  by (simp add: scope_identifier_def)

lemma jget_stored_scope:
  "jget (onorm (to_dict s)) k = map_option jnorm (jget (to_dict s) k)"
  by (rule jget_onorm[OF to_dict_keys])

text \<open>
  C36: round trip of scopes.  A scope a constructor made is read back unchanged from its
  dictionary, and from the canonical JSON column it is stored in.
\<close>

theorem scope_roundtrip:
  assumes "post_init s0 = Inr s"
  shows "from_mapping h (Some (to_dict s)) = Inr s \<and> from_mapping h (Some (onorm (to_dict s))) = Inr s"
proof -
  have wf: "post_init s = Inr s" by (rule post_init_idem[OF assms])
  have fields: "identifier_text (chat_id s) ''chat_id'' = Inr (chat_id s)"
    "identifier_text (conversation_id s) ''conversation_id'' = Inr (conversation_id s)"
    "identifier_text (branch_id s) ''branch_id'' = Inr (branch_id s)"
    "identifier_text (workspace_id s) ''workspace_id'' = Inr (workspace_id s)"
    "identifier_text (goal_id s) ''goal_id'' = Inr (goal_id s)"
    "identifier_text (goal_run_id s) ''goal_run_id'' = Inr (goal_run_id s)"
    "identifier_text (step_id s) ''step_id'' = Inr (step_id s)"
    "identifier_text (worktree_id s) ''worktree_id'' = Inr (worktree_id s)"
    "identifier_text (catalog_release_id s) ''catalog_release_id'' = Inr (catalog_release_id s)"
    and ints: "nonnegative_int (Some (JInt (workspace_revision s))) ''workspace_revision'' = Inr (workspace_revision s)"
    "nonnegative_int (Some (JInt (scope_attempt s))) ''attempt'' = Inr (scope_attempt s)"
    "nonnegative_int (Some (JInt (kernel_generation s))) ''kernel_generation'' = Inr (kernel_generation s)"
    using wf by (auto simp: post_init_def work_scope.ext_inject intro: work_scope.equality)
  have eta: "\<lparr>chat_id = chat_id s, conversation_id = conversation_id s, branch_id = branch_id s,
      workspace_id = workspace_id s, workspace_revision = workspace_revision s, goal_id = goal_id s,
      goal_run_id = goal_run_id s, step_id = step_id s, scope_attempt = scope_attempt s,
      worktree_id = worktree_id s, kernel_generation = kernel_generation s,
      catalog_release_id = catalog_release_id s\<rparr> = s" by (cases s) simp
  have "from_mapping h (Some m) = Inr s" if "\<And>k. jget m k = jget (to_dict s) k" for m
    by (simp add: from_mapping_def that to_dict_def scope_identifier_JStr fields ints eta wf)
  moreover have "jget (onorm (to_dict s)) k = jget (to_dict s) k" for k
    unfolding jget_stored_scope by (simp add: to_dict_def)
  ultimately show ?thesis by blast
qed

lemma scope_roundtrip_witness:
  "\<forall>h. from_mapping h (Some (onorm (to_dict (empty_work_scope\<lparr>chat_id := ''c'', scope_attempt := 3\<rparr>)))) =
     Inr (empty_work_scope\<lparr>chat_id := ''c'', scope_attempt := 3\<rparr>)"
proof -
  have "post_init (empty_work_scope\<lparr>chat_id := '' c'', scope_attempt := 3\<rparr>) =
      Inr (empty_work_scope\<lparr>chat_id := ''c'', scope_attempt := 3\<rparr>)"
    by code_simp
  from scope_roundtrip[OF this] show ?thesis by blast
qed

text \<open>
  \<^verbatim>\<open>bind_work_scope\<close> restores the caller's ambient scope whatever the code under it does
  (returns, raises, or replaces the current scope), and that code starts in the scope that was
  asked for.
\<close>

theorem bind_restores_scope:
  "snd (bind_work_scope h a body current) = current \<and>
   fst (bind_work_scope h a body current) =
     ebind (coerce_work_scope h a) (\<lambda>s. fst (body s s))"
  by (cases "coerce_work_scope h a") (auto simp: bind_work_scope_def split: prod.splits)

end
