(* ===== verification/Work_Models.thy ===== *)
theory Work_Models
  imports Work_Scope
begin

text \<open>
  The value contracts of the Work Fabric (\<^verbatim>\<open>backend/work_fabric/models.py\<close>) and its tables
  (the schema in \<^verbatim>\<open>backend/work_fabric/repository.py\<close>).  A row holds the columns the code
  reads; a JSON column holds the object read back from it, the scope columns the scope they
  are read as, and a nullable REAL is an option.
\<close>

section \<open>States\<close>

datatype job_status =
    Queued | Leased | Running | Waiting | Paused
  | Succeeded | Failed | Cancelled | UnknownEffect

definition job_terminal_states :: "job_status set" where
  "job_terminal_states = {Succeeded, Failed, Cancelled, UnknownEffect}"

definition job_leased_states :: "job_status set" where
  "job_leased_states = {Leased, Running}"

fun status_text :: "job_status \<Rightarrow> string" where
  "status_text Queued = ''queued''"
| "status_text Leased = ''leased''"
| "status_text Running = ''running''"
| "status_text Waiting = ''waiting''"
| "status_text Paused = ''paused''"
| "status_text Succeeded = ''succeeded''"
| "status_text Failed = ''failed''"
| "status_text Cancelled = ''cancelled''"
| "status_text UnknownEffect = ''unknown_effect''"

definition job_states :: "job_status list" where
  "job_states = [Queued, Leased, Running, Waiting, Paused, Succeeded, Failed, Cancelled, UnknownEffect]"

definition job_status_of :: "string \<Rightarrow> job_status option" where
  "job_status_of t = find (\<lambda>s. status_text s = t) job_states"

datatype outbox_status = OutPending | OutLeased | OutDelivered | OutDead

datatype operation_status =
    OpPlanned | OpRunning | OpSucceeded | OpFailed | OpCancelled | OpUnknownEffect

definition terminal_operation_states :: "operation_status set" where
  "terminal_operation_states = {OpSucceeded, OpFailed, OpCancelled, OpUnknownEffect}"

fun operation_status_text :: "operation_status \<Rightarrow> string" where
  "operation_status_text OpPlanned = ''planned''"
| "operation_status_text OpRunning = ''running''"
| "operation_status_text OpSucceeded = ''succeeded''"
| "operation_status_text OpFailed = ''failed''"
| "operation_status_text OpCancelled = ''cancelled''"
| "operation_status_text OpUnknownEffect = ''unknown_effect''"

datatype interaction_status =
    IxOpen | IxAnswered | IxSkipped | IxTimedOut | IxDismissed | IxCancelled

definition interaction_terminal_states :: "interaction_status set" where
  "interaction_terminal_states = {IxAnswered, IxSkipped, IxTimedOut, IxDismissed, IxCancelled}"

fun interaction_status_text :: "interaction_status \<Rightarrow> string" where
  "interaction_status_text IxOpen = ''open''"
| "interaction_status_text IxAnswered = ''answered''"
| "interaction_status_text IxSkipped = ''skipped''"
| "interaction_status_text IxTimedOut = ''timed_out''"
| "interaction_status_text IxDismissed = ''dismissed''"
| "interaction_status_text IxCancelled = ''cancelled''"

section \<open>Records\<close>

record work_actor =
  actor_kind :: string
  actor_id :: string

definition default_actor :: work_actor where
  "default_actor = \<lparr>actor_kind = ''system'', actor_id = ''variant1''\<rparr>"

definition worker_actor :: "string \<Rightarrow> work_actor" where
  "worker_actor owner = \<lparr>actor_kind = ''worker'', actor_id = owner\<rparr>"

record work_event =
  event_id :: string
  sequence :: int
  aggregate_kind :: string
  aggregate_id :: string
  aggregate_version :: int
  event_type :: string
  event_scope :: work_scope
  event_actor :: work_actor
  correlation_id :: string
  causation_id :: string
  event_idempotency_key :: string
  event_fingerprint :: string
  payload_ref :: string
  payload :: jobject
  event_created_at :: rat

record outbox_row =
  outbox_id :: string
  outbox_event_id :: string
  event_sequence :: int
  outbox_status :: outbox_status
  outbox_attempts :: int
  outbox_available_at :: rat
  outbox_lease_owner :: string
  outbox_lease_epoch :: int
  outbox_lease_expires_at :: "rat option"
  last_error :: string
  outbox_created_at :: rat
  delivered_at :: "rat option"

record job_row =
  job_id :: string
  owner_kind :: string
  owner_id :: string
  job_kind :: string
  status :: job_status
  job_scope :: work_scope
  priority :: int
  revision :: int
  input_manifest :: jobject
  artifact_refs :: "string list"
  lease_owner :: string
  lease_epoch :: int
  lease_expires_at :: "rat option"
  continuation :: bool
  sync_handler :: bool
  attempt :: int
  max_attempts :: int
  retry_policy :: jobject
  progress :: jobject
  event_cursor :: int
  result_ref :: string
  diagnostics_ref :: string
  idempotency_key :: string
  job_fingerprint :: string
  cancel_requested :: bool
  cancel_reason :: string
  available_at :: rat
  created_at :: rat
  started_at :: "rat option"
  heartbeat_at :: "rat option"
  updated_at :: rat
  completed_at :: "rat option"
  job_error :: string

definition job_terminal :: "job_row \<Rightarrow> bool" where
  "job_terminal j \<longleftrightarrow> status j \<in> job_terminal_states"

definition job_leased :: "job_row \<Rightarrow> bool" where
  "job_leased j \<longleftrightarrow> status j \<in> job_leased_states"

record operation_row =
  operation_id :: string
  operation_kind :: string
  operation_status :: operation_status
  operation_scope :: work_scope
  operation_idempotency_key :: string
  operation_fingerprint :: string
  operation_request :: jobject
  operation_response :: jobject
  effect_ref :: string
  operation_revision :: int
  operation_created_at :: rat
  operation_updated_at :: rat
  operation_completed_at :: "rat option"
  operation_error :: string

definition operation_terminal :: "operation_row \<Rightarrow> bool" where
  "operation_terminal r \<longleftrightarrow> operation_status r \<in> terminal_operation_states"

record interaction_row =
  interaction_id :: string
  interaction_kind :: string
  interaction_owner_kind :: string
  interaction_owner_id :: string
  interaction_status :: interaction_status
  prompt :: string
  interaction_schema :: jobject
  response :: json
  metadata :: jobject
  interaction_scope :: work_scope
  interaction_fingerprint :: string
  interaction_idempotency_key :: string
  interaction_version :: int
  expires_at :: "rat option"
  interaction_created_at :: rat
  interaction_updated_at :: rat
  resolved_at :: "rat option"

definition interaction_terminal :: "interaction_row \<Rightarrow> bool" where
  "interaction_terminal r \<longleftrightarrow> interaction_status r \<in> interaction_terminal_states"

record projection_row =
  projection_name :: string
  last_sequence :: int
  projection_state :: jobject
  projection_updated_at :: rat

text \<open>
  The database.  \<open>event_counter\<close> is the AUTOINCREMENT high-water mark, \<open>operation_clock\<close> the
  counter its triggers keep, \<open>draws\<close> the number of \<^verbatim>\<open>uuid4()\<close> draws made.
\<close>

record work_db =
  events :: "work_event list"
  event_counter :: int
  outbox :: "outbox_row list"
  jobs :: "job_row list"
  operations :: "operation_row list"
  operation_clock :: int
  interactions :: "interaction_row list"
  projections :: "projection_row list"
  draws :: nat

definition empty_db :: work_db where
  "empty_db = \<lparr>events = [], event_counter = 0, outbox = [], jobs = [], operations = [],
     operation_clock = 0, interactions = [], projections = [], draws = 0\<rparr>"

text \<open>\<^verbatim>\<open>WorkRepository._write\<close>: the unit of work every operation below runs in.\<close>

definition db_write :: "host \<Rightarrow> (work_db, 'a) body \<Rightarrow> work_db \<Rightarrow> 'a res \<times> work_db" where
  "db_write h body db = sqlite_unit_of_work h ''work.before_commit'' body db"

lemma db_write_Inl: "db_write h body db = (Inl e, db') \<Longrightarrow> db' = db"
  unfolding db_write_def by (rule unit_of_work_Inl)

lemma db_write_Inr:
  "db_write h body db = (Inr x, db') \<longleftrightarrow>
     body db = Inr (x, db') \<and> ''work.before_commit'' \<notin> set (faults h)"
  by (simp add: db_write_def unit_of_work_Inr)

lemma db_write_invariant:
  "I db \<Longrightarrow> (\<And>x db'. body db = Inr (x, db') \<Longrightarrow> I db') \<Longrightarrow> I (snd (db_write h body db))"
  unfolding db_write_def by (rule unit_of_work_invariant)

lemma job_status_of_text [simp]: "job_status_of (status_text s) = Some s"
  by (cases s) (simp_all add: job_status_of_def job_states_def)

lemma job_status_of_Some: "job_status_of t = Some s \<Longrightarrow> status_text s = t"
  unfolding job_status_of_def by (metis (mono_tags, lifting) find_Some_iff)

text \<open>At a given time, the value an optional argument defaults to.\<close>

definition or_now :: "host \<Rightarrow> rat option \<Rightarrow> rat" where
  "or_now h t = (case t of Some x \<Rightarrow> x | None \<Rightarrow> clock h)"

end
