(* ===== verification/Work_Events.thy ===== *)
theory Work_Events
  imports Work_Models
begin

text \<open>
  The append-only event log and its transactional outbox
  (\<^verbatim>\<open>WorkRepository._insert_event_tx .. recover_expired_outbox\<close>): appending with aggregate
  versions and idempotency keys, listing, and the claim / acknowledge / reject / recover
  protocol of the outbox.
\<close>

section \<open>Appending\<close>

text \<open>The keyword arguments of \<^verbatim>\<open>_insert_event_tx\<close> and their defaults.\<close>

record event_request =
  req_event_type :: string
  req_aggregate_kind :: string
  req_aggregate_id :: string
  req_aggregate_version :: "int option"
  req_expected_version :: "int option"
  req_scope :: scope_arg
  req_actor :: "work_actor option"
  req_correlation_id :: string
  req_causation_id :: string
  req_idempotency_key :: string
  req_payload_ref :: string
  req_payload :: jobject
  req_created_at :: "rat option"

definition event_request0 :: event_request where
  "event_request0 = \<lparr>req_event_type = [], req_aggregate_kind = [], req_aggregate_id = [],
     req_aggregate_version = None, req_expected_version = None, req_scope = NoScope,
     req_actor = None, req_correlation_id = [], req_causation_id = [],
     req_idempotency_key = [], req_payload_ref = [], req_payload = [], req_created_at = None\<rparr>"

text \<open>The checked arguments, in the order the code checks them.\<close>

record clean_event =
  cl_kind :: string
  cl_aggregate :: string
  cl_type :: string
  cl_idem :: string
  cl_scope :: work_scope
  cl_actor :: work_actor
  cl_correlation :: string
  cl_causation :: string
  cl_payload_ref :: string
  cl_payload :: jobject

definition clean_event_args :: "host \<Rightarrow> event_request \<Rightarrow> clean_event res" where
  "clean_event_args h q =
     ebind (text_arg (req_aggregate_kind q) ''aggregate_kind'' True 100) (\<lambda>kind.
     ebind (text_arg (req_aggregate_id q) ''aggregate_id'' True 512) (\<lambda>aggregate.
     ebind (text_arg (req_event_type q) ''event_type'' True 240) (\<lambda>name.
     ebind (text_arg (req_idempotency_key q) ''idempotency_key'' False 512) (\<lambda>idem.
     ebind (coerce_work_scope h (req_scope q)) (\<lambda>scope.
     let raw_actor = (case req_actor q of Some a \<Rightarrow> a | None \<Rightarrow> default_actor) in
     ebind (text_arg (actor_kind raw_actor) ''actor.kind'' True 100) (\<lambda>akind.
     ebind (text_arg (actor_id raw_actor) ''actor.id'' True 512) (\<lambda>aid.
     ebind (text_arg (req_correlation_id q) ''correlation_id'' False 512) (\<lambda>correlation.
     ebind (text_arg (req_causation_id q) ''causation_id'' False 512) (\<lambda>causation.
     ebind (text_arg (req_payload_ref q) ''payload_ref'' False 2000) (\<lambda>ref.
     Inr \<lparr>cl_kind = kind, cl_aggregate = aggregate, cl_type = name, cl_idem = idem,
          cl_scope = scope, cl_actor = \<lparr>actor_kind = akind, actor_id = aid\<rparr>,
          cl_correlation = correlation, cl_causation = causation, cl_payload_ref = ref,
          cl_payload = req_payload q\<rparr>))))))))))"

definition event_fingerprint_for :: "host \<Rightarrow> clean_event \<Rightarrow> int \<Rightarrow> string" where
  "event_fingerprint_for h c version = json_fingerprint h ''work.event.append'' (JObj
     [(''aggregate'', JObj [(''kind'', JStr (cl_kind c)), (''id'', JStr (cl_aggregate c)),
                           (''version'', JInt version)]),
      (''event_type'', JStr (cl_type c)),
      (''scope'', JObj (to_dict (cl_scope c))),
      (''actor'', JObj [(''kind'', JStr (actor_kind (cl_actor c))), (''id'', JStr (actor_id (cl_actor c)))]),
      (''correlation_id'', JStr (cl_correlation c)),
      (''causation_id'', JStr (cl_causation c)),
      (''payload_ref'', JStr (cl_payload_ref c)),
      (''payload'', JObj (cl_payload c))])"

text \<open>\<^verbatim>\<open>COALESCE(MAX(aggregate_version), 0)\<close> of one aggregate.\<close>

definition max_version :: "work_db \<Rightarrow> string \<Rightarrow> string \<Rightarrow> int" where
  "max_version db kind aggregate =
     fold max (map aggregate_version
       (filter (\<lambda>e. aggregate_kind e = kind \<and> aggregate_id e = aggregate) (events db))) 0"

definition prior_event :: "work_db \<Rightarrow> clean_event \<Rightarrow> work_event option" where
  "prior_event db c =
     (if cl_idem c = [] then None
      else find (\<lambda>e. aggregate_kind e = cl_kind c \<and> aggregate_id e = cl_aggregate c \<and>
                     event_idempotency_key e = cl_idem c) (events db))"

text \<open>The replay test: whether the recorded event is the one this request would append.\<close>

definition same_event_request :: "host \<Rightarrow> event_request \<Rightarrow> clean_event \<Rightarrow> work_event \<Rightarrow> bool" where
  "same_event_request h q c prior \<longleftrightarrow>
     (event_fingerprint prior = [] \<or>
        event_fingerprint prior = event_fingerprint_for h c (aggregate_version prior)) \<and>
     event_type prior = cl_type c \<and>
     (case req_aggregate_version q of None \<Rightarrow> True | Some v \<Rightarrow> aggregate_version prior = v) \<and>
     (case req_expected_version q of None \<Rightarrow> True | Some v \<Rightarrow> aggregate_version prior - 1 = v) \<and>
     event_scope prior = cl_scope c \<and>
     event_actor prior = cl_actor c \<and>
     correlation_id prior = cl_correlation c \<and>
     causation_id prior = cl_causation c \<and>
     payload_ref prior = cl_payload_ref c \<and>
     py_eq (JObj (payload prior)) (JObj (cl_payload c))"

text \<open>The two INSERTs, with the uniqueness of the primary keys they can break.\<close>

definition new_event_row ::
  "host \<Rightarrow> event_request \<Rightarrow> clean_event \<Rightarrow> int \<Rightarrow> jobject \<Rightarrow> work_db \<Rightarrow> work_event" where
  "new_event_row h q c version stored db =
     \<lparr>event_id = new_id ''evt'' (uuid4 h (draws db)), sequence = event_counter db + 1,
      aggregate_kind = cl_kind c, aggregate_id = cl_aggregate c, aggregate_version = version,
      event_type = cl_type c, event_scope = cl_scope c, event_actor = cl_actor c,
      correlation_id = cl_correlation c, causation_id = cl_causation c,
      event_idempotency_key = cl_idem c, event_fingerprint = event_fingerprint_for h c version,
      payload_ref = cl_payload_ref c, payload = stored,
      event_created_at = or_now h (req_created_at q)\<rparr>"

definition new_outbox_row :: "host \<Rightarrow> event_request \<Rightarrow> work_db \<Rightarrow> outbox_row" where
  "new_outbox_row h q db =
     \<lparr>outbox_id = new_id ''out'' (uuid4 h (Suc (draws db))),
      outbox_event_id = new_id ''evt'' (uuid4 h (draws db)), event_sequence = event_counter db + 1,
      outbox_status = OutPending, outbox_attempts = 0,
      outbox_available_at = or_now h (req_created_at q), outbox_lease_owner = [],
      outbox_lease_epoch = 0, outbox_lease_expires_at = None, last_error = [],
      outbox_created_at = or_now h (req_created_at q), delivered_at = None\<rparr>"

definition append_event_row ::
  "host \<Rightarrow> event_request \<Rightarrow> clean_event \<Rightarrow> int \<Rightarrow> (work_db, work_event) body" where
  "append_event_row h q c version db =
     ebind (store_json h (to_dict (cl_scope c))) (\<lambda>_.
     ebind (store_json h (cl_payload c)) (\<lambda>stored.
     let e = new_event_row h q c version stored db;
         o' = new_outbox_row h q db in
     ebind (require (event_id e \<notin> event_id ` set (events db))
       (IntegrityError ''work_event.event_id'')) (\<lambda>_.
     ebind (require (outbox_id o' \<notin> outbox_id ` set (outbox db))
       (IntegrityError ''work_outbox.outbox_id'')) (\<lambda>_.
     Inr (e, db\<lparr>events := events db @ [e], event_counter := sequence e,
                outbox := outbox db @ [o'], draws := Suc (Suc (draws db))\<rparr>)))))"

definition insert_event_tx :: "host \<Rightarrow> event_request \<Rightarrow> (work_db, work_event) body" where
  "insert_event_tx h q db =
     ebind (clean_event_args h q) (\<lambda>c.
       case prior_event db c of
         Some prior \<Rightarrow>
           ebind (require (same_event_request h q c prior)
             (WorkConflict ''event idempotency key was reused for another command''))
           (\<lambda>_. Inr (prior, db))
       | None \<Rightarrow>
           let current = max_version db (cl_kind c) (cl_aggregate c);
               version = (case req_aggregate_version q of None \<Rightarrow> current + 1 | Some v \<Rightarrow> v) in
           ebind (require (case req_expected_version q of None \<Rightarrow> True | Some x \<Rightarrow> current = x)
             (WorkConflict (''aggregate version changed for '' @ cl_kind c @ '':'' @ cl_aggregate c)))
           (\<lambda>_.
           ebind (require (version = current + 1)
             (WorkConflict (''event version must advance exactly once for '' @ cl_kind c @ '':'' @ cl_aggregate c)))
           (\<lambda>_. append_event_row h q c version db)))"

definition append_event :: "host \<Rightarrow> event_request \<Rightarrow> work_db \<Rightarrow> work_event res \<times> work_db" where
  "append_event h q db = db_write h (insert_event_tx h q) db"

section \<open>Reading\<close>

definition find_event :: "string \<Rightarrow> work_db \<Rightarrow> work_event option" where
  "find_event eid db = find (\<lambda>e. event_id e = eid) (events db)"

definition clamp_limit :: "int \<Rightarrow> nat" where
  "clamp_limit limit = nat (min 5000 (max 1 limit))"

definition list_events ::
  "host \<Rightarrow> int \<Rightarrow> int \<Rightarrow> string \<Rightarrow> string \<Rightarrow> string \<Rightarrow> scope_arg \<Rightarrow> work_db \<Rightarrow> work_event list res" where
  "list_events h after_sequence limit akind aid etype scope db =
     ebind (append_json_scope_visibility h scope []) (\<lambda>clauses.
     Inr (take (clamp_limit limit) (sort_key sequence (filter
       (\<lambda>e. max 0 after_sequence < sequence e \<and>
            (akind = [] \<or> aggregate_kind e = akind) \<and>
            (aid = [] \<or> aggregate_id e = aid) \<and>
            (etype = [] \<or> event_type e = etype) \<and>
            list_all (\<lambda>cl. cl (to_dict (event_scope e))) clauses) (events db)))))"

section \<open>The outbox\<close>

text \<open>\<^verbatim>\<open>_outbox_select\<close>: outbox rows joined with their events, as OutboxItems.\<close>

type_synonym outbox_item = "outbox_row \<times> work_event"

definition outbox_select :: "(outbox_row \<Rightarrow> bool) \<Rightarrow> work_db \<Rightarrow> outbox_item list" where
  "outbox_select P db = concat (map (\<lambda>r.
     case find_event (outbox_event_id r) db of None \<Rightarrow> [] | Some e \<Rightarrow> [(r, e)])
     (sort_key event_sequence (filter P (outbox db))))"

definition outbox_expired :: "rat \<Rightarrow> outbox_row \<Rightarrow> bool" where
  "outbox_expired tm r \<longleftrightarrow> outbox_status r = OutLeased \<and>
     (case outbox_lease_expires_at r of None \<Rightarrow> False | Some t \<Rightarrow> t \<le> tm)"

definition outbox_release :: "rat \<Rightarrow> outbox_row \<Rightarrow> outbox_row" where
  "outbox_release tm r = r\<lparr>outbox_status := OutPending, outbox_lease_owner := [],
     outbox_lease_expires_at := None, outbox_available_at := tm\<rparr>"

definition outbox_lease :: "string \<Rightarrow> rat \<Rightarrow> outbox_row \<Rightarrow> outbox_row" where
  "outbox_lease owner expires r = r\<lparr>outbox_status := OutLeased, outbox_lease_owner := owner,
     outbox_lease_epoch := outbox_lease_epoch r + 1, outbox_lease_expires_at := Some expires,
     outbox_attempts := outbox_attempts r + 1\<rparr>"

text \<open>One UPDATE of the claim loop, with its row-count check.\<close>

definition claim_one :: "string \<Rightarrow> rat \<Rightarrow> string \<Rightarrow> outbox_row list \<Rightarrow> outbox_row list res" where
  "claim_one owner expires oid t =
     (case sql_update (\<lambda>r. outbox_id r = oid \<and> outbox_status r = OutPending)
         (outbox_lease owner expires) t of (n, t') \<Rightarrow>
      ebind (require (n = 1) (WorkConflict (''outbox claim lost for '' @ oid))) (\<lambda>_. Inr t'))"

definition claim_outbox_tx :: "string \<Rightarrow> rat \<Rightarrow> rat \<Rightarrow> nat \<Rightarrow> (work_db, outbox_item list) body" where
  "claim_outbox_tx owner tm expires take_n db =
     (let t0 = snd (sql_update (outbox_expired tm) (outbox_release tm) (outbox db));
          ids = map outbox_id (take take_n (sort_key event_sequence
                  (filter (\<lambda>r. outbox_status r = OutPending \<and> outbox_available_at r \<le> tm) t0)))
      in ebind (efold (claim_one owner expires) ids t0) (\<lambda>t1.
         let db' = db\<lparr>outbox := t1\<rparr> in
         if ids = [] then Inr ([], db')
         else Inr (outbox_select (\<lambda>r. outbox_id r \<in> set ids) db', db')))"

definition claim_outbox ::
  "host \<Rightarrow> string \<Rightarrow> int \<Rightarrow> rat \<Rightarrow> rat option \<Rightarrow> work_db \<Rightarrow> outbox_item list res \<times> work_db" where
  "claim_outbox h consumer limit ttl now db =
     (case text_arg consumer ''consumer_id'' True 512 of
        Inl e \<Rightarrow> (Inl e, db)
      | Inr owner \<Rightarrow>
          let tm = or_now h now in
          db_write h (claim_outbox_tx owner tm (tm + max 1 ttl) (nat (min 1000 (max 1 limit)))) db)"

definition outbox_held :: "string \<Rightarrow> int \<Rightarrow> outbox_row \<Rightarrow> bool" where
  "outbox_held consumer epoch r \<longleftrightarrow> outbox_status r = OutLeased \<and>
     outbox_lease_owner r = consumer \<and> outbox_lease_epoch r = epoch"

definition acknowledge_outbox ::
  "host \<Rightarrow> string \<Rightarrow> string \<Rightarrow> int \<Rightarrow> rat option \<Rightarrow> work_db \<Rightarrow> unit res \<times> work_db" where
  "acknowledge_outbox h oid consumer epoch now db =
     db_write h (\<lambda>db. case sql_update (\<lambda>r. outbox_id r = oid \<and> outbox_held consumer epoch r)
         (\<lambda>r. r\<lparr>outbox_status := OutDelivered, delivered_at := Some (or_now h now),
               outbox_lease_owner := [], outbox_lease_expires_at := None, last_error := []\<rparr>)
         (outbox db) of (n, t) \<Rightarrow>
       ebind (require (n = 1) (LeaseLost (''outbox lease lost for '' @ oid)))
         (\<lambda>_. Inr ((), db\<lparr>outbox := t\<rparr>))) db"

definition reject_outbox ::
  "host \<Rightarrow> string \<Rightarrow> string \<Rightarrow> int \<Rightarrow> string \<Rightarrow> rat \<Rightarrow> int \<Rightarrow> rat option \<Rightarrow> work_db \<Rightarrow>
   outbox_status res \<times> work_db" where
  "reject_outbox h oid consumer epoch error retry_delay max_attempts' now db =
     db_write h (\<lambda>db. case find (\<lambda>r. outbox_id r = oid) (outbox db) of
         None \<Rightarrow> Inl (WorkNotFound (''unknown outbox item: '' @ oid))
       | Some row \<Rightarrow>
           ebind (require (outbox_held consumer epoch row) (LeaseLost (''outbox lease lost for '' @ oid))) (\<lambda>_.
           let tm = or_now h now;
               dead = (max 1 max_attempts' \<le> outbox_attempts row);
               st = (if dead then OutDead else OutPending) in
           ebind (text_arg error ''outbox error'' False 4000) (\<lambda>err.
           Inr (st, db\<lparr>outbox := snd (sql_update (\<lambda>r. outbox_id r = oid)
             (\<lambda>r. r\<lparr>outbox_status := st,
                   outbox_available_at := (if dead then tm else tm + max 0 retry_delay),
                   outbox_lease_owner := [], outbox_lease_expires_at := None, last_error := err\<rparr>)
             (outbox db))\<rparr>)))) db"

definition recover_expired_outbox :: "host \<Rightarrow> rat option \<Rightarrow> work_db \<Rightarrow> nat res \<times> work_db" where
  "recover_expired_outbox h now db =
     db_write h (\<lambda>db. case sql_update (outbox_expired (or_now h now))
         (\<lambda>r. (outbox_release (or_now h now) r)\<lparr>last_error :=
            (if last_error r = [] then ''delivery lease expired'' else last_error r)\<rparr>)
         (outbox db) of (n, t) \<Rightarrow> Inr (n, db\<lparr>outbox := t\<rparr>)) db"

section \<open>The log's invariant\<close>

definition versions :: "work_db \<Rightarrow> string \<Rightarrow> string \<Rightarrow> int list" where
  "versions db kind aggregate = map aggregate_version
     (filter (\<lambda>e. aggregate_kind e = kind \<and> aggregate_id e = aggregate) (events db))"

definition idem_key :: "work_event \<Rightarrow> string \<times> string \<times> string" where
  "idem_key e = (aggregate_kind e, aggregate_id e, event_idempotency_key e)"

text \<open>
  The sequence numbers are 1, 2, .. in log order, the versions of every aggregate are 1, 2, ..
  in that order, idempotency keys are unique per aggregate, and the outbox has exactly one row
  per event, in log order.
\<close>

definition log_wf :: "work_db \<Rightarrow> bool" where
  "log_wf db \<longleftrightarrow>
     map sequence (events db) = counting (length (events db)) \<and>
     event_counter db = int (length (events db)) \<and>
     (\<forall>k a. versions db k a = counting (length (versions db k a))) \<and>
     distinct (map event_id (events db)) \<and>
     distinct (map idem_key (filter (\<lambda>e. event_idempotency_key e \<noteq> []) (events db))) \<and>
     map event_sequence (outbox db) = map sequence (events db) \<and>
     map outbox_event_id (outbox db) = map event_id (events db) \<and>
     distinct (map outbox_id (outbox db))"

text \<open>What a successful append does to the database.\<close>

definition appended :: "work_db \<Rightarrow> work_event \<Rightarrow> outbox_row \<Rightarrow> work_db \<Rightarrow> bool" where
  "appended db e o' db' \<longleftrightarrow>
     db' = db\<lparr>events := events db @ [e], event_counter := sequence e,
              outbox := outbox db @ [o'], draws := Suc (Suc (draws db))\<rparr> \<and>
     sequence e = event_counter db + 1 \<and>
     aggregate_version e = max_version db (aggregate_kind e) (aggregate_id e) + 1 \<and>
     event_id e \<notin> event_id ` set (events db) \<and>
     (event_idempotency_key e \<noteq> [] \<longrightarrow> idem_key e \<notin> idem_key ` set (events db)) \<and>
     outbox_id o' \<notin> outbox_id ` set (outbox db) \<and>
     event_sequence o' = sequence e \<and> outbox_event_id o' = event_id e \<and>
     outbox_status o' = OutPending \<and> outbox_lease_epoch o' = 0 \<and> outbox_attempts o' = 0"

lemma max_version_versions: "max_version db k a = fold max (versions db k a) 0"
  by (simp add: max_version_def versions_def)

lemma max_version_length:
  "log_wf db \<Longrightarrow> max_version db k a = int (length (versions db k a))"
  unfolding max_version_versions log_wf_def by (metis fold_max_counting)

lemma max_version_nonneg: "0 \<le> max_version db k a"
  unfolding max_version_def by (rule fold_max_le)

lemma versions_append:
  "versions (db\<lparr>events := events db @ [e], event_counter := n, outbox := os, draws := d\<rparr>) k a =
     versions db k a @ (if aggregate_kind e = k \<and> aggregate_id e = a then [aggregate_version e] else [])"
  by (simp add: versions_def)

lemma appended_max_version:
  assumes "appended db e o' db'"
  shows "max_version db' k a =
    (if aggregate_kind e = k \<and> aggregate_id e = a then max_version db k a + 1 else max_version db k a)"
  using assms
  by (auto simp: appended_def max_version_versions versions_append)

lemma appended_wf:
  assumes wf: "log_wf db" and ap: "appended db e o' db'"
  shows "log_wf db'"
proof -
  from ap have db': "db' = db\<lparr>events := events db @ [e], event_counter := sequence e,
      outbox := outbox db @ [o'], draws := Suc (Suc (draws db))\<rparr>"
    and seq: "sequence e = event_counter db + 1"
    and ver: "aggregate_version e = max_version db (aggregate_kind e) (aggregate_id e) + 1"
    by (simp_all add: appended_def)
  have len: "event_counter db = int (length (events db))" using wf by (simp add: log_wf_def)
  have sq: "map sequence (events db') = counting (length (events db'))"
    using wf seq len by (simp add: db' log_wf_def counting_Suc)
  have vs: "versions db' k a = counting (length (versions db' k a))" for k a
  proof -
    have old: "versions db k a = counting (length (versions db k a))"
      using wf by (simp add: log_wf_def)
    show ?thesis
    proof (cases "aggregate_kind e = k \<and> aggregate_id e = a")
      case True
      then have "aggregate_version e = int (length (versions db k a)) + 1"
        using ver max_version_length[OF wf] by simp
      then have "versions db' k a = versions db k a @ [int (length (versions db k a)) + 1]"
        using True by (simp add: db' versions_append)
      then show ?thesis using old by (simp add: counting_Suc)
    next
      case False
      then have "versions db' k a = versions db k a" by (simp add: db' versions_append)
      with old show ?thesis by simp
    qed
  qed
  have rest: "event_counter db' = int (length (events db'))"
    "distinct (map event_id (events db'))"
    "distinct (map idem_key (filter (\<lambda>e. event_idempotency_key e \<noteq> []) (events db')))"
    "map event_sequence (outbox db') = map sequence (events db')"
    "map outbox_event_id (outbox db') = map event_id (events db')"
    "distinct (map outbox_id (outbox db'))"
    using wf ap by (auto simp: log_wf_def appended_def)
  show ?thesis using sq vs rest by (simp add: log_wf_def)
qed

lemma prior_event_None:
  "prior_event db c = None \<Longrightarrow> cl_idem c \<noteq> [] \<Longrightarrow> e \<in> set (events db) \<Longrightarrow>
     aggregate_kind e = cl_kind c \<Longrightarrow> aggregate_id e = cl_aggregate c \<Longrightarrow>
     event_idempotency_key e \<noteq> cl_idem c"
  by (auto simp: prior_event_def find_None_iff)

lemma new_rows_simps [simp]:
  "event_id (new_event_row h q c v st db) = outbox_event_id (new_outbox_row h q db)"
  "sequence (new_event_row h q c v st db) = event_counter db + 1"
  "aggregate_kind (new_event_row h q c v st db) = cl_kind c"
  "aggregate_id (new_event_row h q c v st db) = cl_aggregate c"
  "aggregate_version (new_event_row h q c v st db) = v"
  "event_type (new_event_row h q c v st db) = cl_type c"
  "event_scope (new_event_row h q c v st db) = cl_scope c"
  "event_actor (new_event_row h q c v st db) = cl_actor c"
  "event_idempotency_key (new_event_row h q c v st db) = cl_idem c"
  "payload (new_event_row h q c v st db) = st"
  "event_sequence (new_outbox_row h q db) = event_counter db + 1"
  "outbox_status (new_outbox_row h q db) = OutPending"
  "outbox_lease_epoch (new_outbox_row h q db) = 0"
  "outbox_attempts (new_outbox_row h q db) = 0"
  by (simp_all add: new_event_row_def new_outbox_row_def)

lemma append_event_row_Inr:
  assumes "append_event_row h q c (max_version db (cl_kind c) (cl_aggregate c) + 1) db = Inr (e, db')"
    and "prior_event db c = None"
  shows "appended db e (new_outbox_row h q db) db'"
    and "e = new_event_row h q c (max_version db (cl_kind c) (cl_aggregate c) + 1)
               (onorm (cl_payload c)) db"
proof -
  let ?e = "new_event_row h q c (max_version db (cl_kind c) (cl_aggregate c) + 1) (onorm (cl_payload c)) db"
  from assms(1) show e: "e = ?e"
    by (auto simp: append_event_row_def Let_def store_json_def split: if_splits)
  from assms(1) e have fresh: "event_id e \<notin> event_id ` set (events db)"
      "outbox_id (new_outbox_row h q db) \<notin> outbox_id ` set (outbox db)"
    and db': "db' = db\<lparr>events := events db @ [e], event_counter := sequence e,
                outbox := outbox db @ [new_outbox_row h q db], draws := Suc (Suc (draws db))\<rparr>"
    by (auto simp: append_event_row_def Let_def)
  have "event_idempotency_key e \<noteq> [] \<longrightarrow> idem_key e \<notin> idem_key ` set (events db)"
    using prior_event_None[OF assms(2)] by (fastforce simp: e idem_key_def)
  with fresh db' show "appended db e (new_outbox_row h q db) db'"
    by (simp add: appended_def e)
qed

text \<open>
  A successful \<^const>\<open>insert_event_tx\<close> either replays a recorded event and changes nothing, or
  appends the event it was asked for.
\<close>

lemma insert_event_tx_cases:
  assumes "insert_event_tx h q db = Inr (e, db')"
  obtains (replay) c where "clean_event_args h q = Inr c" "prior_event db c = Some e" "db' = db"
      "same_event_request h q c e"
  | (append) c o' where "clean_event_args h q = Inr c" "prior_event db c = None"
      "appended db e o' db'" "aggregate_kind e = cl_kind c" "aggregate_id e = cl_aggregate c"
      "event_type e = cl_type c" "event_scope e = cl_scope c" "event_actor e = cl_actor c"
      "event_idempotency_key e = cl_idem c" "payload e = onorm (cl_payload c)"
      "\<And>v. req_aggregate_version q = Some v \<Longrightarrow> aggregate_version e = v"
      "\<And>v. req_expected_version q = Some v \<Longrightarrow> max_version db (cl_kind c) (cl_aggregate c) = v"
proof -
  from assms obtain c where c: "clean_event_args h q = Inr c"
    by (auto simp: insert_event_tx_def)
  show thesis
  proof (cases "prior_event db c")
    case (Some prior)
    from assms c Some have "e = prior" "db' = db" "same_event_request h q c prior"
      by (auto simp: insert_event_tx_def)
    with replay[OF c] Some show thesis by simp
  next
    case None
    from assms c None have row:
      "append_event_row h q c (max_version db (cl_kind c) (cl_aggregate c) + 1) db = Inr (e, db')"
      by (auto simp: insert_event_tx_def Let_def)
    from assms c None have ver:
      "req_aggregate_version q = Some v \<Longrightarrow> max_version db (cl_kind c) (cl_aggregate c) + 1 = v"
      "req_expected_version q = Some v \<Longrightarrow> max_version db (cl_kind c) (cl_aggregate c) = v" for v
      by (auto simp: insert_event_tx_def Let_def)
    show thesis
      by (rule append[OF c None append_event_row_Inr(1)[OF row None]])
        (simp_all add: append_event_row_Inr(2)[OF row None] ver)
  qed
qed

lemma insert_event_tx_wf: "log_wf db \<Longrightarrow> insert_event_tx h q db = Inr (e, db') \<Longrightarrow> log_wf db'"
  by (erule insert_event_tx_cases) (auto intro: appended_wf)

text \<open>Replacing outbox rows by rows of the same identity keeps the log well-formed.\<close>

definition same_outbox_identity :: "(outbox_row \<Rightarrow> outbox_row) \<Rightarrow> bool" where
  "same_outbox_identity f \<longleftrightarrow> (\<forall>r. outbox_id (f r) = outbox_id r \<and>
     outbox_event_id (f r) = outbox_event_id r \<and> event_sequence (f r) = event_sequence r)"

definition outbox_ids :: "outbox_row list \<Rightarrow> (string \<times> string \<times> int) list" where
  "outbox_ids t = map (\<lambda>r. (outbox_id r, outbox_event_id r, event_sequence r)) t"

lemma outbox_ids_update:
  "same_outbox_identity f \<Longrightarrow> outbox_ids (snd (sql_update P f t)) = outbox_ids t"
  by (simp add: outbox_ids_def sql_update_def same_outbox_identity_def)

lemma outbox_ids_cols:
  assumes "outbox_ids t' = outbox_ids t"
  shows "map outbox_id t' = map outbox_id t" and "map outbox_event_id t' = map outbox_event_id t"
    and "map event_sequence t' = map event_sequence t"
proof -
  have 1: "map outbox_id t = map fst (outbox_ids t)"
    "map outbox_event_id t = map (fst \<circ> snd) (outbox_ids t)"
    "map event_sequence t = map (snd \<circ> snd) (outbox_ids t)" for t
    by (simp_all add: outbox_ids_def)
  show "map outbox_id t' = map outbox_id t" "map outbox_event_id t' = map outbox_event_id t"
    "map event_sequence t' = map event_sequence t"
    using assms by (simp_all only: 1)
qed

lemma log_wf_outbox:
  "log_wf db \<Longrightarrow> outbox_ids t = outbox_ids (outbox db) \<Longrightarrow> log_wf (db\<lparr>outbox := t\<rparr>)"
  using outbox_ids_cols[of t "outbox db"] by (simp add: log_wf_def versions_def)

lemma same_identity_release [simp]: "same_outbox_identity (outbox_release tm)"
  by (simp add: same_outbox_identity_def outbox_release_def)

lemma same_identity_lease [simp]: "same_outbox_identity (outbox_lease owner t)"
  by (simp add: same_outbox_identity_def outbox_lease_def)

lemma claim_loop_ids:
  assumes "efold (claim_one owner expires) ids t = Inr t'"
  shows "outbox_ids t' = outbox_ids t"
proof (rule efold_invariant[where I = "\<lambda>u. outbox_ids u = outbox_ids t", OF assms])
  fix x s s'
  assume "outbox_ids s = outbox_ids t" and "claim_one owner expires x s = Inr s'"
  then show "outbox_ids s' = outbox_ids t"
    using outbox_ids_update[OF same_identity_lease]
    by (auto simp: claim_one_def split: prod.splits) (metis snd_conv)
qed simp

lemma claim_outbox_tx_frame:
  assumes "claim_outbox_tx owner tm expires n db = Inr (items, db')"
  obtains t where "db' = db\<lparr>outbox := t\<rparr>" and "outbox_ids t = outbox_ids (outbox db)"
  using assms
  by (auto simp: claim_outbox_tx_def Let_def outbox_ids_update dest!: claim_loop_ids split: if_splits)

lemma claim_outbox_wf: "log_wf db \<Longrightarrow> log_wf (snd (claim_outbox h consumer limit ttl now db))"
  unfolding claim_outbox_def
  by (auto split: sum.splits simp: Let_def intro!: db_write_invariant log_wf_outbox
      elim!: claim_outbox_tx_frame)

lemma acknowledge_outbox_wf: "log_wf db \<Longrightarrow> log_wf (snd (acknowledge_outbox h oid consumer epoch now db))"
  unfolding acknowledge_outbox_def
  by (rule db_write_invariant)
     (auto split: prod.splits intro!: log_wf_outbox simp: sql_update_def outbox_ids_def)

lemma reject_outbox_wf: "log_wf db \<Longrightarrow> log_wf (snd (reject_outbox h oid consumer epoch er d m now db))"
  unfolding reject_outbox_def
  by (rule db_write_invariant)
     (auto split: option.splits intro!: log_wf_outbox simp: sql_update_def outbox_ids_def Let_def)

lemma recover_expired_outbox_wf: "log_wf db \<Longrightarrow> log_wf (snd (recover_expired_outbox h now db))"
  unfolding recover_expired_outbox_def
  by (rule db_write_invariant)
     (auto split: prod.splits intro!: log_wf_outbox simp: sql_update_def outbox_ids_def outbox_release_def)

lemma append_event_wf: "log_wf db \<Longrightarrow> log_wf (snd (append_event h q db))"
  unfolding append_event_def by (rule db_write_invariant) (auto intro: insert_event_tx_wf)

lemma log_wf_empty: "log_wf empty_db"
  by (simp add: log_wf_def empty_db_def versions_def)

text \<open>What the other tables' operations do to the outbox: fresh rows at its end.\<close>

definition outbox_extends :: "work_db \<Rightarrow> work_db \<Rightarrow> bool" where
  "outbox_extends db db' \<longleftrightarrow> (\<exists>es. outbox db' = outbox db @ es \<and>
     (\<forall>r\<in>set es. outbox_status r = OutPending \<and> outbox_lease_epoch r = 0))"

lemma outbox_extends_same: "outbox db' = outbox db \<Longrightarrow> outbox_extends db db'"
  unfolding outbox_extends_def by (rule exI[where x = "[]"]) simp

lemma outbox_extends_trans: "outbox_extends a b \<Longrightarrow> outbox_extends b c \<Longrightarrow> outbox_extends a c"
  unfolding outbox_extends_def by (elim exE conjE) (rule_tac x = "es @ esa" in exI, auto)

lemma appended_outbox: "appended db e o' db' \<Longrightarrow> outbox_extends db db'"
  unfolding outbox_extends_def by (rule exI[where x = "[o']"]) (simp add: appended_def)

lemma outbox_extends_frame:
  "outbox_extends a b \<Longrightarrow> outbox a' = outbox a \<Longrightarrow> outbox b' = outbox b \<Longrightarrow> outbox_extends a' b'"
  by (simp add: outbox_extends_def)

section \<open>Pages of the log\<close>

text \<open>\<^verbatim>\<open>list_events(after_sequence=cursor, limit=n)\<close>: the page query of the event log.\<close>

definition event_page :: "host \<Rightarrow> work_db \<Rightarrow> int option \<Rightarrow> nat \<Rightarrow> work_event list" where
  "event_page h db cursor n =
     (case list_events h (case cursor of None \<Rightarrow> 0 | Some c \<Rightarrow> c) (int n) [] [] [] NoScope db of
        Inl e \<Rightarrow> [] | Inr es \<Rightarrow> es)"

lemma sequence_nth:
  assumes "log_wf db" and "i < length (events db)"
  shows "sequence (events db ! i) = int i + 1"
  using assms nth_counting[of i "length (events db)"] by (metis log_wf_def nth_map)

lemma sorted_events:
  assumes "log_wf db" shows "sorted (map sequence (events db))"
  using assms sorted_counting by (metis log_wf_def)

lemma events_after:
  assumes "log_wf db" and "0 \<le> c"
  shows "sort_key sequence (filter (\<lambda>e. c < sequence e) (events db)) = drop (nat c) (events db)"
proof -
  have s: "sequence (events db ! i) = int i + 1" if "i < length (events db)" for i
    using sequence_nth[OF assms(1) that] .
  have "filter (\<lambda>e. c < sequence e) (take (nat c) (events db)) = []"
    using s by (auto simp: filter_empty_conv in_set_conv_nth)
  moreover have "filter (\<lambda>e. c < sequence e) (drop (nat c) (events db)) = drop (nat c) (events db)"
    using s assms(2) by (auto simp: filter_id_conv in_set_conv_nth)
  ultimately have f: "filter (\<lambda>e. c < sequence e) (events db) = drop (nat c) (events db)"
    by (metis append.left_neutral append_take_drop_id filter_append)
  have "sorted (map sequence (drop (nat c) (events db)))"
    using sorted_events[OF assms(1)] by (metis drop_map sorted_wrt_drop)
  then show ?thesis unfolding f by (rule sort_key_id_if_sorted)
qed

lemma event_page_drop:
  assumes "log_wf db" and "1 \<le> n" and "n \<le> 5000" and "\<And>c. cursor = Some c \<Longrightarrow> 0 \<le> c"
  shows "event_page h db cursor n = take n (drop (nat (case cursor of None \<Rightarrow> 0 | Some c \<Rightarrow> c)) (events db))"
proof -
  let ?c = "case cursor of None \<Rightarrow> 0 | Some c \<Rightarrow> c"
  have c: "0 \<le> ?c" using assms(4) by (cases cursor) auto
  have "clamp_limit (int n) = n" using assms(2,3) by (simp add: clamp_limit_def)
  then show ?thesis
    using events_after[OF assms(1) c] c
    by (simp add: event_page_def list_events_def append_json_scope_visibility_def)
qed

interpretation event_log: keyset_source log_wf events "event_page h" sequence "\<lambda>c. json_text h (JInt c)" 5000
proof
  fix db n
  assume wf: "log_wf db"
  show "event_page h db None n = take n (events db)" if "1 \<le> n" "n \<le> 5000"
    using event_page_drop[OF wf that, of None h] by simp
  fix i
  assume i: "i < length (events db)"
  have si: "sequence (events db ! i) = int i + 1" by (rule sequence_nth[OF wf i])
  show "event_page h db (Some (sequence (events db ! i))) n = take n (drop (Suc i) (events db))"
    if "1 \<le> n" "n \<le> 5000"
    using event_page_drop[OF wf that, of "Some (sequence (events db ! i))" h] si
    by (simp add: nat_add_distrib)
  show "i = j" if "j < length (events db)"
    "json_text h (JInt (sequence (events db ! i))) = json_text h (JInt (sequence (events db ! j)))" for j
    using that(2) show_int_inj[of "int i + 1" "int j + 1"] si sequence_nth[OF wf that(1)] by simp
qed

section \<open>Retrying an append\<close>

text \<open>The same request again finds the event it recorded.\<close>

lemma appended_events: "appended db e o' db' \<Longrightarrow> events db' = events db @ [e]"
  by (auto simp: appended_def)

lemma insert_new:
  assumes "insert_event_tx h q db = Inr (e, db')" "clean_event_args h q = Inr c" "prior_event db c = None"
  shows "append_event_row h q c (max_version db (cl_kind c) (cl_aggregate c) + 1) db = Inr (e, db')"
    and "req_aggregate_version q = None \<or>
      req_aggregate_version q = Some (max_version db (cl_kind c) (cl_aggregate c) + 1)"
    and "req_expected_version q = None \<or>
      req_expected_version q = Some (max_version db (cl_kind c) (cl_aggregate c))"
proof -
  define m where "m = max_version db (cl_kind c) (cl_aggregate c)"
  define v where "v = (case req_aggregate_version q of None \<Rightarrow> m + 1 | Some v \<Rightarrow> v)"
  have "(case req_expected_version q of None \<Rightarrow> True | Some x \<Rightarrow> m = x) \<and> v = m + 1 \<and>
      append_event_row h q c v db = Inr (e, db')"
    using assms(1) unfolding insert_event_tx_def assms(2) ebind_Inr assms(3) option.case Let_def m_def[symmetric]
      v_def[symmetric] ebind_eq_Inr require_eq_Inr by blast
  then show "append_event_row h q c (max_version db (cl_kind c) (cl_aggregate c) + 1) db = Inr (e, db')"
    and "req_aggregate_version q = None \<or>
      req_aggregate_version q = Some (max_version db (cl_kind c) (cl_aggregate c) + 1)"
    and "req_expected_version q = None \<or>
      req_expected_version q = Some (max_version db (cl_kind c) (cl_aggregate c))"
    by (auto simp: v_def m_def split: option.splits)
qed

lemma append_retry:
  assumes run: "append_event h q db = (Inr e, db1)" and idem: "py_strip (req_idempotency_key q) \<noteq> []"
    and ok: "json_ok (JObj (req_payload q))" and new: "db1 \<noteq> db"
  shows "append_event h q db1 = (Inr e, db1)"
proof -
  from run have ins: "insert_event_tx h q db = Inr (e, db1)" and nf: "''work.before_commit'' \<notin> set (faults h)"
    by (simp_all add: append_event_def db_write_Inr)
  from ins obtain c where c: "clean_event_args h q = Inr c" by (auto simp: insert_event_tx_def)
  from c have ci: "cl_idem c \<noteq> []" and cp: "cl_payload c = req_payload q"
    using idem by (auto simp: clean_event_args_def Let_def text_arg_Inr)
  have np: "prior_event db c = None"
    using ins c new by (auto simp: insert_event_tx_def split: option.splits)
  let ?v = "max_version db (cl_kind c) (cl_aggregate c) + 1"
  have row: "append_event_row h q c ?v db = Inr (e, db1)"
    and ver: "req_aggregate_version q = None \<or> req_aggregate_version q = Some ?v"
    and exp: "req_expected_version q = None \<or> req_expected_version q = Some (?v - 1)"
    using insert_new[OF ins c np] by simp_all
  have e: "e = new_event_row h q c ?v (onorm (cl_payload c)) db"
    by (rule append_event_row_Inr(2)[OF row np])
  have evs: "events db1 = events db @ [e]"
    by (rule appended_events[OF append_event_row_Inr(1)[OF row np]])
  have "find (\<lambda>e. aggregate_kind e = cl_kind c \<and> aggregate_id e = cl_aggregate c \<and>
      event_idempotency_key e = cl_idem c) (events db) = None"
    using np ci by (simp add: prior_event_def)
  then have found: "prior_event db1 c = Some e"
    using ci by (simp add: prior_event_def evs find_append e)
  have "same_event_request h q c e"
    using ver exp py_eq_onorm[OF ok] cp
    by (auto simp: same_event_request_def e new_event_row_def)
  then have "insert_event_tx h q db1 = Inr (e, db1)"
    using c found by (simp add: insert_event_tx_def)
  then show ?thesis using nf by (simp add: append_event_def db_write_Inr)
qed

end
