(* ===== verification/Work_Jobs.thy ===== *)
theory Work_Jobs
  imports Work_Events
begin

text \<open>
  The durable job table of \<^verbatim>\<open>WorkRepository\<close>: creation with idempotency, leasing with epochs,
  the worker's fenced mutations, cancellation, retry and the recovery of expired leases.
  Every mutation is a compare-and-set UPDATE, then an event of the new revision, in one
  transaction.
\<close>

section \<open>Rows, guards and the common tail\<close>

definition job_payload :: "job_row \<Rightarrow> jobject \<Rightarrow> jobject" where
  "job_payload row extra = jupdate
     [(''job_id'', JStr (job_id row)), (''kind'', JStr (job_kind row)),
      (''status'', JStr (status_text (status row))), (''revision'', JInt (revision row)),
      (''attempt'', JInt (attempt row)), (''max_attempts'', JInt (max_attempts row)),
      (''continuation'', JBool (continuation row)), (''progress'', JObj (progress row)),
      (''cancel_requested'', JBool (cancel_requested row))] extra"

text \<open>Tracing identifiers of a job event: correlation, causation and idempotency key.\<close>

record trace_ids =
  trace_correlation :: string
  trace_causation :: string
  trace_idempotency :: string

definition no_trace :: trace_ids where
  "no_trace = \<lparr>trace_correlation = [], trace_causation = [], trace_idempotency = []\<rparr>"

definition job_event_tx ::
  "host \<Rightarrow> job_row \<Rightarrow> string \<Rightarrow> work_actor option \<Rightarrow> jobject \<Rightarrow> trace_ids \<Rightarrow> (work_db, work_event) body" where
  "job_event_tx h row etype actor extra tr db =
     ebind (insert_event_tx h (event_request0\<lparr>req_event_type := etype,
         req_aggregate_kind := ''job'', req_aggregate_id := job_id row,
         req_aggregate_version := Some (revision row),
         req_expected_version := Some (revision row - 1),
         req_scope := AScope (job_scope row), req_actor := actor,
         req_correlation_id := trace_correlation tr, req_causation_id := trace_causation tr,
         req_idempotency_key := trace_idempotency tr,
         req_payload := job_payload row extra\<rparr>) db) (\<lambda>(e, db1).
     Inr (e, db1\<lparr>jobs := snd (sql_update (\<lambda>r. job_id r = job_id row)
       (\<lambda>r. r\<lparr>event_cursor := sequence e\<rparr>) (jobs db1))\<rparr>))"

definition job_row_tx :: "string \<Rightarrow> work_db \<Rightarrow> job_row res" where
  "job_row_tx jid db =
     (case find (\<lambda>r. job_id r = jid) (jobs db) of
        None \<Rightarrow> Inl (WorkNotFound (''unknown work job: '' @ jid))
      | Some row \<Rightarrow> Inr row)"

definition expect_revision :: "job_row \<Rightarrow> int option \<Rightarrow> unit res" where
  "expect_revision row expected =
     require (case expected of None \<Rightarrow> True | Some v \<Rightarrow> revision row = v)
       (WorkConflict (''job revision changed for '' @ job_id row))"

definition expect_lease :: "job_row \<Rightarrow> string \<Rightarrow> int \<Rightarrow> rat \<Rightarrow> job_status set \<Rightarrow> unit res" where
  "expect_lease row owner epoch now allowed =
     ebind (require (status row \<in> allowed)
       (LeaseLost (''job '' @ job_id row @ '' is not in a leased state''))) (\<lambda>_.
     ebind (require (lease_owner row = owner \<and> lease_epoch row = epoch)
       (LeaseLost (''job lease epoch lost for '' @ job_id row))) (\<lambda>_.
     require (now < (case lease_expires_at row of None \<Rightarrow> 0 | Some t \<Rightarrow> t))
       (LeaseLost (''job lease expired for '' @ job_id row))))"

text \<open>
  The statement sequence every mutation shares: \<^verbatim>\<open>UPDATE .. WHERE job_id=? AND revision=?\<close> with
  the row-count check, then re-read the row, append its event, move the cursor, return the job.
\<close>

definition cas_job :: "string \<Rightarrow> job_row \<Rightarrow> (job_row \<Rightarrow> job_row) \<Rightarrow> string \<Rightarrow> work_db \<Rightarrow> work_db res" where
  "cas_job jid row f message db =
     (case sql_update (\<lambda>r. job_id r = jid \<and> revision r = revision row) f (jobs db) of (n, t) \<Rightarrow>
        ebind (require (n = 1) (WorkConflict (message @ jid))) (\<lambda>_. Inr (db\<lparr>jobs := t\<rparr>)))"

definition emit_job ::
  "host \<Rightarrow> string \<Rightarrow> string \<Rightarrow> work_actor option \<Rightarrow> (job_row \<Rightarrow> jobject) \<Rightarrow> trace_ids \<Rightarrow> (work_db, job_row) body" where
  "emit_job h jid etype actor extra tr db =
     ebind (job_row_tx jid db) (\<lambda>row.
     ebind (job_event_tx h row etype actor (extra row) tr db) (\<lambda>(e, db').
     ebind (job_row_tx jid db') (\<lambda>job. Inr (job, db'))))"

section \<open>Creation\<close>

record job_request =
  jr_kind :: string
  jr_owner_kind :: string
  jr_owner_id :: string
  jr_scope :: scope_arg
  jr_priority :: int
  jr_input_manifest :: jobject
  jr_artifact_refs :: "string list"
  jr_retry_policy :: jobject
  jr_max_attempts :: int
  jr_idempotency_key :: string
  jr_available_at :: "rat option"
  jr_job_id :: string
  jr_actor :: "work_actor option"
  jr_correlation_id :: string

definition job_request_fingerprint ::
  "host \<Rightarrow> string \<Rightarrow> string \<Rightarrow> string \<Rightarrow> work_scope \<Rightarrow> string list \<Rightarrow> job_request \<Rightarrow> string" where
  "job_request_fingerprint h kind okind oid scope refs q = json_fingerprint h ''work.job.create'' (JObj
     [(''kind'', JStr kind),
      (''owner'', JObj [(''kind'', JStr okind), (''id'', JStr oid)]),
      (''scope'', JObj (to_dict scope)),
      (''priority'', JInt (jr_priority q)),
      (''input_manifest'', JObj (jr_input_manifest q)),
      (''artifact_refs'', JArr (map JStr refs)),
      (''retry_policy'', JObj (jr_retry_policy q)),
      (''max_attempts'', JInt (max 1 (jr_max_attempts q)))])"

text \<open>The idempotent replay test of \<^verbatim>\<open>create_job\<close>.\<close>

definition same_job_request ::
  "job_request \<Rightarrow> string \<Rightarrow> string \<Rightarrow> work_scope \<Rightarrow> string list \<Rightarrow> job_row \<Rightarrow> bool" where
  "same_job_request q fingerprint requested scope refs prior \<longleftrightarrow>
     job_fingerprint prior = fingerprint \<and>
     (requested = [] \<or> job_id prior = requested) \<and>
     job_scope prior = scope \<and>
     priority prior = jr_priority q \<and>
     py_eq (JObj (input_manifest prior)) (JObj (jr_input_manifest q)) \<and>
     artifact_refs prior = refs \<and>
     py_eq (JObj (retry_policy prior)) (JObj (jr_retry_policy q)) \<and>
     max_attempts prior = max 1 (jr_max_attempts q) \<and>
     (case jr_available_at q of None \<Rightarrow> True | Some t \<Rightarrow> available_at prior = t)"

text \<open>The cleaned arguments of a creation.\<close>

record clean_job =
  cj_scope :: work_scope
  cj_kind :: string
  cj_owner_kind :: string
  cj_owner_id :: string
  cj_idem :: string
  cj_refs :: "string list"
  cj_requested :: string

definition clean_job_args :: "host \<Rightarrow> job_request \<Rightarrow> clean_job res" where
  "clean_job_args h q =
     ebind (coerce_work_scope h (jr_scope q)) (\<lambda>scope.
     ebind (text_arg (jr_kind q) ''job kind'' True 240) (\<lambda>kind.
     ebind (text_arg (jr_owner_kind q) ''owner kind'' True 100) (\<lambda>okind.
     ebind (text_arg (jr_owner_id q) ''owner id'' True 512) (\<lambda>oid.
     ebind (text_arg (jr_idempotency_key q) ''idempotency_key'' False 512) (\<lambda>idem.
     ebind (emap (\<lambda>r. text_arg r ''artifact ref'' True 2000) (jr_artifact_refs q)) (\<lambda>refs.
     ebind (require (length refs \<le> 1000)
       (ValueError ''a job cannot reference more than 1000 input artifacts'')) (\<lambda>_.
     ebind (text_arg (jr_job_id q) ''job_id'' False 512) (\<lambda>requested.
     Inr \<lparr>cj_scope = scope, cj_kind = kind, cj_owner_kind = okind, cj_owner_id = oid,
          cj_idem = idem, cj_refs = refs, cj_requested = requested\<rparr>))))))))"

definition new_job_id :: "host \<Rightarrow> clean_job \<Rightarrow> work_db \<Rightarrow> string" where
  "new_job_id h c db =
     (if cj_requested c \<noteq> [] then cj_requested c else new_id ''job'' (uuid4 h (draws db)))"

definition new_job_row ::
  "host \<Rightarrow> job_request \<Rightarrow> clean_job \<Rightarrow> jobject \<Rightarrow> jobject \<Rightarrow> work_db \<Rightarrow> job_row" where
  "new_job_row h q c manifest policy db =
     \<lparr>job_id = new_job_id h c db, owner_kind = cj_owner_kind c, owner_id = cj_owner_id c,
      job_kind = cj_kind c, status = Queued, job_scope = cj_scope c, priority = jr_priority q,
      revision = 1, input_manifest = manifest, artifact_refs = cj_refs c, lease_owner = [],
      lease_epoch = 0, lease_expires_at = None, continuation = False, sync_handler = False,
      attempt = 0, max_attempts = max 1 (jr_max_attempts q), retry_policy = policy,
      progress = [], event_cursor = 0, result_ref = [], diagnostics_ref = [],
      idempotency_key = cj_idem c, job_fingerprint = job_request_fingerprint h (cj_kind c)
        (cj_owner_kind c) (cj_owner_id c) (cj_scope c) (cj_refs c) q,
      cancel_requested = False, cancel_reason = [], available_at = or_now h (jr_available_at q),
      created_at = clock h, started_at = None, heartbeat_at = None, updated_at = clock h,
      completed_at = None, job_error = []\<rparr>"

definition insert_job_tx :: "host \<Rightarrow> job_request \<Rightarrow> clean_job \<Rightarrow> (work_db, job_row) body" where
  "insert_job_tx h q c db =
     ebind (store_json h (to_dict (cj_scope c))) (\<lambda>_.
     ebind (store_json h (jr_input_manifest q)) (\<lambda>manifest.
     ebind (require (utf8_length (json_text h (JArr (map JStr (cj_refs c)))) \<le> max_inline_json h)
       (ValueError ''inline Work Fabric JSON exceeds the configured limit; store it as an artifact'')) (\<lambda>_.
     ebind (store_json h (jr_retry_policy q)) (\<lambda>policy.
     let row = new_job_row h q c manifest policy db in
     ebind (require (job_id row \<notin> job_id ` set (jobs db)) (IntegrityError ''work_job.job_id'')) (\<lambda>_.
     emit_job h (job_id row) ''job.created'' (jr_actor q) (\<lambda>_. [])
       (no_trace\<lparr>trace_correlation := jr_correlation_id q, trace_idempotency := cj_idem c\<rparr>)
       (db\<lparr>draws := Suc (draws db), jobs := jobs db @ [row]\<rparr>))))))"

text \<open>The recorded job an idempotency key names, if any.\<close>

definition prior_job :: "clean_job \<Rightarrow> work_db \<Rightarrow> job_row option" where
  "prior_job c db =
     (if cj_idem c = [] then None
      else find (\<lambda>r. owner_kind r = cj_owner_kind c \<and> owner_id r = cj_owner_id c \<and>
                     job_kind r = cj_kind c \<and> idempotency_key r = cj_idem c) (jobs db))"

definition create_job_tx :: "host \<Rightarrow> job_request \<Rightarrow> (work_db, job_row) body" where
  "create_job_tx h q db =
     ebind (clean_job_args h q) (\<lambda>c.
     case prior_job c db of
       Some prior \<Rightarrow>
         ebind (require (same_job_request q (job_request_fingerprint h (cj_kind c)
             (cj_owner_kind c) (cj_owner_id c) (cj_scope c) (cj_refs c) q)
             (cj_requested c) (cj_scope c) (cj_refs c) prior)
           (WorkConflict ''job idempotency key was reused with different arguments''))
         (\<lambda>_. Inr (prior, db))
     | None \<Rightarrow> insert_job_tx h q c db)"

definition create_job :: "host \<Rightarrow> job_request \<Rightarrow> work_db \<Rightarrow> job_row res \<times> work_db" where
  "create_job h q db = db_write h (create_job_tx h q) db"

section \<open>Reading\<close>

definition get_job :: "string \<Rightarrow> work_db \<Rightarrow> job_row option" where
  "get_job jid db = find (\<lambda>r. job_id r = jid) (jobs db)"

definition get_job_by_idempotency ::
  "string \<Rightarrow> string \<Rightarrow> string \<Rightarrow> string \<Rightarrow> work_db \<Rightarrow> job_row option" where
  "get_job_by_idempotency okind oid kind idem db =
     find (\<lambda>r. owner_kind r = okind \<and> owner_id r = oid \<and> job_kind r = kind \<and>
               idempotency_key r = idem) (jobs db)"

record job_filter =
  jf_statuses :: "string list"
  jf_cancel_requested :: "bool option"
  jf_kind :: string
  jf_owner_kind :: string
  jf_owner_id :: string
  jf_chat_id :: string
  jf_workspace_id :: string
  jf_goal_id :: string
  jf_scope :: scope_arg
  jf_limit :: int

definition matches :: "string \<Rightarrow> string \<Rightarrow> bool" where
  "matches wanted have' \<longleftrightarrow> wanted = [] \<or> have' = wanted"

definition list_jobs :: "host \<Rightarrow> job_filter \<Rightarrow> work_db \<Rightarrow> job_row list res" where
  "list_jobs h f db =
     ebind (require (list_all (\<lambda>t. job_status_of t \<noteq> None) (jf_statuses f))
       (ValueError ''unknown job state(s)'')) (\<lambda>_.
     ebind (append_json_scope_visibility h (jf_scope f) []) (\<lambda>clauses.
     Inr (take (clamp_limit (jf_limit f))
       (sort_key (\<lambda>r. (- updated_at r, - priority r, job_id r)) (filter (\<lambda>r.
         (jf_statuses f = [] \<or> status_text (status r) \<in> set (jf_statuses f)) \<and>
         (case jf_cancel_requested f of None \<Rightarrow> True | Some b \<Rightarrow> cancel_requested r = b) \<and>
         matches (jf_kind f) (job_kind r) \<and> matches (jf_owner_kind f) (owner_kind r) \<and>
         matches (jf_owner_id f) (owner_id r) \<and> matches (jf_chat_id f) (chat_id (job_scope r)) \<and>
         matches (jf_workspace_id f) (workspace_id (job_scope r)) \<and>
         matches (jf_goal_id f) (goal_id (job_scope r)) \<and>
         list_all (\<lambda>cl. cl (to_dict (job_scope r))) clauses) (jobs db))))))"

section \<open>The worker's operations\<close>

definition leasable :: "rat \<Rightarrow> string list \<Rightarrow> string list \<Rightarrow> job_row \<Rightarrow> bool" where
  "leasable tm kinds excluded r \<longleftrightarrow>
     status r = Queued \<and> available_at r \<le> tm \<and> \<not> cancel_requested r \<and>
     (attempt r < max_attempts r \<or> continuation r) \<and>
     (kinds = [] \<or> job_kind r \<in> set kinds) \<and> job_id r \<notin> set excluded"

definition lease_order :: "job_row \<Rightarrow> int \<times> rat \<times> rat \<times> string" where
  "lease_order r = (- priority r, available_at r, created_at r, job_id r)"

definition lease_row :: "string \<Rightarrow> rat \<Rightarrow> rat \<Rightarrow> job_row \<Rightarrow> job_row" where
  "lease_row owner expires tm r = r\<lparr>status := Leased, lease_owner := owner,
     lease_epoch := lease_epoch r + 1, lease_expires_at := Some expires,
     attempt := attempt r + (if continuation r then 0 else 1), revision := revision r + 1,
     heartbeat_at := Some tm, updated_at := tm,
     started_at := (case started_at r of None \<Rightarrow> Some tm | Some t \<Rightarrow> Some t), job_error := []\<rparr>"

definition lease_next_job_tx ::
  "host \<Rightarrow> string \<Rightarrow> rat \<Rightarrow> rat \<Rightarrow> string list \<Rightarrow> string list \<Rightarrow> (work_db, job_row option) body" where
  "lease_next_job_tx h owner tm expires kinds excluded db =
     (case sort_key lease_order (filter (leasable tm kinds excluded) (jobs db)) of
        [] \<Rightarrow> Inr (None, db)
      | row # _ \<Rightarrow>
          (case sql_update (\<lambda>r. job_id r = job_id row \<and> status r = Queued \<and> revision r = revision row)
             (lease_row owner expires tm) (jobs db) of (n, t) \<Rightarrow>
           ebind (require (n = 1) (WorkConflict (''job claim lost for '' @ job_id row))) (\<lambda>_.
           ebind (emit_job h (job_id row) ''job.leased'' (Some (worker_actor owner))
             (\<lambda>r. [(''lease_epoch'', JInt (lease_epoch r)), (''lease_expires_at'', JFloat expires)])
             no_trace (db\<lparr>jobs := t\<rparr>)) (\<lambda>(job, db'). Inr (Some job, db')))))"

definition lease_next_job ::
  "host \<Rightarrow> string \<Rightarrow> string list \<Rightarrow> string list \<Rightarrow> rat \<Rightarrow> rat option \<Rightarrow> work_db \<Rightarrow>
   job_row option res \<times> work_db" where
  "lease_next_job h lease_owner' kinds excluded ttl now db =
     (case ebind (text_arg lease_owner' ''lease_owner'' True 512) (\<lambda>owner.
        ebind (emap (\<lambda>k. text_arg k ''job kind'' True 240) kinds) (\<lambda>ks. Inr (owner, ks))) of
        Inl e \<Rightarrow> (Inl e, db)
      | Inr (owner, ks) \<Rightarrow>
          let tm = or_now h now in
          db_write h (lease_next_job_tx h owner tm (tm + max 2 ttl) ks excluded) db)"

definition start_row :: "bool \<Rightarrow> rat \<Rightarrow> job_row \<Rightarrow> job_row" where
  "start_row sync tm r = r\<lparr>status := Running, continuation := False, sync_handler := sync,
     revision := revision r + 1, heartbeat_at := Some tm, updated_at := tm\<rparr>"

definition start_job ::
  "host \<Rightarrow> string \<Rightarrow> string \<Rightarrow> int \<Rightarrow> bool \<Rightarrow> int option \<Rightarrow> rat option \<Rightarrow> work_db \<Rightarrow> job_row res \<times> work_db" where
  "start_job h jid owner epoch sync expected now db =
     db_write h (\<lambda>db.
       let tm = or_now h now in
       ebind (job_row_tx jid db) (\<lambda>row.
       ebind (expect_revision row expected) (\<lambda>_.
       ebind (expect_lease row owner epoch tm {Leased}) (\<lambda>_.
       ebind (cas_job jid row (start_row sync tm)
         ''job start CAS lost for '' db) (\<lambda>db1.
       emit_job h jid ''job.started'' (Some (worker_actor owner)) (\<lambda>_. []) no_trace db1))))) db"

definition progress_column :: "host \<Rightarrow> jobject option \<Rightarrow> job_row \<Rightarrow> jobject res" where
  "progress_column h p row = (case p of None \<Rightarrow> Inr (progress row) | Some o' \<Rightarrow> store_json h o')"

definition heartbeat_row :: "rat \<Rightarrow> rat \<Rightarrow> jobject \<Rightarrow> job_row \<Rightarrow> job_row" where
  "heartbeat_row expires tm pj r = r\<lparr>lease_expires_at := Some expires, heartbeat_at := Some tm,
     updated_at := tm, progress := pj\<rparr>"

definition heartbeat_job ::
  "host \<Rightarrow> string \<Rightarrow> string \<Rightarrow> int \<Rightarrow> rat \<Rightarrow> jobject option \<Rightarrow> rat option \<Rightarrow> work_db \<Rightarrow> job_row res \<times> work_db" where
  "heartbeat_job h jid owner epoch ttl p now db =
     db_write h (\<lambda>db.
       let tm = or_now h now in
       ebind (job_row_tx jid db) (\<lambda>row.
       ebind (expect_lease row owner epoch tm job_leased_states) (\<lambda>_.
       ebind (progress_column h p row) (\<lambda>pj.
       ebind (cas_job jid row (heartbeat_row (tm + max 2 ttl) tm pj)
         ''job heartbeat CAS lost for '' db) (\<lambda>db1.
       ebind (job_row_tx jid db1) (\<lambda>job. Inr (job, db1))))))) db"

definition progress_row :: "rat \<Rightarrow> jobject \<Rightarrow> job_row \<Rightarrow> job_row" where
  "progress_row tm pj r = r\<lparr>progress := pj, revision := revision r + 1, updated_at := tm\<rparr>"

definition update_job_progress ::
  "host \<Rightarrow> string \<Rightarrow> jobject \<Rightarrow> string \<Rightarrow> int \<Rightarrow> int option \<Rightarrow> bool \<Rightarrow> work_actor option \<Rightarrow>
   rat option \<Rightarrow> work_db \<Rightarrow> job_row res \<times> work_db" where
  "update_job_progress h jid p owner epoch expected merge actor now db =
     db_write h (\<lambda>db.
       let tm = or_now h now in
       ebind (job_row_tx jid db) (\<lambda>row.
       ebind (expect_revision row expected) (\<lambda>_.
       ebind (if status row \<in> job_leased_states
              then expect_lease row owner epoch tm job_leased_states
              else require (status row \<in> {Waiting, Paused})
                (InvalidTransition (''cannot update progress for '' @ jid))) (\<lambda>_.
       ebind (store_json h (if merge then jupdate (progress row) p else p)) (\<lambda>pj.
       ebind (cas_job jid row (progress_row tm pj)
         ''job progress CAS lost for '' db) (\<lambda>db1.
       emit_job h jid ''job.progressed''
         (Some (case actor of Some a \<Rightarrow> a
                | None \<Rightarrow> worker_actor (if owner = [] then ''variant1'' else owner)))
         (\<lambda>_. []) no_trace db1)))))) db"

definition waiting_row :: "rat \<Rightarrow> jobject \<Rightarrow> job_row \<Rightarrow> job_row" where
  "waiting_row tm pj r = r\<lparr>status := Waiting, progress := pj, lease_owner := [],
     lease_expires_at := None, continuation := True, revision := revision r + 1,
     updated_at := tm\<rparr>"

definition mark_job_waiting ::
  "host \<Rightarrow> string \<Rightarrow> string \<Rightarrow> int \<Rightarrow> jobject option \<Rightarrow> rat option \<Rightarrow> work_db \<Rightarrow> job_row res \<times> work_db" where
  "mark_job_waiting h jid owner epoch p now db =
     db_write h (\<lambda>db.
       let tm = or_now h now in
       ebind (job_row_tx jid db) (\<lambda>row.
       ebind (expect_lease row owner epoch tm {Running}) (\<lambda>_.
       ebind (progress_column h p row) (\<lambda>pj.
       ebind (cas_job jid row (waiting_row tm pj) ''job wait CAS lost for '' db) (\<lambda>db1.
       emit_job h jid ''job.waiting'' (Some (worker_actor owner)) (\<lambda>_. []) no_trace db1))))) db"

definition wake_row :: "rat \<Rightarrow> rat \<Rightarrow> job_row \<Rightarrow> job_row" where
  "wake_row ready_at tm r = r\<lparr>status := Queued, available_at := ready_at,
     cancel_requested := False, cancel_reason := [], revision := revision r + 1,
     updated_at := tm\<rparr>"

definition wake_job ::
  "host \<Rightarrow> string \<Rightarrow> int option \<Rightarrow> rat option \<Rightarrow> work_actor option \<Rightarrow> work_db \<Rightarrow> job_row res \<times> work_db" where
  "wake_job h jid expected available actor db =
     db_write h (\<lambda>db.
       let tm = clock h; ready_at = (case available of None \<Rightarrow> tm | Some t \<Rightarrow> t) in
       ebind (job_row_tx jid db) (\<lambda>row.
       ebind (expect_revision row expected) (\<lambda>_.
       ebind (require (status row \<in> {Waiting, Paused}) (InvalidTransition (''cannot wake '' @ jid))) (\<lambda>_.
       ebind (cas_job jid row (wake_row ready_at tm) ''job wake CAS lost for '' db) (\<lambda>db1.
       emit_job h jid ''job.woken'' actor (\<lambda>_. []) no_trace db1))))) db"

definition pause_row :: "rat \<Rightarrow> jobject \<Rightarrow> job_row \<Rightarrow> job_row" where
  "pause_row tm pj r = r\<lparr>status := Paused, progress := pj, revision := revision r + 1, updated_at := tm\<rparr>"

definition pause_job ::
  "host \<Rightarrow> string \<Rightarrow> string \<Rightarrow> int option \<Rightarrow> work_actor option \<Rightarrow> work_db \<Rightarrow> job_row res \<times> work_db" where
  "pause_job h jid reason expected actor db =
     db_write h (\<lambda>db.
       let tm = clock h in
       ebind (job_row_tx jid db) (\<lambda>row.
       ebind (expect_revision row expected) (\<lambda>_.
       ebind (require (status row \<in> {Queued, Waiting})
         (InvalidTransition ''only queued or waiting jobs can pause immediately'')) (\<lambda>_.
       ebind (if reason = [] then Inr (progress row)
              else ebind (text_arg reason ''pause reason'' False 4000) (\<lambda>t.
                Inr (jset (progress row) ''pause_reason'' (JStr t)))) (\<lambda>p.
       ebind (store_json h p) (\<lambda>pj.
       ebind (cas_job jid row (pause_row tm pj) ''job pause CAS lost for '' db) (\<lambda>db1.
       emit_job h jid ''job.paused'' actor (\<lambda>_. []) no_trace db1))))))) db"

section \<open>Cancellation\<close>

definition cancel_immediate_states :: "job_status set" where
  "cancel_immediate_states = {Queued, Waiting, Paused, Leased}"

definition cancel_row :: "bool \<Rightarrow> string \<Rightarrow> rat \<Rightarrow> job_row \<Rightarrow> job_row" where
  "cancel_row immediate reason tm r = r\<lparr>
     status := (if immediate then Cancelled else status r), cancel_requested := True,
     cancel_reason := reason,
     lease_owner := (if immediate then [] else lease_owner r),
     lease_expires_at := (if immediate then None else lease_expires_at r),
     completed_at := (if immediate then Some tm else None),
     revision := revision r + 1, updated_at := tm\<rparr>"

definition request_job_cancel ::
  "host \<Rightarrow> string \<Rightarrow> string \<Rightarrow> int option \<Rightarrow> work_actor option \<Rightarrow> work_db \<Rightarrow> job_row res \<times> work_db" where
  "request_job_cancel h jid reason expected actor db =
     (case text_arg reason ''cancel reason'' False 4000 of
        Inl e \<Rightarrow> (Inl e, db)
      | Inr clean_reason \<Rightarrow> db_write h (\<lambda>db.
          let tm = clock h in
          ebind (job_row_tx jid db) (\<lambda>row.
          ebind (expect_revision row expected) (\<lambda>_.
          if status row \<in> job_terminal_states then Inr (row, db)
          else if cancel_requested row then Inr (row, db)
          else
            let immediate = (status row \<in> cancel_immediate_states) in
            ebind (cas_job jid row (cancel_row immediate clean_reason tm)
              ''job cancellation CAS lost for '' db) (\<lambda>db1.
            emit_job h jid (if immediate then ''job.cancelled'' else ''job.cancel_requested'') actor
              (\<lambda>_. [(''reason'', JStr clean_reason)]) no_trace db1)))) db)"

definition acknowledged_row :: "rat \<Rightarrow> job_row \<Rightarrow> job_row" where
  "acknowledged_row tm r = r\<lparr>status := Cancelled, lease_owner := [], lease_expires_at := None,
     completed_at := Some tm, revision := revision r + 1, updated_at := tm\<rparr>"

text \<open>The UPDATE of \<^verbatim>\<open>acknowledge_job_cancel\<close> has no row-count check.\<close>

definition acknowledge_job_cancel ::
  "host \<Rightarrow> string \<Rightarrow> string \<Rightarrow> int \<Rightarrow> rat option \<Rightarrow> work_db \<Rightarrow> job_row res \<times> work_db" where
  "acknowledge_job_cancel h jid owner epoch now db =
     db_write h (\<lambda>db.
       let tm = or_now h now in
       ebind (job_row_tx jid db) (\<lambda>row.
       if status row = Cancelled then Inr (row, db)
       else
         ebind (expect_lease row owner epoch tm job_leased_states) (\<lambda>_.
         ebind (require (cancel_requested row)
           (InvalidTransition (''job '' @ jid @ '' has no cancellation request''))) (\<lambda>_.
         emit_job h jid ''job.cancelled'' (Some (worker_actor owner)) (\<lambda>_. []) no_trace
           (db\<lparr>jobs := snd (sql_update (\<lambda>r. job_id r = jid \<and> revision r = revision row) (acknowledged_row tm) (jobs db))\<rparr>))))) db"

section \<open>Settlement\<close>

record finish_request =
  fr_status :: string
  fr_lease_owner :: string
  fr_lease_epoch :: int
  fr_result_ref :: string
  fr_diagnostics_ref :: string
  fr_progress :: "jobject option"
  fr_error :: string
  fr_now :: "rat option"

definition finish_targets :: "job_status set" where
  "finish_targets = {Succeeded, Failed, Cancelled, UnknownEffect}"

definition finish_row ::
  "job_status \<Rightarrow> string \<Rightarrow> string \<Rightarrow> jobject \<Rightarrow> string \<Rightarrow> rat \<Rightarrow> job_row \<Rightarrow> job_row" where
  "finish_row target rref dref pj err tm r = r\<lparr>status := target, result_ref := rref,
     diagnostics_ref := dref, progress := pj, job_error := err, lease_owner := [],
     lease_expires_at := None, completed_at := Some tm, revision := revision r + 1,
     updated_at := tm\<rparr>"

text \<open>\<open>finish_job_tx\<close> is the body, which \<^verbatim>\<open>_connection\<close> lets a caller run in its own transaction.\<close>

definition finish_job_tx :: "host \<Rightarrow> string \<Rightarrow> finish_request \<Rightarrow> (work_db, job_row) body" where
  "finish_job_tx h jid q db =
     (let target = job_status_of (fr_status q); tm = or_now h (fr_now q) in
      ebind (require (target \<noteq> None \<and> the target \<in> finish_targets)
        (ValueError (''invalid terminal job state: '' @ fr_status q))) (\<lambda>_.
      ebind (job_row_tx jid db) (\<lambda>row.
      ebind (expect_lease row (fr_lease_owner q) (fr_lease_epoch q) tm job_leased_states) (\<lambda>_.
      ebind (require (\<not> (cancel_requested row \<and> the target = Succeeded))
        (InvalidTransition (''job '' @ jid @ '' cannot succeed after cancellation was requested''))) (\<lambda>_.
      ebind (progress_column h (fr_progress q) row) (\<lambda>pj.
      ebind (text_arg (fr_result_ref q) ''result_ref'' False 2000) (\<lambda>rref.
      ebind (text_arg (fr_diagnostics_ref q) ''diagnostics_ref'' False 2000) (\<lambda>dref.
      ebind (text_arg (fr_error q) ''job error'' False 16000) (\<lambda>err.
      ebind (cas_job jid row (finish_row (the target) rref dref pj err tm) ''job finish CAS lost for '' db) (\<lambda>db1.
      emit_job h jid (''job.'' @ fr_status q) (Some (worker_actor (fr_lease_owner q)))
        (\<lambda>r. [(''result_ref'', JStr (result_ref r)), (''diagnostics_ref'', JStr (diagnostics_ref r)),
             (''error'', JStr (job_error r))]) no_trace db1))))))))))"

definition finish_job :: "host \<Rightarrow> string \<Rightarrow> finish_request \<Rightarrow> work_db \<Rightarrow> job_row res \<times> work_db" where
  "finish_job h jid q db = db_write h (finish_job_tx h jid q) db"

definition release_target :: "bool \<Rightarrow> job_row \<Rightarrow> job_status" where
  "release_target unknown_effect row =
     (if cancel_requested row then Cancelled
      else if unknown_effect then UnknownEffect
      else if attempt row < max_attempts row then Queued
      else Failed)"

fun release_event :: "job_status \<Rightarrow> string" where
  "release_event Queued = ''job.retry_scheduled''"
| "release_event Cancelled = ''job.cancelled''"
| "release_event UnknownEffect = ''job.unknown_effect''"
| "release_event _ = ''job.failed''"

definition release_row :: "job_status \<Rightarrow> rat \<Rightarrow> string \<Rightarrow> rat \<Rightarrow> job_row \<Rightarrow> job_row" where
  "release_row target available err tm r = r\<lparr>status := target, available_at := available,
     job_error := err, lease_owner := [], lease_expires_at := None,
     completed_at := (if target \<in> job_terminal_states then Some tm else None),
     revision := revision r + 1, updated_at := tm\<rparr>"

definition release_job ::
  "host \<Rightarrow> string \<Rightarrow> string \<Rightarrow> int \<Rightarrow> string \<Rightarrow> rat \<Rightarrow> bool \<Rightarrow> rat option \<Rightarrow> work_db \<Rightarrow> job_row res \<times> work_db" where
  "release_job h jid owner epoch error retry_delay unknown_effect now db =
     db_write h (\<lambda>db.
       let tm = or_now h now in
       ebind (job_row_tx jid db) (\<lambda>row.
       ebind (expect_lease row owner epoch tm job_leased_states) (\<lambda>_.
       let target = release_target unknown_effect row;
           available = tm + max 0 retry_delay in
       ebind (text_arg error ''job error'' False 16000) (\<lambda>err.
       ebind (cas_job jid row (release_row target available err tm) ''job release CAS lost for '' db) (\<lambda>db1.
       emit_job h jid (release_event target) (Some (worker_actor owner))
         (\<lambda>r. [(''error'', JStr (job_error r)), (''available_at'', JFloat available)]) no_trace db1))))) db"

definition retry_row :: "bool \<Rightarrow> rat \<Rightarrow> rat \<Rightarrow> job_row \<Rightarrow> job_row" where
  "retry_row reset ready_at tm r = r\<lparr>status := Queued, attempt := (if reset then 0 else attempt r),
     available_at := ready_at, result_ref := [], diagnostics_ref := [], job_error := [],
     cancel_requested := False, cancel_reason := [], continuation := False,
     completed_at := None, revision := revision r + 1, updated_at := tm\<rparr>"

definition retry_job ::
  "host \<Rightarrow> string \<Rightarrow> int option \<Rightarrow> rat option \<Rightarrow> bool \<Rightarrow> work_actor option \<Rightarrow> work_db \<Rightarrow> job_row res \<times> work_db" where
  "retry_job h jid expected available reset actor db =
     db_write h (\<lambda>db.
       let tm = clock h; ready_at = (case available of None \<Rightarrow> tm | Some t \<Rightarrow> t) in
       ebind (job_row_tx jid db) (\<lambda>row.
       ebind (expect_revision row expected) (\<lambda>_.
       ebind (require (status row \<in> {Failed, UnknownEffect})
         (InvalidTransition (''cannot retry '' @ jid))) (\<lambda>_.
       ebind (require (reset \<or> attempt row < max_attempts row)
         (InvalidTransition (''job '' @ jid @ '' exhausted its attempts''))) (\<lambda>_.
       ebind (cas_job jid row (retry_row reset ready_at tm)
         ''job retry CAS lost for '' db) (\<lambda>db1.
       emit_job h jid ''job.retry_scheduled'' actor
         (\<lambda>_. [(''available_at'', JFloat ready_at), (''attempts_reset'', JBool reset)]) no_trace db1)))))) db"

section \<open>Recovery of expired leases\<close>

definition job_lease_expired :: "rat \<Rightarrow> job_row \<Rightarrow> bool" where
  "job_lease_expired tm r \<longleftrightarrow> status r \<in> job_leased_states \<and>
     (case lease_expires_at r of None \<Rightarrow> False | Some t \<Rightarrow> t \<le> tm)"

definition policy_text :: "host \<Rightarrow> jobject \<Rightarrow> string \<Rightarrow> string \<Rightarrow> string" where
  "policy_text h policy key dflt =
     (case jget policy key of None \<Rightarrow> dflt | Some v \<Rightarrow> if truthy v then py_str h v else dflt)"

definition recovery_target :: "host \<Rightarrow> job_row \<Rightarrow> job_status" where
  "recovery_target h row =
     (if cancel_requested row then Cancelled
      else if status row = Leased then
        (if attempt row < max_attempts row then Queued else Failed)
      else if sync_handler row then UnknownEffect
      else
        let policy = policy_text h (retry_policy row) ''on_lease_expiry'' ''unknown_effect'' in
        if policy = ''retry'' \<and> attempt row < max_attempts row then Queued
        else if policy = ''fail'' then Failed
        else UnknownEffect)"

fun recovery_event :: "job_status \<Rightarrow> string" where
  "recovery_event Queued = ''job.lease_recovered''"
| "recovery_event Cancelled = ''job.cancelled''"
| "recovery_event UnknownEffect = ''job.unknown_effect''"
| "recovery_event _ = ''job.failed''"

definition recovery_reason :: "job_row \<Rightarrow> string" where
  "recovery_reason row =
     (if status row = Leased then ''job lease expired before handler start''
      else ''job lease expired while handler was running'')"

definition recover_row :: "job_status \<Rightarrow> rat \<Rightarrow> rat \<Rightarrow> job_row \<Rightarrow> job_row \<Rightarrow> job_row" where
  "recover_row target available tm row r = r\<lparr>status := target, available_at := available,
     lease_owner := [], lease_expires_at := None,
     continuation := (status row = Leased \<and> target = Queued),
     job_error := recovery_reason row,
     completed_at := (if target \<in> job_terminal_states then Some tm else None),
     revision := revision r + 1, updated_at := tm\<rparr>"

definition recover_one_job :: "host \<Rightarrow> rat \<Rightarrow> job_row \<Rightarrow> (work_db, job_row) body" where
  "recover_one_job h tm row db =
     (let target = recovery_target h row in
      ebind (float_or_zero h (jget (retry_policy row) ''base_delay_s'')) (\<lambda>delay.
      ebind (cas_job (job_id row) row (recover_row target (tm + max 0 delay) tm row)
        ''expired job recovery lost for '' db) (\<lambda>db1.
      emit_job h (job_id row) (recovery_event target) None
        (\<lambda>_. [(''previous_status'', JStr (status_text (status row))),
             (''reason'', JStr (recovery_reason row))]) no_trace db1)))"

fun recover_jobs :: "host \<Rightarrow> rat \<Rightarrow> job_row list \<Rightarrow> (work_db, job_row list) body" where
  "recover_jobs h tm [] db = Inr ([], db)"
| "recover_jobs h tm (row # rows) db =
     ebind (recover_one_job h tm row db) (\<lambda>(job, db1).
     ebind (recover_jobs h tm rows db1) (\<lambda>(recovered, db2). Inr (job # recovered, db2)))"

definition recover_expired_job_leases ::
  "host \<Rightarrow> rat option \<Rightarrow> work_db \<Rightarrow> job_row list res \<times> work_db" where
  "recover_expired_job_leases h now db =
     db_write h (\<lambda>db. recover_jobs h (or_now h now)
       (sort_key (\<lambda>r. (the (lease_expires_at r), job_id r))
         (filter (job_lease_expired (or_now h now)) (jobs db))) db) db"

end
