(* ===== verification/Work_Job_Inv.thy ===== *)
theory Work_Job_Inv
  imports Work_Jobs
begin

text \<open>
  What every job mutation does to the database, as one relation, and the invariant of the job
  table that all of them keep.
\<close>

section \<open>The invariant\<close>

definition clean_id :: "string \<Rightarrow> bool" where
  "clean_id t \<longleftrightarrow> text_arg t ''aggregate_id'' True 512 = Inr t"

text \<open>
  A row: it holds a lease exactly while leased or running, is complete exactly when terminal,
  stays within its attempts, has been claimed when leased, running or a continuation, and a
  cancelled request is never queued, leased or successful.
\<close>

definition job_row_wf :: "job_row \<Rightarrow> bool" where
  "job_row_wf r \<longleftrightarrow>
     (lease_expires_at r \<noteq> None \<longleftrightarrow> status r \<in> job_leased_states) \<and>
     (lease_owner r \<noteq> [] \<longleftrightarrow> status r \<in> job_leased_states) \<and>
     (completed_at r \<noteq> None \<longleftrightarrow> status r \<in> job_terminal_states) \<and>
     0 \<le> attempt r \<and> attempt r \<le> max_attempts r \<and> 1 \<le> max_attempts r \<and>
     (status r \<in> job_leased_states \<or> continuation r \<longrightarrow> 1 \<le> attempt r) \<and>
     (status r = Running \<longrightarrow> \<not> continuation r) \<and>
     (cancel_requested r \<longrightarrow> status r \<notin> {Queued, Leased, Succeeded}) \<and>
     0 \<le> lease_epoch r \<and> (status r \<in> job_leased_states \<longrightarrow> 1 \<le> lease_epoch r) \<and>
     clean_id (job_id r)"

definition jobs_wf :: "work_db \<Rightarrow> bool" where
  "jobs_wf db \<longleftrightarrow>
     distinct (map job_id (jobs db)) \<and>
     (\<forall>r\<in>set (jobs db). job_row_wf r \<and> revision r = max_version db ''job'' (job_id r)) \<and>
     (\<forall>e\<in>set (events db). aggregate_kind e = ''job'' \<longrightarrow> aggregate_id e \<in> job_id ` set (jobs db))"

section \<open>The shape of a mutation\<close>

text \<open>
  One event of the new revision is appended, the row is replaced by its image (with the event's
  sequence number as cursor), and nothing else changes.
\<close>

definition job_mutation ::
  "work_db \<Rightarrow> string \<Rightarrow> (job_row \<Rightarrow> job_row) \<Rightarrow> string \<Rightarrow> job_row \<Rightarrow> work_db \<Rightarrow> bool" where
  "job_mutation db jid f etype job db' \<longleftrightarrow> (\<exists>row e o' db1.
     find (\<lambda>r. job_id r = jid) (jobs db) = Some row \<and>
     appended db e o' db1 \<and>
     aggregate_kind e = ''job'' \<and> aggregate_id e = jid \<and> event_type e = py_strip etype \<and>
     aggregate_version e = revision (f row) \<and>
     job = (f row)\<lparr>event_cursor := sequence e\<rparr> \<and>
     db' = db1\<lparr>jobs := map (\<lambda>r. if job_id r = jid then (f r)\<lparr>event_cursor := sequence e\<rparr> else r)
                         (jobs db)\<rparr>)"

lemma clean_id_job: "text_arg ''job'' ''aggregate_kind'' True 100 = Inr ''job''"
  by (simp add: text_arg_def py_strip_def py_space_def Let_def nul_def char_of_def)

lemma text_arg_empty: "text_arg [] f False n = Inr []"
  by (simp add: text_arg_def py_strip_def)

lemma appended_frame:
  assumes "appended db e o' db'"
  shows "jobs db' = jobs db" "operations db' = operations db" "interactions db' = interactions db"
    "projections db' = projections db" "operation_clock db' = operation_clock db"
    "events db' = events db @ [e]"
  using assms by (simp_all add: appended_def)

text \<open>The events of a job: an append, since only creation passes an idempotency key.\<close>

lemma job_event_tx_Inr:
  assumes "job_event_tx h row etype actor extra tr db = Inr (e, db')"
    and "clean_id (job_id row)"
    and "trace_idempotency tr = [] \<or> (\<forall>e\<in>set (events db). aggregate_kind e = ''job'' \<longrightarrow> aggregate_id e \<noteq> job_id row)"
  obtains o' db1 where "appended db e o' db1" "aggregate_kind e = ''job''" "aggregate_id e = job_id row"
    "aggregate_version e = revision row" "event_type e = py_strip etype"
    "db' = db1\<lparr>jobs := map (\<lambda>r. if job_id r = job_id row then r\<lparr>event_cursor := sequence e\<rparr> else r) (jobs db)\<rparr>"
proof -
  let ?q = "event_request0\<lparr>req_event_type := etype,
         req_aggregate_kind := ''job'', req_aggregate_id := job_id row,
         req_aggregate_version := Some (revision row),
         req_expected_version := Some (revision row - 1),
         req_scope := AScope (job_scope row), req_actor := actor,
         req_correlation_id := trace_correlation tr, req_causation_id := trace_causation tr,
         req_idempotency_key := trace_idempotency tr,
         req_payload := job_payload row extra\<rparr>"
  from assms(1) obtain db1 where ins: "insert_event_tx h ?q db = Inr (e, db1)"
    and db': "db' = db1\<lparr>jobs := snd (sql_update (\<lambda>r. job_id r = job_id row)
       (\<lambda>r. r\<lparr>event_cursor := sequence e\<rparr>) (jobs db1))\<rparr>"
    by (auto simp: job_event_tx_def)
  have cl: "cl_kind c = ''job'' \<and> cl_aggregate c = job_id row \<and> cl_idem c = py_strip (trace_idempotency tr)
      \<and> cl_type c = py_strip etype" if "clean_event_args h ?q = Inr c" for c
    using that assms(2) clean_id_job
    by (auto simp: clean_event_args_def Let_def clean_id_def text_arg_Inr)
  have np: "prior_event db c = None" if "clean_event_args h ?q = Inr c" for c
    using cl[OF that] assms(3) by (auto simp: prior_event_def py_strip_def find_None_iff)
  from ins show thesis
  proof (cases rule: insert_event_tx_cases)
    case (replay c)
    with np show thesis by simp
  next
    case (append c o')
    have "aggregate_version e = revision row"
      by (rule append(11)) simp
    then show thesis
      using that[of o' db1] append cl[OF append(1)] db' appended_frame(1)[OF append(3)]
      by (simp add: sql_update_def)
  qed
qed

lemma max_version_jobs [simp]: "max_version (db\<lparr>jobs := t\<rparr>) k a = max_version db k a"
  by (simp add: max_version_def)

lemma log_wf_jobs [simp]: "log_wf (db\<lparr>jobs := t\<rparr>) = log_wf db"
  by (simp add: log_wf_def versions_def)

lemma appended_jobs: "appended (db\<lparr>jobs := t\<rparr>) e o' db1 \<Longrightarrow> appended db e o' (db1\<lparr>jobs := jobs db\<rparr>)"
  by (simp add: appended_def)

lemma job_row_tx_Inr: "job_row_tx jid db = Inr row \<longleftrightarrow> find (\<lambda>r. job_id r = jid) (jobs db) = Some row"
  by (auto simp: job_row_tx_def split: option.splits)

lemma cas_job_Inr:
  assumes "distinct (map job_id (jobs db))" and "find (\<lambda>r. job_id r = jid) (jobs db) = Some row"
  shows "cas_job jid row f m db = Inr db1 \<longleftrightarrow>
    db1 = db\<lparr>jobs := map (\<lambda>r. if job_id r = jid then f r else r) (jobs db)\<rparr>"
  using sql_update_key[OF assms, of "\<lambda>r. revision r = revision row" f]
  by (auto simp: cas_job_def)

lemma emit_job_mutation:
  assumes emit: "emit_job h jid etype actor extra tr
      (db\<lparr>jobs := map (\<lambda>r. if job_id r = jid then f r else r) (jobs db)\<rparr>) = Inr (job, db')"
    and row: "find (\<lambda>r. job_id r = jid) (jobs db) = Some row"
    and id: "clean_id jid" and f: "\<And>r. job_id (f r) = job_id r" and tr: "trace_idempotency tr = []"
  shows "job_mutation db jid f etype job db'"
proof -
  let ?db = "db\<lparr>jobs := map (\<lambda>r. if job_id r = jid then f r else r) (jobs db)\<rparr>"
  have jid: "job_id row = jid" using find_Some_key[of job_id, OF row] by simp
  have "job_row_tx jid ?db = Inr (f row)"
    by (simp add: job_row_tx_Inr find_map_update[of job_id, OF f] row)
  with emit obtain e where ev: "job_event_tx h (f row) etype actor (extra (f row)) tr ?db = Inr (e, db')"
    and job: "job_row_tx jid db' = Inr job"
    by (auto simp: emit_job_def)
  from ev show ?thesis
  proof (rule job_event_tx_Inr)
    show "clean_id (job_id (f row))" using id f jid by simp
    show "trace_idempotency tr = [] \<or> (\<forall>e\<in>set (events ?db). aggregate_kind e = ''job'' \<longrightarrow> aggregate_id e \<noteq> job_id (f row))"
      using tr by simp
    fix o' db1
    assume ap: "appended ?db e o' db1" and k: "aggregate_kind e = ''job''" "aggregate_id e = job_id (f row)"
      "aggregate_version e = revision (f row)" "event_type e = py_strip etype"
      and db': "db' = db1\<lparr>jobs := map (\<lambda>r. if job_id r = job_id (f row) then r\<lparr>event_cursor := sequence e\<rparr> else r) (jobs ?db)\<rparr>"
    have jobs': "map (\<lambda>r. if job_id r = job_id (f row) then r\<lparr>event_cursor := sequence e\<rparr> else r) (jobs ?db) =
        map (\<lambda>r. if job_id r = jid then (f r)\<lparr>event_cursor := sequence e\<rparr> else r) (jobs db)"
      using f jid by simp
    have "job = (f row)\<lparr>event_cursor := sequence e\<rparr>"
      using job unfolding job_row_tx_Inr db' jobs'
      by (simp add: find_map_update[of job_id "\<lambda>r. (f r)\<lparr>event_cursor := sequence e\<rparr>"] f row)
    moreover have "db' = (db1\<lparr>jobs := jobs db\<rparr>)\<lparr>jobs := map (\<lambda>r. if job_id r = jid
        then (f r)\<lparr>event_cursor := sequence e\<rparr> else r) (jobs db)\<rparr>"
      using db' jobs' by simp
    moreover have "aggregate_id e = jid" using k(2) f jid by simp
    ultimately show ?thesis
      unfolding job_mutation_def using row k appended_jobs[OF ap] by blast
  qed
qed

lemma cas_emit_mutation:
  assumes "jobs_wf db" and "job_row_tx jid db = Inr row" and "cas_job jid row f m db = Inr db1"
    and "emit_job h jid etype actor extra no_trace db1 = Inr (job, db')" and "\<And>r. job_id (f r) = job_id r"
  shows "job_mutation db jid f etype job db'"
proof -
  from assms(2) have row: "find (\<lambda>r. job_id r = jid) (jobs db) = Some row" by (simp add: job_row_tx_Inr)
  from assms(1) have dist: "distinct (map job_id (jobs db))" by (simp add: jobs_wf_def)
  from row assms(1) have "clean_id jid"
    using find_Some_key[of job_id jid "jobs db" row] by (auto simp: jobs_wf_def job_row_wf_def)
  moreover from assms(3) have "db1 = db\<lparr>jobs := map (\<lambda>r. if job_id r = jid then f r else r) (jobs db)\<rparr>"
    by (simp add: cas_job_Inr[OF dist row])
  ultimately show ?thesis
    using assms(4,5) by (intro emit_job_mutation[OF _ row]) (auto simp: no_trace_def)
qed

lemma job_row_wf_cursor [simp]: "job_row_wf (r\<lparr>event_cursor := n\<rparr>) = job_row_wf r"
  by (simp add: job_row_wf_def)

text \<open>A mutation whose image of a good row is good keeps the invariants.\<close>

lemma job_mutation_wf:
  assumes "log_wf db" and "jobs_wf db" and "job_mutation db jid f etype job db'"
    and f: "\<And>r. job_id (f r) = job_id r"
    and row_wf: "\<And>row. row \<in> set (jobs db) \<Longrightarrow> job_id row = jid \<Longrightarrow> job_row_wf row \<Longrightarrow> job_row_wf (f row)"
  shows "log_wf db' \<and> jobs_wf db'"
proof -
  from assms(3) obtain row e o' db1 where row: "find (\<lambda>r. job_id r = jid) (jobs db) = Some row"
    and ap: "appended db e o' db1"
    and e: "aggregate_kind e = ''job''" "aggregate_id e = jid" "aggregate_version e = revision (f row)"
    and db': "db' = db1\<lparr>jobs := map (\<lambda>r. if job_id r = jid then (f r)\<lparr>event_cursor := sequence e\<rparr> else r) (jobs db)\<rparr>"
    unfolding job_mutation_def by blast
  let ?g = "\<lambda>r. (f r)\<lparr>event_cursor := sequence e\<rparr>"
  have g: "job_id (?g r) = job_id r" for r using f by simp
  have dist: "distinct (map job_id (jobs db))" using assms(2) by (simp add: jobs_wf_def)
  have ids: "map job_id (jobs db') = map job_id (jobs db)"
    unfolding db' by (simp add: map_key_map[of job_id ?g, OF g, simplified])
  have ver: "max_version db' ''job'' a = (if a = jid then revision (f row) else max_version db ''job'' a)" for a
    using appended_max_version[OF ap, of "''job''" a] e ap by (auto simp: db' appended_def)
  have "job_row_wf r \<and> revision r = max_version db' ''job'' (job_id r)" if r: "r \<in> set (jobs db')" for r
  proof -
    from r obtain r0 where r0: "r0 \<in> set (jobs db)" "r = (if job_id r0 = jid then ?g r0 else r0)"
      by (auto simp: db')
    show ?thesis
    proof (cases "job_id r0 = jid")
      case True
      with row r0 dist have "r0 = row"
        using find_distinct_key[OF dist r0(1)] by simp
      then show ?thesis using r0 True assms(2) row_wf[of row] ver f by (simp add: jobs_wf_def)
    next
      case False
      then show ?thesis using r0 assms(2) ver by (simp add: jobs_wf_def)
    qed
  qed
  moreover have "\<forall>x\<in>set (events db'). aggregate_kind x = ''job'' \<longrightarrow> aggregate_id x \<in> job_id ` set (jobs db')"
  proof -
    have "job_id ` set (jobs db') = job_id ` set (jobs db)" using ids by (metis list.set_map)
    moreover have "jid \<in> job_id ` set (jobs db)" using find_Some_key[of job_id, OF row] by force
    ultimately show ?thesis
      using assms(2) e appended_frame(6)[OF ap] by (auto simp: jobs_wf_def db')
  qed
  ultimately have "jobs_wf db'" using dist ids by (simp add: jobs_wf_def)
  moreover have "log_wf db'" using appended_wf[OF assms(1) ap] by (simp add: db')
  ultimately show ?thesis by simp
qed

section \<open>Row lemmas\<close>

lemmas row_updates =
  lease_row_def start_row_def heartbeat_row_def progress_row_def waiting_row_def wake_row_def
  pause_row_def cancel_row_def acknowledged_row_def finish_row_def release_row_def retry_row_def
  recover_row_def

lemmas state_sets = job_leased_states_def job_terminal_states_def cancel_immediate_states_def
  finish_targets_def

lemma row_update_ids [simp]:
  "job_id (lease_row owner ex tm r) = job_id r"
  "job_id (start_row sync tm r) = job_id r"
  "job_id (heartbeat_row ex tm pj r) = job_id r"
  "job_id (progress_row tm pj r) = job_id r"
  "job_id (waiting_row tm pj r) = job_id r"
  "job_id (wake_row t tm r) = job_id r"
  "job_id (pause_row tm pj r) = job_id r"
  "job_id (cancel_row b rs tm r) = job_id r"
  "job_id (acknowledged_row tm r) = job_id r"
  "job_id (finish_row st rr dr pj er tm r) = job_id r"
  "job_id (release_row st t er tm r) = job_id r"
  "job_id (retry_row b t tm r) = job_id r"
  "job_id (recover_row st t tm row r) = job_id r"
  by (simp_all add: row_updates)

lemma expect_lease_Inr:
  "expect_lease row owner epoch tm allowed = Inr u \<longleftrightarrow>
     status row \<in> allowed \<and> lease_owner row = owner \<and> lease_epoch row = epoch \<and>
     tm < (case lease_expires_at row of None \<Rightarrow> 0 | Some t \<Rightarrow> t)"
  by (auto simp: expect_lease_def)

text \<open>
  The life of a job, the abstract specification of the table: from each state, the states one
  operation can lead to.
\<close>

fun lifecycle :: "job_status \<Rightarrow> job_status set" where
  "lifecycle Queued = {Leased, Paused, Cancelled}"
| "lifecycle Leased = {Running, Queued, Succeeded, Failed, Cancelled, UnknownEffect}"
| "lifecycle Running = {Waiting, Queued, Succeeded, Failed, Cancelled, UnknownEffect}"
| "lifecycle Waiting = {Queued, Paused, Cancelled}"
| "lifecycle Paused = {Queued, Cancelled}"
| "lifecycle Failed = {Queued}"
| "lifecycle UnknownEffect = {Queued}"
| "lifecycle Succeeded = {}"
| "lifecycle Cancelled = {}"

text \<open>
  One operation on one row: along the lifecycle, with a lease that only a claim (under a new
  epoch) can create, and never backwards in revision.
\<close>

definition job_move :: "job_row \<Rightarrow> job_row \<Rightarrow> bool" where
  "job_move r r' \<longleftrightarrow>
     status r' \<in> insert (status r) (lifecycle (status r)) \<and> revision r \<le> revision r' \<and>
     (lease_epoch r' = lease_epoch r \<and>
        (status r' \<in> job_leased_states \<longrightarrow> status r \<in> job_leased_states \<and> lease_owner r' = lease_owner r) \<or>
      lease_epoch r' = lease_epoch r + 1 \<and> status r = Queued \<and> status r' = Leased)"

definition row_step :: "job_row \<Rightarrow> job_row \<Rightarrow> bool" where
  "row_step r r' \<longleftrightarrow> job_row_wf r' \<and> status r \<notin> {Succeeded, Cancelled} \<and> job_move r r'"

lemma job_move_refl: "job_move r r"
  by (simp add: job_move_def)

lemma row_stepI:
  "job_row_wf r' \<Longrightarrow> status r \<notin> {Succeeded, Cancelled} \<Longrightarrow> job_move r r' \<Longrightarrow> row_step r r'"
  by (simp add: row_step_def)

lemmas row_step_defs = row_step_def job_move_def job_row_wf_def state_sets

lemma lease_row_step:
  "job_row_wf r \<Longrightarrow> leasable tm ks xs r \<Longrightarrow> owner \<noteq> [] \<Longrightarrow> row_step r (lease_row owner ex tm' r)"
  by (cases "continuation r") (simp_all add: row_step_defs lease_row_def leasable_def)

lemma start_row_step: "job_row_wf r \<Longrightarrow> status r = Leased \<Longrightarrow> row_step r (start_row sync tm r)"
  by (simp add: row_step_defs start_row_def)

lemma heartbeat_row_step:
  "job_row_wf r \<Longrightarrow> status r \<in> job_leased_states \<Longrightarrow> row_step r (heartbeat_row ex tm pj r)"
  by (cases "status r") (simp_all add: row_step_defs heartbeat_row_def)

lemma progress_row_step:
  "job_row_wf r \<Longrightarrow> status r \<in> {Leased, Running, Waiting, Paused} \<Longrightarrow> row_step r (progress_row tm pj r)"
  by (cases "status r") (simp_all add: row_step_defs progress_row_def)

lemma waiting_row_step: "job_row_wf r \<Longrightarrow> status r = Running \<Longrightarrow> row_step r (waiting_row tm pj r)"
  by (simp add: row_step_defs waiting_row_def)

lemma wake_row_step: "job_row_wf r \<Longrightarrow> status r \<in> {Waiting, Paused} \<Longrightarrow> row_step r (wake_row t tm r)"
  by (cases "status r") (simp_all add: row_step_defs wake_row_def)

lemma pause_row_step: "job_row_wf r \<Longrightarrow> status r \<in> {Queued, Waiting} \<Longrightarrow> row_step r (pause_row tm pj r)"
  by (cases "status r") (simp_all add: row_step_defs pause_row_def)

lemma cancel_row_step:
  "job_row_wf r \<Longrightarrow> status r \<notin> job_terminal_states \<Longrightarrow>
     row_step r (cancel_row (status r \<in> cancel_immediate_states) rs tm r)"
  by (cases "status r") (simp_all add: row_step_defs cancel_row_def)

lemma acknowledged_row_step:
  "job_row_wf r \<Longrightarrow> status r \<in> job_leased_states \<Longrightarrow> row_step r (acknowledged_row tm r)"
  by (cases "status r") (simp_all add: row_step_defs acknowledged_row_def)

lemma finish_row_step:
  "job_row_wf r \<Longrightarrow> status r \<in> job_leased_states \<Longrightarrow> st \<in> finish_targets \<Longrightarrow>
     \<not> (cancel_requested r \<and> st = Succeeded) \<Longrightarrow> row_step r (finish_row st rr dr pj er tm r)"
  by (cases st; cases "status r") (simp_all add: row_step_defs finish_row_def)

lemma release_row_step:
  "job_row_wf r \<Longrightarrow> status r \<in> job_leased_states \<Longrightarrow>
     row_step r (release_row (release_target u r) t er tm r)"
  by (cases "status r") (simp_all add: row_step_defs release_row_def release_target_def)

lemma retry_row_step:
  "job_row_wf r \<Longrightarrow> status r \<in> {Failed, UnknownEffect} \<Longrightarrow> row_step r (retry_row b t tm r)"
  by (cases "status r") (simp_all add: row_step_defs retry_row_def)

lemma recovery_target_states:
  "recovery_target h r \<in> {Queued, Failed, Cancelled, UnknownEffect}"
  "recovery_target h r = Queued \<Longrightarrow> \<not> cancel_requested r"
  by (auto simp: recovery_target_def Let_def split: if_splits)

lemma recover_row_step:
  "job_row_wf r \<Longrightarrow> status r \<in> job_leased_states \<Longrightarrow>
     row_step r (recover_row (recovery_target h r) t tm r r)"
  using recovery_target_states[of h r]
  by (cases "recovery_target h r"; cases "status r") (simp_all add: row_step_defs recover_row_def)

section \<open>What each operation does\<close>

definition store_wf :: "work_db \<Rightarrow> bool" where
  "store_wf db \<longleftrightarrow> log_wf db \<and> jobs_wf db"

lemma store_wf_jobs [simp]: "store_wf db \<Longrightarrow> jobs_wf db"
  by (simp add: store_wf_def)

lemma start_job_Inr:
  assumes "jobs_wf db" and "start_job h jid owner epoch sync expected now db = (Inr job, db')"
  obtains row where "job_row_tx jid db = Inr row" "expect_revision row expected = Inr ()"
    "expect_lease row owner epoch (or_now h now) {Leased} = Inr ()"
    "job_mutation db jid (start_row sync (or_now h now)) ''job.started'' job db'"
  using assms(2) cas_emit_mutation[OF assms(1)]
  by (auto simp: start_job_def db_write_Inr Let_def)

lemma update_job_progress_Inr:
  assumes "jobs_wf db"
    and "update_job_progress h jid p owner epoch expected merge actor now db = (Inr job, db')"
  obtains row pj where "job_row_tx jid db = Inr row" "expect_revision row expected = Inr ()"
    "if status row \<in> job_leased_states then expect_lease row owner epoch (or_now h now) job_leased_states = Inr ()
     else status row \<in> {Waiting, Paused}"
    "store_json h (if merge then jupdate (progress row) p else p) = Inr pj"
    "job_mutation db jid (progress_row (or_now h now) pj) ''job.progressed'' job db'"
  using assms(2) cas_emit_mutation[OF assms(1)]
  by (auto simp: update_job_progress_def db_write_Inr Let_def split: if_splits)

lemma mark_job_waiting_Inr:
  assumes "jobs_wf db" and "mark_job_waiting h jid owner epoch p now db = (Inr job, db')"
  obtains row pj where "job_row_tx jid db = Inr row"
    "expect_lease row owner epoch (or_now h now) {Running} = Inr ()"
    "progress_column h p row = Inr pj"
    "job_mutation db jid (waiting_row (or_now h now) pj) ''job.waiting'' job db'"
  using assms(2) cas_emit_mutation[OF assms(1)]
  by (auto simp: mark_job_waiting_def db_write_Inr Let_def)

lemma wake_job_Inr:
  assumes "jobs_wf db" and "wake_job h jid expected available actor db = (Inr job, db')"
  obtains row where "job_row_tx jid db = Inr row" "expect_revision row expected = Inr ()"
    "status row \<in> {Waiting, Paused}"
    "job_mutation db jid (wake_row (or_now h available) (clock h)) ''job.woken'' job db'"
  using assms(2) cas_emit_mutation[OF assms(1)]
  by (auto simp: wake_job_def db_write_Inr Let_def or_now_def)

lemma pause_job_Inr:
  assumes "jobs_wf db" and "pause_job h jid reason expected actor db = (Inr job, db')"
  obtains row pj where "job_row_tx jid db = Inr row" "expect_revision row expected = Inr ()"
    "status row \<in> {Queued, Waiting}"
    "job_mutation db jid (pause_row (clock h) pj) ''job.paused'' job db'"
proof -
  from assms(2) obtain row p pj db1 and u :: unit where g: "job_row_tx jid db = Inr row"
      "expect_revision row expected = Inr u" "status row \<in> {Queued, Waiting}"
    and c: "cas_job jid row (pause_row (clock h) pj) ''job pause CAS lost for '' db = Inr db1"
    and e: "emit_job h jid ''job.paused'' actor (\<lambda>_. []) no_trace db1 = Inr (job, db')"
    unfolding pause_job_def db_write_Inr Let_def ebind_eq_Inr require_eq_Inr by blast
  have "expect_revision row expected = Inr ()" using g(2) by simp
  note g = g(1) this g(3)
  show thesis
    by (rule that[OF g cas_emit_mutation[OF assms(1) g(1) c e]]) simp
qed

lemma request_job_cancel_Inr:
  assumes "jobs_wf db" and "request_job_cancel h jid reason expected actor db = (Inr job, db')"
  obtains (already) "job_row_tx jid db = Inr job" "expect_revision job expected = Inr ()" "db' = db"
      "status job \<in> job_terminal_states \<or> cancel_requested job"
  | (requested) row where "job_row_tx jid db = Inr row" "expect_revision row expected = Inr ()"
      "status row \<notin> job_terminal_states" "\<not> cancel_requested row"
      "job_mutation db jid (cancel_row (status row \<in> cancel_immediate_states) (py_strip reason) (clock h))
         (if status row \<in> cancel_immediate_states then ''job.cancelled'' else ''job.cancel_requested'') job db'"
proof -
  note requested_if = requested
  from assms(2) obtain rs where rs: "text_arg reason ''cancel reason'' False 4000 = Inr rs"
    by (auto simp: request_job_cancel_def split: sum.splits)
  then have rsv: "rs = py_strip reason" by (simp add: text_arg_Inr)
  from assms(2) rs obtain row where row: "job_row_tx jid db = Inr row" "expect_revision row expected = Inr ()"
    by (auto simp: request_job_cancel_def db_write_Inr Let_def)
  show thesis
  proof (cases "status row \<in> job_terminal_states \<or> cancel_requested row")
    case True
    with assms(2) rs row have "job = row \<and> db' = db"
      by (elim disjE) (simp_all add: request_job_cancel_def db_write_Inr Let_def split: if_splits)
    with already row True show thesis by simp
  next
    case False
    with assms(2) rs row obtain db1 where
      c: "cas_job jid row (cancel_row (status row \<in> cancel_immediate_states) rs (clock h))
              ''job cancellation CAS lost for '' db = Inr db1"
      and e: "emit_job h jid (if status row \<in> cancel_immediate_states then ''job.cancelled''
              else ''job.cancel_requested'') actor (\<lambda>_. [(''reason'', JStr rs)]) no_trace db1 = Inr (job, db')"
      by (auto simp: request_job_cancel_def db_write_Inr Let_def simp del: if_split_eq2)
    have "job_mutation db jid (cancel_row (status row \<in> cancel_immediate_states) rs (clock h))
         (if status row \<in> cancel_immediate_states then ''job.cancelled'' else ''job.cancel_requested'') job db'"
      by (rule cas_emit_mutation[OF assms(1) row(1) c e]) simp
    with requested_if row False rsv show thesis by simp
  qed
qed

lemma acknowledge_job_cancel_Inr:
  assumes "jobs_wf db" and "acknowledge_job_cancel h jid owner epoch now db = (Inr job, db')"
  obtains (already) "job_row_tx jid db = Inr job" "status job = Cancelled" "db' = db"
  | (acknowledged) row where "job_row_tx jid db = Inr row" "status row \<noteq> Cancelled"
      "expect_lease row owner epoch (or_now h now) job_leased_states = Inr ()" "cancel_requested row"
      "job_mutation db jid (acknowledged_row (or_now h now)) ''job.cancelled'' job db'"
proof -
  note acknowledged_if = acknowledged
  from assms(2) obtain row where row: "job_row_tx jid db = Inr row"
    unfolding acknowledge_job_cancel_def db_write_Inr Let_def ebind_eq_Inr by blast
  show thesis
  proof (cases "status row = Cancelled")
    case True
    with assms(2) row have "job = row \<and> db' = db"
      by (simp add: acknowledge_job_cancel_def db_write_Inr Let_def)
    with already row True show thesis by simp
  next
    case False
    have dist: "distinct (map job_id (jobs db))" using assms(1) by (simp add: jobs_wf_def)
    have cas: "cas_job jid row (acknowledged_row (or_now h now)) [] db =
      Inr (db\<lparr>jobs := snd (sql_update (\<lambda>r. job_id r = jid \<and> revision r = revision row)
             (acknowledged_row (or_now h now)) (jobs db))\<rparr>)"
      using sql_update_key[OF dist, of jid row "\<lambda>r. revision r = revision row"] row
      by (simp add: cas_job_def job_row_tx_Inr)
    let ?u = "db\<lparr>jobs := snd (sql_update (\<lambda>r. job_id r = jid \<and> revision r = revision row)
             (acknowledged_row (or_now h now)) (jobs db))\<rparr>"
    have "ebind (expect_lease row owner epoch (or_now h now) job_leased_states) (\<lambda>_.
         ebind (require (cancel_requested row)
           (InvalidTransition (''job '' @ jid @ '' has no cancellation request''))) (\<lambda>_.
         emit_job h jid ''job.cancelled'' (Some (worker_actor owner)) (\<lambda>_. []) no_trace ?u)) = Inr (job, db')"
      using assms(2) unfolding acknowledge_job_cancel_def db_write_Inr Let_def row ebind_Inr if_not_P[OF False]
      by (rule conjunct1)
    then obtain v :: unit where "expect_lease row owner epoch (or_now h now) job_leased_states = Inr v"
        "cancel_requested row"
      and e: "emit_job h jid ''job.cancelled'' (Some (worker_actor owner)) (\<lambda>_. []) no_trace ?u = Inr (job, db')"
      unfolding ebind_eq_Inr require_eq_Inr by (elim exE conjE)
    then have l: "expect_lease row owner epoch (or_now h now) job_leased_states = Inr ()"
        "cancel_requested row" by simp_all
    show thesis
      by (rule acknowledged_if[OF row False l cas_emit_mutation[OF assms(1) row cas e]]) simp
  qed
qed

lemma finish_job_tx_Inr:
  assumes "jobs_wf db" and "finish_job_tx h jid q db = Inr (job, db')"
  obtains row target pj where "job_row_tx jid db = Inr row"
    "job_status_of (fr_status q) = Some target" "target \<in> finish_targets"
    "expect_lease row (fr_lease_owner q) (fr_lease_epoch q) (or_now h (fr_now q)) job_leased_states = Inr ()"
    "\<not> (cancel_requested row \<and> target = Succeeded)"
    "job_mutation db jid (finish_row target (py_strip (fr_result_ref q)) (py_strip (fr_diagnostics_ref q))
       pj (py_strip (fr_error q)) (or_now h (fr_now q))) (''job.'' @ fr_status q) job db'"
proof -
  from assms(2) obtain row pj rref dref err db1 where
    g: "job_row_tx jid db = Inr row" "job_status_of (fr_status q) \<noteq> None"
      "the (job_status_of (fr_status q)) \<in> finish_targets"
      "expect_lease row (fr_lease_owner q) (fr_lease_epoch q) (or_now h (fr_now q)) job_leased_states = Inr ()"
      "\<not> (cancel_requested row \<and> the (job_status_of (fr_status q)) = Succeeded)"
    and t: "text_arg (fr_result_ref q) ''result_ref'' False 2000 = Inr rref"
      "text_arg (fr_diagnostics_ref q) ''diagnostics_ref'' False 2000 = Inr dref"
      "text_arg (fr_error q) ''job error'' False 16000 = Inr err"
    and c: "cas_job jid row (finish_row (the (job_status_of (fr_status q))) rref dref pj err
      (or_now h (fr_now q))) ''job finish CAS lost for '' db = Inr db1"
    and e: "emit_job h jid (''job.'' @ fr_status q) (Some (worker_actor (fr_lease_owner q)))
        (\<lambda>r. [(''result_ref'', JStr (result_ref r)), (''diagnostics_ref'', JStr (diagnostics_ref r)),
             (''error'', JStr (job_error r))]) no_trace db1 = Inr (job, db')"
    unfolding finish_job_tx_def Let_def by force
  have m: "job_mutation db jid (finish_row (the (job_status_of (fr_status q))) rref dref pj err
      (or_now h (fr_now q))) (''job.'' @ fr_status q) job db'"
    by (rule cas_emit_mutation[OF assms(1) g(1) c e]) simp
  from t have "rref = py_strip (fr_result_ref q)" "dref = py_strip (fr_diagnostics_ref q)"
    "err = py_strip (fr_error q)" by (simp_all add: text_arg_Inr)
  with that[OF g(1) _ g(3,4,5), of pj] m g(2) show thesis by auto
qed

lemma release_job_Inr:
  assumes "jobs_wf db" and "release_job h jid owner epoch err dl unknown now db = (Inr job, db')"
  obtains row where "job_row_tx jid db = Inr row"
    "expect_lease row owner epoch (or_now h now) job_leased_states = Inr ()"
    "job_mutation db jid (release_row (release_target unknown row) (or_now h now + max 0 dl)
       (py_strip err) (or_now h now)) (release_event (release_target unknown row)) job db'"
  using assms(2) cas_emit_mutation[OF assms(1)]
  by (auto simp: release_job_def db_write_Inr Let_def text_arg_Inr)

lemma retry_job_Inr:
  assumes "jobs_wf db" and "retry_job h jid expected available reset actor db = (Inr job, db')"
  obtains row where "job_row_tx jid db = Inr row" "expect_revision row expected = Inr ()"
    "status row \<in> {Failed, UnknownEffect}" "reset \<or> attempt row < max_attempts row"
    "job_mutation db jid (retry_row reset (or_now h available) (clock h)) ''job.retry_scheduled'' job db'"
  using assms(2) cas_emit_mutation[OF assms(1)]
  by (auto simp: retry_job_def db_write_Inr Let_def or_now_def)

lemma recover_one_job_Inr:
  assumes "jobs_wf db" and "recover_one_job h tm row db = Inr (job, db')"
    and "find (\<lambda>r. job_id r = job_id row) (jobs db) = Some row"
  obtains delay where "float_or_zero h (jget (retry_policy row) ''base_delay_s'') = Inr delay"
    "job_mutation db (job_id row) (recover_row (recovery_target h row) (tm + max 0 delay) tm row)
      (recovery_event (recovery_target h row)) job db'"
  using assms(2) cas_emit_mutation[OF assms(1)] assms(3)
  by (auto simp: recover_one_job_def Let_def job_row_tx_Inr)

end
