(* ===== verification/Work_Job_Ops.thy ===== *)
theory Work_Job_Ops
  imports Work_Job_Inv
begin

text \<open>
  Leasing, heartbeats, creation and recovery of jobs, and the preservation of the invariant of
  the store by every operation of the job table.
\<close>

section \<open>What a job operation leaves alone\<close>

definition kind_events :: "work_db \<Rightarrow> string \<Rightarrow> work_event list" where
  "kind_events db k = filter (\<lambda>e. aggregate_kind e = k) (events db)"

definition others_same :: "work_db \<Rightarrow> work_db \<Rightarrow> bool" where
  "others_same db db' \<longleftrightarrow> operations db' = operations db \<and> operation_clock db' = operation_clock db \<and>
     interactions db' = interactions db \<and> projections db' = projections db \<and> outbox_extends db db' \<and>
     (\<forall>k. k \<noteq> ''job'' \<longrightarrow> kind_events db' k = kind_events db k)"

text \<open>Every row moves along the lifecycle, a settled row not at all; a new row is queued.\<close>

definition job_moves :: "work_db \<Rightarrow> work_db \<Rightarrow> bool" where
  "job_moves db db' \<longleftrightarrow>
     (\<forall>j r. find (\<lambda>r. job_id r = j) (jobs db) = Some r \<longrightarrow>
        (\<exists>r'. find (\<lambda>r. job_id r = j) (jobs db') = Some r' \<and> job_move r r' \<and>
           (status r \<in> {Succeeded, Cancelled} \<longrightarrow> r' = r))) \<and>
     (\<forall>j r'. find (\<lambda>r. job_id r = j) (jobs db) = None \<longrightarrow>
        find (\<lambda>r. job_id r = j) (jobs db') = Some r' \<longrightarrow> status r' = Queued \<and> lease_epoch r' = 0)"

text \<open>A good step of the job table.\<close>

definition job_step :: "work_db \<Rightarrow> work_db \<Rightarrow> bool" where
  "job_step db db' \<longleftrightarrow> store_wf db' \<and> others_same db db' \<and> job_moves db db'"

lemma job_move_cursor [simp]: "job_move r (r'\<lparr>event_cursor := n\<rparr>) = job_move r r'"
  by (simp add: job_move_def)

lemma job_moves_same: "jobs db' = jobs db \<Longrightarrow> job_moves db db'"
  by (auto simp: job_moves_def job_move_refl)

lemma others_same_refl [simp]: "others_same db db"
  by (simp add: others_same_def outbox_extends_same)

lemma others_same_trans: "others_same a b \<Longrightarrow> others_same b c \<Longrightarrow> others_same a c"
  using outbox_extends_trans[of a b c] by (simp add: others_same_def)

lemma job_step_refl: "store_wf db \<Longrightarrow> job_step db db"
  by (simp add: job_step_def job_moves_same)

lemma others_same_mutation:
  assumes "job_mutation db jid f etype job db'"
  shows "others_same db db'"
proof -
  from assms obtain e o' db1 t where ap: "appended db e o' db1" and k: "aggregate_kind e = ''job''"
    and db': "db' = db1\<lparr>jobs := t\<rparr>"
    unfolding job_mutation_def by blast
  show ?thesis
    using appended_frame[OF ap] k outbox_extends_frame[OF appended_outbox[OF ap], of db db']
    by (simp add: db' others_same_def kind_events_def)
qed

section \<open>Leasing\<close>

lemma job_events_known:
  "jobs_wf db \<Longrightarrow> e \<in> set (events db) \<Longrightarrow> aggregate_kind e = ''job'' \<Longrightarrow> aggregate_id e \<in> job_id ` set (jobs db)"
  unfolding jobs_wf_def by blast

lemma sort_key_hd:
  assumes "sort_key k xs = x # ys"
  shows "x \<in> set xs" and "y \<in> set xs \<Longrightarrow> k x \<le> k y"
proof -
  have "set (x # ys) = set xs" using assms by (metis set_sort)
  moreover have "sorted (map k (x # ys))" using assms by (metis sorted_sort_key)
  ultimately show "x \<in> set xs" and "y \<in> set xs \<Longrightarrow> k x \<le> k y" by auto
qed

lemma lease_next_job_Inr:
  assumes "jobs_wf db" and "lease_next_job h o' kinds xs ttl now db = (Inr (Some job), db')"
  obtains ks row where "ks = map py_strip kinds" "py_strip o' \<noteq> []" "row \<in> set (jobs db)"
    "leasable (or_now h now) ks xs row"
    "\<And>r. r \<in> set (jobs db) \<Longrightarrow> leasable (or_now h now) ks xs r \<Longrightarrow> lease_order row \<le> lease_order r"
    "job_mutation db (job_id row) (lease_row (py_strip o') (or_now h now + max 2 ttl) (or_now h now))
       ''job.leased'' job db'"
proof -
  let ?t = "or_now h now"
  from assms(2) obtain owner ks where o: "text_arg o' ''lease_owner'' True 512 = Inr owner"
      and ks: "emap (\<lambda>k. text_arg k ''job kind'' True 240) kinds = Inr ks"
      and tx: "lease_next_job_tx h owner ?t (?t + max 2 ttl) ks xs db = Inr (Some job, db')"
    by (auto simp: lease_next_job_def db_write_Inr Let_def split: sum.splits prod.splits)
  from o have owner: "owner = py_strip o'" "owner \<noteq> []" by (auto simp: text_arg_Inr)
  have kse: "ks = map py_strip kinds" using ks
    by (induction kinds arbitrary: ks) (auto simp: text_arg_Inr)
  let ?S = "sort_key lease_order (filter (leasable ?t ks xs) (jobs db))"
  from tx obtain row rest where S: "?S = row # rest"
    by (cases ?S) (simp_all add: lease_next_job_tx_def)
  from sort_key_hd[OF S] have mem: "row \<in> set (jobs db)" "leasable ?t ks xs row"
    and least: "\<And>r. r \<in> set (jobs db) \<Longrightarrow> leasable ?t ks xs r \<Longrightarrow> lease_order row \<le> lease_order r"
    by auto
  have dist: "distinct (map job_id (jobs db))" using assms(1) by (simp add: jobs_wf_def)
  have row: "find (\<lambda>r. job_id r = job_id row) (jobs db) = Some row"
    by (rule find_distinct_key[OF dist mem(1)])
  have q: "status row = Queued" using mem(2) by (simp add: leasable_def)
  have upd: "sql_update (\<lambda>r. job_id r = job_id row \<and> status r = Queued \<and> revision r = revision row)
      (lease_row owner (?t + max 2 ttl) ?t) (jobs db) =
      (1, map (\<lambda>r. if job_id r = job_id row then lease_row owner (?t + max 2 ttl) ?t r else r) (jobs db))"
    using sql_update_key[OF dist row, of "\<lambda>r. status r = Queued \<and> revision r = revision row"] q by simp
  from tx S upd have emit: "emit_job h (job_id row) ''job.leased'' (Some (worker_actor owner))
      (\<lambda>r. [(''lease_epoch'', JInt (lease_epoch r)), (''lease_expires_at'', JFloat (?t + max 2 ttl))]) no_trace
      (db\<lparr>jobs := map (\<lambda>r. if job_id r = job_id row then lease_row owner (?t + max 2 ttl) ?t r else r) (jobs db)\<rparr>)
      = Inr (job, db')"
    by (simp add: lease_next_job_tx_def)
  have "clean_id (job_id row)" using assms(1) mem(1) by (simp add: jobs_wf_def job_row_wf_def)
  from emit_job_mutation[OF emit row this] have
    "job_mutation db (job_id row) (lease_row owner (?t + max 2 ttl) ?t) ''job.leased'' job db'"
    by (simp add: no_trace_def)
  with that[OF kse _ mem least] owner show thesis by simp
qed

lemma lease_next_job_None:
  assumes "lease_next_job h o' kinds xs ttl now db = (Inr None, db')"
  shows "db' = db" and "r \<in> set (jobs db) \<Longrightarrow> \<not> leasable (or_now h now) (map py_strip kinds) xs r"
proof -
  let ?t = "or_now h now"
  from assms obtain owner ks where ks: "emap (\<lambda>k. text_arg k ''job kind'' True 240) kinds = Inr ks"
      and tx: "lease_next_job_tx h owner ?t (?t + max 2 ttl) ks xs db = Inr (None, db')"
    by (auto simp: lease_next_job_def db_write_Inr Let_def split: sum.splits prod.splits)
  have kse: "ks = map py_strip kinds" using ks
    by (induction kinds arbitrary: ks) (auto simp: text_arg_Inr)
  let ?S = "sort_key lease_order (filter (leasable ?t ks xs) (jobs db))"
  from tx have S: "?S = []" and "db' = db"
    by (auto simp: lease_next_job_tx_def split: list.splits prod.splits)
  then show "db' = db" by simp
  from S have "set ?S = {}" by simp
  then show "r \<in> set (jobs db) \<Longrightarrow> \<not> leasable (or_now h now) (map py_strip kinds) xs r"
    unfolding kse by auto
qed

section \<open>Heartbeats\<close>

lemma heartbeat_job_Inr:
  assumes "jobs_wf db" and "heartbeat_job h jid owner epoch ttl p now db = (Inr job, db')"
  obtains row pj where "job_row_tx jid db = Inr row"
    "expect_lease row owner epoch (or_now h now) job_leased_states = Inr ()"
    "job = heartbeat_row (or_now h now + max 2 ttl) (or_now h now) pj row"
    "db' = db\<lparr>jobs := map (\<lambda>r. if job_id r = jid
       then heartbeat_row (or_now h now + max 2 ttl) (or_now h now) pj r else r) (jobs db)\<rparr>"
proof -
  let ?t = "or_now h now"
  let ?f = "\<lambda>pj. heartbeat_row (?t + max 2 ttl) ?t pj"
  from assms(2) obtain row pj db1 and u :: unit where g: "job_row_tx jid db = Inr row"
      and l: "expect_lease row owner epoch ?t job_leased_states = Inr u"
      and c: "cas_job jid row (?f pj) ''job heartbeat CAS lost for '' db = Inr db1"
      and r: "job_row_tx jid db1 = Inr job" "db' = db1"
    unfolding heartbeat_job_def db_write_Inr Let_def ebind_eq_Inr by blast
  have row: "find (\<lambda>r. job_id r = jid) (jobs db) = Some row" using g by (simp add: job_row_tx_Inr)
  have dist: "distinct (map job_id (jobs db))" using assms(1) by (simp add: jobs_wf_def)
  have db1: "db1 = db\<lparr>jobs := map (\<lambda>r. if job_id r = jid then ?f pj r else r) (jobs db)\<rparr>"
    using c cas_job_Inr[OF dist row] by blast
  have "job = ?f pj row"
    using r(1) by (simp add: db1 job_row_tx_Inr find_map_update[of job_id "?f pj"] row)
  with that[OF g _ this] l r(2) db1 show thesis by simp
qed

lemma heartbeat_job_wf:
  assumes "jobs_wf db" and "heartbeat_job h jid owner epoch ttl p now db = (Inr job, db')"
  shows "jobs_wf db'"
proof -
  let ?t = "or_now h now"
  from assms obtain row pj where row: "job_row_tx jid db = Inr row"
    and l: "expect_lease row owner epoch ?t job_leased_states = Inr ()"
    and db': "db' = db\<lparr>jobs := map (\<lambda>r. if job_id r = jid
       then heartbeat_row (?t + max 2 ttl) ?t pj r else r) (jobs db)\<rparr>"
    by (rule heartbeat_job_Inr)
  let ?f = "heartbeat_row (?t + max 2 ttl) ?t pj"
  have dist: "distinct (map job_id (jobs db))" using assms(1) by (simp add: jobs_wf_def)
  have ids: "map job_id (jobs db') = map job_id (jobs db)"
    by (simp add: db' map_key_map[of job_id ?f, simplified])
  have "job_row_wf (?f row) \<and> revision (?f row) = max_version db' ''job'' (job_id row)"
    if "row \<in> set (jobs db)"
    using assms(1) that l heartbeat_row_step[of row] unfolding jobs_wf_def expect_lease_Inr
    by (simp add: db' row_step_def heartbeat_row_def)
  moreover have "r = row" if "r \<in> set (jobs db)" "job_id r = jid" for r
    using find_distinct_key[OF dist that(1)] row that(2) by (simp add: job_row_tx_Inr)
  ultimately have "\<forall>r\<in>set (jobs db'). job_row_wf r \<and> revision r = max_version db' ''job'' (job_id r)"
    using assms(1) by (auto simp: db' jobs_wf_def)
  moreover have "job_id ` set (jobs db') = job_id ` set (jobs db)" using ids by (metis list.set_map)
  ultimately show ?thesis using assms(1) dist ids by (simp add: jobs_wf_def) (simp add: db')
qed

lemma heartbeat_job_moves:
  assumes "jobs_wf db" and "heartbeat_job h jid owner epoch ttl p now db = (Inr job, db')"
  shows "job_moves db db'"
proof -
  let ?t = "or_now h now"
  from assms obtain row pj where row: "job_row_tx jid db = Inr row"
    and l: "expect_lease row owner epoch ?t job_leased_states = Inr ()"
    and db': "db' = db\<lparr>jobs := map (\<lambda>r. if job_id r = jid
       then heartbeat_row (?t + max 2 ttl) ?t pj r else r) (jobs db)\<rparr>"
    by (rule heartbeat_job_Inr)
  let ?f = "heartbeat_row (?t + max 2 ttl) ?t pj"
  have "row_step row (?f row)"
    using assms(1) row l find_Some_key[of job_id jid "jobs db" row]
    by (intro heartbeat_row_step) (simp_all add: jobs_wf_def job_row_tx_Inr expect_lease_Inr)
  then show ?thesis
    using row find_map_update[of job_id ?f _ jid "jobs db", simplified]
    by (auto simp: job_moves_def db' job_row_tx_Inr row_step_def job_move_refl split: option.splits)
qed

section \<open>Creation\<close>

text \<open>The row a creation inserts.\<close>

definition fresh_job :: "job_row \<Rightarrow> bool" where
  "fresh_job r \<longleftrightarrow> status r = Queued \<and> revision r = 1 \<and> attempt r = 0 \<and> lease_epoch r = 0 \<and>
     \<not> cancel_requested r \<and> \<not> continuation r \<and> lease_owner r = [] \<and> lease_expires_at r = None \<and>
     completed_at r = None \<and> 1 \<le> max_attempts r \<and> clean_id (job_id r)"

lemma fresh_job_wf: "fresh_job r \<Longrightarrow> job_row_wf r"
  by (simp add: fresh_job_def job_row_wf_def state_sets)

lemma log_wf_draws [simp]: "log_wf (db\<lparr>draws := n\<rparr>) = log_wf db"
  by (simp add: log_wf_def versions_def)

lemma max_version_draws [simp]: "max_version (db\<lparr>draws := n\<rparr>) k a = max_version db k a"
  by (simp add: max_version_def)

lemma emit_created:
  assumes wf: "jobs_wf db" and new: "fresh_job r" "job_id r \<notin> job_id ` set (jobs db)"
    and emit: "emit_job h (job_id r) etype actor (\<lambda>_. []) tr (db\<lparr>draws := n, jobs := jobs db @ [r]\<rparr>) = Inr (job, db')"
  obtains e o' db1 where "appended (db\<lparr>draws := n\<rparr>) e o' db1" "aggregate_kind e = ''job''"
    "aggregate_id e = job_id r" "aggregate_version e = 1" "event_type e = py_strip etype"
    "job = r\<lparr>event_cursor := sequence e\<rparr>" "db' = db1\<lparr>jobs := jobs db @ [job]\<rparr>"
proof -
  let ?db = "db\<lparr>draws := n, jobs := jobs db @ [r]\<rparr>"
  have "job_row_tx (job_id r) ?db = Inr r"
    using new(2) find_None_key[of job_id "job_id r" "jobs db"] by (simp add: job_row_tx_Inr find_append)
  with emit obtain e where ev: "job_event_tx h r etype actor [] tr ?db = Inr (e, db')"
    and job: "job_row_tx (job_id r) db' = Inr job"
    by (auto simp: emit_job_def)
  from new(1) have id: "clean_id (job_id r)" and rev: "revision r = 1" by (simp_all add: fresh_job_def)
  have ne: "trace_idempotency tr = [] \<or> (\<forall>e\<in>set (events ?db). aggregate_kind e = ''job'' \<longrightarrow> aggregate_id e \<noteq> job_id r)"
  proof (rule disjI2, intro ballI impI notI)
    fix e assume "e \<in> set (events ?db)" "aggregate_kind e = ''job''" "aggregate_id e = job_id r"
    then have "job_id r \<in> job_id ` set (jobs db)" using job_events_known[OF wf, of e] by simp
    with new(2) show False by simp
  qed
  from ev id ne show thesis
  proof (rule job_event_tx_Inr)
    fix o' db1
    assume ap: "appended ?db e o' db1" and k: "aggregate_kind e = ''job''" "aggregate_id e = job_id r"
      "aggregate_version e = revision r" "event_type e = py_strip etype"
      and db': "db' = db1\<lparr>jobs := map (\<lambda>x. if job_id x = job_id r then x\<lparr>event_cursor := sequence e\<rparr> else x) (jobs ?db)\<rparr>"
    have "map (\<lambda>x. if job_id x = job_id r then x\<lparr>event_cursor := sequence e\<rparr> else x) (jobs db) = jobs db"
      using new(2) by (intro map_idI) (auto simp: image_iff)
    then have jobs': "map (\<lambda>x. if job_id x = job_id r then x\<lparr>event_cursor := sequence e\<rparr> else x) (jobs ?db)
        = jobs db @ [r\<lparr>event_cursor := sequence e\<rparr>]" by simp
    have job_eq: "job = r\<lparr>event_cursor := sequence e\<rparr>"
      using job new(2) find_None_key[of job_id "job_id r" "jobs db"]
      unfolding job_row_tx_Inr db' jobs' by (simp add: find_append)
    have "appended (db\<lparr>draws := n\<rparr>) e o' (db1\<lparr>jobs := jobs db\<rparr>)"
      using appended_jobs[OF ap] by simp
    from that[OF this k(1,2) _ k(4) job_eq] k(3) rev db' jobs' job_eq show thesis by simp
  qed
qed

lemma clean_id_requested: "text_arg q ''job_id'' False 512 = Inr t \<Longrightarrow> t \<noteq> [] \<Longrightarrow> clean_id t"
  by (auto simp: clean_id_def text_arg_Inr)

lemma clean_id_new: "clean_id (new_id ''job'' n)"
proof -
  have "\<And>c. c \<in> set ''job'' \<Longrightarrow> \<not> py_space c \<and> c \<noteq> nul"
    by (auto simp: py_space_def nul_def char_of_def)
  note new_id_clean[of "''job''", OF this]
  then show ?thesis by (simp add: clean_id_def text_arg_Inr)
qed

lemma create_job_cases:
  assumes wf: "jobs_wf db" and "create_job h q db = (Inr job, db')"
  obtains (replay) "db' = db" "job \<in> set (jobs db)" "idempotency_key job = py_strip (jr_idempotency_key q)"
      "idempotency_key job \<noteq> []" "owner_kind job = py_strip (jr_owner_kind q)"
      "owner_id job = py_strip (jr_owner_id q)" "job_kind job = py_strip (jr_kind q)"
      "priority job = jr_priority q" "max_attempts job = max 1 (jr_max_attempts q)"
  | (created) e o' db1 where "appended (db\<lparr>draws := Suc (draws db)\<rparr>) e o' db1"
      "aggregate_kind e = ''job''" "aggregate_id e = job_id job" "aggregate_version e = 1"
      "event_type e = ''job.created''" "db' = db1\<lparr>jobs := jobs db @ [job]\<rparr>"
      "fresh_job job" "job_id job \<notin> job_id ` set (jobs db)" "event_cursor job = sequence e"
      "idempotency_key job = py_strip (jr_idempotency_key q)"
      "owner_kind job = py_strip (jr_owner_kind q)" "owner_id job = py_strip (jr_owner_id q)"
      "job_kind job = py_strip (jr_kind q)" "priority job = jr_priority q"
      "max_attempts job = max 1 (jr_max_attempts q)"
proof -
  note replay_if = replay and created_if = created
  from assms(2) have tx: "create_job_tx h q db = Inr (job, db')"
    by (simp add: create_job_def db_write_Inr)
  then obtain c where c: "clean_job_args h q = Inr c"
    by (auto simp: create_job_tx_def)
  then have cv: "cj_kind c = py_strip (jr_kind q)" "cj_owner_kind c = py_strip (jr_owner_kind q)"
    "cj_owner_id c = py_strip (jr_owner_id q)" "cj_idem c = py_strip (jr_idempotency_key q)"
    and requested: "text_arg (jr_job_id q) ''job_id'' False 512 = Inr (cj_requested c)"
    by (auto simp: clean_job_args_def text_arg_Inr)
  show thesis
  proof (cases "prior_job c db")
    case (Some prior)
    then have p: "prior \<in> set (jobs db)" "owner_kind prior = cj_owner_kind c"
      "owner_id prior = cj_owner_id c" "job_kind prior = cj_kind c"
      "idempotency_key prior = cj_idem c" "cj_idem c \<noteq> []"
      by (auto simp: prior_job_def find_Some_iff split: if_splits)
    from tx c Some have "job = prior" "db' = db" "priority prior = jr_priority q"
      "max_attempts prior = max 1 (jr_max_attempts q)"
      by (auto simp: create_job_tx_def same_job_request_def)
    with p cv show thesis by (intro replay_if) simp_all
  next
    case None
    with tx c obtain manifest policy where
      r: "job_id (new_job_row h q c manifest policy db) \<notin> job_id ` set (jobs db)" and
      emit: "emit_job h (job_id (new_job_row h q c manifest policy db)) ''job.created'' (jr_actor q) (\<lambda>_. [])
        (no_trace\<lparr>trace_correlation := jr_correlation_id q, trace_idempotency := cj_idem c\<rparr>)
        (db\<lparr>draws := Suc (draws db), jobs := jobs db @ [new_job_row h q c manifest policy db]\<rparr>)
        = Inr (job, db')"
      by (auto simp: create_job_tx_def insert_job_tx_def Let_def)
    have "clean_id (new_job_id h c db)"
      using clean_id_requested[OF requested] clean_id_new by (simp add: new_job_id_def)
    then have "fresh_job (new_job_row h q c manifest policy db)"
      by (simp add: fresh_job_def new_job_row_def)
    from wf this r emit show thesis
    proof (rule emit_created)
      fix e o' db1
      assume a: "appended (db\<lparr>draws := Suc (draws db)\<rparr>) e o' db1" "aggregate_kind e = ''job''"
        "aggregate_id e = job_id (new_job_row h q c manifest policy db)" "aggregate_version e = 1"
        "event_type e = py_strip ''job.created''"
        "job = (new_job_row h q c manifest policy db)\<lparr>event_cursor := sequence e\<rparr>"
        "db' = db1\<lparr>jobs := jobs db @ [job]\<rparr>"
      have "py_strip ''job.created'' = ''job.created''" by (simp add: py_strip_def py_space_def)
      with a cv r \<open>clean_id (new_job_id h c db)\<close> show thesis
        by (intro created_if[of e o' db1]) (simp_all add: fresh_job_def new_job_row_def)
    qed
  qed
qed

section \<open>Recovery\<close>

lemma job_mutation_row:
  assumes "job_mutation db jid f etype job db'" and "job_row_tx jid db = Inr row"
  obtains n where "job = (f row)\<lparr>event_cursor := n\<rparr>"
    "jobs db' = map (\<lambda>r. if job_id r = jid then (f r)\<lparr>event_cursor := n\<rparr> else r) (jobs db)"
proof -
  from assms(1) obtain row0 e o' db1 where row0: "find (\<lambda>r. job_id r = jid) (jobs db) = Some row0"
    and "appended db e o' db1"
    and job: "job = (f row0)\<lparr>event_cursor := sequence e\<rparr>"
    and db': "db' = db1\<lparr>jobs := map (\<lambda>r. if job_id r = jid then (f r)\<lparr>event_cursor := sequence e\<rparr> else r)
                         (jobs db)\<rparr>"
    unfolding job_mutation_def by blast
  have "row0 = row" using row0 assms(2) by (simp add: job_row_tx_Inr)
  moreover have "jobs db' = map (\<lambda>r. if job_id r = jid then (f r)\<lparr>event_cursor := sequence e\<rparr> else r) (jobs db)"
    unfolding db' by simp
  ultimately show thesis using that[of "sequence e"] job by blast
qed

lemma job_mutation_lookup:
  assumes "job_mutation db jid f etype job db'" and "\<And>r. job_id (f r) = job_id r"
  shows "find (\<lambda>r. job_id r = a) (jobs db') = (if a = jid then Some job else find (\<lambda>r. job_id r = a) (jobs db))"
    and "map job_id (jobs db') = map job_id (jobs db)"
proof -
  from assms(1) obtain row where row: "find (\<lambda>r. job_id r = jid) (jobs db) = Some row"
    unfolding job_mutation_def by blast
  then have "job_row_tx jid db = Inr row" by (simp add: job_row_tx_Inr)
  with assms(1) obtain n where job: "job = (f row)\<lparr>event_cursor := n\<rparr>"
    and db': "jobs db' = map (\<lambda>r. if job_id r = jid then (f r)\<lparr>event_cursor := n\<rparr> else r) (jobs db)"
    by (rule job_mutation_row)
  let ?g = "\<lambda>r. (f r)\<lparr>event_cursor := n\<rparr>"
  have g: "job_id (?g r) = job_id r" for r using assms(2) by simp
  show "find (\<lambda>r. job_id r = a) (jobs db') = (if a = jid then Some job else find (\<lambda>r. job_id r = a) (jobs db))"
    unfolding db' using find_map_update[of job_id ?g, OF g] row job by (auto split: option.splits)
  show "map job_id (jobs db') = map job_id (jobs db)"
    unfolding db' by (rule map_key_map[of job_id ?g, OF g])
qed

lemma recover_one_job_wf:
  assumes "store_wf db" and "recover_one_job h tm row db = Inr (job, db')"
    and "find (\<lambda>r. job_id r = job_id row) (jobs db) = Some row" and "status row \<in> job_leased_states"
  shows "store_wf db' \<and> others_same db db' \<and> job_move row job"
proof -
  from assms(1) have wf: "log_wf db" "jobs_wf db" by (simp_all add: store_wf_def)
  from wf(2) assms(2,3) obtain delay where m: "job_mutation db (job_id row)
     (recover_row (recovery_target h row) (tm + max 0 delay) tm row) (recovery_event (recovery_target h row)) job db'"
    by (rule recover_one_job_Inr)
  have dist: "distinct (map job_id (jobs db))" using wf(2) by (simp add: jobs_wf_def)
  have good: "job_row_wf (recover_row (recovery_target h row) (tm + max 0 delay) tm row r)"
    if "r \<in> set (jobs db)" "job_id r = job_id row" "job_row_wf r" for r
  proof -
    have "r = row" using find_distinct_key[OF dist that(1)] that(2) assms(3) by simp
    with that assms(4) recover_row_step[of row] show ?thesis by (simp add: row_step_def)
  qed
  have "log_wf db' \<and> jobs_wf db'"
    by (rule job_mutation_wf[OF wf m]) (rule row_update_ids good; assumption)+
  moreover have "job_move row job"
  proof -
    have "job_row_tx (job_id row) db = Inr row" using assms(3) by (simp add: job_row_tx_Inr)
    moreover have "row_step row (recover_row (recovery_target h row) (tm + max 0 delay) tm row row)"
      using assms(3,4) wf(2) find_Some_key[of job_id "job_id row" "jobs db" row]
      by (intro recover_row_step) (auto simp: jobs_wf_def)
    ultimately show ?thesis using m by (auto simp: row_step_def elim!: job_mutation_row)
  qed
  ultimately show ?thesis using others_same_mutation[OF m] by (simp add: store_wf_def)
qed

lemma recover_jobs_Inr:
  assumes "recover_jobs h tm rows db = Inr (recovered, db')" and "store_wf db"
    and "distinct (map job_id rows)"
    and "\<And>row. row \<in> set rows \<Longrightarrow> find (\<lambda>r. job_id r = job_id row) (jobs db) = Some row \<and> status row \<in> job_leased_states"
  shows "store_wf db' \<and> others_same db db' \<and> map job_id recovered = map job_id rows \<and>
    map job_id (jobs db') = map job_id (jobs db) \<and>
    (\<forall>a. a \<notin> job_id ` set rows \<longrightarrow> find (\<lambda>r. job_id r = a) (jobs db') = find (\<lambda>r. job_id r = a) (jobs db)) \<and>
    (\<forall>row\<in>set rows. \<exists>job\<in>set recovered. find (\<lambda>r. job_id r = job_id row) (jobs db') = Some job \<and>
       status job = recovery_target h row \<and> lease_owner job = [] \<and> lease_expires_at job = None \<and>
       lease_epoch job = lease_epoch row \<and> job_move row job)"
  using assms
proof (induction rows arbitrary: db recovered)
  case (Cons row rows)
  from Cons.prems(1) obtain job db1 recovered1 where
    one: "recover_one_job h tm row db = Inr (job, db1)"
    and rest: "recover_jobs h tm rows db1 = Inr (recovered1, db')" and rec: "recovered = job # recovered1"
    by auto
  have row: "find (\<lambda>r. job_id r = job_id row) (jobs db) = Some row" "status row \<in> job_leased_states"
    using Cons.prems(4)[of row] by simp_all
  have wf1: "store_wf db1" and same1: "others_same db db1" and move: "job_move row job"
    using recover_one_job_wf[OF Cons.prems(2) one row] by simp_all
  from store_wf_jobs[OF Cons.prems(2)] one row(1) obtain delay where m: "job_mutation db (job_id row)
     (recover_row (recovery_target h row) (tm + max 0 delay) tm row) (recovery_event (recovery_target h row)) job db1"
    by (rule recover_one_job_Inr)
  note look = job_mutation_lookup[OF m, simplified]
  have "job_row_tx (job_id row) db = Inr row" using row(1) by (simp add: job_row_tx_Inr)
  from m this have job: "status job = recovery_target h row" "lease_owner job = []"
    "lease_expires_at job = None" "lease_epoch job = lease_epoch row" "job_id job = job_id row"
    by (auto simp: recover_row_def elim!: job_mutation_row)
  have notin: "job_id row \<notin> job_id ` set rows" using Cons.prems(3) by simp
  have sel: "find (\<lambda>r. job_id r = job_id x) (jobs db1) = Some x \<and> status x \<in> job_leased_states"
    if "x \<in> set rows" for x
  proof -
    have "job_id x \<noteq> job_id row" using notin that by (metis imageI)
    then show ?thesis using look(1)[of "job_id x"] Cons.prems(4)[of x] that by simp
  qed
  have "distinct (map job_id rows)" using Cons.prems(3) by simp
  from Cons.IH[OF rest wf1 this sel] have IH: "store_wf db' \<and> others_same db1 db'" "map job_id recovered1 = map job_id rows"
    "map job_id (jobs db') = map job_id (jobs db1)"
    "\<And>a. a \<notin> job_id ` set rows \<Longrightarrow> find (\<lambda>r. job_id r = a) (jobs db') = find (\<lambda>r. job_id r = a) (jobs db1)"
    "\<And>x. x \<in> set rows \<Longrightarrow> \<exists>job\<in>set recovered1. find (\<lambda>r. job_id r = job_id x) (jobs db') = Some job \<and>
       status job = recovery_target h x \<and> lease_owner job = [] \<and> lease_expires_at job = None \<and>
       lease_epoch job = lease_epoch x \<and> job_move x job"
    by auto
  have "find (\<lambda>r. job_id r = job_id row) (jobs db') = Some job"
    using IH(4)[OF notin] look(1) by simp
  moreover have "find (\<lambda>r. job_id r = a) (jobs db') = find (\<lambda>r. job_id r = a) (jobs db)"
    if "a \<notin> job_id ` set (row # rows)" for a
    using that IH(4)[of a] look(1)[of a] by simp
  moreover have "\<exists>job\<in>set recovered. find (\<lambda>r. job_id r = job_id x) (jobs db') = Some job \<and>
       status job = recovery_target h x \<and> lease_owner job = [] \<and> lease_expires_at job = None \<and>
       lease_epoch job = lease_epoch x \<and> job_move x job" if "x \<in> set (row # rows)" for x
    using that IH(5)[of x] calculation(1) job move rec by (metis set_ConsD list.set_intros)
  moreover have "store_wf db' \<and> others_same db db'"
    using IH(1) others_same_trans[OF same1] by simp
  ultimately show ?case using IH(2,3) job(5) look(2) rec by simp
qed simp

section \<open>Preservation of the invariant\<close>

lemma op_job_step:
  assumes "store_wf db" and "\<And>e db'. r = (Inl e, db') \<Longrightarrow> db' = db"
    and "\<And>x db'. r = (Inr x, db') \<Longrightarrow> job_step db db'"
  shows "job_step db (snd r)"
  using assms job_step_refl by (cases r; cases "fst r") auto

lemma mutation_job_step:
  assumes "store_wf db" and "job_row_tx jid db = Inr row" and "job_mutation db jid f etype job db'"
    and "\<And>r. job_id (f r) = job_id r" and "job_row_wf row \<Longrightarrow> row_step row (f row)"
  shows "job_step db db'"
proof -
  from assms(1) have wf: "log_wf db" "jobs_wf db" by (simp_all add: store_wf_def)
  have dist: "distinct (map job_id (jobs db))" using wf(2) by (simp add: jobs_wf_def)
  have row: "find (\<lambda>r. job_id r = jid) (jobs db) = Some row" using assms(2) by (simp add: job_row_tx_Inr)
  have good: "job_row_wf (f r)" if "r \<in> set (jobs db)" "job_id r = jid" "job_row_wf r" for r
    using find_distinct_key[OF dist that(1)] that row assms(5) by (simp add: row_step_def)
  have "log_wf db' \<and> jobs_wf db'"
    by (rule job_mutation_wf[OF wf assms(3)]) (rule assms(4) good; assumption)+
  moreover have "job_moves db db'"
  proof -
    have "row_step row (f row)"
      using assms(5) wf(2) find_Some_key[of job_id, OF row] by (simp add: jobs_wf_def)
    moreover from assms(3,2) obtain n where job: "job = (f row)\<lparr>event_cursor := n\<rparr>"
      by (rule job_mutation_row)
    ultimately have "job_move row job" "status row \<notin> {Succeeded, Cancelled}"
      by (simp_all add: row_step_def job_move_def)
    then show ?thesis
      using job_mutation_lookup(1)[OF assms(3,4)] row
      by (auto simp: job_moves_def job_move_refl)
  qed
  ultimately show ?thesis using others_same_mutation[OF assms(3)] by (simp add: job_step_def store_wf_def)
qed

text \<open>Where the guard of an operation puts the row.\<close>

lemma expect_lease_leased: "expect_lease row owner epoch tm job_leased_states = Inr () \<Longrightarrow> status row \<in> job_leased_states"
  by (simp add: expect_lease_Inr)

lemma lease_next_job_step:
  assumes "store_wf db" shows "job_step db (snd (lease_next_job h o' kinds xs ttl now db))"
proof (rule op_job_step[OF assms])
  show "db' = db" if "lease_next_job h o' kinds xs ttl now db = (Inl e, db')" for e db'
    using that by (auto simp: lease_next_job_def Let_def split: sum.splits prod.splits dest: db_write_Inl)
  show "job_step db db'" if x: "lease_next_job h o' kinds xs ttl now db = (Inr x, db')" for x db'
  proof (cases x)
    case None
    have "db' = db" by (rule lease_next_job_None(1)[OF x[unfolded None]])
    then show ?thesis using job_step_refl[OF assms] by simp
  next
    case (Some job)
    from store_wf_jobs[OF assms] x[unfolded Some] obtain ks row where
      "py_strip o' \<noteq> []" "row \<in> set (jobs db)" "leasable (or_now h now) ks xs row"
      "job_mutation db (job_id row) (lease_row (py_strip o') (or_now h now + max 2 ttl) (or_now h now)) ''job.leased'' job db'"
      by (rule lease_next_job_Inr)
    moreover have "job_row_tx (job_id row) db = Inr row"
      using find_distinct_key[of job_id "jobs db"] calculation(2) store_wf_jobs[OF assms]
      by (simp add: job_row_tx_Inr jobs_wf_def)
    note g = calculation(3,1) calculation(4) this
    show ?thesis
      by (rule mutation_job_step[OF assms g(4,3)]) (rule row_update_ids, rule lease_row_step[OF _ g(1,2)])
  qed
qed

lemma start_job_step:
  assumes "store_wf db" shows "job_step db (snd (start_job h jid owner epoch sync expected now db))"
proof (rule op_job_step[OF assms])
  show "db' = db" if "start_job h jid owner epoch sync expected now db = (Inl e, db')" for e db'
    using that unfolding start_job_def by (rule db_write_Inl)
  show "job_step db db'" if "start_job h jid owner epoch sync expected now db = (Inr x, db')" for x db'
    using store_wf_jobs[OF assms] that
    by (rule start_job_Inr)
      (rule mutation_job_step[OF assms], assumption+, simp_all add: expect_lease_Inr start_row_step)
qed

lemma heartbeat_job_step:
  assumes "store_wf db" shows "job_step db (snd (heartbeat_job h jid owner epoch ttl p now db))"
proof (rule op_job_step[OF assms])
  show "db' = db" if "heartbeat_job h jid owner epoch ttl p now db = (Inl e, db')" for e db'
    using that unfolding heartbeat_job_def by (rule db_write_Inl)
  show "job_step db db'" if x: "heartbeat_job h jid owner epoch ttl p now db = (Inr x, db')" for x db'
  proof -
    obtain t where "db' = db\<lparr>jobs := t\<rparr>"
      using store_wf_jobs[OF assms] x by (rule heartbeat_job_Inr) blast
    moreover have "job_moves db db'"
      by (rule heartbeat_job_moves[OF store_wf_jobs[OF assms] x])
    ultimately show ?thesis
      using heartbeat_job_wf[OF store_wf_jobs[OF assms] x] assms
      by (simp add: job_step_def store_wf_def others_same_def kind_events_def outbox_extends_same)
  qed
qed

lemma update_job_progress_step:
  assumes "store_wf db" shows "job_step db (snd (update_job_progress h jid p owner epoch expected merge actor now db))"
proof (rule op_job_step[OF assms])
  show "db' = db" if "update_job_progress h jid p owner epoch expected merge actor now db = (Inl e, db')" for e db'
    using that unfolding update_job_progress_def by (rule db_write_Inl)
  show "job_step db db'" if "update_job_progress h jid p owner epoch expected merge actor now db = (Inr x, db')" for x db'
    using store_wf_jobs[OF assms] that
    by (rule update_job_progress_Inr)
      (rule mutation_job_step[OF assms], assumption+, rule row_update_ids, rule progress_row_step, assumption, auto simp: job_leased_states_def split: if_splits)
qed

lemma mark_job_waiting_step:
  assumes "store_wf db" shows "job_step db (snd (mark_job_waiting h jid owner epoch p now db))"
proof (rule op_job_step[OF assms])
  show "db' = db" if "mark_job_waiting h jid owner epoch p now db = (Inl e, db')" for e db'
    using that unfolding mark_job_waiting_def by (rule db_write_Inl)
  show "job_step db db'" if "mark_job_waiting h jid owner epoch p now db = (Inr x, db')" for x db'
    using store_wf_jobs[OF assms] that
    by (rule mark_job_waiting_Inr)
      (rule mutation_job_step[OF assms], assumption+, simp_all add: expect_lease_Inr waiting_row_step)
qed

lemma wake_job_step:
  assumes "store_wf db" shows "job_step db (snd (wake_job h jid expected available actor db))"
proof (rule op_job_step[OF assms])
  show "db' = db" if "wake_job h jid expected available actor db = (Inl e, db')" for e db'
    using that unfolding wake_job_def by (rule db_write_Inl)
  show "job_step db db'" if "wake_job h jid expected available actor db = (Inr x, db')" for x db'
    using store_wf_jobs[OF assms] that
    by (rule wake_job_Inr)
      (rule mutation_job_step[OF assms], assumption+, simp, rule wake_row_step, assumption+)
qed

lemma pause_job_step:
  assumes "store_wf db" shows "job_step db (snd (pause_job h jid reason expected actor db))"
proof (rule op_job_step[OF assms])
  show "db' = db" if "pause_job h jid reason expected actor db = (Inl e, db')" for e db'
    using that unfolding pause_job_def by (rule db_write_Inl)
  show "job_step db db'" if "pause_job h jid reason expected actor db = (Inr x, db')" for x db'
    using store_wf_jobs[OF assms] that
    by (rule pause_job_Inr)
      (rule mutation_job_step[OF assms], assumption+, simp, rule pause_row_step, assumption+)
qed

lemma request_job_cancel_step:
  assumes "store_wf db" shows "job_step db (snd (request_job_cancel h jid reason expected actor db))"
proof (rule op_job_step[OF assms])
  show "db' = db" if "request_job_cancel h jid reason expected actor db = (Inl e, db')" for e db'
    using that by (auto simp: request_job_cancel_def split: sum.splits dest: db_write_Inl)
  show "job_step db db'" if "request_job_cancel h jid reason expected actor db = (Inr x, db')" for x db'
    using store_wf_jobs[OF assms] that
  proof (cases rule: request_job_cancel_Inr)
    case already
    with assms show ?thesis by (simp add: job_step_refl)
  next
    case (requested row)
    show ?thesis
      by (rule mutation_job_step[OF assms requested(1,5)]) (simp, rule cancel_row_step[OF _ requested(3)])
  qed
qed

lemma acknowledge_job_cancel_step:
  assumes "store_wf db" shows "job_step db (snd (acknowledge_job_cancel h jid owner epoch now db))"
proof (rule op_job_step[OF assms])
  show "db' = db" if "acknowledge_job_cancel h jid owner epoch now db = (Inl e, db')" for e db'
    using that unfolding acknowledge_job_cancel_def by (rule db_write_Inl)
  show "job_step db db'" if "acknowledge_job_cancel h jid owner epoch now db = (Inr x, db')" for x db'
    using store_wf_jobs[OF assms] that
  proof (cases rule: acknowledge_job_cancel_Inr)
    case already
    with assms show ?thesis by (simp add: job_step_refl)
  next
    case (acknowledged row)
    show ?thesis
      by (rule mutation_job_step[OF assms acknowledged(1,5)])
        (simp, rule acknowledged_row_step[OF _ expect_lease_leased[OF acknowledged(3)]])
  qed
qed

lemma finish_job_tx_step:
  assumes "store_wf db" and "finish_job_tx h jid q db = Inr (job, db')"
  shows "job_step db db'"
  using store_wf_jobs[OF assms(1)] assms(2)
proof (rule finish_job_tx_Inr)
  fix row target pj
  assume g: "job_row_tx jid db = Inr row" "target \<in> finish_targets"
    "expect_lease row (fr_lease_owner q) (fr_lease_epoch q) (or_now h (fr_now q)) job_leased_states = Inr ()"
    "\<not> (cancel_requested row \<and> target = Succeeded)"
    and m: "job_mutation db jid (finish_row target (py_strip (fr_result_ref q)) (py_strip (fr_diagnostics_ref q))
       pj (py_strip (fr_error q)) (or_now h (fr_now q))) (''job.'' @ fr_status q) job db'"
  show ?thesis
    by (rule mutation_job_step[OF assms(1) g(1) m])
      (simp, rule finish_row_step[OF _ expect_lease_leased[OF g(3)] g(2,4)])
qed

lemma finish_job_step:
  assumes "store_wf db" shows "job_step db (snd (finish_job h jid q db))"
  unfolding finish_job_def by (rule db_write_invariant[where I = "job_step db", OF job_step_refl[OF assms]]) (rule finish_job_tx_step[OF assms])

lemma release_job_step:
  assumes "store_wf db" shows "job_step db (snd (release_job h jid owner epoch err dl unknown now db))"
proof (rule op_job_step[OF assms])
  show "db' = db" if "release_job h jid owner epoch err dl unknown now db = (Inl e, db')" for e db'
    using that unfolding release_job_def by (rule db_write_Inl)
  show "job_step db db'" if "release_job h jid owner epoch err dl unknown now db = (Inr x, db')" for x db'
    using store_wf_jobs[OF assms] that
    by (rule release_job_Inr)
      (rule mutation_job_step[OF assms], assumption+, simp, rule release_row_step, assumption, erule expect_lease_leased)
qed

lemma retry_job_step:
  assumes "store_wf db" shows "job_step db (snd (retry_job h jid expected available reset actor db))"
proof (rule op_job_step[OF assms])
  show "db' = db" if "retry_job h jid expected available reset actor db = (Inl e, db')" for e db'
    using that unfolding retry_job_def by (rule db_write_Inl)
  show "job_step db db'" if "retry_job h jid expected available reset actor db = (Inr x, db')" for x db'
    using store_wf_jobs[OF assms] that
    by (rule retry_job_Inr)
      (rule mutation_job_step[OF assms], assumption+, simp, rule retry_row_step, assumption+)
qed

text \<open>The rows a recovery run selects are the expired ones, each once, as they are stored.\<close>

definition expired_jobs :: "rat \<Rightarrow> work_db \<Rightarrow> job_row list" where
  "expired_jobs tm db = sort_key (\<lambda>r. (the (lease_expires_at r), job_id r)) (filter (job_lease_expired tm) (jobs db))"

lemma expired_jobs_selected:
  assumes "jobs_wf db"
  shows "distinct (map job_id (expired_jobs tm db))"
    and "row \<in> set (expired_jobs tm db) \<Longrightarrow>
      find (\<lambda>r. job_id r = job_id row) (jobs db) = Some row \<and> status row \<in> job_leased_states"
    and "set (expired_jobs tm db) = {r \<in> set (jobs db). job_lease_expired tm r}"
proof -
  have dist: "distinct (map job_id (jobs db))" using assms by (simp add: jobs_wf_def)
  then have "distinct (map job_id (filter (job_lease_expired tm) (jobs db)))"
    by (rule distinct_map_filter)
  then show "distinct (map job_id (expired_jobs tm db))"
    by (simp add: expired_jobs_def distinct_map)
  show set: "set (expired_jobs tm db) = {r \<in> set (jobs db). job_lease_expired tm r}"
    by (simp add: expired_jobs_def)
  show "row \<in> set (expired_jobs tm db) \<Longrightarrow>
      find (\<lambda>r. job_id r = job_id row) (jobs db) = Some row \<and> status row \<in> job_leased_states"
    unfolding set using find_distinct_key[OF dist] by (auto simp: job_lease_expired_def)
qed

lemma recover_expired_job_leases_expired:
  "recover_expired_job_leases h now db = db_write h (\<lambda>db. recover_jobs h (or_now h now) (expired_jobs (or_now h now) db) db) db"
  by (simp add: recover_expired_job_leases_def expired_jobs_def)

lemma recover_expired_job_leases_step:
  assumes "store_wf db" shows "job_step db (snd (recover_expired_job_leases h now db))"
  unfolding recover_expired_job_leases_expired
proof (rule db_write_invariant[where I = "job_step db", OF job_step_refl[OF assms]])
  fix x db'
  assume "recover_jobs h (or_now h now) (expired_jobs (or_now h now) db) db = Inr (x, db')"
  note R = recover_jobs_Inr[OF this assms expired_jobs_selected(1)[OF store_wf_jobs[OF assms]]
      expired_jobs_selected(2)[OF store_wf_jobs[OF assms], of _ "or_now h now"], simplified]
  have "\<exists>r'. find (\<lambda>r. job_id r = j) (jobs db') = Some r' \<and> job_move r r' \<and>
      (status r \<in> {Succeeded, Cancelled} \<longrightarrow> r' = r)"
    if r: "find (\<lambda>r. job_id r = j) (jobs db) = Some r" for j r
  proof (cases "j \<in> job_id ` set (expired_jobs (or_now h now) db)")
    case True
    then obtain row where row: "row \<in> set (expired_jobs (or_now h now) db)" "job_id row = j" by auto
    with expired_jobs_selected(2)[OF store_wf_jobs[OF assms] row(1)] r have "r = row" "status r \<in> job_leased_states"
      by auto
    then have "status r \<notin> {Succeeded, Cancelled}" by (auto simp: job_leased_states_def)
    moreover have "\<exists>r'. find (\<lambda>r. job_id r = j) (jobs db') = Some r' \<and> job_move r r'"
      using R row \<open>r = row\<close> by blast
    ultimately show ?thesis by blast
  next
    case False
    with R r show ?thesis by (simp add: job_move_refl)
  qed
  moreover have "find (\<lambda>r. job_id r = j) (jobs db') = None" if "find (\<lambda>r. job_id r = j) (jobs db) = None" for j
    using that R unfolding find_None_key by (metis list.set_map)
  ultimately show "job_step db db'"
    using R by (simp add: job_step_def job_moves_def)
qed

lemma create_job_step:
  assumes "store_wf db" shows "job_step db (snd (create_job h q db))"
proof (rule op_job_step[OF assms])
  show "db' = db" if "create_job h q db = (Inl e, db')" for e db'
    using that unfolding create_job_def by (rule db_write_Inl)
  show "job_step db db'" if "create_job h q db = (Inr x, db')" for x db'
    using store_wf_jobs[OF assms] that
  proof (cases rule: create_job_cases)
    case replay
    with assms show ?thesis by (simp add: job_step_refl)
  next
    case (created e o' db1)
    have wf: "jobs_wf db" "log_wf (db\<lparr>draws := Suc (draws db)\<rparr>)" using assms by (simp_all add: store_wf_def)
    have lw: "log_wf db'" using appended_wf[OF wf(2) created(1)] created(6) by simp
    have ver: "max_version db' ''job'' a = (if a = job_id x then max_version db ''job'' a + 1 else max_version db ''job'' a)" for a
      using appended_max_version[OF created(1), of "''job''" a] created(2,3,6) by auto
    have old: "max_version db ''job'' (job_id x) = 0"
    proof -
      have "filter (\<lambda>e. aggregate_kind e = ''job'' \<and> aggregate_id e = job_id x) (events db) = []"
        unfolding filter_empty_conv using job_events_known[OF wf(1)] created(8) by metis
      then show ?thesis by (simp add: max_version_def)
    qed
    have ev: "events db' = events db @ [e]" using appended_frame(6)[OF created(1)] created(6) by simp
    have other: "job_id r \<noteq> job_id x" if "r \<in> set (jobs db)" for r
      using created(8) that by (metis imageI)
    have "jobs_wf db'"
      using wf(1) created(3,7,8) fresh_job_wf[OF created(7)] old ver ev created(6) other
      by (auto simp: jobs_wf_def fresh_job_def)
    moreover have "others_same db db'"
      using appended_frame[OF created(1)] created(2,6)
        outbox_extends_frame[OF appended_outbox[OF created(1)], of db db']
      by (simp add: others_same_def kind_events_def)
    moreover have "job_moves db db'"
      using created(6,7,8) other find_None_key[of job_id "job_id x" "jobs db"]
      by (auto simp: job_moves_def find_append job_move_refl fresh_job_def split: option.splits if_splits)
    ultimately show ?thesis using lw by (simp add: job_step_def store_wf_def)
  qed
qed

end
