(* ===== verification/Work_Operations.thy ===== *)
theory Work_Operations
  imports Work_Job_Ops
begin

text \<open>
  Operation receipts of \<^verbatim>\<open>WorkRepository\<close>: a receipt is recorded once, terminal, with its one
  event.  The second half states what a table of versioned aggregates owes the log, for the
  receipts and the interactions alike.
\<close>

section \<open>Receipts\<close>

definition operation_states :: "operation_status list" where
  "operation_states = [OpPlanned, OpRunning, OpSucceeded, OpFailed, OpCancelled, OpUnknownEffect]"

definition operation_status_of :: "string \<Rightarrow> operation_status option" where
  "operation_status_of t = find (\<lambda>s. operation_status_text s = t) operation_states"

record receipt_request =
  rr_operation_id :: string
  rr_kind :: string
  rr_status :: string
  rr_scope :: scope_arg
  rr_request :: jobject
  rr_response :: jobject
  rr_effect_ref :: string
  rr_error :: string
  rr_idempotency_key :: string
  rr_actor :: "work_actor option"
  rr_correlation_id :: string

text \<open>The request without its attribution, with the scope: what the fingerprint covers.\<close>

definition receipt_fingerprint :: "host \<Rightarrow> string \<Rightarrow> work_scope \<Rightarrow> jobject \<Rightarrow> string" where
  "receipt_fingerprint h kind scope request = json_fingerprint h kind
     (JObj (jset (filter (\<lambda>p. fst p \<noteq> ''attribution'') request) ''scope'' (JObj (to_dict scope))))"

record clean_receipt =
  cr_id :: string
  cr_kind :: string
  cr_status :: operation_status
  cr_scope :: work_scope
  cr_idem :: string
  cr_fingerprint :: string

definition clean_receipt_args :: "host \<Rightarrow> receipt_request \<Rightarrow> clean_receipt res" where
  "clean_receipt_args h q =
     ebind (text_arg (rr_operation_id q) ''operation_id'' True 512) (\<lambda>ident.
     ebind (text_arg (rr_kind q) ''operation kind'' True 240) (\<lambda>kind.
     case operation_status_of (rr_status q) of
       None \<Rightarrow> Inl (ValueError (''receipt operation must be terminal, got '' @ rr_status q))
     | Some st \<Rightarrow>
         ebind (require (st \<in> terminal_operation_states)
           (ValueError (''receipt operation must be terminal, got '' @ rr_status q))) (\<lambda>_.
         ebind (coerce_work_scope h (rr_scope q)) (\<lambda>scope.
         ebind (text_arg (rr_idempotency_key q) ''idempotency_key'' False 512) (\<lambda>idem.
         Inr \<lparr>cr_id = ident, cr_kind = kind, cr_status = st, cr_scope = scope, cr_idem = idem,
              cr_fingerprint = receipt_fingerprint h kind scope (rr_request q)\<rparr>)))))"

definition insert_receipt_tx ::
  "host \<Rightarrow> receipt_request \<Rightarrow> clean_receipt \<Rightarrow> (work_db, operation_row) body" where
  "insert_receipt_tx h q c db =
     ebind (store_json h (to_dict (cr_scope c))) (\<lambda>_.
     ebind (store_json h (rr_request q)) (\<lambda>request.
     ebind (store_json h (rr_response q)) (\<lambda>response.
     ebind (text_arg (rr_effect_ref q) ''effect_ref'' False 2000) (\<lambda>eff.
     ebind (text_arg (rr_error q) ''operation error'' False 16000) (\<lambda>err.
     let row = \<lparr>operation_id = cr_id c, operation_kind = cr_kind c, operation_status = cr_status c,
           operation_scope = cr_scope c, operation_idempotency_key = cr_idem c,
           operation_fingerprint = cr_fingerprint c, operation_request = request,
           operation_response = response, effect_ref = eff, operation_revision = 1,
           operation_created_at = clock h, operation_updated_at = clock h,
           operation_completed_at = Some (clock h), operation_error = err\<rparr> in
     ebind (insert_event_tx h (event_request0\<lparr>req_event_type := ''capability.receipt.recorded'',
         req_aggregate_kind := ''operation'', req_aggregate_id := cr_id c,
         req_aggregate_version := Some 1, req_expected_version := Some 0,
         req_scope := AScope (cr_scope c), req_actor := rr_actor q,
         req_correlation_id := rr_correlation_id q, req_idempotency_key := cr_id c,
         req_payload := [(''operation_id'', JStr (cr_id c)), (''kind'', JStr (cr_kind c)),
           (''status'', JStr (operation_status_text (cr_status c))),
           (''effect_ref'', JStr (rr_effect_ref q)), (''error'', JStr (rr_error q))]\<rparr>)
       (db\<lparr>operations := operations db @ [row], operation_clock := operation_clock db + 1\<rparr>))
     (\<lambda>(_, db'). Inr (row, db')))))))"

definition record_operation_receipt_tx :: "host \<Rightarrow> receipt_request \<Rightarrow> clean_receipt \<Rightarrow> (work_db, operation_row) body" where
  "record_operation_receipt_tx h q c db =
     (case find (\<lambda>r. operation_id r = cr_id c) (operations db) of
        Some prior \<Rightarrow>
          ebind (require (operation_kind prior = cr_kind c)
            (WorkConflict ''operation receipt id was reused for another kind'')) (\<lambda>_.
          ebind (require (operation_fingerprint prior = cr_fingerprint c)
            (WorkConflict ''operation receipt id was reused for a different request'')) (\<lambda>_.
          Inr (prior, db)))
      | None \<Rightarrow>
          (case (if cr_idem c = [] then None
                 else find (\<lambda>r. operation_kind r = cr_kind c \<and> operation_idempotency_key r = cr_idem c)
                   (operations db)) of
             Some prior \<Rightarrow>
               ebind (require (operation_fingerprint prior = cr_fingerprint c)
                 (WorkConflict ''operation idempotency key was reused with a different request''))
               (\<lambda>_. Inr (prior, db))
           | None \<Rightarrow> insert_receipt_tx h q c db))"

definition record_operation_receipt ::
  "host \<Rightarrow> receipt_request \<Rightarrow> work_db \<Rightarrow> operation_row res \<times> work_db" where
  "record_operation_receipt h q db =
     (case clean_receipt_args h q of
        Inl e \<Rightarrow> (Inl e, db)
      | Inr c \<Rightarrow> db_write h (record_operation_receipt_tx h q c) db)"

section \<open>Reading receipts\<close>

definition get_operation :: "string \<Rightarrow> work_db \<Rightarrow> operation_row option" where
  "get_operation oid db = find (\<lambda>r. operation_id r = oid) (operations db)"

text \<open>\<^verbatim>\<open>json_extract(request_json, '$.attribution.<key>')\<close> compared with a text.\<close>

definition attribution :: "operation_row \<Rightarrow> string \<Rightarrow> json option" where
  "attribution r key = (case jget (operation_request r) ''attribution'' of
     Some (JObj a) \<Rightarrow> jget a key | _ \<Rightarrow> None)"

definition operations_for_outer_call ::
  "string \<Rightarrow> string \<Rightarrow> string \<Rightarrow> work_db \<Rightarrow> operation_row list res" where
  "operations_for_outer_call chat run call db =
     (let records = sort_key (\<lambda>r. (operation_created_at r, operation_id r))
        (filter (\<lambda>r. attribution r ''run_id'' = Some (JStr run) \<and>
                     attribution r ''outer_tool_call_id'' = Some (JStr call)) (operations db)) in
      ebind (require (list_all (\<lambda>r. chat_id (operation_scope r) = chat \<and>
          attribution r ''chat_id'' = Some (JStr chat)) records)
        (ValueError ''outer-call Work receipt ownership mismatch'')) (\<lambda>_. Inr records))"

record activity_item =
  item_operation_id :: string
  item_kind :: string
  item_status :: operation_status
  item_revision :: int
  item_created_at :: rat
  item_updated_at :: rat
  item_completed_at :: "rat option"
  item_run_id :: json
  item_cell_execution_id :: json
  item_scope :: jobject

record activity =
  activity_items :: "activity_item list"
  activity_revision :: int
  truncated :: bool

definition null_or :: "json option \<Rightarrow> json" where
  "null_or v = (case v of None \<Rightarrow> JNull | Some w \<Rightarrow> w)"

definition activity_item_of :: "operation_row \<Rightarrow> activity_item" where
  "activity_item_of r = \<lparr>item_operation_id = operation_id r, item_kind = operation_kind r,
     item_status = operation_status r, item_revision = operation_revision r,
     item_created_at = operation_created_at r, item_updated_at = operation_updated_at r,
     item_completed_at = operation_completed_at r, item_run_id = null_or (attribution r ''run_id''),
     item_cell_execution_id = null_or (attribution r ''cell_execution_id''),
     item_scope = jset (onorm (to_dict (operation_scope r))) ''run_id'' (null_or (attribution r ''run_id''))\<rparr>"

text \<open>One row more than the page is read, to see whether it is the last.\<close>

definition chat_operation_activity :: "string \<Rightarrow> int \<Rightarrow> work_db \<Rightarrow> activity" where
  "chat_operation_activity chat limit db =
     (let cap = nat (max 1 (min 100 limit));
          rows = take (cap + 1) (rev (sort_key (\<lambda>r. (operation_updated_at r, operation_id r))
            (filter (\<lambda>r. chat_id (operation_scope r) = chat) (operations db)))) in
      \<lparr>activity_items = map activity_item_of (take cap rows), activity_revision = operation_clock db,
       truncated = (cap < length rows)\<rparr>)"

definition list_operations :: "string list \<Rightarrow> rat option \<Rightarrow> int \<Rightarrow> work_db \<Rightarrow> operation_row list" where
  "list_operations statuses updated_before limit db =
     take (clamp_limit limit) (sort_key (\<lambda>r. (operation_updated_at r, operation_id r))
       (filter (\<lambda>r. (statuses = [] \<or> operation_status_text (operation_status r) \<in> set statuses) \<and>
          (case updated_before of None \<Rightarrow> True | Some t \<Rightarrow> operation_updated_at r < t)) (operations db)))"

section \<open>Recovery of stale operations\<close>

definition stale_operation :: "rat \<Rightarrow> operation_row \<Rightarrow> bool" where
  "stale_operation before r \<longleftrightarrow>
     operation_status r \<in> {OpPlanned, OpRunning} \<and> operation_updated_at r < before"

definition stale_row :: "rat \<Rightarrow> operation_row \<Rightarrow> operation_row" where
  "stale_row tm r = r\<lparr>operation_status := OpUnknownEffect,
     operation_revision := operation_revision r + 1,
     operation_error := ''operation interrupted before a terminal receipt'',
     operation_updated_at := tm, operation_completed_at := Some tm\<rparr>"

definition recover_one_operation :: "host \<Rightarrow> operation_row \<Rightarrow> (work_db, operation_row) body" where
  "recover_one_operation h row db =
     (case sql_update (\<lambda>r. operation_id r = operation_id row \<and> operation_revision r = operation_revision row)
         (stale_row (clock h)) (operations db) of (n, t) \<Rightarrow>
      ebind (require (n = 1) (WorkConflict (''operation recovery CAS lost for '' @ operation_id row))) (\<lambda>_.
      let updated = stale_row (clock h) row in
      ebind (insert_event_tx h (event_request0\<lparr>req_event_type := ''operation.unknown_effect'',
          req_aggregate_kind := ''operation'', req_aggregate_id := operation_id row,
          req_aggregate_version := Some (operation_revision updated),
          req_expected_version := Some (operation_revision updated - 1),
          req_scope := AScope (operation_scope row),
          req_payload := [(''reason'', JStr (operation_error updated))]\<rparr>)
        (db\<lparr>operations := t, operation_clock := operation_clock db + 1\<rparr>))
      (\<lambda>(_, db'). Inr (updated, db'))))"

fun recover_operations :: "host \<Rightarrow> operation_row list \<Rightarrow> (work_db, operation_row list) body" where
  "recover_operations h [] db = Inr ([], db)"
| "recover_operations h (row # rows) db =
     ebind (recover_one_operation h row db) (\<lambda>(r, db1).
     ebind (recover_operations h rows db1) (\<lambda>(rs, db2). Inr (r # rs, db2)))"

definition recover_stale_operations ::
  "host \<Rightarrow> rat \<Rightarrow> work_db \<Rightarrow> operation_row list res \<times> work_db" where
  "recover_stale_operations h before db =
     db_write h (\<lambda>db. recover_operations h
       (sort_key (\<lambda>r. (operation_updated_at r, operation_id r))
         (filter (stale_operation before) (operations db))) db) db"

section \<open>Tables of versioned aggregates\<close>

text \<open>
  What a table of aggregates owes the log: rows of distinct keys, each as good as \<open>ok\<close> says and
  at the version of its last event, and no event of an unknown aggregate.
\<close>

definition aggregate_wf ::
  "string \<Rightarrow> ('r \<Rightarrow> string) \<Rightarrow> ('r \<Rightarrow> int) \<Rightarrow> ('r \<Rightarrow> bool) \<Rightarrow> 'r list \<Rightarrow> work_db \<Rightarrow> bool" where
  "aggregate_wf k key ver ok rs db \<longleftrightarrow> distinct (map key rs) \<and>
     (\<forall>r\<in>set rs. ok r \<and> ver r = max_version db k (key r)) \<and>
     (\<forall>e\<in>set (events db). aggregate_kind e = k \<longrightarrow> aggregate_id e \<in> key ` set rs)"

lemma max_version_kind: "max_version db k a =
    fold max (map aggregate_version (filter (\<lambda>e. aggregate_id e = a) (kind_events db k))) 0"
  by (simp add: max_version_def kind_events_def conj_commute)

lemma aggregate_wf_frame:
  assumes "kind_events db' k = kind_events db k"
  shows "aggregate_wf k key ver ok rs db' = aggregate_wf k key ver ok rs db"
proof -
  have "(\<forall>e\<in>set (events db). aggregate_kind e = k \<longrightarrow> aggregate_id e \<in> A) \<longleftrightarrow>
      (\<forall>e\<in>set (kind_events db k). aggregate_id e \<in> A)" for db A
    by (auto simp: kind_events_def)
  with assms show ?thesis by (simp add: aggregate_wf_def max_version_kind)
qed

lemma kind_events_appended:
  "appended db e o' db' \<Longrightarrow> kind_events db' k = kind_events db k @ (if aggregate_kind e = k then [e] else [])"
  by (simp add: kind_events_def appended_frame)

lemma unknown_version:
  assumes "aggregate_wf k key ver ok rs db" and "a \<notin> key ` set rs"
  shows "max_version db k a = 0"
proof -
  have "filter (\<lambda>e. aggregate_kind e = k \<and> aggregate_id e = a) (events db) = []"
    unfolding filter_empty_conv using assms by (metis aggregate_wf_def)
  then show ?thesis by (simp add: max_version_def)
qed

lemma aggregate_wf_insert:
  assumes wf: "aggregate_wf k key ver ok rs db" and ap: "appended db e o' db'"
    and e: "aggregate_kind e = k" "aggregate_id e = key r" and fresh: "key r \<notin> key ` set rs"
    and r: "ok r" "ver r = 1"
  shows "aggregate_wf k key ver ok (rs @ [r]) db'"
proof -
  have ver: "max_version db' k a = (if a = key r then 1 else max_version db k a)" for a
    using appended_max_version[OF ap, of k a] e unknown_version[OF wf fresh] by auto
  have "key x \<noteq> key r" if "x \<in> set rs" for x using fresh that by (metis imageI)
  with wf fresh r ver e appended_frame(6)[OF ap] show ?thesis
    by (auto simp: aggregate_wf_def)
qed

lemma aggregate_wf_update:
  assumes wf: "aggregate_wf k key ver ok rs db" and ap: "appended db e o' db'"
    and row: "find (\<lambda>r. key r = a) rs = Some row" and e: "aggregate_kind e = k" "aggregate_id e = a"
    and f: "\<And>r. key (f r) = key r" and ok: "ok row \<Longrightarrow> ok (f row)" and v: "ver (f row) = ver row + 1"
  shows "aggregate_wf k key ver ok (map (\<lambda>r. if key r = a then f r else r) rs) db'"
proof -
  have dist: "distinct (map key rs)" using wf by (simp add: aggregate_wf_def)
  have ver: "max_version db' k b = (if b = a then max_version db k b + 1 else max_version db k b)" for b
    using appended_max_version[OF ap, of k b] e by auto
  have keys: "map key (map (\<lambda>r. if key r = a then f r else r) rs) = map key rs"
    using f by (rule map_key_map)
  have "ok x \<and> ver x = max_version db' k (key x)" if x: "x \<in> set (map (\<lambda>r. if key r = a then f r else r) rs)" for x
  proof -
    from x obtain r where r: "r \<in> set rs" "x = (if key r = a then f r else r)" by auto
    show ?thesis
    proof (cases "key r = a")
      case True
      then have "r = row" using find_distinct_key[OF dist r(1)] row by simp
      with r True wf ok v ver f show ?thesis by (simp add: aggregate_wf_def)
    next
      case False
      with r wf ver show ?thesis by (simp add: aggregate_wf_def)
    qed
  qed
  moreover have "\<forall>x\<in>set (events db'). aggregate_kind x = k \<longrightarrow>
      aggregate_id x \<in> key ` set (map (\<lambda>r. if key r = a then f r else r) rs)"
  proof -
    have "key ` set (map (\<lambda>r. if key r = a then f r else r) rs) = key ` set rs"
      using keys by (metis list.set_map)
    moreover have "a \<in> key ` set rs" using find_Some_key[of key, OF row] by force
    ultimately show ?thesis
      using wf e appended_frame(6)[OF ap] by (auto simp: aggregate_wf_def)
  qed
  ultimately show ?thesis using dist unfolding aggregate_wf_def keys by blast
qed

text \<open>The event of an aggregate whose kind and identifier are clean: an append.\<close>

lemma insert_event_append:
  assumes "insert_event_tx h q db = Inr (e, db')"
    and "text_arg (req_aggregate_kind q) ''aggregate_kind'' True 100 = Inr k"
    and "text_arg (req_aggregate_id q) ''aggregate_id'' True 512 = Inr a"
    and "req_idempotency_key q = [] \<or> max_version db k a = 0 \<and> log_wf db"
  obtains o' where "appended db e o' db'" "aggregate_kind e = k" "aggregate_id e = a"
    "event_type e = py_strip (req_event_type q)"
    "\<And>v. req_aggregate_version q = Some v \<Longrightarrow> aggregate_version e = v"
proof -
  have cl: "cl_kind c = k \<and> cl_aggregate c = a \<and> cl_idem c = py_strip (req_idempotency_key q)
      \<and> cl_type c = py_strip (req_event_type q)" if "clean_event_args h q = Inr c" for c
    using that assms(2,3) by (auto simp: clean_event_args_def Let_def text_arg_Inr)
  have np: "prior_event db c = None" if c: "clean_event_args h q = Inr c" for c
  proof (cases "req_idempotency_key q = []")
    case True
    then show ?thesis using cl[OF c] by (simp add: prior_event_def py_strip_def)
  next
    case False
    with assms(4) have "max_version db k a = 0" and "log_wf db" by simp_all
    then have "versions db k a = []" using max_version_length by simp
    then show ?thesis
      using cl[OF c] by (auto simp: prior_event_def versions_def filter_empty_conv find_None_iff)
  qed
  from assms(1) show thesis
  proof (cases rule: insert_event_tx_cases)
    case (replay c)
    with np show thesis by simp
  next
    case (append c o')
    show thesis
      by (rule that[OF append(3)]) (use append(4,5,6) cl[OF append(1)] append(11) in auto)
  qed
qed

section \<open>The invariant of the receipts\<close>

definition receipt_wf :: "operation_row \<Rightarrow> bool" where
  "receipt_wf r \<longleftrightarrow> operation_terminal r \<and> operation_completed_at r \<noteq> None \<and> operation_revision r = 1"

definition operations_wf :: "work_db \<Rightarrow> bool" where
  "operations_wf db \<longleftrightarrow>
     aggregate_wf ''operation'' operation_id operation_revision receipt_wf (operations db) db"

lemma operations_wf_frame:
  "operations db' = operations db \<Longrightarrow> kind_events db' ''operation'' = kind_events db ''operation'' \<Longrightarrow>
     operations_wf db' = operations_wf db"
  using aggregate_wf_frame[of db' "''operation''" db] by (simp add: operations_wf_def)

lemma clean_kind_operation: "text_arg ''operation'' ''aggregate_kind'' True 100 = Inr ''operation''"
  by (simp add: text_arg_def py_strip_def py_space_def Let_def nul_def char_of_def)

lemma log_wf_operations [simp]:
  "log_wf (db\<lparr>operations := t, operation_clock := n\<rparr>) = log_wf db"
  "max_version (db\<lparr>operations := t, operation_clock := n\<rparr>) k a = max_version db k a"
  by (simp_all add: log_wf_def versions_def max_version_def)

lemma appended_operations:
  "appended (db\<lparr>operations := t, operation_clock := n\<rparr>) e o' db1 \<Longrightarrow>
     appended db e o' (db1\<lparr>operations := operations db, operation_clock := operation_clock db\<rparr>) \<and>
     operations db1 = t \<and> operation_clock db1 = n"
  by (simp add: appended_def)

text \<open>A receipt either repeats a recorded one or is recorded, terminal, with its one event.\<close>

lemma record_receipt_cases:
  assumes "log_wf db" and "operations_wf db" and "record_operation_receipt h q db = (Inr r, db')"
  obtains (replay) c where "clean_receipt_args h q = Inr c" "db' = db" "r \<in> set (operations db)"
      "operation_kind r = cr_kind c" "operation_fingerprint r = cr_fingerprint c"
      "operation_id r = cr_id c \<or> operation_idempotency_key r = cr_idem c \<and> cr_idem c \<noteq> []"
  | (recorded) c e o' db1 where "clean_receipt_args h q = Inr c" "appended db e o' db1"
      "aggregate_kind e = ''operation''" "aggregate_id e = operation_id r"
      "event_type e = ''capability.receipt.recorded''"
      "db' = db1\<lparr>operations := operations db @ [r], operation_clock := operation_clock db + 1\<rparr>"
      "operation_id r = cr_id c" "operation_kind r = cr_kind c" "operation_status r = cr_status c"
      "operation_fingerprint r = cr_fingerprint c" "receipt_wf r"
      "operation_id r \<notin> operation_id ` set (operations db)"
proof -
  note replay_if = replay and recorded_if = recorded
  from assms(3) obtain c where c: "clean_receipt_args h q = Inr c"
    and tx: "record_operation_receipt_tx h q c db = Inr (r, db')"
    by (auto simp: record_operation_receipt_def db_write_Inr split: sum.splits)
  from c have ident: "text_arg (cr_id c) ''aggregate_id'' True 512 = Inr (cr_id c)"
    and terminal: "cr_status c \<in> terminal_operation_states"
    by (auto simp: clean_receipt_args_def text_arg_Inr split: option.splits)
  let ?K = "if cr_idem c = [] then None
      else find (\<lambda>r. operation_kind r = cr_kind c \<and> operation_idempotency_key r = cr_idem c) (operations db)"
  show thesis
  proof (cases "find (\<lambda>r. operation_id r = cr_id c) (operations db)")
    case (Some prior)
    with tx find_Some_key[of operation_id, OF Some] c show thesis
      by (intro replay_if[of c]) (auto simp: record_operation_receipt_tx_def)
  next
    case None
    then have fresh: "cr_id c \<notin> operation_id ` set (operations db)" by (simp add: find_None_key)
    show thesis
    proof (cases ?K)
      case (Some prior)
      then have "prior \<in> set (operations db)" "operation_kind prior = cr_kind c"
        "operation_idempotency_key prior = cr_idem c" "cr_idem c \<noteq> []"
        by (auto simp: find_Some_iff split: if_splits)
      moreover have "r = prior" "db' = db" "operation_fingerprint prior = cr_fingerprint c"
        using tx None Some by (auto simp: record_operation_receipt_tx_def)
      ultimately show thesis using c by (intro replay_if[of c]) simp_all
    next
      case free: None
      have tx': "insert_receipt_tx h q c db = Inr (r, db')"
        using tx None free by (simp add: record_operation_receipt_tx_def)
      from tx' obtain e where
        ev: "insert_event_tx h (event_request0\<lparr>req_event_type := ''capability.receipt.recorded'',
         req_aggregate_kind := ''operation'', req_aggregate_id := cr_id c,
         req_aggregate_version := Some 1, req_expected_version := Some 0,
         req_scope := AScope (cr_scope c), req_actor := rr_actor q,
         req_correlation_id := rr_correlation_id q, req_idempotency_key := cr_id c,
         req_payload := [(''operation_id'', JStr (cr_id c)), (''kind'', JStr (cr_kind c)),
           (''status'', JStr (operation_status_text (cr_status c))),
           (''effect_ref'', JStr (rr_effect_ref q)), (''error'', JStr (rr_error q))]\<rparr>)
          (db\<lparr>operations := operations db @ [r], operation_clock := operation_clock db + 1\<rparr>) = Inr (e, db')"
        and r: "operation_id r = cr_id c" "operation_kind r = cr_kind c" "operation_status r = cr_status c"
          "operation_fingerprint r = cr_fingerprint c" "operation_revision r = 1"
          "operation_completed_at r = Some (clock h)"
        by (auto simp: insert_receipt_tx_def Let_def)
      have zero: "max_version db ''operation'' (cr_id c) = 0"
        by (rule unknown_version[OF assms(2)[unfolded operations_wf_def] fresh])
      from ev obtain o' where
        ap: "appended (db\<lparr>operations := operations db @ [r], operation_clock := operation_clock db + 1\<rparr>) e o' db'"
        and k: "aggregate_kind e = ''operation''" "aggregate_id e = cr_id c"
          "event_type e = py_strip ''capability.receipt.recorded''"
        by (rule insert_event_append[where k = "''operation''" and a = "cr_id c"])
          (simp_all add: clean_kind_operation ident zero assms(1))
      have st: "py_strip ''capability.receipt.recorded'' = ''capability.receipt.recorded''"
        by (simp add: py_strip_def py_space_def)
      from appended_operations[OF ap] k r terminal fresh c st show thesis
        by (intro recorded_if[of c e o'
             "db'\<lparr>operations := operations db, operation_clock := operation_clock db\<rparr>"])
           (simp_all add: receipt_wf_def operation_terminal_def)
    qed
  qed
qed

text \<open>No operation is ever left planned or running: recovery finds nothing.\<close>

lemma no_stale_operation: "operations_wf db \<Longrightarrow> filter (stale_operation t) (operations db) = []"
  by (auto simp: operations_wf_def aggregate_wf_def filter_empty_conv stale_operation_def receipt_wf_def
      operation_terminal_def terminal_operation_states_def)

lemma recover_stale_none:
  assumes "operations_wf db"
  shows "snd (recover_stale_operations h before db) = db"
    and "recover_stale_operations h before db = (Inr rs, db') \<Longrightarrow> rs = []"
proof -
  have "recover_stale_operations h before db = db_write h (\<lambda>db. recover_operations h
       (sort_key (\<lambda>r. (operation_updated_at r, operation_id r))
         (filter (stale_operation before) (operations db))) db) db"
    by (simp add: recover_stale_operations_def)
  then show "snd (recover_stale_operations h before db) = db"
    and "recover_stale_operations h before db = (Inr rs, db') \<Longrightarrow> rs = []"
    using no_stale_operation[OF assms]
    by (auto simp: db_write_def sqlite_unit_of_work_def sqlite_transaction_def split: sum.splits)
qed

end
