(* ===== verification/Work_Interactions.thy ===== *)
theory Work_Interactions
  imports Work_Operations
begin

text \<open>
  Durable interactions (\<^verbatim>\<open>backend/work_fabric/interactions.py\<close>): a question is asked once, under
  an identity that its idempotency key determines, and answered at most once; the waiter polls
  and times the interaction out itself.
\<close>

section \<open>Asking\<close>

definition interaction_states :: "interaction_status list" where
  "interaction_states = [IxOpen, IxAnswered, IxSkipped, IxTimedOut, IxDismissed, IxCancelled]"

definition interaction_status_of :: "string \<Rightarrow> interaction_status option" where
  "interaction_status_of t = find (\<lambda>s. interaction_status_text s = t) interaction_states"

record interaction_request =
  ir_kind :: string
  ir_prompt :: string
  ir_scope :: scope_arg
  ir_owner_kind :: string
  ir_owner_id :: string
  ir_schema :: jobject
  ir_metadata :: jobject
  ir_expires_at :: rat
  ir_idempotency_key :: string
  ir_interaction_id :: string
  ir_actor :: work_actor
  ir_correlation_id :: string

text \<open>\<^verbatim>\<open>str(value or default).strip()[:n]\<close>.\<close>

definition clip :: "string \<Rightarrow> string \<Rightarrow> nat \<Rightarrow> string" where
  "clip v dflt n = take n (py_strip (if v = [] then dflt else v))"

record clean_interaction =
  ci_kind :: string
  ci_prompt :: string
  ci_owner_kind :: string
  ci_owner_id :: string
  ci_scope :: work_scope
  ci_key :: string
  ci_fingerprint :: string

definition interaction_fingerprint_of ::
  "host \<Rightarrow> string \<Rightarrow> string \<Rightarrow> jobject \<Rightarrow> jobject \<Rightarrow> work_scope \<Rightarrow> string \<Rightarrow> string \<Rightarrow> rat \<Rightarrow> string" where
  "interaction_fingerprint_of h kind prm schema meta scope okind oid expires =
     json_fingerprint h ''work.interaction.request'' (JObj
       [(''kind'', JStr kind), (''prompt'', JStr prm), (''schema'', JObj schema),
        (''metadata'', JObj meta), (''scope'', JObj (to_dict scope)),
        (''owner'', JObj [(''kind'', JStr okind), (''id'', JStr oid)]),
        (''expires_at'', JFloat expires)])"

definition clean_interaction_args :: "host \<Rightarrow> interaction_request \<Rightarrow> clean_interaction res" where
  "clean_interaction_args h q =
     (let kind = clip (ir_kind q) ''question'' 120;
          prm = py_strip (ir_prompt q);
          okind = clip (ir_owner_kind q) ''run'' 120;
          oid = clip (ir_owner_id q) ''unknown'' 512 in
      ebind (require (prm \<noteq> []) (ValueError ''interaction prompt is required'')) (\<lambda>_.
      ebind (require (length prm \<le> 20000)
        (ValueError ''interaction prompt exceeds 20000 characters'')) (\<lambda>_.
      ebind (coerce_work_scope h (ir_scope q)) (\<lambda>scope.
      Inr \<lparr>ci_kind = kind, ci_prompt = prm, ci_owner_kind = okind, ci_owner_id = oid,
           ci_scope = scope, ci_key = clip (ir_idempotency_key q) [] 512,
           ci_fingerprint = interaction_fingerprint_of h kind prm (ir_schema q) (ir_metadata q)
             scope okind oid (ir_expires_at q)\<rparr>))))"

text \<open>Given, else derived from the idempotency key, else drawn.\<close>

definition interaction_identity :: "host \<Rightarrow> interaction_request \<Rightarrow> clean_interaction \<Rightarrow> work_db \<Rightarrow> string" where
  "interaction_identity h q c db =
     (let given = py_strip (ir_interaction_id q) in
      if given \<noteq> [] then given
      else if ci_key c \<noteq> [] then ''interaction_'' @ take 32 (sha256_hex h
        (ci_owner_kind c @ nul # ci_owner_id c @ nul # ci_kind c @ nul # ci_key c))
      else ''interaction_'' @ uuid_hex (uuid4 h (draws db)))"

definition zero_none :: "rat \<Rightarrow> rat option" where
  "zero_none t = (if t = 0 then None else Some t)"

definition new_interaction_row ::
  "host \<Rightarrow> string \<Rightarrow> interaction_request \<Rightarrow> clean_interaction \<Rightarrow> interaction_row" where
  "new_interaction_row h iid q c =
     \<lparr>interaction_id = iid, interaction_kind = ci_kind c, interaction_owner_kind = ci_owner_kind c,
      interaction_owner_id = ci_owner_id c, interaction_status = IxOpen, prompt = ci_prompt c,
      interaction_schema = onorm (ir_schema q), response = JNull, metadata = onorm (ir_metadata q),
      interaction_scope = ci_scope c, interaction_fingerprint = ci_fingerprint c,
      interaction_idempotency_key = ci_key c, interaction_version = 1,
      expires_at = zero_none (ir_expires_at q), interaction_created_at = clock h,
      interaction_updated_at = clock h, resolved_at = None\<rparr>"

definition insert_interaction_tx ::
  "host \<Rightarrow> string \<Rightarrow> interaction_request \<Rightarrow> clean_interaction \<Rightarrow> (work_db, interaction_row) body" where
  "insert_interaction_tx h iid q c db =
     ebind (insert_event_tx h (event_request0\<lparr>req_event_type := ''interaction.requested'',
         req_aggregate_kind := ''interaction'', req_aggregate_id := iid,
         req_aggregate_version := Some 1, req_scope := AScope (ci_scope c),
         req_actor := Some (ir_actor q), req_correlation_id := ir_correlation_id q,
         req_payload := [(''kind'', JStr (ci_kind c)),
           (''owner'', JObj [(''kind'', JStr (ci_owner_kind c)), (''id'', JStr (ci_owner_id c))]),
           (''expires_at'', (case zero_none (ir_expires_at q) of None \<Rightarrow> JNull | Some t \<Rightarrow> JFloat t))]\<rparr>)
       (db\<lparr>interactions := interactions db @ [new_interaction_row h iid q c],
           draws := (if py_strip (ir_interaction_id q) = [] \<and> ci_key c = [] then Suc (draws db) else draws db)\<rparr>))
     (\<lambda>(_, db'). Inr (new_interaction_row h iid q c, db'))"

definition interaction_row_of :: "string \<Rightarrow> work_db \<Rightarrow> interaction_row option" where
  "interaction_row_of iid db = find (\<lambda>r. interaction_id r = iid) (interactions db)"

definition create_interaction_tx ::
  "host \<Rightarrow> interaction_request \<Rightarrow> clean_interaction \<Rightarrow> (work_db, interaction_row) body" where
  "create_interaction_tx h q c db =
     (let iid = interaction_identity h q c db in
      case interaction_row_of iid db of
        Some prior \<Rightarrow>
          ebind (require (interaction_fingerprint prior = ci_fingerprint c)
            (WorkConflict ''interaction identity was reused for a different request'')) (\<lambda>_. Inr (prior, db))
      | None \<Rightarrow>
          (case (if ci_key c = [] then None
                 else find (\<lambda>r. interaction_owner_kind r = ci_owner_kind c \<and>
                   interaction_owner_id r = ci_owner_id c \<and> interaction_kind r = ci_kind c \<and>
                   interaction_idempotency_key r = ci_key c) (interactions db)) of
             Some prior \<Rightarrow>
               ebind (require (interaction_fingerprint prior = ci_fingerprint c)
                 (WorkConflict ''interaction idempotency key was reused for another request''))
               (\<lambda>_. Inr (prior, db))
           | None \<Rightarrow> insert_interaction_tx h iid q c db))"

definition create_interaction ::
  "host \<Rightarrow> interaction_request \<Rightarrow> work_db \<Rightarrow> interaction_row res \<times> work_db" where
  "create_interaction h q db =
     (case clean_interaction_args h q of
        Inl e \<Rightarrow> (Inl e, db)
      | Inr c \<Rightarrow> db_write h (create_interaction_tx h q c) db)"

section \<open>Goal inputs, inside the goal's transaction\<close>

record goal_input_request =
  gi_interaction_id :: string
  gi_goal_id :: string
  gi_step_id :: string
  gi_prompt :: string
  gi_schema :: jobject
  gi_scope :: work_scope
  gi_actor :: work_actor
  gi_correlation_id :: string
  gi_now :: "rat option"

definition create_goal_input_tx :: "host \<Rightarrow> goal_input_request \<Rightarrow> (work_db, interaction_row) body" where
  "create_goal_input_tx h q db =
     (let tm = or_now h (gi_now q);
          meta = [(''source'', JStr ''goal''), (''title'', JStr ''Goal input required''),
                  (''goal_id'', JStr (gi_goal_id q)), (''step_id'', JStr (gi_step_id q))];
          row = \<lparr>interaction_id = gi_interaction_id q, interaction_kind = ''goal_input'',
            interaction_owner_kind = ''goal'', interaction_owner_id = gi_goal_id q,
            interaction_status = IxOpen, prompt = gi_prompt q,
            interaction_schema = onorm (gi_schema q), response = JNull, metadata = onorm meta,
            interaction_scope = gi_scope q,
            interaction_fingerprint = interaction_fingerprint_of h ''goal_input'' (gi_prompt q)
              (gi_schema q) meta (gi_scope q) ''goal'' (gi_goal_id q) 0,
            interaction_idempotency_key = [], interaction_version = 1, expires_at = None,
            interaction_created_at = tm, interaction_updated_at = tm, resolved_at = None\<rparr> in
      ebind (require (gi_interaction_id q \<notin> interaction_id ` set (interactions db))
        (IntegrityError ''work_interaction.interaction_id'')) (\<lambda>_.
      ebind (insert_event_tx h (event_request0\<lparr>req_event_type := ''interaction.requested'',
          req_aggregate_kind := ''interaction'', req_aggregate_id := gi_interaction_id q,
          req_aggregate_version := Some 1, req_scope := AScope (gi_scope q),
          req_actor := Some (gi_actor q), req_correlation_id := gi_correlation_id q,
          req_payload := [(''kind'', JStr ''goal_input''),
            (''owner'', JObj [(''kind'', JStr ''goal''), (''id'', JStr (gi_goal_id q))]),
            (''step_id'', JStr (gi_step_id q))],
          req_created_at := Some tm\<rparr>)
        (db\<lparr>interactions := interactions db @ [row]\<rparr>)) (\<lambda>(_, db').
      Inr (row, db'))))"

text \<open>
  The tail every resolution shares: the UPDATE of the row, and its event.  None of the UPDATEs
  checks its row count.
\<close>

definition resolved_row :: "interaction_status \<Rightarrow> json \<Rightarrow> rat \<Rightarrow> interaction_row \<Rightarrow> interaction_row" where
  "resolved_row target resp tm r = r\<lparr>interaction_status := target, response := jnorm resp,
     interaction_version := interaction_version r + 1, interaction_updated_at := tm,
     resolved_at := Some tm\<rparr>"

definition settle_interaction_tx ::
  "host \<Rightarrow> interaction_row \<Rightarrow> interaction_status \<Rightarrow> json \<Rightarrow> rat \<Rightarrow> work_actor \<Rightarrow> string \<Rightarrow> jobject \<Rightarrow>
   rat option \<Rightarrow> (work_db, interaction_row) body" where
  "settle_interaction_tx h current target resp tm actor correlation pl created db =
     ebind (insert_event_tx h (event_request0\<lparr>
         req_event_type := ''interaction.'' @ interaction_status_text target,
         req_aggregate_kind := ''interaction'', req_aggregate_id := interaction_id current,
         req_aggregate_version := Some (interaction_version current + 1),
         req_scope := AScope (interaction_scope current), req_actor := Some actor,
         req_correlation_id := correlation, req_payload := pl, req_created_at := created\<rparr>)
       (db\<lparr>interactions := snd (sql_update (\<lambda>r. interaction_id r = interaction_id current \<and>
            interaction_version r = interaction_version current)
          (resolved_row target resp tm) (interactions db))\<rparr>)) (\<lambda>(_, db').
     Inr (resolved_row target resp tm current, db'))"

definition open_at_version :: "string \<Rightarrow> int \<Rightarrow> work_db \<Rightarrow> interaction_row res" where
  "open_at_version iid expected db =
     (case interaction_row_of iid db of
        None \<Rightarrow> Inl (WorkNotFound (''unknown interaction: '' @ iid))
      | Some current \<Rightarrow>
          ebind (require (interaction_status current = IxOpen \<and> interaction_version current = expected)
            (WorkConflict ''interaction is no longer open at the expected version'')) (\<lambda>_. Inr current))"

definition resolve_goal_input_tx ::
  "host \<Rightarrow> string \<Rightarrow> json \<Rightarrow> int \<Rightarrow> work_actor \<Rightarrow> string \<Rightarrow> rat option \<Rightarrow> (work_db, interaction_row) body" where
  "resolve_goal_input_tx h iid resp expected actor correlation now db =
     ebind (open_at_version iid expected db) (\<lambda>current.
     settle_interaction_tx h current IxAnswered resp (or_now h now) actor correlation
       [(''status'', JStr ''answered'')] (Some (or_now h now)) db)"

definition dismiss_goal_input_tx ::
  "host \<Rightarrow> string \<Rightarrow> int \<Rightarrow> work_actor \<Rightarrow> string \<Rightarrow> rat option \<Rightarrow> (work_db, interaction_row) body" where
  "dismiss_goal_input_tx h iid expected actor correlation now db =
     ebind (open_at_version iid expected db) (\<lambda>current.
     settle_interaction_tx h current IxDismissed (JObj [(''skipped'', JBool True)]) (or_now h now)
       actor correlation [(''status'', JStr ''dismissed''), (''reason'', JStr ''user_skipped'')]
       (Some (or_now h now)) db)"

section \<open>Reading\<close>

definition get_interaction :: "host \<Rightarrow> string \<Rightarrow> scope_arg option \<Rightarrow> work_db \<Rightarrow> interaction_row res" where
  "get_interaction h iid scope db =
     (case interaction_row_of iid db of
        None \<Rightarrow> Inl (WorkNotFound (''unknown interaction: '' @ iid))
      | Some r \<Rightarrow>
          (case scope of None \<Rightarrow> Inr r
           | Some s \<Rightarrow> ebind (work_scope_visible h (AScope (interaction_scope r)) s) (\<lambda>b.
               if b then Inr r else Inl (WorkNotFound (''unknown interaction: '' @ iid)))))"

record interaction_filter =
  if_scope :: "scope_arg option"
  if_status :: string
  if_owner_kind :: string
  if_owner_id :: string
  if_limit :: int
  if_kind :: string
  if_oldest_first :: bool
  if_chat_id :: "string option"

definition list_interactions :: "host \<Rightarrow> interaction_filter \<Rightarrow> work_db \<Rightarrow> interaction_row list res" where
  "list_interactions h f db =
     ebind (case if_scope f of None \<Rightarrow> Inr [] | Some s \<Rightarrow> append_json_scope_visibility h s []) (\<lambda>clauses.
     Inr (take (nat (max 1 (min (if if_limit f = 0 then 200 else if_limit f) 1000)))
       (sort_key (\<lambda>r. (if if_oldest_first f then interaction_created_at r else - interaction_created_at r,
                       interaction_id r))
         (filter (\<lambda>r. matches (if_status f) (interaction_status_text (interaction_status r)) \<and>
            matches (if_kind f) (interaction_kind r) \<and>
            matches (if_owner_kind f) (interaction_owner_kind r) \<and>
            matches (if_owner_id f) (interaction_owner_id r) \<and>
            list_all (\<lambda>cl. cl (to_dict (interaction_scope r))) clauses \<and>
            (case if_chat_id f of None \<Rightarrow> True | Some c \<Rightarrow> chat_id (interaction_scope r) = c))
          (interactions db)))))"

section \<open>Answering\<close>

definition resolve_interaction_tx ::
  "host \<Rightarrow> string \<Rightarrow> interaction_status \<Rightarrow> json \<Rightarrow> int option \<Rightarrow> work_actor \<Rightarrow> string \<Rightarrow> (work_db, interaction_row) body" where
  "resolve_interaction_tx h iid target resp expected actor correlation db =
     (case interaction_row_of iid db of
        None \<Rightarrow> Inl (WorkNotFound (''unknown interaction: '' @ iid))
      | Some current \<Rightarrow>
          if interaction_terminal current then
            ebind (require (interaction_status current = target \<and> py_eq (response current) resp)
              (WorkConflict ''interaction is already resolved'')) (\<lambda>_. Inr (current, db))
          else
            ebind (require (case expected of None \<Rightarrow> True | Some v \<Rightarrow> interaction_version current = v)
              (WorkConflict ''interaction version changed'')) (\<lambda>_.
            settle_interaction_tx h current target resp (clock h) actor correlation
              [(''status'', JStr (interaction_status_text target))] None db))"

definition resolve_interaction ::
  "host \<Rightarrow> string \<Rightarrow> string \<Rightarrow> json \<Rightarrow> int option \<Rightarrow> work_actor \<Rightarrow> string \<Rightarrow> work_db \<Rightarrow>
   interaction_row res \<times> work_db" where
  "resolve_interaction h iid st resp expected actor correlation db =
     (let target = py_strip (if st = [] then ''answered'' else st) in
      case interaction_status_of target of
        None \<Rightarrow> (Inl (ValueError (''invalid terminal interaction status: '' @ target)), db)
      | Some t \<Rightarrow>
          if t \<notin> interaction_terminal_states
          then (Inl (ValueError (''invalid terminal interaction status: '' @ target)), db)
          else db_write h (resolve_interaction_tx h iid t resp expected actor correlation) db)"

section \<open>Waiting\<close>

text \<open>
  One turn of the loop of \<^verbatim>\<open>wait\<close> at monotonic time \<open>tm\<close>; \<open>env\<close> is what the other users of the
  database do between the read and the time-out.  \<^const>\<open>None\<close> goes round again.
\<close>

record wait_turn =
  turn_host :: host
  turn_time :: rat
  turn_before :: "work_db \<Rightarrow> work_db"
  turn_between :: "work_db \<Rightarrow> work_db"

definition wait_turn_result ::
  "string \<Rightarrow> rat option \<Rightarrow> wait_turn \<Rightarrow> work_db \<Rightarrow> interaction_row res option \<times> work_db" where
  "wait_turn_result iid deadline t db0 =
     (let h = turn_host t; db = turn_before t db0 in
      case get_interaction h iid None db of
        Inl e \<Rightarrow> (Some (Inl e), db)
      | Inr r \<Rightarrow>
          if interaction_terminal r then (Some (Inr r), db)
          else if (case deadline of None \<Rightarrow> False | Some d \<Rightarrow> d \<le> turn_time t) then
            (case resolve_interaction h iid ''timed_out'' JNull (Some (interaction_version r))
                    default_actor [] (turn_between t db) of
               (Inl (WorkConflict m), db') \<Rightarrow> (None, db')
             | (x, db') \<Rightarrow> (Some x, db'))
          else (None, db))"

fun wait_interaction ::
  "string \<Rightarrow> rat option \<Rightarrow> wait_turn list \<Rightarrow> work_db \<Rightarrow> interaction_row res option \<times> work_db" where
  "wait_interaction iid deadline [] db = (None, db)"
| "wait_interaction iid deadline (t # ts) db =
     (case wait_turn_result iid deadline t db of
        (Some x, db') \<Rightarrow> (Some x, db')
      | (None, db') \<Rightarrow> wait_interaction iid deadline ts db')"

end
