(* ===== verification/Work_Interaction_Inv.thy ===== *)
theory Work_Interaction_Inv
  imports Work_Interactions
begin

text \<open>
  The invariant of the interactions: open at version 1, or settled once at version 2; every
  operation keeps it, leaves the other tables alone, and never touches a settled row.
\<close>

definition interaction_ok :: "interaction_row \<Rightarrow> bool" where
  "interaction_ok r \<longleftrightarrow> clean_id (interaction_id r) \<and>
     (if interaction_status r = IxOpen then interaction_version r = 1 \<and> resolved_at r = None
      else interaction_version r = 2 \<and> resolved_at r \<noteq> None)"

definition interactions_wf :: "work_db \<Rightarrow> bool" where
  "interactions_wf db \<longleftrightarrow>
     aggregate_wf ''interaction'' interaction_id interaction_version interaction_ok (interactions db) db"

text \<open>\<^verbatim>\<open>hexdigest()\<close> is text of hexadecimal digits.\<close>

definition hex_host :: "host \<Rightarrow> bool" where
  "hex_host h \<longleftrightarrow> (\<forall>s. set (sha256_hex h s) \<subseteq> hex_digit ` {..<16})"

definition ix_step :: "work_db \<Rightarrow> work_db \<Rightarrow> bool" where
  "ix_step db db' \<longleftrightarrow> log_wf db' \<and> interactions_wf db' \<and>
     jobs db' = jobs db \<and> operations db' = operations db \<and> operation_clock db' = operation_clock db \<and>
     projections db' = projections db \<and> outbox_extends db db' \<and>
     (\<forall>k. k \<noteq> ''interaction'' \<longrightarrow> kind_events db' k = kind_events db k) \<and>
     (\<forall>i r. interaction_row_of i db = Some r \<longrightarrow> (\<exists>r'. interaction_row_of i db' = Some r' \<and>
        (interaction_terminal r \<longrightarrow> r' = r)))"

lemma ix_step_refl: "log_wf db \<Longrightarrow> interactions_wf db \<Longrightarrow> ix_step db db"
  by (simp add: ix_step_def outbox_extends_same)

lemma interaction_terminal_iff: "interaction_terminal r \<longleftrightarrow> interaction_status r \<noteq> IxOpen"
  by (cases "interaction_status r") (simp_all add: interaction_terminal_def interaction_terminal_states_def)

lemma interactions_wf_frame:
  "interactions db' = interactions db \<Longrightarrow> kind_events db' ''interaction'' = kind_events db ''interaction'' \<Longrightarrow>
     interactions_wf db' = interactions_wf db"
  using aggregate_wf_frame[of db' "''interaction''" db] by (simp add: interactions_wf_def)

lemma clean_kind_interaction: "text_arg ''interaction'' ''aggregate_kind'' True 100 = Inr ''interaction''"
  by (simp add: text_arg_def py_strip_def py_space_def Let_def nul_def char_of_def)

lemma insert_event_clean_id:
  "insert_event_tx h q db = Inr r \<Longrightarrow>
     text_arg (req_aggregate_id q) ''aggregate_id'' True 512 = Inr (py_strip (req_aggregate_id q))"
  by (auto simp: insert_event_tx_def clean_event_args_def text_arg_Inr)

lemma max_version_interactions [simp]: "max_version (db\<lparr>interactions := t\<rparr>) k a = max_version db k a"
  by (simp add: max_version_def)

lemma appended_interactions_draws:
  "appended (db\<lparr>interactions := t, draws := n\<rparr>) e o' db1 \<Longrightarrow>
     appended (db\<lparr>draws := n\<rparr>) e o' (db1\<lparr>interactions := interactions db\<rparr>) \<and> interactions db1 = t"
  by (simp add: appended_def)

text \<open>The event of an interaction, with the change it makes to the table.\<close>

lemma insert_interaction_event:
  assumes "log_wf db" and "insert_event_tx h q (db\<lparr>interactions := t, draws := n\<rparr>) = Inr (e, db')"
    and "req_aggregate_kind q = ''interaction''" and "req_aggregate_id q = i" and "py_strip i = i"
    and "req_idempotency_key q = []" and "req_aggregate_version q = Some v"
  obtains o' db1 where "appended (db\<lparr>draws := n\<rparr>) e o' db1" "aggregate_kind e = ''interaction''"
    "aggregate_id e = i" "aggregate_version e = v" "event_type e = py_strip (req_event_type q)"
    "db' = db1\<lparr>interactions := t\<rparr>" "log_wf db'" "clean_id i"
proof -
  have cl: "text_arg i ''aggregate_id'' True 512 = Inr i"
    using insert_event_clean_id[OF assms(2)] assms(4,5) by simp
  from assms(2) obtain o' where ap: "appended (db\<lparr>interactions := t, draws := n\<rparr>) e o' db'"
    and e: "aggregate_kind e = ''interaction''" "aggregate_id e = i" "event_type e = py_strip (req_event_type q)"
      "\<And>v. req_aggregate_version q = Some v \<Longrightarrow> aggregate_version e = v"
    by (rule insert_event_append[where k = "''interaction''" and a = i])
       (use assms(3-6) cl clean_kind_interaction in simp_all)
  from appended_interactions_draws[OF ap] have ap': "appended (db\<lparr>draws := n\<rparr>) e o' (db'\<lparr>interactions := interactions db\<rparr>)"
    and t: "interactions db' = t" by simp_all
  have "log_wf (db'\<lparr>interactions := interactions db\<rparr>)"
    using appended_wf[OF _ ap'] assms(1) by simp
  then have "log_wf db'" by (simp add: log_wf_def versions_def)
  with that[OF ap' e(1,2) _ e(3)] e(4)[OF assms(7)] t cl show thesis by (simp add: clean_id_def)
qed

lemma ix_step_appended:
  assumes "appended (db\<lparr>draws := n\<rparr>) e o' db1" and "aggregate_kind e = ''interaction''"
    and "db' = db1\<lparr>interactions := t\<rparr>" and "log_wf db'" and "interactions_wf db'"
    and "\<And>i r. interaction_row_of i db = Some r \<Longrightarrow> \<exists>r'. find (\<lambda>r. interaction_id r = i) t = Some r' \<and>
        (interaction_terminal r \<longrightarrow> r' = r)"
  shows "ix_step db db'"
  using assms appended_frame[OF assms(1)] outbox_extends_frame[OF appended_outbox[OF assms(1)], of db db']
  by (auto simp: ix_step_def kind_events_def interaction_row_of_def)

lemma ix_insert:
  assumes "log_wf db" and "interactions_wf db"
    and ins: "insert_event_tx h q (db\<lparr>interactions := interactions db @ [row], draws := n\<rparr>) = Inr (e, db')"
    and q: "req_aggregate_kind q = ''interaction''" "req_aggregate_id q = interaction_id row"
      "req_idempotency_key q = []" "req_aggregate_version q = Some 1"
    and row: "py_strip (interaction_id row) = interaction_id row" "interaction_status row = IxOpen"
      "interaction_version row = 1" "resolved_at row = None"
    and fresh: "interaction_id row \<notin> interaction_id ` set (interactions db)"
  shows "ix_step db db' \<and> interactions db' = interactions db @ [row] \<and>
    (\<exists>e. events db' = events db @ [e] \<and> event_type e = py_strip (req_event_type q) \<and>
       aggregate_kind e = ''interaction'' \<and> aggregate_id e = interaction_id row)"
proof -
  from assms(1) ins q(1,2) row(1) q(3,4) obtain o' db1 where
    ap: "appended (db\<lparr>draws := n\<rparr>) e o' db1" and e: "aggregate_kind e = ''interaction''"
      "aggregate_id e = interaction_id row" "event_type e = py_strip (req_event_type q)"
    and db': "db' = db1\<lparr>interactions := interactions db @ [row]\<rparr>" and lw: "log_wf db'"
    and cid: "clean_id (interaction_id row)"
    by (rule insert_interaction_event)
  have ok: "interaction_ok row" using cid row by (simp add: interaction_ok_def)
  have "aggregate_wf ''interaction'' interaction_id interaction_version interaction_ok (interactions db) (db\<lparr>draws := n\<rparr>)"
    using assms(2) by (subst aggregate_wf_frame[of _ _ db]) (simp_all add: interactions_wf_def kind_events_def)
  from aggregate_wf_insert[OF this ap e(1,2) fresh ok row(3)]
  have "interactions_wf db'"
    unfolding interactions_wf_def
    by (subst aggregate_wf_frame[of _ _ db1]) (simp_all add: db' kind_events_def)
  then have "ix_step db db'"
    by (intro ix_step_appended[OF ap e(1) db' lw]) (auto simp: find_append interaction_row_of_def)
  moreover have "events db' = events db @ [e]" using appended_frame(6)[OF ap] by (simp add: db')
  ultimately show ?thesis using e by (simp add: db')
qed

section \<open>Settling\<close>

lemma settle_interaction_Inr:
  assumes lw: "log_wf db" and wf: "interactions_wf db" and cur: "interaction_row_of i db = Some current"
    and op: "interaction_status current = IxOpen" and target: "target \<noteq> IxOpen"
    and run: "settle_interaction_tx h current target resp tm actor corr pl created db = Inr (r, db')"
  shows "ix_step db db' \<and> r = resolved_row target resp tm current \<and>
    interactions db' = map (\<lambda>r. if interaction_id r = i then resolved_row target resp tm r else r) (interactions db) \<and>
    (\<exists>e. events db' = events db @ [e] \<and> aggregate_kind e = ''interaction'' \<and> aggregate_id e = i \<and>
       aggregate_version e = 2 \<and> event_type e = py_strip (''interaction.'' @ interaction_status_text target))"
proof -
  have dist: "distinct (map interaction_id (interactions db))"
    using wf by (simp add: interactions_wf_def aggregate_wf_def)
  have row: "find (\<lambda>r. interaction_id r = i) (interactions db) = Some current"
    using cur by (simp add: interaction_row_of_def)
  have i: "interaction_id current = i" using find_Some_key[of interaction_id, OF row] by simp
  have "interaction_ok current"
    using find_Some_key[of interaction_id, OF row] wf by (auto simp: interactions_wf_def aggregate_wf_def)
  then have ok: "py_strip i = i" "interaction_version current = 1"
    using op i by (auto simp: interaction_ok_def clean_id_def text_arg_Inr)
  let ?t = "map (\<lambda>r. if interaction_id r = i then resolved_row target resp tm r else r) (interactions db)"
  have upd: "snd (sql_update (\<lambda>r. interaction_id r = interaction_id current \<and>
      interaction_version r = interaction_version current) (resolved_row target resp tm) (interactions db)) = ?t"
    using sql_update_key[OF dist row, of "\<lambda>r. interaction_version r = interaction_version current"] i by simp
  define q where "q = event_request0\<lparr>
         req_event_type := ''interaction.'' @ interaction_status_text target,
         req_aggregate_kind := ''interaction'', req_aggregate_id := interaction_id current,
         req_aggregate_version := Some (interaction_version current + 1),
         req_scope := AScope (interaction_scope current), req_actor := Some actor,
         req_correlation_id := corr, req_payload := pl, req_created_at := created\<rparr>"
  have same: "db\<lparr>interactions := ?t, draws := draws db\<rparr> = db\<lparr>interactions := ?t\<rparr>" by simp
  from run obtain e where ins: "insert_event_tx h q (db\<lparr>interactions := ?t, draws := draws db\<rparr>) = Inr (e, db')"
    and r: "r = resolved_row target resp tm current"
    unfolding settle_interaction_tx_def upd q_def[symmetric] same by auto
  have q: "req_aggregate_kind q = ''interaction''" "req_aggregate_id q = i" "req_idempotency_key q = []"
    "req_aggregate_version q = Some 2" "req_event_type q = ''interaction.'' @ interaction_status_text target"
    using i ok by (simp_all add: q_def event_request0_def)
  from lw ins q(1,2) ok(1) q(3,4) obtain o' db1 where
    ap: "appended (db\<lparr>draws := draws db\<rparr>) e o' db1" and e: "aggregate_kind e = ''interaction''" "aggregate_id e = i"
      "aggregate_version e = 2" "event_type e = py_strip (req_event_type q)"
    and db': "db' = db1\<lparr>interactions := ?t\<rparr>" and lw': "log_wf db'"
    by (rule insert_interaction_event)
  have f: "interaction_id (resolved_row target resp tm r) = interaction_id r" for r
    by (simp add: resolved_row_def)
  have "aggregate_wf ''interaction'' interaction_id interaction_version interaction_ok ?t db1"
  proof (rule aggregate_wf_update[OF _ _ row e(1,2) f])
    show "aggregate_wf ''interaction'' interaction_id interaction_version interaction_ok (interactions db) db"
      using wf by (simp add: interactions_wf_def)
    show "appended db e o' db1" using ap by simp
    show "interaction_ok current \<Longrightarrow> interaction_ok (resolved_row target resp tm current)"
      using op target by (simp add: interaction_ok_def resolved_row_def)
    show "interaction_version (resolved_row target resp tm current) = interaction_version current + 1"
      by (simp add: resolved_row_def)
  qed
  then have "interactions_wf db'"
    unfolding interactions_wf_def
    by (subst aggregate_wf_frame[of _ _ db1]) (simp_all add: db' kind_events_def)
  then have "ix_step db db'"
  proof (intro ix_step_appended[OF ap e(1) db' lw'])
    fix j x assume "interaction_row_of j db = Some x"
    then show "\<exists>r'. find (\<lambda>r. interaction_id r = j) ?t = Some r' \<and> (interaction_terminal x \<longrightarrow> r' = x)"
      using find_map_update[of interaction_id "resolved_row target resp tm", OF f] row op
      by (auto simp: interaction_row_of_def interaction_terminal_iff)
  qed
  moreover have "events db' = events db @ [e]" using appended_frame(6)[OF ap] by (simp add: db')
  ultimately show ?thesis using r e q(5) by (simp add: db')
qed

section \<open>The operations\<close>

lemma hex_digit_clean: "c \<in> hex_digit ` {..<16} \<Longrightarrow> \<not> py_space c \<and> c \<noteq> nul"
  using hex_digit_visible by auto

lemma prefix_visible: "c \<in> set ''interaction_'' \<Longrightarrow> \<not> py_space c"
  by (auto simp: py_space_def)

lemma interaction_identity_clean:
  assumes "hex_host h"
  shows "py_strip (interaction_identity h q c db) = interaction_identity h q c db"
proof -
  have vis: "py_strip (''interaction_'' @ s) = ''interaction_'' @ s" if "\<And>c. c \<in> set s \<Longrightarrow> \<not> py_space c" for s
  proof (rule py_strip_visible)
    fix c assume "c \<in> set (''interaction_'' @ s)"
    then show "\<not> py_space c" using prefix_visible that by (metis UnE set_append)
  qed
  have "c \<in> set (take 32 (sha256_hex h t)) \<Longrightarrow> \<not> py_space c" for c t
    using assms hex_digit_clean[of c] in_set_takeD[of c] unfolding hex_host_def by blast
  then show ?thesis
    using vis uuid_hex_visible by (simp add: interaction_identity_def Let_def)
qed

lemma create_interaction_cases:
  assumes lw: "log_wf db" and wf: "interactions_wf db" and h: "hex_host h"
    and run: "create_interaction h q db = (Inr r, db')"
  obtains (replay) c where "clean_interaction_args h q = Inr c" "db' = db" "r \<in> set (interactions db)"
      "interaction_fingerprint r = ci_fingerprint c"
  | (asked) c where "clean_interaction_args h q = Inr c" "ix_step db db'"
      "interactions db' = interactions db @ [r]" "interaction_status r = IxOpen"
      "interaction_id r \<notin> interaction_id ` set (interactions db)"
      "r = new_interaction_row h (interaction_identity h q c db) q c"
proof -
  note replay_if = replay and asked_if = asked
  from run obtain c where c: "clean_interaction_args h q = Inr c"
    and tx: "create_interaction_tx h q c db = Inr (r, db')"
    by (auto simp: create_interaction_def db_write_Inr split: sum.splits)
  define i where "i = interaction_identity h q c db"
  let ?K = "if ci_key c = [] then None
      else find (\<lambda>r. interaction_owner_kind r = ci_owner_kind c \<and>
                   interaction_owner_id r = ci_owner_id c \<and> interaction_kind r = ci_kind c \<and>
                   interaction_idempotency_key r = ci_key c) (interactions db)"
  show thesis
  proof (cases "interaction_row_of i db")
    case (Some prior)
    with tx c show thesis
      using find_Some_key[of interaction_id i "interactions db" prior]
      by (intro replay_if[of c]) (auto simp: create_interaction_tx_def i_def[symmetric] interaction_row_of_def)
  next
    case None
    then have fresh: "i \<notin> interaction_id ` set (interactions db)"
      by (simp add: interaction_row_of_def find_None_key)
    show thesis
    proof (cases ?K)
      case (Some prior)
      then have "prior \<in> set (interactions db)" by (auto simp: find_Some_iff split: if_splits)
      moreover have "r = prior" "db' = db" "interaction_fingerprint prior = ci_fingerprint c"
        using tx None Some by (auto simp: create_interaction_tx_def i_def[symmetric])
      ultimately show thesis using c by (intro replay_if[of c]) simp_all
    next
      case free: None
      define n where "n = (if py_strip (ir_interaction_id q) = [] \<and> ci_key c = [] then Suc (draws db) else draws db)"
      have "insert_interaction_tx h i q c db = Inr (r, db')"
        using tx None free by (simp add: create_interaction_tx_def i_def[symmetric])
      moreover define rq where "rq = event_request0\<lparr>req_event_type := ''interaction.requested'',
         req_aggregate_kind := ''interaction'', req_aggregate_id := i,
         req_aggregate_version := Some 1, req_scope := AScope (ci_scope c),
         req_actor := Some (ir_actor q), req_correlation_id := ir_correlation_id q,
         req_payload := [(''kind'', JStr (ci_kind c)),
           (''owner'', JObj [(''kind'', JStr (ci_owner_kind c)), (''id'', JStr (ci_owner_id c))]),
           (''expires_at'', (case zero_none (ir_expires_at q) of None \<Rightarrow> JNull | Some t \<Rightarrow> JFloat t))]\<rparr>"
      ultimately have "ebind (insert_event_tx h rq
          (db\<lparr>interactions := interactions db @ [new_interaction_row h i q c], draws := n\<rparr>))
          (\<lambda>(_, db'). Inr (new_interaction_row h i q c, db')) = Inr (r, db')"
        unfolding insert_interaction_tx_def n_def by (simp only:)
      then obtain x where x: "insert_event_tx h rq
          (db\<lparr>interactions := interactions db @ [new_interaction_row h i q c], draws := n\<rparr>) = Inr x"
        and "(case x of (_, db') \<Rightarrow> Inr (new_interaction_row h i q c, db')) = (Inr (r, db') :: (interaction_row \<times> work_db) res)"
        unfolding ebind_eq_Inr by blast
      then obtain e where xe: "x = (e, db')" and r: "r = new_interaction_row h i q c"
        by (cases x) simp
      note ins = x[unfolded xe]
      have rq: "req_aggregate_kind rq = ''interaction''" "req_aggregate_id rq = i"
        "req_idempotency_key rq = []" "req_aggregate_version rq = Some 1"
        by (simp_all add: rq_def event_request0_def)
      have "ix_step db db' \<and> interactions db' = interactions db @ [new_interaction_row h i q c]"
        using ix_insert[OF lw wf ins rq(1) _ rq(3,4)] interaction_identity_clean[OF h] fresh rq(2)
        by (simp add: new_interaction_row_def i_def)
      with c r fresh show thesis
        by (intro asked_if[of c]) (simp_all add: new_interaction_row_def i_def)
    qed
  qed
qed

lemma create_interaction_step:
  assumes "log_wf db" and "interactions_wf db" and "hex_host h"
  shows "ix_step db (snd (create_interaction h q db))"
proof (cases "create_interaction h q db")
  case (Pair x db')
  show ?thesis
  proof (cases x)
    case (Inl e)
    with Pair have "db' = db"
      by (auto simp: create_interaction_def split: sum.splits dest: db_write_Inl)
    with Pair assms show ?thesis by (simp add: ix_step_refl)
  next
    case (Inr r)
    from assms Pair[unfolded Inr] show ?thesis
      by (cases rule: create_interaction_cases) (simp_all add: Pair ix_step_refl assms)
  qed
qed

lemma create_goal_input_step:
  assumes "log_wf db" and "interactions_wf db" and id: "py_strip (gi_interaction_id q) = gi_interaction_id q"
    and run: "create_goal_input_tx h q db = Inr (r, db')"
  shows "ix_step db db' \<and> interactions db' = interactions db @ [r] \<and> interaction_status r = IxOpen"
proof -
  from run obtain rq e where
    ins: "insert_event_tx h rq (db\<lparr>interactions := interactions db @ [r], draws := draws db\<rparr>) = Inr (e, db')"
    and rq: "req_aggregate_kind rq = ''interaction''" "req_aggregate_id rq = interaction_id r"
      "req_idempotency_key rq = []" "req_aggregate_version rq = Some 1"
    and r: "interaction_id r = gi_interaction_id q" "interaction_status r = IxOpen" "interaction_version r = 1"
      "resolved_at r = None"
    and fresh: "interaction_id r \<notin> interaction_id ` set (interactions db)"
    by (auto simp: create_goal_input_tx_def Let_def event_request0_def)
  show ?thesis
    using ix_insert[OF assms(1,2) ins rq _ r(2,3,4) fresh] id r(1,2) by simp
qed

lemma open_at_version_Inr:
  "open_at_version i v db = Inr c \<longleftrightarrow>
     interaction_row_of i db = Some c \<and> interaction_status c = IxOpen \<and> interaction_version c = v"
  by (auto simp: open_at_version_def split: option.splits)

lemma resolve_goal_input_step:
  assumes "log_wf db" and "interactions_wf db"
    and "resolve_goal_input_tx h i resp v actor corr now db = Inr (r, db')"
  shows "ix_step db db' \<and> interaction_status r = IxAnswered"
proof -
  from assms(3) obtain c where c: "interaction_row_of i db = Some c" "interaction_status c = IxOpen"
    and s: "settle_interaction_tx h c IxAnswered resp (or_now h now) actor corr
       [(''status'', JStr ''answered'')] (Some (or_now h now)) db = Inr (r, db')"
    by (auto simp: resolve_goal_input_tx_def open_at_version_Inr)
  show ?thesis using settle_interaction_Inr[OF assms(1,2) c _ s] by (simp add: resolved_row_def)
qed

lemma dismiss_goal_input_step:
  assumes "log_wf db" and "interactions_wf db"
    and "dismiss_goal_input_tx h i v actor corr now db = Inr (r, db')"
  shows "ix_step db db' \<and> interaction_status r = IxDismissed"
proof -
  from assms(3) obtain c pl resp where c: "interaction_row_of i db = Some c" "interaction_status c = IxOpen"
    and s: "settle_interaction_tx h c IxDismissed resp (or_now h now) actor corr pl (Some (or_now h now)) db = Inr (r, db')"
    by (auto simp: dismiss_goal_input_tx_def open_at_version_Inr)
  show ?thesis using settle_interaction_Inr[OF assms(1,2) c _ s] by (simp add: resolved_row_def)
qed

lemma interaction_status_of_Some: "interaction_status_of t = Some s \<Longrightarrow> interaction_status_text s = t"
  unfolding interaction_status_of_def by (metis (mono_tags, lifting) find_Some_iff)

lemma resolve_interaction_cases:
  assumes lw: "log_wf db" and wf: "interactions_wf db"
    and run: "resolve_interaction h i st resp expected actor corr db = (Inr r, db')"
  obtains (repeated) t where "interaction_status_of (py_strip (if st = [] then ''answered'' else st)) = Some t"
      "db' = db" "interaction_row_of i db = Some r" "interaction_terminal r" "interaction_status r = t"
      "py_eq (response r) resp"
  | (settled) t current where "interaction_status_of (py_strip (if st = [] then ''answered'' else st)) = Some t"
      "t \<in> interaction_terminal_states" "interaction_row_of i db = Some current"
      "interaction_status current = IxOpen" "ix_step db db'" "r = resolved_row t resp (clock h) current"
      "interaction_row_of i db' = Some r"
      "\<exists>e. events db' = events db @ [e] \<and> aggregate_kind e = ''interaction'' \<and> aggregate_id e = i \<and>
         aggregate_version e = 2"
proof -
  note repeated_if = repeated and settled_if = settled
  from run obtain t where t: "interaction_status_of (py_strip (if st = [] then ''answered'' else st)) = Some t"
      "t \<in> interaction_terminal_states"
    and tx: "resolve_interaction_tx h i t resp expected actor corr db = Inr (r, db')"
    by (auto simp: resolve_interaction_def Let_def db_write_Inr split: option.splits if_splits)
  from tx obtain current where c: "interaction_row_of i db = Some current"
    by (auto simp: resolve_interaction_tx_def split: option.splits)
  show thesis
  proof (cases "interaction_terminal current")
    case True
    with tx c t show thesis by (intro repeated_if[of t]) (auto simp: resolve_interaction_tx_def)
  next
    case False
    then have op: "interaction_status current = IxOpen" by (simp add: interaction_terminal_iff)
    from tx c False have s: "settle_interaction_tx h current t resp (clock h) actor corr
        [(''status'', JStr (interaction_status_text t))] None db = Inr (r, db')"
      by (auto simp: resolve_interaction_tx_def)
    have "t \<noteq> IxOpen" using t(2) by (auto simp: interaction_terminal_states_def)
    note S = settle_interaction_Inr[OF lw wf c op this s]
    have "interaction_id current = i"
      using c find_Some_key[of interaction_id i "interactions db" current]
      by (simp add: interaction_row_of_def)
    then have "interaction_row_of i db' = Some r"
      using S c find_map_update[of interaction_id "resolved_row t resp (clock h)" i i "interactions db"]
      by (simp add: interaction_row_of_def resolved_row_def)
    with S t c op show thesis by (intro settled_if[of t current]) auto
  qed
qed

lemma resolve_interaction_Inl: "resolve_interaction h i st resp expected actor corr db = (Inl e, db') \<Longrightarrow> db' = db"
  by (auto simp: resolve_interaction_def Let_def split: option.splits if_splits dest: db_write_Inl)

lemma resolve_interaction_step:
  assumes "log_wf db" and "interactions_wf db"
  shows "ix_step db (snd (resolve_interaction h i st resp expected actor corr db))"
proof (cases "resolve_interaction h i st resp expected actor corr db")
  case (Pair x db')
  show ?thesis
  proof (cases x)
    case (Inl e)
    with Pair resolve_interaction_Inl assms show ?thesis by (fastforce simp: ix_step_refl)
  next
    case (Inr r)
    from assms Pair[unfolded Inr] show ?thesis
      by (cases rule: resolve_interaction_cases) (simp_all add: Pair ix_step_refl assms)
  qed
qed

end
