(* ===== verification/Work_Projection.thy ===== *)
theory Work_Projection
  imports Work_Operations
begin

text \<open>
  Projections of \<^verbatim>\<open>WorkRepository\<close>: a fold of the caller's reducer over the event log, advanced in
  batches with its cursor; and the proof that the batches do not show.
\<close>

section \<open>Projections\<close>

definition projection :: "string \<Rightarrow> work_db \<Rightarrow> projection_row res" where
  "projection name db =
     ebind (text_arg name ''projection name'' True 240) (\<lambda>n.
     Inr (case find (\<lambda>r. projection_name r = n) (projections db) of
        None \<Rightarrow> \<lparr>projection_name = n, last_sequence = 0, projection_state = [], projection_updated_at = 0\<rparr>
      | Some r \<Rightarrow> r))"

text \<open>The reducer is the caller's; it may raise, or return something that is not a mapping.\<close>

type_synonym reducer = "jobject \<Rightarrow> work_event \<Rightarrow> json res"

definition reduce_event :: "reducer \<Rightarrow> work_event \<Rightarrow> int \<times> jobject \<Rightarrow> (int \<times> jobject) res" where
  "reduce_event f e cs =
     ebind (f (snd cs) e) (\<lambda>v. case v of
        JObj s \<Rightarrow> Inr (sequence e, s)
      | _ \<Rightarrow> Inl (TypeErr ''projection reducer must return a mapping''))"

definition upsert_projection :: "projection_row \<Rightarrow> projection_row list \<Rightarrow> projection_row list" where
  "upsert_projection r t =
     (if find (\<lambda>x. projection_name x = projection_name r) t = None then t @ [r]
      else map (\<lambda>x. if projection_name x = projection_name r then r else x) t)"

definition reduce_projection_tx ::
  "host \<Rightarrow> string \<Rightarrow> reducer \<Rightarrow> jobject \<Rightarrow> nat \<Rightarrow> (work_db, projection_row) body" where
  "reduce_projection_tx h n f initial take_n db =
     (let start = (case find (\<lambda>r. projection_name r = n) (projections db) of
          None \<Rightarrow> (0, initial) | Some r \<Rightarrow> (last_sequence r, projection_state r));
          batch = take take_n (sort_key sequence (filter (\<lambda>e. fst start < sequence e) (events db))) in
      ebind (efold (reduce_event f) batch start) (\<lambda>(cursor, st).
      ebind (store_json h st) (\<lambda>stored.
      let row = \<lparr>projection_name = n, last_sequence = cursor, projection_state = stored,
                 projection_updated_at = clock h\<rparr> in
      Inr (row\<lparr>projection_state := st\<rparr>, db\<lparr>projections := upsert_projection row (projections db)\<rparr>))))"

definition reduce_projection ::
  "host \<Rightarrow> string \<Rightarrow> reducer \<Rightarrow> jobject \<Rightarrow> int \<Rightarrow> work_db \<Rightarrow> projection_row res \<times> work_db" where
  "reduce_projection h name f initial batch_size db =
     (case text_arg name ''projection name'' True 240 of
        Inl e \<Rightarrow> (Inl e, db)
      | Inr n \<Rightarrow> db_write h (reduce_projection_tx h n f initial (clamp_limit batch_size)) db)"

section \<open>The fold a projection stores\<close>

lemma efold_append: "efold f (xs @ ys) s = ebind (efold f xs s) (efold f ys)"
proof (induction xs arbitrary: s)
  case (Cons x xs)
  then show ?case by (cases "f x s") auto
qed simp

lemma reduce_event_Inr:
  "reduce_event f e cs = Inr r \<longleftrightarrow> (\<exists>v. f (snd cs) e = Inr (JObj v) \<and> r = (sequence e, v))"
proof (cases "f (snd cs) e")
  case (Inr v)
  then show ?thesis by (cases v) (auto simp: reduce_event_def)
qed (simp add: reduce_event_def)

lemma efold_cursor:
  "efold (reduce_event f) evs (c, s) = Inr (c', s') \<Longrightarrow> c' = (if evs = [] then c else sequence (last evs))"
  by (induction evs arbitrary: c s) (auto simp: reduce_event_Inr)

text \<open>A reducer that does not look at the order of the keys of its state.\<close>

definition respects_order :: "reducer \<Rightarrow> bool" where
  "respects_order f \<longleftrightarrow> (\<forall>s s' e v. onorm s = onorm s' \<longrightarrow> f s e = Inr (JObj v) \<longrightarrow>
     (\<exists>v'. f s' e = Inr (JObj v') \<and> onorm v = onorm v'))"

lemma efold_respects:
  assumes "respects_order f"
  shows "efold (reduce_event f) evs (c, s) = Inr (c', t) \<Longrightarrow> onorm s = onorm s' \<Longrightarrow>
    \<exists>t'. efold (reduce_event f) evs (c0, s') = Inr (if evs = [] then c0 else c', t') \<and> onorm t = onorm t'"
proof (induction evs arbitrary: c s s' c0)
  case (Cons e evs)
  from Cons.prems(1) obtain v where v: "f s e = Inr (JObj v)"
    and rest: "efold (reduce_event f) evs (sequence e, v) = Inr (c', t)"
    by (auto simp: reduce_event_Inr)
  from assms Cons.prems(2) v obtain v' where v': "f s' e = Inr (JObj v')" "onorm v = onorm v'"
    unfolding respects_order_def by blast
  from Cons.IH[OF rest v'(2), of "sequence e"] obtain t' where
    t': "efold (reduce_event f) evs (sequence e, v') = Inr (if evs = [] then sequence e else c', t')" "onorm t = onorm t'"
    by blast
  have "c' = sequence e" if "evs = []" using rest that by simp
  moreover have "reduce_event f e (c0, s') = Inr (sequence e, v')"
    using v'(1) by (simp add: reduce_event_Inr)
  ultimately show ?case using t' by (cases "evs = []") auto
qed simp

definition projection_ok :: "reducer \<Rightarrow> jobject \<Rightarrow> string \<Rightarrow> work_db \<Rightarrow> bool" where
  "projection_ok f initial n db \<longleftrightarrow>
     (case find (\<lambda>r. projection_name r = n) (projections db) of
        None \<Rightarrow> True
      | Some r \<Rightarrow> 0 \<le> last_sequence r \<and> last_sequence r \<le> int (length (events db)) \<and>
          (\<exists>s. efold (reduce_event f) (take (nat (last_sequence r)) (events db)) (0, initial)
                 = Inr (last_sequence r, s) \<and> onorm (projection_state r) = onorm s))"

lemma find_upsert:
  "find (\<lambda>x. projection_name x = n) (upsert_projection r t) =
     (if n = projection_name r then Some r else find (\<lambda>x. projection_name x = n) t)"
proof (cases "find (\<lambda>x. projection_name x = projection_name r) t")
  case None
  then show ?thesis by (auto simp: upsert_projection_def find_append split: option.splits)
next
  case (Some p)
  have other: "find (\<lambda>x. projection_name x = n) (map (\<lambda>x. if projection_name x = projection_name r then r else x) t) =
     find (\<lambda>x. projection_name x = n) t" if "n \<noteq> projection_name r"
    using that by (induction t) auto
  have same: "find (\<lambda>x. projection_name x = projection_name r)
      (map (\<lambda>x. if projection_name x = projection_name r then r else x) t) = Some r"
    using Some by (induction t) (auto split: if_splits)
  have "find (\<lambda>x. projection_name x = n) (map (\<lambda>x. if projection_name x = projection_name r then r else x) t) =
     (if n = projection_name r then Some r else find (\<lambda>x. projection_name x = n) t)"
    using same other by simp
  with Some show ?thesis by (simp add: upsert_projection_def)
qed

text \<open>Reading a stored object back twice is reading it once.\<close>

lemma insort_key_map_pair:
  "insort_key fst (fst p, g (snd p)) (map (\<lambda>p. (fst p, g (snd p))) xs) =
     map (\<lambda>p. (fst p, g (snd p))) (insort_key fst p xs)"
  by (induction xs) auto

lemma sort_key_map_pair:
  "sort_key fst (map (\<lambda>p. (fst p, g (snd p))) xs) = map (\<lambda>p. (fst p, g (snd p))) (sort_key fst xs)"
proof (induction xs)
  case (Cons p xs)
  then show ?case using insort_key_map_pair[of p g "sort_key fst xs"] by simp
qed simp

lemma jnorm_idem: "jnorm (jnorm j) = jnorm j"
proof (induction j)
  case (JObj kvs)
  have "map (\<lambda>p. (fst p, jnorm (jnorm (snd p)))) kvs = map (\<lambda>p. (fst p, jnorm (snd p))) kvs"
    using JObj by (auto elim: snds.cases intro!: map_cong)
  then show ?case by (simp add: sort_key_map_pair comp_def sort_key_id_if_sorted)
qed auto

lemma onorm_idem: "onorm (onorm kvs) = onorm kvs"
  using jnorm_idem[of "JObj kvs"] by (simp add: onorm_def)

text \<open>One successful reduction: the cursor moves over the next batch, the state is the fold's.\<close>

lemma reduce_projection_step:
  assumes wf: "log_wf db" and f: "respects_order f" and ok: "projection_ok f initial n db"
    and name: "text_arg name ''projection name'' True 240 = Inr n"
    and run: "reduce_projection h name f initial b db = (Inr r, db')"
  shows "projection_ok f initial n db'" and "events db' = events db"
    and "last_sequence r = min (int (length (events db)))
      ((case find (\<lambda>r. projection_name r = n) (projections db) of None \<Rightarrow> 0 | Some r \<Rightarrow> last_sequence r)
        + int (clamp_limit b))"
    and "\<exists>p. find (\<lambda>r. projection_name r = n) (projections db') = Some p \<and>
      last_sequence p = last_sequence r \<and> projection_state p = onorm (projection_state r)"
proof -
  define start where "start = (case find (\<lambda>r. projection_name r = n) (projections db) of
          None \<Rightarrow> (0, initial) | Some r \<Rightarrow> (last_sequence r, projection_state r))"
  let ?N = "int (length (events db))"
  define k where "k = clamp_limit b"
  have c: "0 \<le> fst start" "fst start \<le> ?N"
    using ok by (auto simp: start_def projection_ok_def split: option.splits)
  have st: "\<exists>s. efold (reduce_event f) (take (nat (fst start)) (events db)) (0, initial) = Inr (fst start, s)
      \<and> onorm (snd start) = onorm s"
    using ok by (auto simp: start_def projection_ok_def split: option.splits)
  from run name obtain cursor s' where
    fold: "efold (reduce_event f) (take k (drop (nat (fst start)) (events db))) start = Inr (cursor, s')"
    and r: "r = \<lparr>projection_name = n, last_sequence = cursor, projection_state = s', projection_updated_at = clock h\<rparr>"
    and db': "db' = db\<lparr>projections := upsert_projection \<lparr>projection_name = n, last_sequence = cursor,
        projection_state = onorm s', projection_updated_at = clock h\<rparr> (projections db)\<rparr>"
    by (auto simp: reduce_projection_def db_write_Inr reduce_projection_tx_def Let_def store_json_def
        start_def[symmetric] k_def events_after[OF wf c(1)] split: prod.splits if_splits)
  from st obtain s where s: "efold (reduce_event f) (take (nat (fst start)) (events db)) (0, initial)
      = Inr (fst start, s)" "onorm (snd start) = onorm s" by blast
  have fold': "efold (reduce_event f) (take k (drop (nat (fst start)) (events db))) (fst start, snd start) = Inr (cursor, s')"
    using fold by simp
  let ?batch = "take k (drop (nat (fst start)) (events db))"
  have cur: "cursor = (if ?batch = [] then fst start else sequence (last ?batch))"
    by (rule efold_cursor[OF fold'])
  have curv: "cursor = min ?N (fst start + int k)"
  proof (cases "?batch = []")
    case True
    have k1: "0 < k" by (simp add: k_def clamp_limit_def)
    from True k1 have "nat (fst start) \<ge> length (events db)" by simp
    with c have "fst start = ?N" by linarith
    with True cur show ?thesis by simp
  next
    case False
    have seq: "sequence (events db ! i) = int i + 1" if "i < length (events db)" for i
      using that wf nth_counting[of i "length (events db)"] by (metis log_wf_def nth_map)
    define m where "m = length ?batch"
    have m: "0 < m" "nat (fst start) + m \<le> length (events db)" "m = min (length (events db) - nat (fst start)) k"
      using False by (auto simp: m_def)
    have "last ?batch = events db ! (nat (fst start) + m - 1)"
      using False m by (simp add: last_conv_nth m_def)
    moreover have "sequence (events db ! (nat (fst start) + m - 1)) = int (nat (fst start) + m - 1) + 1"
      by (rule seq) (use m(1,2) in linarith)
    ultimately have "cursor = int (nat (fst start) + m - 1) + 1"
      using cur False by simp
    with m c show ?thesis by (auto simp: min_def)
  qed
  from efold_respects[OF f fold' s(2), of "fst start"] obtain t where
    t: "efold (reduce_event f) ?batch (fst start, s) = Inr (if ?batch = [] then fst start else cursor, t)" "onorm s' = onorm t"
    by blast
  have tc: "(if ?batch = [] then fst start else cursor) = cursor" using cur by simp
  have pre: "take (nat cursor) (events db) = take (nat (fst start)) (events db) @ ?batch"
  proof -
    have "nat cursor = min (length (events db)) (nat (fst start) + k)"
      using curv c by (auto simp: min_def)
    then show ?thesis by (simp add: take_add[symmetric] min_def)
  qed
  have all: "efold (reduce_event f) (take (nat cursor) (events db)) (0, initial) = Inr (cursor, t)"
    unfolding pre efold_append s(1) using t(1) tc by simp
  have look: "find (\<lambda>r. projection_name r = n) (projections db') = Some \<lparr>projection_name = n,
      last_sequence = cursor, projection_state = onorm s', projection_updated_at = clock h\<rparr>"
    by (simp add: db' find_upsert)
  have bnd: "0 \<le> cursor" "cursor \<le> ?N" using curv c by (auto simp: min_def)
  show "projection_ok f initial n db'"
    using look all bnd t(2) by (simp add: projection_ok_def db' onorm_idem)
  show "events db' = events db" by (simp add: db')
  have "fst start = (case find (\<lambda>r. projection_name r = n) (projections db) of None \<Rightarrow> 0 | Some r \<Rightarrow> last_sequence r)"
    by (simp add: start_def split: option.splits)
  then show "last_sequence r = min ?N ((case find (\<lambda>r. projection_name r = n) (projections db) of None \<Rightarrow> 0 | Some r \<Rightarrow> last_sequence r)
        + int (clamp_limit b))"
    using curv by (simp add: r k_def)
  show "\<exists>p. find (\<lambda>r. projection_name r = n) (projections db') = Some p \<and>
      last_sequence p = last_sequence r \<and> projection_state p = onorm (projection_state r)"
    using look by (simp add: r)
qed

lemma projection_ok_append:
  assumes "projection_ok f initial n db" and "projections db' = projections db" and "events db' = events db @ es"
  shows "projection_ok f initial n db'"
  using assms by (auto simp: projection_ok_def split: option.splits)

end
