(* ===== verification/Core_Lease.thy ===== *)
theory Core_Lease
  imports Core_Store
begin

text \<open>
  The contract of a leased row: a store whose steps let a row be claimed only under an epoch
  greater than any before, so that a worker whose lease ended can never hold the row again.
\<close>

locale lease_fence =
  fixes good :: "'s \<Rightarrow> bool"
    and step :: "'s \<Rightarrow> 's \<Rightarrow> bool"
    and epoch_of :: "'s \<Rightarrow> string \<Rightarrow> int option"
    and holder :: "'s \<Rightarrow> string \<Rightarrow> (string \<times> int) option"
  assumes good_step: "good s \<Longrightarrow> step s s' \<Longrightarrow> good s'"
    and holder_epoch: "good s \<Longrightarrow> holder s i = Some (w, e) \<Longrightarrow> epoch_of s i = Some e"
    and epoch_mono: "good s \<Longrightarrow> step s s' \<Longrightarrow> epoch_of s i = Some e \<Longrightarrow> \<exists>e'. epoch_of s' i = Some e' \<and> e \<le> e'"
    and claim_fresh: "good s \<Longrightarrow> step s s' \<Longrightarrow> holder s' i = Some (w, e) \<Longrightarrow>
      holder s i = Some (w, e) \<or> (\<forall>e0. epoch_of s i = Some e0 \<longrightarrow> e0 < e)"
begin

lemma run_good:
  assumes "step\<^sup>*\<^sup>* s s'" and "good s" shows "good s'"
  using assms by (induction rule: rtranclp_induct) (auto intro: good_step)

lemma run_epoch:
  assumes "step\<^sup>*\<^sup>* s s'" and "good s" and "epoch_of s i = Some e"
  shows "\<exists>e'. epoch_of s' i = Some e' \<and> e \<le> e'"
  using assms
proof (induction rule: rtranclp_induct)
  case (step y z)
  then obtain e1 where "epoch_of y i = Some e1" "e \<le> e1" by blast
  with epoch_mono[OF run_good[OF step(1) step.prems(1)] step(2)] show ?case by fastforce
qed simp

lemma fenced:
  assumes run: "step\<^sup>*\<^sup>* s s'" and good: "good s"
    and ep: "epoch_of s i = Some e0" "e \<le> e0" and lost: "holder s i \<noteq> Some (w, e)"
  shows "holder s' i \<noteq> Some (w, e)"
  using run good ep lost
proof (induction rule: rtranclp_induct)
  case (step y z)
  have y: "good y" by (rule run_good[OF step(1) good])
  from run_epoch[OF step(1) good ep(1)] ep(2) obtain e1 where e1: "epoch_of y i = Some e1" "e \<le> e1"
    by fastforce
  show ?case
  proof
    assume "holder z i = Some (w, e)"
    from claim_fresh[OF y step(2) this] e1 step show False by auto
  qed
qed simp

lemma one_holder_per_epoch:
  assumes run: "step\<^sup>*\<^sup>* s s'" and good: "good s"
    and first: "holder s i = Some (w, e)" and later: "holder s' i = Some (w', e')"
  shows "e \<le> e' \<and> (e = e' \<longrightarrow> w = w')"
  using run good first later
proof (induction arbitrary: w' e' rule: rtranclp_induct)
  case (step y z)
  have y: "good y" by (rule run_good[OF step(1) good])
  from run_epoch[OF step(1) good holder_epoch[OF good first]] obtain e1 where
    e1: "epoch_of y i = Some e1" "e \<le> e1" by blast
  from claim_fresh[OF y step(2) step.prems(3)] show ?case
  proof
    assume "holder y i = Some (w', e')"
    with step show ?thesis by blast
  next
    assume "\<forall>e0. epoch_of y i = Some e0 \<longrightarrow> e0 < e'"
    with e1 show ?thesis by auto
  qed
qed simp

end

end
