(* ===== verification/Work_Repository.thy ===== *)
theory Work_Repository
  imports Work_Interaction_Inv Work_Projection Core_Lease
begin

text \<open>
  The repository as a whole: one step relation over all its operations, the invariant of every
  reachable database, and the two tables of leases under the fencing contract.
\<close>

section \<open>Steps\<close>

definition repo_wf :: "work_db \<Rightarrow> bool" where
  "repo_wf db \<longleftrightarrow> store_wf db \<and> operations_wf db \<and> interactions_wf db"

text \<open>
  Every operation, by any caller, with any arguments, at any time.  Events of jobs, receipts and
  interactions are only appended by their own operations; a goal's transaction passes a clean
  interaction id.
\<close>

inductive repo_step :: "work_db \<Rightarrow> work_db \<Rightarrow> bool" where
  step_append: "py_strip (req_aggregate_kind q) \<notin> {''job'', ''operation'', ''interaction''} \<Longrightarrow>
    repo_step db (snd (append_event h q db))"
| step_claim: "repo_step db (snd (claim_outbox h consumer limit ttl now db))"
| step_acknowledge: "repo_step db (snd (acknowledge_outbox h oid consumer epoch now db))"
| step_reject: "repo_step db (snd (reject_outbox h oid consumer epoch err dl m now db))"
| step_recover_outbox: "repo_step db (snd (recover_expired_outbox h now db))"
| step_create_job: "repo_step db (snd (create_job h jq db))"
| step_lease: "repo_step db (snd (lease_next_job h owner kinds xs ttl now db))"
| step_start: "repo_step db (snd (start_job h jid owner epoch sync expected now db))"
| step_heartbeat: "repo_step db (snd (heartbeat_job h jid owner epoch ttl p now db))"
| step_progress: "repo_step db (snd (update_job_progress h jid pg owner epoch expected merge actor now db))"
| step_wait: "repo_step db (snd (mark_job_waiting h jid owner epoch p now db))"
| step_wake: "repo_step db (snd (wake_job h jid expected available actor db))"
| step_pause: "repo_step db (snd (pause_job h jid reason expected actor db))"
| step_cancel: "repo_step db (snd (request_job_cancel h jid reason expected actor db))"
| step_acknowledge_cancel: "repo_step db (snd (acknowledge_job_cancel h jid owner epoch now db))"
| step_finish: "repo_step db (snd (finish_job h jid fq db))"
| step_release: "repo_step db (snd (release_job h jid owner epoch err dl unknown now db))"
| step_retry: "repo_step db (snd (retry_job h jid expected available reset actor db))"
| step_recover_jobs: "repo_step db (snd (recover_expired_job_leases h now db))"
| step_receipt: "repo_step db (snd (record_operation_receipt h rq db))"
| step_recover_operations: "repo_step db (snd (recover_stale_operations h before db))"
| step_reduce: "repo_step db (snd (reduce_projection h name f initial b db))"
| step_ask: "hex_host h \<Longrightarrow> repo_step db (snd (create_interaction h iq db))"
| step_resolve: "repo_step db (snd (resolve_interaction h i st resp expected iactor corr db))"
| step_goal_input: "py_strip (gi_interaction_id gq) = gi_interaction_id gq \<Longrightarrow>
    repo_step db (snd (db_write h (create_goal_input_tx h gq) db))"
| step_goal_answer: "repo_step db (snd (db_write h (resolve_goal_input_tx h i resp v iactor corr now) db))"
| step_goal_dismiss: "repo_step db (snd (db_write h (dismiss_goal_input_tx h i v iactor corr now) db))"

definition reachable :: "work_db \<Rightarrow> bool" where
  "reachable db \<longleftrightarrow> repo_step\<^sup>*\<^sup>* empty_db db"

section \<open>Rows of the outbox\<close>

definition outbox_move :: "outbox_row \<Rightarrow> outbox_row \<Rightarrow> bool" where
  "outbox_move r r' \<longleftrightarrow> outbox_lease_epoch r \<le> outbox_lease_epoch r' \<and>
     (outbox_status r' = OutLeased \<longrightarrow> outbox_lease_epoch r < outbox_lease_epoch r' \<or>
        outbox_status r = OutLeased \<and> outbox_lease_owner r' = outbox_lease_owner r \<and>
        outbox_lease_epoch r' = outbox_lease_epoch r) \<and>
     (outbox_status r \<in> {OutDelivered, OutDead} \<longrightarrow> r' = r)"

definition outbox_maps :: "outbox_row list \<Rightarrow> outbox_row list \<Rightarrow> bool" where
  "outbox_maps t t' \<longleftrightarrow> (\<exists>f. t' = map f t \<and> (\<forall>r\<in>set t. outbox_id (f r) = outbox_id r \<and> outbox_move r (f r)))"

lemma outbox_move_refl [simp]: "outbox_move r r"
  by (simp add: outbox_move_def)

lemma outbox_move_trans: "outbox_move a b \<Longrightarrow> outbox_move b c \<Longrightarrow> outbox_move a c"
  by (auto simp: outbox_move_def)

lemma outbox_maps_refl [simp]: "outbox_maps t t"
  unfolding outbox_maps_def by (rule exI[where x = "\<lambda>r. r"]) simp

lemma outbox_maps_trans:
  assumes "outbox_maps a b" and "outbox_maps b c" shows "outbox_maps a c"
proof -
  from assms obtain f g where "b = map f a" "c = map g b"
    "\<forall>r\<in>set a. outbox_id (f r) = outbox_id r \<and> outbox_move r (f r)"
    "\<forall>r\<in>set b. outbox_id (g r) = outbox_id r \<and> outbox_move r (g r)"
    unfolding outbox_maps_def by blast
  then show ?thesis
    unfolding outbox_maps_def by (intro exI[where x = "\<lambda>r. g (f r)"]) (auto intro: outbox_move_trans)
qed

lemma outbox_maps_update:
  assumes "\<And>r. r \<in> set t \<Longrightarrow> P r \<Longrightarrow> outbox_id (f r) = outbox_id r \<and> outbox_move r (f r)"
  shows "outbox_maps t (snd (sql_update P f t))"
  unfolding outbox_maps_def sql_update_def
  by (rule exI[where x = "\<lambda>r. if P r then f r else r"]) (simp add: assms)

lemma release_move: "outbox_status r = OutLeased \<Longrightarrow> outbox_move r (outbox_release t r)"
  by (simp add: outbox_move_def outbox_release_def)

lemma lease_move: "outbox_status r = OutPending \<Longrightarrow> outbox_move r (outbox_lease w t r)"
  by (simp add: outbox_move_def outbox_lease_def)

lemma expired_leased: "outbox_expired t r \<Longrightarrow> outbox_status r = OutLeased"
  by (simp add: outbox_expired_def)

text \<open>An operation of the outbox touches nothing else.\<close>

definition outbox_step :: "work_db \<Rightarrow> work_db \<Rightarrow> bool" where
  "outbox_step db db' \<longleftrightarrow> log_wf db' \<and> (\<exists>t. db' = db\<lparr>outbox := t\<rparr> \<and> outbox_maps (outbox db) t)"

lemma outbox_step_refl: "log_wf db \<Longrightarrow> outbox_step db db"
  unfolding outbox_step_def by (intro conjI exI[where x = "outbox db"]) simp_all

lemma claim_loop_maps:
  assumes "efold (claim_one owner expires) ids t = Inr t'"
  shows "outbox_maps t t'"
proof (rule efold_invariant[where I = "outbox_maps t", OF assms])
  fix x s s'
  assume IH: "outbox_maps t s" and c: "claim_one owner expires x s = Inr s'"
  let ?P = "\<lambda>r. outbox_id r = x \<and> outbox_status r = OutPending"
  have "s' = snd (sql_update ?P (outbox_lease owner expires) s)"
    using c by (auto simp: claim_one_def split: prod.splits)
  moreover have "outbox_maps s (snd (sql_update ?P (outbox_lease owner expires) s))"
    by (rule outbox_maps_update) (simp add: lease_move, simp add: outbox_lease_def)
  ultimately show "outbox_maps t s'" using IH outbox_maps_trans by simp
qed simp

lemma claim_outbox_step: "log_wf db \<Longrightarrow> outbox_step db (snd (claim_outbox h consumer limit ttl now db))"
proof -
  assume wf: "log_wf db"
  let ?s = "snd (claim_outbox h consumer limit ttl now db)"
  have "\<exists>t. ?s = db\<lparr>outbox := t\<rparr> \<and> outbox_maps (outbox db) t"
  proof (cases "text_arg consumer ''consumer_id'' True 512")
    case (Inl e)
    then show ?thesis by (intro exI[where x = "outbox db"]) (simp add: claim_outbox_def)
  next
    case (Inr w)
    let ?I = "\<lambda>s. \<exists>t. s = db\<lparr>outbox := t\<rparr> \<and> outbox_maps (outbox db) t"
    have "?I (snd (db_write h (claim_outbox_tx w (or_now h now) (or_now h now + max 1 ttl)
        (nat (min 1000 (max 1 limit)))) db))"
    proof (rule db_write_invariant[where I = ?I])
      show "?I db" by (intro exI[where x = "outbox db"]) simp
      fix x db'
      let ?t0 = "snd (sql_update (outbox_expired (or_now h now)) (outbox_release (or_now h now)) (outbox db))"
      assume "claim_outbox_tx w (or_now h now) (or_now h now + max 1 ttl) (nat (min 1000 (max 1 limit))) db = Inr (x, db')"
      then obtain t1 ids where c: "efold (claim_one w (or_now h now + max 1 ttl)) ids ?t0 = Inr t1"
        and db': "db' = db\<lparr>outbox := t1\<rparr>"
        by (auto simp: claim_outbox_tx_def Let_def split: if_splits)
      have "outbox_maps (outbox db) ?t0"
        by (rule outbox_maps_update) (auto dest!: expired_leased simp: outbox_move_def outbox_release_def)
      with claim_loop_maps[OF c] db' show "?I db'" using outbox_maps_trans by blast
    qed
    with Inr show ?thesis by (simp add: claim_outbox_def Let_def)
  qed
  then show ?thesis using claim_outbox_wf[OF wf] by (simp add: outbox_step_def)
qed

lemma outbox_write_step:
  assumes "log_wf db" and "log_wf (snd (db_write h body db))"
    and "\<And>x db'. body db = Inr (x, db') \<Longrightarrow> \<exists>t. db' = db\<lparr>outbox := t\<rparr> \<and> outbox_maps (outbox db) t"
  shows "outbox_step db (snd (db_write h body db))"
  unfolding outbox_step_def
proof (rule conjI[OF assms(2)],
    rule db_write_invariant[where I = "\<lambda>s. \<exists>t. s = db\<lparr>outbox := t\<rparr> \<and> outbox_maps (outbox db) t"])
  show "\<exists>t. db = db\<lparr>outbox := t\<rparr> \<and> outbox_maps (outbox db) t"
    by (intro exI[where x = "outbox db"]) simp
qed (rule assms(3))

lemma acknowledge_outbox_step:
  assumes wf: "log_wf db"
  shows "outbox_step db (snd (acknowledge_outbox h oid consumer epoch now db))"
  unfolding acknowledge_outbox_def
proof (rule outbox_write_step[OF wf acknowledge_outbox_wf[OF wf, unfolded acknowledge_outbox_def]])
  fix x db'
  let ?P = "\<lambda>r. outbox_id r = oid \<and> outbox_held consumer epoch r"
  let ?f = "\<lambda>r. r\<lparr>outbox_status := OutDelivered, delivered_at := Some (or_now h now),
               outbox_lease_owner := [], outbox_lease_expires_at := None, last_error := []\<rparr>"
  assume "(case sql_update ?P ?f (outbox db) of (n, t) \<Rightarrow>
       ebind (require (n = 1) (LeaseLost (''outbox lease lost for '' @ oid)))
         (\<lambda>_. Inr ((), db\<lparr>outbox := t\<rparr>))) = Inr (x, db')"
  then have "db' = db\<lparr>outbox := snd (sql_update ?P ?f (outbox db))\<rparr>"
    by (auto split: prod.splits)
  moreover have "outbox_maps (outbox db) (snd (sql_update ?P ?f (outbox db)))"
    by (rule outbox_maps_update) (simp add: outbox_move_def outbox_held_def)
  ultimately show "\<exists>t. db' = db\<lparr>outbox := t\<rparr> \<and> outbox_maps (outbox db) t" by blast
qed

lemma reject_outbox_step:
  assumes wf: "log_wf db"
  shows "outbox_step db (snd (reject_outbox h oid consumer epoch err dl m now db))"
  unfolding reject_outbox_def
proof (rule outbox_write_step[OF wf reject_outbox_wf[OF wf, unfolded reject_outbox_def]])
  fix x db'
  assume run: "(case find (\<lambda>r. outbox_id r = oid) (outbox db) of
         None \<Rightarrow> Inl (WorkNotFound (''unknown outbox item: '' @ oid))
       | Some row \<Rightarrow>
           ebind (require (outbox_held consumer epoch row) (LeaseLost (''outbox lease lost for '' @ oid))) (\<lambda>_.
           let tm = or_now h now;
               dead = (max 1 m \<le> outbox_attempts row);
               st = (if dead then OutDead else OutPending) in
           ebind (text_arg err ''outbox error'' False 4000) (\<lambda>er.
           Inr (st, db\<lparr>outbox := snd (sql_update (\<lambda>r. outbox_id r = oid)
             (\<lambda>r. r\<lparr>outbox_status := st,
                   outbox_available_at := (if dead then tm else tm + max 0 dl),
                   outbox_lease_owner := [], outbox_lease_expires_at := None, last_error := er\<rparr>)
             (outbox db))\<rparr>)))) = Inr (x, db')"
  then obtain row where row: "find (\<lambda>r. outbox_id r = oid) (outbox db) = Some row"
    by (auto split: option.splits)
  define f where "f st a er = (\<lambda>r :: outbox_row. r\<lparr>outbox_status := st, outbox_available_at := a,
      outbox_lease_owner := [], outbox_lease_expires_at := None, last_error := er\<rparr>)" for st a er
  from run row obtain st a er where held: "outbox_held consumer epoch row" and st: "st \<noteq> OutLeased"
    and db': "db' = db\<lparr>outbox := snd (sql_update (\<lambda>r. outbox_id r = oid) (f st a er) (outbox db))\<rparr>"
    unfolding f_def by (auto simp: Let_def split: if_splits)
  have dist: "distinct (map outbox_id (outbox db))" using wf by (simp add: log_wf_def)
  have "outbox_maps (outbox db) (snd (sql_update (\<lambda>r. outbox_id r = oid) (f st a er) (outbox db)))"
  proof (rule outbox_maps_update)
    fix r assume "r \<in> set (outbox db)" "outbox_id r = oid"
    then have "r = row" using find_distinct_key[OF dist, of r] row by simp
    then show "outbox_id (f st a er r) = outbox_id r \<and> outbox_move r (f st a er r)"
      using held st by (simp add: f_def outbox_move_def outbox_held_def)
  qed
  then show "\<exists>t. db' = db\<lparr>outbox := t\<rparr> \<and> outbox_maps (outbox db) t" using db' by blast
qed

lemma recover_expired_outbox_step:
  assumes wf: "log_wf db"
  shows "outbox_step db (snd (recover_expired_outbox h now db))"
  unfolding recover_expired_outbox_def
proof (rule outbox_write_step[OF wf recover_expired_outbox_wf[OF wf, unfolded recover_expired_outbox_def]])
  fix x db'
  let ?f = "\<lambda>r. (outbox_release (or_now h now) r)\<lparr>last_error :=
            (if last_error r = [] then ''delivery lease expired'' else last_error r)\<rparr>"
  assume "(case sql_update (outbox_expired (or_now h now)) ?f (outbox db) of (n, t) \<Rightarrow> Inr (n, db\<lparr>outbox := t\<rparr>))
      = Inr (x, db')"
  then have "db' = db\<lparr>outbox := snd (sql_update (outbox_expired (or_now h now)) ?f (outbox db))\<rparr>"
    by (simp add: sql_update_def)
  moreover have "outbox_maps (outbox db) (snd (sql_update (outbox_expired (or_now h now)) ?f (outbox db)))"
    by (rule outbox_maps_update) (auto dest!: expired_leased simp: outbox_move_def outbox_release_def)
  ultimately show "\<exists>t. db' = db\<lparr>outbox := t\<rparr> \<and> outbox_maps (outbox db) t" by blast
qed

section \<open>The invariant of reachable databases\<close>

text \<open>Receipts, interactions and jobs each leave the others' tables and events alone.\<close>

lemma jobs_wf_kind_frame:
  assumes "jobs db' = jobs db" and "kind_events db' ''job'' = kind_events db ''job''"
  shows "jobs_wf db' = jobs_wf db"
proof -
  have "(\<forall>e\<in>set (events d). aggregate_kind e = ''job'' \<longrightarrow> aggregate_id e \<in> A) \<longleftrightarrow>
      (\<forall>e\<in>set (kind_events d ''job''). aggregate_id e \<in> A)" for d A
    by (auto simp: kind_events_def)
  with assms show ?thesis by (simp add: jobs_wf_def max_version_kind)
qed

lemma job_step_wf:
  assumes "repo_wf db" and "job_step db db'" shows "repo_wf db'"
  using assms operations_wf_frame[of db' db] interactions_wf_frame[of db' db]
  by (simp add: repo_wf_def job_step_def others_same_def)

lemma ix_step_wf:
  assumes "repo_wf db" and "ix_step db db'" shows "repo_wf db'"
  using assms operations_wf_frame[of db' db] jobs_wf_kind_frame[of db' db]
  by (simp add: repo_wf_def ix_step_def store_wf_def)

lemma outbox_step_wf:
  assumes "repo_wf db" and "outbox_step db db'" shows "repo_wf db'"
proof -
  from assms(2) obtain t where "log_wf db'" "db' = db\<lparr>outbox := t\<rparr>" by (auto simp: outbox_step_def)
  with assms(1) show ?thesis
    using operations_wf_frame[of db' db] jobs_wf_kind_frame[of db' db] interactions_wf_frame[of db' db]
    by (simp add: repo_wf_def store_wf_def kind_events_def)
qed

lemma append_other_wf:
  assumes wf: "repo_wf db" and k: "py_strip (req_aggregate_kind q) \<notin> {''job'', ''operation'', ''interaction''}"
  shows "repo_wf (snd (append_event h q db)) \<and> jobs (snd (append_event h q db)) = jobs db \<and>
    outbox_extends db (snd (append_event h q db))"
proof -
  have "repo_wf s \<and> jobs s = jobs db \<and> outbox_extends db s" if s: "s = snd (append_event h q db)" for s
    unfolding s append_event_def
  proof (rule db_write_invariant[where I = "\<lambda>s. repo_wf s \<and> jobs s = jobs db \<and> outbox_extends db s"])
    show "repo_wf db \<and> jobs db = jobs db \<and> outbox_extends db db" using wf by (simp add: outbox_extends_same)
    fix e db'
    assume ins: "insert_event_tx h q db = Inr (e, db')"
    then show "repo_wf db' \<and> jobs db' = jobs db \<and> outbox_extends db db'"
    proof (cases rule: insert_event_tx_cases)
      case replay
      with wf show ?thesis by (simp add: outbox_extends_same)
    next
      case (append c o')
      have kk: "aggregate_kind e \<notin> {''job'', ''operation'', ''interaction''}"
        using append(1,4) k by (auto simp: clean_event_args_def Let_def text_arg_Inr)
      have same: "kind_events db' j = kind_events db j" if "j \<in> {''job'', ''operation'', ''interaction''}" for j
        using kind_events_appended[OF append(3), of j] kk that by auto
      have "log_wf db'" using wf insert_event_tx_wf[OF _ ins] by (simp add: repo_wf_def store_wf_def)
      then show ?thesis
        using wf appended_frame[OF append(3)] appended_outbox[OF append(3)] same operations_wf_frame[of db' db]
          jobs_wf_kind_frame[of db' db] interactions_wf_frame[of db' db]
        by (simp add: repo_wf_def store_wf_def)
    qed
  qed
  then show ?thesis by blast
qed

lemma receipt_step_wf:
  assumes wf: "repo_wf db"
  shows "repo_wf (snd (record_operation_receipt h q db)) \<and> jobs (snd (record_operation_receipt h q db)) = jobs db \<and>
    outbox_extends db (snd (record_operation_receipt h q db))"
proof (cases "record_operation_receipt h q db")
  case (Pair x db')
  show ?thesis
  proof (cases x)
    case (Inl e)
    with Pair have "db' = db"
      by (auto simp: record_operation_receipt_def split: sum.splits dest: db_write_Inl)
    with Pair wf show ?thesis by (simp add: outbox_extends_same)
  next
    case (Inr r)
    have lw: "log_wf db" and ow: "operations_wf db" using wf by (simp_all add: repo_wf_def store_wf_def)
    from lw ow Pair[unfolded Inr] have "repo_wf db' \<and> jobs db' = jobs db \<and> outbox_extends db db'"
    proof (cases rule: record_receipt_cases)
      case replay
      with wf show ?thesis by (simp add: outbox_extends_same)
    next
      case (recorded c e o' db1)
      have same: "kind_events db' j = kind_events db j" if "j \<noteq> ''operation''" for j
        using kind_events_appended[OF recorded(2), of j] recorded(3,6) that by (auto simp: kind_events_def)
      have "aggregate_wf ''operation'' operation_id operation_revision receipt_wf (operations db @ [r]) db1"
        using ow recorded by (intro aggregate_wf_insert[OF _ recorded(2)])
          (simp_all add: operations_wf_def receipt_wf_def)
      then have "operations_wf db'"
        unfolding operations_wf_def
        by (subst aggregate_wf_frame[of _ _ db1]) (simp_all add: recorded(6) kind_events_def)
      moreover have "log_wf db'" using appended_wf[OF lw recorded(2)] recorded(6) by simp
      moreover have "jobs db' = jobs db" "interactions db' = interactions db"
        using appended_frame[OF recorded(2)] recorded(6) by simp_all
      moreover have "outbox_extends db db'"
        by (rule outbox_extends_frame[OF appended_outbox[OF recorded(2)]]) (simp_all add: recorded(6))
      ultimately show ?thesis
        using wf same jobs_wf_kind_frame[of db' db] interactions_wf_frame[of db' db]
        by (simp add: repo_wf_def store_wf_def)
    qed
    with Pair show ?thesis by simp
  qed
qed

lemma projections_only_wf: "repo_wf db \<Longrightarrow> repo_wf (db\<lparr>projections := t\<rparr>)"
  using operations_wf_frame[of "db\<lparr>projections := t\<rparr>" db] jobs_wf_kind_frame[of "db\<lparr>projections := t\<rparr>" db]
    interactions_wf_frame[of "db\<lparr>projections := t\<rparr>" db]
  by (simp add: repo_wf_def store_wf_def kind_events_def log_wf_def versions_def)

lemma reduce_projection_frame: "\<exists>t. snd (reduce_projection h name f initial b db) = db\<lparr>projections := t\<rparr>"
proof (cases "text_arg name ''projection name'' True 240")
  case (Inl e)
  then show ?thesis by (intro exI[where x = "projections db"]) (simp add: reduce_projection_def)
next
  case (Inr n)
  let ?I = "\<lambda>s. \<exists>t. s = db\<lparr>projections := t\<rparr>"
  have "?I (snd (db_write h (reduce_projection_tx h n f initial (clamp_limit b)) db))"
  proof (rule db_write_invariant[where I = ?I])
    show "?I db" by (intro exI[where x = "projections db"]) simp
    show "?I db'" if "reduce_projection_tx h n f initial (clamp_limit b) db = Inr (x, db')" for x db'
      using that by (auto simp: reduce_projection_tx_def Let_def split: prod.splits)
  qed
  with Inr show ?thesis by (simp add: reduce_projection_def)
qed

text \<open>What a step does to the jobs and to the outbox, beside keeping the invariant.\<close>

definition outbox_moves :: "work_db \<Rightarrow> work_db \<Rightarrow> bool" where
  "outbox_moves db db' \<longleftrightarrow>
     (\<forall>i r. find (\<lambda>r. outbox_id r = i) (outbox db) = Some r \<longrightarrow>
        (\<exists>r'. find (\<lambda>r. outbox_id r = i) (outbox db') = Some r' \<and> outbox_move r r')) \<and>
     (\<forall>i r'. find (\<lambda>r. outbox_id r = i) (outbox db) = None \<longrightarrow>
        find (\<lambda>r. outbox_id r = i) (outbox db') = Some r' \<longrightarrow> outbox_status r' = OutPending)"

lemma outbox_moves_extends:
  assumes "outbox_extends db db'" shows "outbox_moves db db'"
proof -
  from assms obtain es where es: "outbox db' = outbox db @ es" "\<forall>r\<in>set es. outbox_status r = OutPending"
    by (auto simp: outbox_extends_def)
  have pend: "outbox_status r = OutPending" if "find (\<lambda>r. outbox_id r = i) es = Some r" for i r
    using es(2) find_Some_key[of outbox_id i es r] that by blast
  show ?thesis
    unfolding outbox_moves_def es(1) find_append
  proof (intro conjI allI impI)
    fix i r assume "find (\<lambda>r. outbox_id r = i) (outbox db) = Some r"
    then show "\<exists>r'. (case find (\<lambda>r. outbox_id r = i) (outbox db) of None \<Rightarrow> find (\<lambda>r. outbox_id r = i) es
        | Some x \<Rightarrow> Some x) = Some r' \<and> outbox_move r r'" by simp
  next
    fix i r'
    assume "find (\<lambda>r. outbox_id r = i) (outbox db) = None"
      "(case find (\<lambda>r. outbox_id r = i) (outbox db) of None \<Rightarrow> find (\<lambda>r. outbox_id r = i) es
        | Some x \<Rightarrow> Some x) = Some r'"
    then show "outbox_status r' = OutPending" using pend by simp
  qed
qed

lemma outbox_moves_maps:
  assumes "outbox_maps (outbox db) (outbox db')" shows "outbox_moves db db'"
proof -
  from assms obtain f where f: "outbox db' = map f (outbox db)"
    "\<And>r. r \<in> set (outbox db) \<Longrightarrow> outbox_id (f r) = outbox_id r \<and> outbox_move r (f r)"
    by (auto simp: outbox_maps_def)
  have look: "find (\<lambda>r. outbox_id r = i) (map f t) = map_option f (find (\<lambda>r. outbox_id r = i) t)"
    if "set t \<subseteq> set (outbox db)" for i t
    using that f(2) by (induction t) auto
  show ?thesis
    unfolding outbox_moves_def f(1) look[OF order_refl]
  proof (intro conjI allI impI)
    fix i r assume r: "find (\<lambda>r. outbox_id r = i) (outbox db) = Some r"
    then have "outbox_move r (f r)" using f(2) find_Some_key[of outbox_id i "outbox db" r] by blast
    then show "\<exists>r'. map_option f (find (\<lambda>r. outbox_id r = i) (outbox db)) = Some r' \<and> outbox_move r r'"
      by (simp add: r)
  qed simp
qed

definition good_step :: "work_db \<Rightarrow> work_db \<Rightarrow> bool" where
  "good_step db db' \<longleftrightarrow> repo_wf db' \<and> job_moves db db' \<and> outbox_moves db db'"

lemma good_step_same_jobs:
  "repo_wf db' \<Longrightarrow> jobs db' = jobs db \<Longrightarrow> outbox_extends db db' \<Longrightarrow> good_step db db'"
  by (simp add: good_step_def job_moves_same outbox_moves_extends)

lemma good_step_job: "repo_wf db \<Longrightarrow> job_step db db' \<Longrightarrow> good_step db db'"
  using job_step_wf by (simp add: good_step_def job_step_def others_same_def outbox_moves_extends)

lemma good_step_ix: "repo_wf db \<Longrightarrow> ix_step db db' \<Longrightarrow> good_step db db'"
  using ix_step_wf by (intro good_step_same_jobs) (auto simp: ix_step_def)

lemma good_step_outbox: "repo_wf db \<Longrightarrow> outbox_step db db' \<Longrightarrow> good_step db db'"
  using outbox_step_wf by (auto simp: good_step_def outbox_step_def intro: job_moves_same outbox_moves_maps)

lemma ix_write_step:
  assumes "log_wf db" and "interactions_wf db" and "\<And>r db'. body db = Inr (r, db') \<Longrightarrow> ix_step db db'"
  shows "ix_step db (snd (db_write h body db))"
  by (rule db_write_invariant[where I = "ix_step db", OF ix_step_refl[OF assms(1,2)] assms(3)])

lemmas job_operation_steps =
  create_job_step lease_next_job_step start_job_step heartbeat_job_step update_job_progress_step
  mark_job_waiting_step wake_job_step pause_job_step request_job_cancel_step
  acknowledge_job_cancel_step finish_job_step release_job_step retry_job_step
  recover_expired_job_leases_step

lemmas outbox_operation_steps =
  claim_outbox_step acknowledge_outbox_step reject_outbox_step recover_expired_outbox_step

lemma repo_step_good:
  assumes "repo_step db db'" and wf: "repo_wf db"
  shows "good_step db db'"
proof -
  have s: "store_wf db" "log_wf db" "operations_wf db" "interactions_wf db"
    using wf by (simp_all add: repo_wf_def store_wf_def)
  note job = good_step_job[OF wf] and out = good_step_outbox[OF wf] and ix = good_step_ix[OF wf]
  from assms(1) show ?thesis
  proof cases
    case (step_append q h)
    then show ?thesis using append_other_wf[OF wf] by (intro good_step_same_jobs) simp_all
  next
    case (step_receipt h rq)
    then show ?thesis using receipt_step_wf[OF wf] by (intro good_step_same_jobs) simp_all
  next
    case (step_recover_operations h before)
    then show ?thesis using recover_stale_none(1)[OF s(3)] wf
      by (simp add: good_step_same_jobs outbox_extends_same)
  next
    case (step_reduce h name f initial b)
    obtain t where "db' = db\<lparr>projections := t\<rparr>"
      using step_reduce reduce_projection_frame by metis
    then show ?thesis using projections_only_wf[OF wf]
      by (intro good_step_same_jobs) (simp_all add: outbox_extends_same)
  next
    case (step_goal_input gq h)
    then show ?thesis
      using create_goal_input_step[OF s(2,4)] by (auto intro!: ix ix_write_step[OF s(2,4)])
  next
    case (step_goal_answer h i resp v iactor corr now)
    then show ?thesis
      using resolve_goal_input_step[OF s(2,4)] by (auto intro!: ix ix_write_step[OF s(2,4)])
  next
    case (step_goal_dismiss h i v iactor corr now)
    then show ?thesis
      using dismiss_goal_input_step[OF s(2,4)] by (auto intro!: ix ix_write_step[OF s(2,4)])
  qed (simp_all add: job job_operation_steps[OF s(1)] out outbox_operation_steps[OF s(2)] ix
      create_interaction_step[OF s(2,4)] resolve_interaction_step[OF s(2,4)])
qed

lemma repo_wf_empty: "repo_wf empty_db"
  using log_wf_empty
  by (simp add: repo_wf_def store_wf_def jobs_wf_def operations_wf_def interactions_wf_def
      aggregate_wf_def) (simp add: empty_db_def)

lemma reachable_repo_wf: "reachable db \<Longrightarrow> repo_wf db"
  unfolding reachable_def
  by (induction rule: rtranclp_induct) (auto intro: repo_wf_empty dest: repo_step_good simp: good_step_def)

section \<open>The two tables of leases\<close>

definition job_epoch :: "work_db \<Rightarrow> string \<Rightarrow> int option" where
  "job_epoch db j = map_option lease_epoch (get_job j db)"

definition job_holder :: "work_db \<Rightarrow> string \<Rightarrow> (string \<times> int) option" where
  "job_holder db j = (case get_job j db of None \<Rightarrow> None
     | Some r \<Rightarrow> if status r \<in> job_leased_states then Some (lease_owner r, lease_epoch r) else None)"

definition outbox_row_of :: "string \<Rightarrow> work_db \<Rightarrow> outbox_row option" where
  "outbox_row_of i db = find (\<lambda>r. outbox_id r = i) (outbox db)"

definition outbox_epoch :: "work_db \<Rightarrow> string \<Rightarrow> int option" where
  "outbox_epoch db i = map_option outbox_lease_epoch (outbox_row_of i db)"

definition outbox_holder :: "work_db \<Rightarrow> string \<Rightarrow> (string \<times> int) option" where
  "outbox_holder db i = (case outbox_row_of i db of None \<Rightarrow> None
     | Some r \<Rightarrow> if outbox_status r = OutLeased then Some (outbox_lease_owner r, outbox_lease_epoch r) else None)"

lemma job_moves_get:
  assumes "job_moves db db'"
  shows "get_job j db = Some r \<Longrightarrow> \<exists>r'. get_job j db' = Some r' \<and> job_move r r' \<and>
      (status r \<in> {Succeeded, Cancelled} \<longrightarrow> r' = r)"
    and "get_job j db = None \<Longrightarrow> get_job j db' = Some r' \<Longrightarrow> status r' = Queued \<and> lease_epoch r' = 0"
  using assms unfolding job_moves_def get_job_def by blast+

lemma outbox_moves_get:
  assumes "outbox_moves db db'"
  shows "outbox_row_of i db = Some r \<Longrightarrow> \<exists>r'. outbox_row_of i db' = Some r' \<and> outbox_move r r'"
    and "outbox_row_of i db = None \<Longrightarrow> outbox_row_of i db' = Some r' \<Longrightarrow> outbox_status r' = OutPending"
  using assms unfolding outbox_moves_def outbox_row_of_def by blast+

interpretation job_lease: lease_fence repo_wf repo_step job_epoch job_holder
proof
  fix s s' :: work_db and i w :: string and e :: int
  assume wf: "repo_wf s"
  show "job_holder s i = Some (w, e) \<Longrightarrow> job_epoch s i = Some e"
    by (auto simp: job_holder_def job_epoch_def split: option.splits if_splits)
  assume step: "repo_step s s'"
  from repo_step_good[OF step wf] have good: "repo_wf s'" and moves: "job_moves s s'"
    by (simp_all add: good_step_def)
  show "repo_wf s'" by (rule good)
  show "\<exists>e'. job_epoch s' i = Some e' \<and> e \<le> e'" if "job_epoch s i = Some e"
    using that job_moves_get(1)[OF moves, of i] by (fastforce simp: job_epoch_def job_move_def)
  show "job_holder s i = Some (w, e) \<or> (\<forall>e0. job_epoch s i = Some e0 \<longrightarrow> e0 < e)"
    if "job_holder s' i = Some (w, e)"
  proof (cases "get_job i s")
    case None
    then show ?thesis by (simp add: job_epoch_def)
  next
    case (Some r)
    with job_moves_get(1)[OF moves Some] that show ?thesis
      by (auto simp: job_holder_def job_epoch_def job_move_def split: if_splits)
  qed
qed

interpretation outbox_lease: lease_fence repo_wf repo_step outbox_epoch outbox_holder
proof
  fix s s' :: work_db and i w :: string and e :: int
  assume wf: "repo_wf s"
  show "outbox_holder s i = Some (w, e) \<Longrightarrow> outbox_epoch s i = Some e"
    by (auto simp: outbox_holder_def outbox_epoch_def split: option.splits if_splits)
  assume step: "repo_step s s'"
  from repo_step_good[OF step wf] have good: "repo_wf s'" and moves: "outbox_moves s s'"
    by (simp_all add: good_step_def)
  show "repo_wf s'" by (rule good)
  show "\<exists>e'. outbox_epoch s' i = Some e' \<and> e \<le> e'" if "outbox_epoch s i = Some e"
    using that outbox_moves_get(1)[OF moves, of i] by (fastforce simp: outbox_epoch_def outbox_move_def)
  show "outbox_holder s i = Some (w, e) \<or> (\<forall>e0. outbox_epoch s i = Some e0 \<longrightarrow> e0 < e)"
    if "outbox_holder s' i = Some (w, e)"
  proof (cases "outbox_row_of i s")
    case None
    then show ?thesis by (simp add: outbox_epoch_def)
  next
    case (Some r)
    with outbox_moves_get(1)[OF moves Some] that show ?thesis
      by (auto simp: outbox_holder_def outbox_epoch_def outbox_move_def split: if_splits)
  qed
qed

section \<open>The worker's operations need the lease\<close>

lemma expect_lease_holder:
  assumes "job_row_tx jid db = Inr row" and "expect_lease row owner epoch tm allowed = Inr u"
    and "allowed \<subseteq> job_leased_states"
  shows "job_holder db jid = Some (owner, epoch)"
  using assms by (auto simp: job_holder_def get_job_def job_row_tx_Inr expect_lease_Inr)

text \<open>A call of the worker's, with the lease it presents.\<close>

datatype worker_call =
    CallStart bool "int option"
  | CallHeartbeat rat "jobject option"
  | CallWait "jobject option"
  | CallFinish finish_request
  | CallRelease string rat bool

fun worker_call_ok :: "worker_call \<Rightarrow> host \<Rightarrow> string \<Rightarrow> string \<Rightarrow> int \<Rightarrow> rat option \<Rightarrow> work_db \<Rightarrow> bool" where
  "worker_call_ok (CallStart sync v) h j w e now db = (\<exists>r. fst (start_job h j w e sync v now db) = Inr r)"
| "worker_call_ok (CallHeartbeat ttl p) h j w e now db = (\<exists>r. fst (heartbeat_job h j w e ttl p now db) = Inr r)"
| "worker_call_ok (CallWait p) h j w e now db = (\<exists>r. fst (mark_job_waiting h j w e p now db) = Inr r)"
| "worker_call_ok (CallFinish q) h j w e now db =
     (\<exists>r. fst (finish_job h j (q\<lparr>fr_lease_owner := w, fr_lease_epoch := e, fr_now := now\<rparr>) db) = Inr r)"
| "worker_call_ok (CallRelease err dl u) h j w e now db = (\<exists>r. fst (release_job h j w e err dl u now db) = Inr r)"

lemma worker_call_holder:
  assumes wf: "jobs_wf db" and ok: "worker_call_ok c h j w e now db"
  shows "job_holder db j = Some (w, e)"
proof (cases c)
  case (CallStart sync v)
  with ok obtain r db' where "start_job h j w e sync v now db = (Inr r, db')"
    by (metis prod.collapse worker_call_ok.simps(1))
  from wf this show ?thesis
    by (rule start_job_Inr) (erule expect_lease_holder, assumption, simp add: job_leased_states_def)
next
  case (CallHeartbeat ttl p)
  with ok obtain r db' where "heartbeat_job h j w e ttl p now db = (Inr r, db')"
    by (metis prod.collapse worker_call_ok.simps(2))
  from wf this show ?thesis
    by (rule heartbeat_job_Inr) (erule expect_lease_holder, assumption, simp)
next
  case (CallWait p)
  with ok obtain r db' where "mark_job_waiting h j w e p now db = (Inr r, db')"
    by (metis prod.collapse worker_call_ok.simps(3))
  from wf this show ?thesis
    by (rule mark_job_waiting_Inr) (erule expect_lease_holder, assumption, simp add: job_leased_states_def)
next
  case (CallFinish q)
  with ok obtain r db' where
    "finish_job h j (q\<lparr>fr_lease_owner := w, fr_lease_epoch := e, fr_now := now\<rparr>) db = (Inr r, db')"
    by (metis prod.collapse worker_call_ok.simps(4))
  then have "finish_job_tx h j (q\<lparr>fr_lease_owner := w, fr_lease_epoch := e, fr_now := now\<rparr>) db = Inr (r, db')"
    by (simp add: finish_job_def db_write_Inr)
  from wf this show ?thesis
    by (rule finish_job_tx_Inr) (erule expect_lease_holder, simp, simp)
next
  case (CallRelease err dl u)
  with ok obtain r db' where "release_job h j w e err dl u now db = (Inr r, db')"
    by (metis prod.collapse worker_call_ok.simps(5))
  from wf this show ?thesis
    by (rule release_job_Inr) (erule expect_lease_holder, assumption, simp)
qed

text \<open>Along any run, a settled job is a constant and every job stays on its lifecycle.\<close>

lemma run_settled:
  assumes "repo_step\<^sup>*\<^sup>* db db'" and "repo_wf db" and "get_job j db = Some r" and "status r \<in> {Succeeded, Cancelled}"
  shows "get_job j db' = Some r"
  using assms
proof (induction rule: rtranclp_induct)
  case (step y z)
  have "repo_wf y" by (rule job_lease.run_good[OF step(1) step.prems(1)])
  then have "job_moves y z" using repo_step_good[OF step(2)] by (simp add: good_step_def)
  from job_moves_get(1)[OF this step.IH[OF step.prems]] step.prems(3) show ?case by auto
qed simp

end
