(* ===== verification/Work_Service.thy ===== *)
theory Work_Service
  imports Work_Repository
begin

text \<open>
  The services over the repository: the execution context of a worker and its atomic commit
  (\<^verbatim>\<open>jobs.py\<close>), recovery (\<^verbatim>\<open>recovery.py\<close>), the outbox pump (\<^verbatim>\<open>events.py\<close>), and the facade's receipts,
  cancellation and chat deletion (\<^verbatim>\<open>service.py\<close>).  An operation maps the database to its result and
  the database after it; a composition runs its operations one transaction after the other.
\<close>

definition obind :: "'a res \<times> 's \<Rightarrow> ('a \<Rightarrow> 's \<Rightarrow> 'b res \<times> 's) \<Rightarrow> 'b res \<times> 's" where
  "obind r f = (case r of (Inl e, s) \<Rightarrow> (Inl e, s) | (Inr x, s) \<Rightarrow> f x s)"

lemma obind_simps [simp]:
  "obind (Inl e, s) f = (Inl e, s)" "obind (Inr x, s) f = f x s"
  by (simp_all add: obind_def)

lemma obind_Inr: "obind r f = (Inr y, s') \<longleftrightarrow> (\<exists>x s. r = (Inr x, s) \<and> f x s = (Inr y, s'))"
  by (cases r; cases "fst r") (auto simp: obind_def)

lemma obind_invariant:
  assumes "I (snd r)" and "\<And>x s. r = (Inr x, s) \<Longrightarrow> I (snd (f x s))"
  shows "I (snd (obind r f))"
  using assms by (cases r; cases "fst r") (auto simp: obind_def)

section \<open>The job service\<close>

definition require_job :: "string \<Rightarrow> work_db \<Rightarrow> job_row res" where
  "require_job jid db = (case get_job jid db of
     None \<Rightarrow> Inl (WorkNotFound (''unknown work job: '' @ jid)) | Some r \<Rightarrow> Inr r)"

text \<open>\<^verbatim>\<open>JobService.create\<close>: the ambient scope when none is given, the owner id defaulted.\<close>

definition job_service_create ::
  "host \<Rightarrow> work_scope \<Rightarrow> job_request \<Rightarrow> work_db \<Rightarrow> job_row res \<times> work_db" where
  "job_service_create h ambient q db =
     (case (if jr_scope q = NoScope then Inr ambient else coerce_work_scope h (jr_scope q)) of
        Inl e \<Rightarrow> (Inl e, db)
      | Inr s \<Rightarrow> create_job h (q\<lparr>jr_scope := AScope s,
          jr_owner_id := (if jr_owner_id q \<noteq> [] then jr_owner_id q
                          else if chat_id s \<noteq> [] then chat_id s else ''variant1'')\<rparr>) db)"

text \<open>
  One poll of \<^verbatim>\<open>JobService.wait\<close>, \<open>elapsed\<close> seconds in: a result, or how long to sleep.
\<close>

definition wait_job_poll ::
  "string \<Rightarrow> rat option \<Rightarrow> rat \<Rightarrow> string list \<Rightarrow> rat \<Rightarrow> work_db \<Rightarrow> job_row res + rat" where
  "wait_job_poll jid timeout interval wanted elapsed db =
     (case get_job jid db of
        None \<Rightarrow> Inl (Inl (WorkNotFound (''unknown work job: '' @ jid)))
      | Some job \<Rightarrow>
          if status_text (status job) \<in> set wanted then Inl (Inr job)
          else (case timeout of
             None \<Rightarrow> Inr (max (1/50) interval)
           | Some t \<Rightarrow>
               if t - elapsed \<le> 0 then Inl (Inl (TimeoutErr (''timed out waiting for work job '' @ jid)))
               else Inr (min (max (1/50) interval) (t - elapsed))))"

section \<open>The execution context\<close>

record job_result =
  result_text :: string
  diagnostics_text :: string
  result_progress :: jobject

definition empty_result :: job_result where
  "empty_result = \<lparr>result_text = [], diagnostics_text = [], result_progress = []\<rparr>"

record job_context =
  cx_job :: job_row
  cx_owner :: string
  cx_epoch :: int
  cx_ttl :: rat
  cx_local :: bool

definition new_context :: "job_row \<Rightarrow> rat \<Rightarrow> job_context res" where
  "new_context job ttl =
     ebind (require (lease_owner job \<noteq> [] \<and> lease_epoch job \<noteq> 0)
       (ValueError ''job execution context requires a lease'')) (\<lambda>_.
     Inr \<lparr>cx_job = job, cx_owner = lease_owner job, cx_epoch = lease_epoch job,
          cx_ttl = max 2 ttl, cx_local = False\<rparr>)"

definition context_refresh :: "job_context \<Rightarrow> work_db \<Rightarrow> (job_row \<times> job_context) res" where
  "context_refresh cx db =
     ebind (require_job (job_id (cx_job cx)) db) (\<lambda>j. Inr (j, cx\<lparr>cx_job := j\<rparr>))"

definition context_heartbeat ::
  "host \<Rightarrow> job_context \<Rightarrow> jobject option \<Rightarrow> work_db \<Rightarrow> job_context res \<times> work_db" where
  "context_heartbeat h cx p db =
     obind (heartbeat_job h (job_id (cx_job cx)) (cx_owner cx) (cx_epoch cx) (cx_ttl cx) p None db)
       (\<lambda>j db'. (Inr (cx\<lparr>cx_job := j\<rparr>), db'))"

definition context_progress ::
  "host \<Rightarrow> job_context \<Rightarrow> jobject \<Rightarrow> bool \<Rightarrow> work_db \<Rightarrow> job_context res \<times> work_db" where
  "context_progress h cx v merge db =
     obind (update_job_progress h (job_id (cx_job cx)) v (cx_owner cx) (cx_epoch cx) None merge
         (Some (worker_actor (cx_owner cx))) None db)
       (\<lambda>j db'. (Inr (cx\<lparr>cx_job := j\<rparr>), db'))"

definition context_mark_waiting ::
  "host \<Rightarrow> job_context \<Rightarrow> jobject option \<Rightarrow> work_db \<Rightarrow> job_context res \<times> work_db" where
  "context_mark_waiting h cx p db =
     obind (mark_job_waiting h (job_id (cx_job cx)) (cx_owner cx) (cx_epoch cx) p None db)
       (\<lambda>j db'. (Inr (cx\<lparr>cx_job := j\<rparr>), db'))"

definition cancellation_requested :: "host \<Rightarrow> job_context \<Rightarrow> work_db \<Rightarrow> (bool \<times> job_context) res" where
  "cancellation_requested h cx db =
     (if cx_local cx then Inr (True, cx)
      else ebind (context_refresh cx db) (\<lambda>(current, cx1).
        let expires = (case lease_expires_at current of None \<Rightarrow> 0 | Some t \<Rightarrow> t);
            valid = (lease_owner current = cx_owner cx \<and> lease_epoch current = cx_epoch cx \<and>
                     status current \<in> {Leased, Running} \<and> clock h < expires) in
        Inr (\<not> valid \<or> cancel_requested current, if valid then cx1 else cx1\<lparr>cx_local := True\<rparr>)))"

text \<open>
  \<^verbatim>\<open>commit_result\<close>: the guards, the caller's writes and the settlement in one transaction.
  \<open>during\<close> says whether the local cancellation was set while \<^verbatim>\<open>publish\<close> ran.
\<close>

definition commit_result_tx ::
  "host \<Rightarrow> job_context \<Rightarrow> (work_db, job_result) body \<Rightarrow> bool \<Rightarrow> (work_db, job_result \<times> job_row) body" where
  "commit_result_tx h cx publish during db =
     ebind (job_row_tx (job_id (cx_job cx)) db) (\<lambda>row.
     ebind (expect_lease row (cx_owner cx) (cx_epoch cx) (clock h) job_leased_states) (\<lambda>_.
     ebind (require (\<not> (cx_local cx \<or> cancel_requested row))
       (CancelledError ''job cancelled before publication commit'')) (\<lambda>_.
     ebind (publish db) (\<lambda>(result, db1).
     ebind (require (\<not> (cx_local cx \<or> during))
       (CancelledError ''job cancelled during publication commit'')) (\<lambda>_.
     ebind (finish_job_tx h (job_id (cx_job cx)) \<lparr>fr_status = ''succeeded'',
         fr_lease_owner = cx_owner cx, fr_lease_epoch = cx_epoch cx,
         fr_result_ref = result_text result, fr_diagnostics_ref = diagnostics_text result,
         fr_progress = Some (result_progress result), fr_error = [], fr_now = None\<rparr> db1)
       (\<lambda>(job, db2). Inr ((result, job), db2)))))))"

definition commit_result ::
  "host \<Rightarrow> job_context \<Rightarrow> (work_db, job_result) body \<Rightarrow> bool \<Rightarrow> work_db \<Rightarrow>
   (job_result \<times> job_row) res \<times> work_db" where
  "commit_result h cx publish during db = db_write h (commit_result_tx h cx publish during) db"

section \<open>Recovery\<close>

record recovery_report =
  recovered_jobs :: nat
  unknown_effect_jobs :: nat
  recovered_outbox_items :: nat
  recovered_operations :: nat
  ran_at :: rat

definition recovery_run_once ::
  "host \<Rightarrow> rat \<Rightarrow> rat option \<Rightarrow> work_db \<Rightarrow> recovery_report res \<times> work_db" where
  "recovery_run_once h stale_after now db =
     (let tm = or_now h now in
      obind (recover_expired_job_leases h (Some tm) db) (\<lambda>js db1.
      obind (recover_expired_outbox h (Some tm) db1) (\<lambda>n db2.
      obind (recover_stale_operations h (tm - max 60 stale_after) db2) (\<lambda>ops db3.
      (Inr \<lparr>recovered_jobs = length js,
            unknown_effect_jobs = length (filter (\<lambda>j. status j = UnknownEffect) js),
            recovered_outbox_items = n, recovered_operations = length ops, ran_at = tm\<rparr>, db3)))))"

section \<open>The outbox pump\<close>

text \<open>
  What the subscribed handlers did with one event, all of them in turn: returned, one of them
  raised (with the text of its exception), or the pump was cancelled.
\<close>

datatype delivery = Handled | HandlerRaised string | PumpCancelled

definition delivery_delay :: "int \<Rightarrow> rat" where
  "delivery_delay attempts = min 60 ((1/2) * 2 ^ nat (min attempts 7))"

fun dispatch_items ::
  "host \<Rightarrow> string \<Rightarrow> (work_event \<Rightarrow> delivery) \<Rightarrow> outbox_item list \<Rightarrow> nat \<Rightarrow> work_db \<Rightarrow> nat res \<times> work_db" where
  "dispatch_items h consumer deliver [] n db = (Inr n, db)"
| "dispatch_items h consumer deliver ((r, e) # items) n db =
     (case deliver e of
        PumpCancelled \<Rightarrow> (Inl (CancelledError []), db)
      | HandlerRaised msg \<Rightarrow>
          obind (reject_outbox h (outbox_id r) consumer (outbox_lease_epoch r) msg
            (delivery_delay (outbox_attempts r)) 20 None db) (\<lambda>_ db'. (Inr n, db'))
      | Handled \<Rightarrow>
          obind (acknowledge_outbox h (outbox_id r) consumer (outbox_lease_epoch r) None db)
            (\<lambda>_ db'. dispatch_items h consumer deliver items (Suc n) db'))"

definition dispatch_once ::
  "host \<Rightarrow> string \<Rightarrow> rat \<Rightarrow> bool \<Rightarrow> (work_event \<Rightarrow> delivery) \<Rightarrow> int \<Rightarrow> work_db \<Rightarrow> nat res \<times> work_db" where
  "dispatch_once h consumer ttl has_handlers deliver limit db =
     (if \<not> has_handlers then (Inr 0, db)
      else obind (claim_outbox h consumer limit (max 2 ttl) None db)
        (\<lambda>items db'. dispatch_items h consumer deliver items 0 db'))"

text \<open>\<^verbatim>\<open>WorkEventService.publish\<close>.\<close>

definition publish_event ::
  "host \<Rightarrow> work_scope \<Rightarrow> event_request \<Rightarrow> work_db \<Rightarrow> work_event res \<times> work_db" where
  "publish_event h ambient q db =
     (case (if req_scope q = NoScope then Inr ambient else coerce_work_scope h (req_scope q)) of
        Inl e \<Rightarrow> (Inl e, db)
      | Inr s \<Rightarrow> append_event h (q\<lparr>req_scope := AScope s\<rparr>) db)"

section \<open>Cancellation and chat deletion\<close>

text \<open>The updated job, and whether the local handler is told.\<close>

definition cancel_job ::
  "host \<Rightarrow> string \<Rightarrow> string \<Rightarrow> int option \<Rightarrow> work_actor option \<Rightarrow> work_db \<Rightarrow> (job_row \<times> bool) res \<times> work_db" where
  "cancel_job h jid reason expected actor db =
     obind (request_job_cancel h jid reason expected actor db)
       (\<lambda>j db'. (Inr (j, cancel_requested j \<and> \<not> job_terminal j), db'))"

definition chat_filter :: "string \<Rightarrow> job_filter" where
  "chat_filter chat = \<lparr>jf_statuses = [''queued'', ''leased'', ''running'', ''waiting'', ''paused''],
     jf_cancel_requested = Some False, jf_kind = [], jf_owner_kind = [], jf_owner_id = [],
     jf_chat_id = chat, jf_workspace_id = [], jf_goal_id = [], jf_scope = NoScope, jf_limit = 1000\<rparr>"

fun cancel_jobs :: "host \<Rightarrow> job_row list \<Rightarrow> nat \<Rightarrow> work_db \<Rightarrow> nat res \<times> work_db" where
  "cancel_jobs h [] n db = (Inr n, db)"
| "cancel_jobs h (j # js) n db =
     obind (cancel_job h (job_id j) ''chat_deleted'' None None db) (\<lambda>_ db'. cancel_jobs h js (Suc n) db')"

partial_function (option) delete_chat_loop ::
  "host \<Rightarrow> string \<Rightarrow> nat \<Rightarrow> work_db \<Rightarrow> (nat res \<times> work_db) option" where
  "delete_chat_loop h chat n db =
     (case list_jobs h (chat_filter chat) db of
        Inl e \<Rightarrow> Some (Inl e, db)
      | Inr js \<Rightarrow>
          if js = [] then Some (Inr n, db)
          else (case cancel_jobs h js n db of
             (Inl e, db') \<Rightarrow> Some (Inl e, db')
           | (Inr m, db') \<Rightarrow> delete_chat_loop h chat m db'))"

definition delete_chat :: "host \<Rightarrow> string \<Rightarrow> work_db \<Rightarrow> (nat res \<times> work_db) option" where
  "delete_chat h chat db =
     (if py_strip chat = [] then Some (Inr 0, db) else delete_chat_loop h (py_strip chat) 0 db)"

section \<open>Capability receipts\<close>

text \<open>\<^verbatim>\<open>dict(value or {})\<close>, and \<^verbatim>\<open>dict(value) if isinstance(value, Mapping) else {}\<close>.\<close>

fun dict_pairs :: "json list \<Rightarrow> jobject \<Rightarrow> jobject res" where
  "dict_pairs [] o' = Inr o'"
| "dict_pairs (JArr [JStr k, v] # xs) o' = dict_pairs xs (jset o' k v)"
| "dict_pairs (JStr [a, b] # xs) o' = dict_pairs xs (jset o' [a] (JStr [b]))"
| "dict_pairs (x # xs) o' = Inl (TypeErr ''cannot convert dictionary update sequence element'')"

definition dict_of :: "json option \<Rightarrow> jobject res" where
  "dict_of v = (case v of None \<Rightarrow> Inr []
     | Some w \<Rightarrow> if \<not> truthy w then Inr [] else
        (case w of JObj o' \<Rightarrow> Inr o' | JArr xs \<Rightarrow> dict_pairs xs []
         | _ \<Rightarrow> Inl (TypeErr ''object is not iterable'')))"

definition mapping_or_empty :: "json option \<Rightarrow> jobject" where
  "mapping_or_empty v = (case v of Some (JObj o') \<Rightarrow> o' | _ \<Rightarrow> [])"

text \<open>\<^verbatim>\<open>str(a or b or default)\<close>: the first truthy of the values, else the default.\<close>

fun first_truthy :: "json option list \<Rightarrow> json option" where
  "first_truthy [] = None"
| "first_truthy (Some v # vs) = (if truthy v then Some v else first_truthy vs)"
| "first_truthy (None # vs) = first_truthy vs"

definition text_or :: "host \<Rightarrow> json option list \<Rightarrow> string \<Rightarrow> string" where
  "text_or h vs dflt = (case first_truthy vs of None \<Rightarrow> dflt | Some v \<Rightarrow> py_str h v)"

definition receipt_operation_status :: "string \<Rightarrow> bool \<Rightarrow> string" where
  "receipt_operation_status st may_have_applied =
     (if st = ''ok'' then ''succeeded''
      else if st \<in> {''cancelled'', ''cancelled_before_start''} then ''cancelled''
      else if st = ''needs_reconciliation'' \<or> may_have_applied then ''unknown_effect''
      else ''failed'')"

definition receipt_request_of :: "host \<Rightarrow> jobject \<Rightarrow> receipt_request res" where
  "receipt_request_of h raw =
     (let receipt_id = py_strip (text_or h [jget raw ''receipt_id''] []) in
      ebind (require (receipt_id \<noteq> []) (ValueError ''capability receipt has no receipt_id'')) (\<lambda>_.
      ebind (dict_of (jget raw ''capability'')) (\<lambda>capability.
      ebind (dict_of (jget raw ''attribution'')) (\<lambda>attr.
      let error = mapping_or_empty (jget raw ''error'');
          effect = mapping_or_empty (jget raw ''effect'') in
      ebind (dict_of (jget raw ''result_metadata'')) (\<lambda>meta.
      let nested = (case first_truthy [jget raw ''work_scope'', jget attr ''work_scope''] of
            Some v \<Rightarrow> Some v | None \<Rightarrow> jget meta ''work_scope'') in
      ebind (from_mapping h (Some (case nested of Some (JObj o') \<Rightarrow> o' | _ \<Rightarrow> attr))) (\<lambda>scope.
      Inr \<lparr>rr_operation_id = receipt_id,
           rr_kind = text_or h [jget capability ''capability_id'', jget capability ''ref_id''] ''capability'',
           rr_status = receipt_operation_status (text_or h [jget raw ''status''] ''error'')
             (case jget error ''may_have_applied'' of None \<Rightarrow> False | Some v \<Rightarrow> truthy v),
           rr_scope = AScope scope,
           rr_request = [(''capability'', JObj capability),
             (''arguments_sha256'', JStr (text_or h [jget raw ''arguments_sha256''] [])),
             (''attribution'', JObj attr)],
           rr_response = raw,
           rr_effect_ref = text_or h [jget meta ''effect_ref'', jget meta ''operation_ref''] [],
           rr_error = text_or h [jget error ''message''] [],
           rr_idempotency_key = text_or h [jget effect ''idempotency_key''] receipt_id,
           rr_actor = Some \<lparr>actor_kind = ''agent'',
             actor_id = text_or h [jget attr ''principal_actor_id''] ''model''\<rparr>,
           rr_correlation_id = text_or h [jget attr ''nested_call_id'', jget attr ''outer_tool_call_id''] []\<rparr>))))))"

text \<open>The receipt as handed over: a mapping, an object (what its \<^verbatim>\<open>to_dict\<close> gave), or neither.\<close>

definition ingest_capability_receipt ::
  "host \<Rightarrow> scope_arg \<Rightarrow> work_db \<Rightarrow> operation_row res \<times> work_db" where
  "ingest_capability_receipt h receipt db =
     (case (case receipt of AMapping m \<Rightarrow> Inr m | AnObject (Some m) \<Rightarrow> Inr m
            | AScope s \<Rightarrow> Inr (to_dict s)
            | AnObject None \<Rightarrow> Inl (TypeErr ''capability receipt to_dict() must return a mapping'')
            | _ \<Rightarrow> Inl (TypeErr ''capability receipt must be a mapping or expose to_dict()'')) of
        Inl e \<Rightarrow> (Inl e, db)
      | Inr raw \<Rightarrow>
          (case receipt_request_of h raw of
             Inl e \<Rightarrow> (Inl e, db)
           | Inr q \<Rightarrow> record_operation_receipt h q db))"

end
