(* ===== verification/Work_Service_Facts.thy ===== *)
theory Work_Service_Facts
  imports Work_Service
begin

text \<open>
  What the services guarantee: recovery leaves no expired lease, the pump acknowledges only what
  its handlers handled, a commit is all or nothing, and deleting a chat ends with no job of it
  pending.
\<close>

section \<open>Recovery\<close>

lemma recovered_jobs_not_expired:
  assumes "store_wf db" and "recover_expired_job_leases h now db = (Inr js, db')"
  shows "filter (job_lease_expired (or_now h now)) (jobs db') = []"
    and "map job_id js = map job_id (expired_jobs (or_now h now) db)"
    and "row \<in> set (jobs db) \<Longrightarrow> job_lease_expired (or_now h now) row \<Longrightarrow>
      \<exists>job. get_job (job_id row) db' = Some job \<and> status job = recovery_target h row \<and>
        lease_owner job = [] \<and> lease_epoch job = lease_epoch row"
    and "row \<in> set (jobs db) \<Longrightarrow> \<not> job_lease_expired (or_now h now) row \<Longrightarrow> get_job (job_id row) db' = Some row"
proof -
  let ?t = "or_now h now"
  let ?X = "expired_jobs ?t db"
  have jw: "jobs_wf db" using assms(1) by simp
  have dist: "distinct (map job_id (jobs db))" using jw by (simp add: jobs_wf_def)
  note sel = expired_jobs_selected[OF jw]
  have run: "recover_jobs h ?t ?X db = Inr (js, db')"
    using assms(2) by (simp add: recover_expired_job_leases_expired db_write_Inr)
  note R = recover_jobs_Inr[OF run assms(1) sel(1) sel(2)[of _ ?t], simplified]
  show "map job_id js = map job_id ?X" using R by simp
  show rec: "\<exists>job. get_job (job_id row) db' = Some job \<and> status job = recovery_target h row \<and>
        lease_owner job = [] \<and> lease_epoch job = lease_epoch row"
    if "row \<in> set (jobs db)" "job_lease_expired ?t row"
  proof -
    have "row \<in> set ?X" using sel(3) that by simp
    with R show ?thesis unfolding get_job_def by blast
  qed
  have other: "find (\<lambda>r. job_id r = a) (jobs db') = find (\<lambda>r. job_id r = a) (jobs db)" if "a \<notin> job_id ` set ?X" for a
    using R that by blast
  show keep: "get_job (job_id row) db' = Some row" if "row \<in> set (jobs db)" "\<not> job_lease_expired ?t row" for row
  proof -
    have "job_id row \<notin> job_id ` set ?X"
    proof
      assume "job_id row \<in> job_id ` set ?X"
      then obtain x where x: "x \<in> set ?X" "job_id x = job_id row" by auto
      then have "x = row" using sel(2)[OF x(1)] find_distinct_key[OF dist that(1)] by (metis option.inject)
      with x(1) sel(3) that(2) show False by blast
    qed
    from other[OF this] show ?thesis using find_distinct_key[OF dist that(1)] by (simp add: get_job_def)
  qed
  have ids: "map job_id (jobs db') = map job_id (jobs db)" using R by simp
  have dist': "distinct (map job_id (jobs db'))" using dist ids by simp
  show "filter (job_lease_expired ?t) (jobs db') = []"
    unfolding filter_empty_conv
  proof (intro ballI notI)
    fix x assume x: "x \<in> set (jobs db')" and ex: "job_lease_expired ?t x"
    have fx: "find (\<lambda>r. job_id r = job_id x) (jobs db') = Some x" by (rule find_distinct_key[OF dist' x])
    have "job_id x \<in> job_id ` set (jobs db)" using x ids by (metis image_eqI list.set_map)
    then obtain row where row: "row \<in> set (jobs db)" "job_id row = job_id x" by auto
    show False
    proof (cases "job_lease_expired ?t row")
      case True
      then have "row \<in> set ?X" using sel(3)[of ?t] row(1) by blast
      from R this obtain job where j: "find (\<lambda>r. job_id r = job_id row) (jobs db') = Some job"
        and n: "lease_expires_at job = None" by blast
      have "job = x" using j fx row(2) by simp
      with n ex show False by (simp add: job_lease_expired_def)
    next
      case False
      have "row = x" using keep[OF row(1) False] fx row(2) unfolding get_job_def by (metis option.inject)
      with False ex show False by blast
    qed
  qed
qed

lemma recover_outbox_Inr:
  assumes "recover_expired_outbox h now db = (Inr n, db')"
  shows "jobs db' = jobs db" and "operations db' = operations db"
    and "filter (outbox_expired (or_now h now)) (outbox db') = []"
proof -
  let ?f = "\<lambda>r. (outbox_release (or_now h now) r)\<lparr>last_error :=
            (if last_error r = [] then ''delivery lease expired'' else last_error r)\<rparr>"
  have db': "db' = db\<lparr>outbox := map (\<lambda>r. if outbox_expired (or_now h now) r then ?f r else r) (outbox db)\<rparr>"
    using assms by (simp add: recover_expired_outbox_def db_write_Inr sql_update_def)
  show "jobs db' = jobs db" and "operations db' = operations db" by (simp_all add: db')
  have "\<not> outbox_expired (or_now h now) (?f r)" for r
    by (simp add: outbox_expired_def outbox_release_def)
  then show "filter (outbox_expired (or_now h now)) (outbox db') = []"
    by (auto simp: db' filter_empty_conv)
qed

lemma recovery_complete_lemma:
  assumes wf: "repo_wf db" and run: "recovery_run_once h stale now db = (Inr rep, db')"
  shows "repo_wf db'" and "filter (job_lease_expired (or_now h now)) (jobs db') = []"
    and "filter (outbox_expired (or_now h now)) (outbox db') = []"
    and "recovered_operations rep = 0"
    and "recovered_jobs rep = length (filter (job_lease_expired (or_now h now)) (jobs db))"
proof -
  let ?t = "or_now h now"
  have t: "or_now h (Some ?t) = ?t" by (simp add: or_now_def)
  from run obtain js db1 n db2 ops where j: "recover_expired_job_leases h (Some ?t) db = (Inr js, db1)"
    and ob: "recover_expired_outbox h (Some ?t) db1 = (Inr n, db2)"
    and op: "recover_stale_operations h (?t - max 60 stale) db2 = (Inr ops, db')"
    and rep: "recovered_operations rep = length ops" "recovered_jobs rep = length js"
    by (auto simp: recovery_run_once_def obind_Inr Let_def)
  have s1: "good_step db db1" using repo_step_good[OF step_recover_jobs wf] j by (metis snd_conv)
  then have w1: "repo_wf db1" by (simp add: good_step_def)
  then have w2: "repo_wf db2" using repo_step_good[OF step_recover_outbox w1] ob
    by (metis good_step_def snd_conv)
  have ow: "operations_wf db2" using w2 by (simp add: repo_wf_def)
  have db': "db' = db2" using recover_stale_none(1)[OF ow] op by (metis snd_conv)
  have none: "ops = []" by (rule recover_stale_none(2)[OF ow op])
  show "repo_wf db'" using w2 db' by simp
  have sw: "store_wf db" using wf by (simp add: repo_wf_def)
  show "filter (job_lease_expired ?t) (jobs db') = []"
    using recovered_jobs_not_expired(1)[OF sw j] recover_outbox_Inr(1)[OF ob] db' t by simp
  show "filter (outbox_expired ?t) (outbox db') = []"
    using recover_outbox_Inr(3)[OF ob] db' t by simp
  show "recovered_operations rep = 0" using rep none by simp
  have "length js = length (expired_jobs ?t db)"
    using recovered_jobs_not_expired(2)[OF sw j] t by (metis length_map)
  then show "recovered_jobs rep = length (filter (job_lease_expired ?t) (jobs db))"
    using rep by (simp add: expired_jobs_def)
qed

section \<open>The pump\<close>

text \<open>Every delivered row was delivered before, or its event was handled.\<close>

definition delivered_ok :: "(work_event \<Rightarrow> delivery) \<Rightarrow> work_db \<Rightarrow> outbox_row list \<Rightarrow> bool" where
  "delivered_ok deliver db0 t \<longleftrightarrow> (\<forall>r\<in>set t. outbox_status r = OutDelivered \<longrightarrow>
     r \<in> set (outbox db0) \<or>
     (\<exists>e\<in>set (events db0). event_id e = outbox_event_id r \<and> deliver e = Handled))"

lemma delivered_ok_update:
  assumes "delivered_ok deliver db0 t"
    and "\<And>r. r \<in> set t \<Longrightarrow> P r \<Longrightarrow> outbox_status (f r) = OutDelivered \<Longrightarrow>
      \<exists>e\<in>set (events db0). event_id e = outbox_event_id (f r) \<and> deliver e = Handled"
  shows "delivered_ok deliver db0 (snd (sql_update P f t))"
  using assms by (auto simp: delivered_ok_def sql_update_def)

lemma claim_delivered_ok:
  assumes "claim_outbox h consumer limit ttl now db = (Inr items, db')"
  shows "delivered_ok deliver db (outbox db')" and "events db' = events db"
    and "(r, e) \<in> set items \<Longrightarrow> r \<in> set (outbox db') \<and> e \<in> set (events db) \<and> event_id e = outbox_event_id r"
proof -
  from assms obtain w where tx: "claim_outbox_tx w (or_now h now) (or_now h now + max 1 ttl)
      (nat (min 1000 (max 1 limit))) db = Inr (items, db')"
    by (auto simp: claim_outbox_def Let_def db_write_Inr split: sum.splits)
  let ?t0 = "snd (sql_update (outbox_expired (or_now h now)) (outbox_release (or_now h now)) (outbox db))"
  from tx obtain t1 ids where c: "efold (claim_one w (or_now h now + max 1 ttl)) ids ?t0 = Inr t1"
    and db': "db' = db\<lparr>outbox := t1\<rparr>" and items: "items = [] \<or> items = outbox_select (\<lambda>r. outbox_id r \<in> set ids) db'"
    by (auto simp: claim_outbox_tx_def Let_def split: if_splits)
  have t0: "delivered_ok deliver db ?t0"
    by (rule delivered_ok_update) (simp_all add: delivered_ok_def outbox_release_def)
  have "delivered_ok deliver db t1"
  proof (rule efold_invariant[where I = "delivered_ok deliver db", OF c t0])
    fix x s s'
    assume IH: "delivered_ok deliver db s" and cl: "claim_one w (or_now h now + max 1 ttl) x s = Inr s'"
    have "s' = snd (sql_update (\<lambda>r. outbox_id r = x \<and> outbox_status r = OutPending)
        (outbox_lease w (or_now h now + max 1 ttl)) s)"
      using cl by (auto simp: claim_one_def split: prod.splits)
    then show "delivered_ok deliver db s'"
      using delivered_ok_update[OF IH, of "\<lambda>r. outbox_id r = x \<and> outbox_status r = OutPending"
          "outbox_lease w (or_now h now + max 1 ttl)"]
      by (simp add: outbox_lease_def)
  qed
  then show "delivered_ok deliver db (outbox db')" by (simp add: db')
  show "events db' = events db" by (simp add: db')
  show "(r, e) \<in> set items \<Longrightarrow> r \<in> set (outbox db') \<and> e \<in> set (events db) \<and> event_id e = outbox_event_id r"
    using items find_Some_key[of event_id "outbox_event_id r" "events db" e]
    by (auto simp: outbox_select_def find_event_def db' split: option.splits)
qed

lemma dispatch_items_delivered:
  assumes "dispatch_items h consumer deliver items n db = (x, db')"
    and "delivered_ok deliver db0 (outbox db)" and "distinct (map outbox_id (outbox db))"
    and "\<And>r e. (r, e) \<in> set items \<Longrightarrow> e \<in> set (events db0) \<and>
      (\<forall>o'\<in>set (outbox db). outbox_id o' = outbox_id r \<longrightarrow> outbox_event_id o' = event_id e)"
  shows "delivered_ok deliver db0 (outbox db')"
  using assms
proof (induction items arbitrary: n db)
  case (Cons it items)
  obtain r e where it: "it = (r, e)" by (cases it)
  show ?case
  proof (cases "deliver e")
    case PumpCancelled
    with Cons.prems(1,2) it show ?thesis by simp
  next
    case (HandlerRaised msg)
    let ?op = "reject_outbox h (outbox_id r) consumer (outbox_lease_epoch r) msg
            (delivery_delay (outbox_attempts r)) 20 None db"
    have "delivered_ok deliver db0 (outbox (snd ?op))"
      unfolding reject_outbox_def
    proof (rule db_write_invariant[where I = "\<lambda>s. delivered_ok deliver db0 (outbox s)", OF Cons.prems(2)])
      fix y s'
      assume "(case find (\<lambda>ra. outbox_id ra = outbox_id r) (outbox db) of
         None \<Rightarrow> Inl (WorkNotFound (''unknown outbox item: '' @ outbox_id r))
       | Some row \<Rightarrow>
           ebind (require (outbox_held consumer (outbox_lease_epoch r) row) (LeaseLost (''outbox lease lost for '' @ outbox_id r))) (\<lambda>_.
           let tm = or_now h None;
               dead = (max 1 20 \<le> outbox_attempts row);
               st = (if dead then OutDead else OutPending) in
           ebind (text_arg msg ''outbox error'' False 4000) (\<lambda>er.
           Inr (st, db\<lparr>outbox := snd (sql_update (\<lambda>ra. outbox_id ra = outbox_id r)
             (\<lambda>ra. ra\<lparr>outbox_status := st,
                   outbox_available_at := (if dead then tm else tm + max 0 (delivery_delay (outbox_attempts r))),
                   outbox_lease_owner := [], outbox_lease_expires_at := None, last_error := er\<rparr>)
             (outbox db))\<rparr>)))) = Inr (y, s')"
      then show "delivered_ok deliver db0 (outbox s')"
        using Cons.prems(2)
        by (auto simp: Let_def intro!: delivered_ok_update split: option.splits if_splits)
    qed
    moreover have "db' = snd ?op"
      using Cons.prems(1) it HandlerRaised by (cases ?op; cases "fst ?op") (auto simp: obind_def split: sum.splits prod.splits)
    ultimately show ?thesis by simp
  next
    case Handled
    let ?P = "\<lambda>o'. outbox_id o' = outbox_id r \<and> outbox_held consumer (outbox_lease_epoch r) o'"
    let ?f = "\<lambda>o'. o'\<lparr>outbox_status := OutDelivered, delivered_at := Some (or_now h None),
               outbox_lease_owner := [], outbox_lease_expires_at := None, last_error := []\<rparr>"
    have e: "e \<in> set (events db0)" "\<forall>o'\<in>set (outbox db). outbox_id o' = outbox_id r \<longrightarrow> outbox_event_id o' = event_id e"
      using Cons.prems(4)[of r e] it by auto
    show ?thesis
    proof (cases "acknowledge_outbox h (outbox_id r) consumer (outbox_lease_epoch r) None db")
      case (Pair z s)
      show ?thesis
      proof (cases z)
        case (Inl er)
        have "s = db" using Pair[unfolded Inl] unfolding acknowledge_outbox_def by (rule db_write_Inl)
        with Cons.prems(1,2) it Handled Pair Inl show ?thesis by simp
      next
        case (Inr u)
        have s: "s = db\<lparr>outbox := snd (sql_update ?P ?f (outbox db))\<rparr>"
          using Pair Inr by (auto simp: acknowledge_outbox_def db_write_Inr split: prod.splits)
        have ok: "delivered_ok deliver db0 (outbox s)"
          unfolding s using e Handled by (auto intro!: delivered_ok_update[OF Cons.prems(2)])
        have ids: "map outbox_id (outbox s) = map outbox_id (outbox db)"
          unfolding s by (simp add: sql_update_def)
        have rest: "dispatch_items h consumer deliver items (Suc n) s = (x, db')"
          using Cons.prems(1) it Handled Pair Inr by simp
        show ?thesis
        proof (rule Cons.IH[OF rest ok])
          show "distinct (map outbox_id (outbox s))" using ids Cons.prems(3) by simp
          show "e' \<in> set (events db0) \<and> (\<forall>o'\<in>set (outbox s). outbox_id o' = outbox_id r' \<longrightarrow> outbox_event_id o' = event_id e')"
            if "(r', e') \<in> set items" for r' e'
            using that Cons.prems(4)[of r' e'] unfolding s by (auto simp: sql_update_def)
        qed
      qed
    qed
  qed
qed simp

lemma dispatch_once_delivered:
  assumes wf: "log_wf db" and run: "dispatch_once h consumer ttl has_handlers deliver limit db = (x, db')"
  shows "delivered_ok deliver db (outbox db')"
proof (cases has_handlers)
  case False
  with run show ?thesis by (auto simp: dispatch_once_def delivered_ok_def)
next
  case True
  show ?thesis
  proof (cases "claim_outbox h consumer limit (max 2 ttl) None db")
    case (Pair z s)
    show ?thesis
    proof (cases z)
      case (Inl er)
      have "s = db"
        using Pair[unfolded Inl] by (auto simp: claim_outbox_def Let_def split: sum.splits dest: db_write_Inl)
      with run True Pair Inl show ?thesis by (auto simp: dispatch_once_def delivered_ok_def)
    next
      case (Inr items)
      note C = claim_delivered_ok[OF Pair[unfolded Inr]]
      have "log_wf s" using claim_outbox_wf[OF wf, of h consumer limit "max 2 ttl" None] Pair by simp
      then have dist: "distinct (map outbox_id (outbox s))" by (simp add: log_wf_def)
      have d: "dispatch_items h consumer deliver items 0 s = (x, db')"
        using run True Pair Inr by (simp add: dispatch_once_def)
      show ?thesis
      proof (rule dispatch_items_delivered[OF d C(1) dist])
        fix r e assume re: "(r, e) \<in> set items"
        note ce = C(3)[OF re]
        have "o' = r" if "o' \<in> set (outbox s)" "outbox_id o' = outbox_id r" for o'
          using find_distinct_key[OF dist that(1)] find_distinct_key[OF dist, of r] ce that(2)
          by (metis option.inject)
        with ce show "e \<in> set (events db) \<and> (\<forall>o'\<in>set (outbox s). outbox_id o' = outbox_id r \<longrightarrow> outbox_event_id o' = event_id e)"
          by metis
      qed
    qed
  qed
qed

section \<open>Commits\<close>

lemma commit_result_Inl: "commit_result h cx publish during db = (Inl e, db') \<Longrightarrow> db' = db"
  unfolding commit_result_def by (rule db_write_Inl)

lemma commit_result_Inr:
  assumes "commit_result h cx publish during db = (Inr (res, job), db')"
    and keep: "\<And>x s. publish db = Inr (x, s) \<Longrightarrow> store_wf s"
  obtains row db1 where "job_row_tx (job_id (cx_job cx)) db = Inr row"
    "expect_lease row (cx_owner cx) (cx_epoch cx) (clock h) job_leased_states = Inr ()"
    "\<not> cancel_requested row" "\<not> cx_local cx" "\<not> during" "publish db = Inr (res, db1)"
    "status job = Succeeded" "job_step db1 db'"
proof -
  from assms(1) obtain row db1 and u :: unit where g: "job_row_tx (job_id (cx_job cx)) db = Inr row"
      "expect_lease row (cx_owner cx) (cx_epoch cx) (clock h) job_leased_states = Inr u"
      "\<not> (cx_local cx \<or> cancel_requested row)" "publish db = Inr (res, db1)" "\<not> (cx_local cx \<or> during)"
    and fin: "finish_job_tx h (job_id (cx_job cx)) \<lparr>fr_status = ''succeeded'',
         fr_lease_owner = cx_owner cx, fr_lease_epoch = cx_epoch cx,
         fr_result_ref = result_text res, fr_diagnostics_ref = diagnostics_text res,
         fr_progress = Some (result_progress res), fr_error = [], fr_now = None\<rparr> db1 = Inr (job, db')"
    by (auto simp: commit_result_def db_write_Inr commit_result_tx_def split: prod.splits)
  have w: "store_wf db1" by (rule keep[OF g(4)])
  have "status job = Succeeded"
    using store_wf_jobs[OF w] fin
  proof (rule finish_job_tx_Inr)
    fix r target pj
    assume t: "job_row_tx (job_id (cx_job cx)) db1 = Inr r"
      and "job_status_of (fr_status \<lparr>fr_status = ''succeeded'',
         fr_lease_owner = cx_owner cx, fr_lease_epoch = cx_epoch cx,
         fr_result_ref = result_text res, fr_diagnostics_ref = diagnostics_text res,
         fr_progress = Some (result_progress res), fr_error = [], fr_now = None\<rparr>) = Some target"
      and m: "job_mutation db1 (job_id (cx_job cx)) (finish_row target (py_strip (fr_result_ref \<lparr>fr_status = ''succeeded'',
         fr_lease_owner = cx_owner cx, fr_lease_epoch = cx_epoch cx,
         fr_result_ref = result_text res, fr_diagnostics_ref = diagnostics_text res,
         fr_progress = Some (result_progress res), fr_error = [], fr_now = None\<rparr>)) (py_strip (fr_diagnostics_ref \<lparr>fr_status = ''succeeded'',
         fr_lease_owner = cx_owner cx, fr_lease_epoch = cx_epoch cx,
         fr_result_ref = result_text res, fr_diagnostics_ref = diagnostics_text res,
         fr_progress = Some (result_progress res), fr_error = [], fr_now = None\<rparr>))
       pj (py_strip (fr_error \<lparr>fr_status = ''succeeded'',
         fr_lease_owner = cx_owner cx, fr_lease_epoch = cx_epoch cx,
         fr_result_ref = result_text res, fr_diagnostics_ref = diagnostics_text res,
         fr_progress = Some (result_progress res), fr_error = [], fr_now = None\<rparr>)) (or_now h (fr_now \<lparr>fr_status = ''succeeded'',
         fr_lease_owner = cx_owner cx, fr_lease_epoch = cx_epoch cx,
         fr_result_ref = result_text res, fr_diagnostics_ref = diagnostics_text res,
         fr_progress = Some (result_progress res), fr_error = [], fr_now = None\<rparr>))) (''job.'' @ fr_status \<lparr>fr_status = ''succeeded'',
         fr_lease_owner = cx_owner cx, fr_lease_epoch = cx_epoch cx,
         fr_result_ref = result_text res, fr_diagnostics_ref = diagnostics_text res,
         fr_progress = Some (result_progress res), fr_error = [], fr_now = None\<rparr>) job db'"
    then have "target = Succeeded" by (simp add: job_status_of_def job_states_def)
    with m t show ?thesis by (auto simp: finish_row_def elim!: job_mutation_row)
  qed
  with that[OF g(1) _ _ _ _ g(4) this finish_job_tx_step[OF w fin]] g(2,3,5) show thesis by simp
qed

section \<open>Deleting a chat\<close>

definition pending_in :: "string \<Rightarrow> job_row \<Rightarrow> bool" where
  "pending_in chat r \<longleftrightarrow> status r \<notin> job_terminal_states \<and> \<not> cancel_requested r \<and> chat_id (job_scope r) = chat"

definition pending_jobs :: "string \<Rightarrow> work_db \<Rightarrow> job_row list" where
  "pending_jobs chat db = filter (pending_in chat) (jobs db)"

lemma nonterminal_texts:
  "status_text s \<in> set [''queued'', ''leased'', ''running'', ''waiting'', ''paused''] \<longleftrightarrow> s \<notin> job_terminal_states"
  by (cases s) (simp_all add: job_terminal_states_def)

lemma list_chat_jobs:
  assumes "chat \<noteq> []"
  shows "\<exists>js. list_jobs h (chat_filter chat) db = Inr js \<and> set js \<subseteq> set (pending_jobs chat db) \<and>
    (js = [] \<longrightarrow> pending_jobs chat db = [])"
proof -
  have f: "filter (\<lambda>r. (jf_statuses (chat_filter chat) = [] \<or> status_text (status r) \<in> set (jf_statuses (chat_filter chat))) \<and>
         (case jf_cancel_requested (chat_filter chat) of None \<Rightarrow> True | Some b \<Rightarrow> cancel_requested r = b) \<and>
         matches (jf_kind (chat_filter chat)) (job_kind r) \<and> matches (jf_owner_kind (chat_filter chat)) (owner_kind r) \<and>
         matches (jf_owner_id (chat_filter chat)) (owner_id r) \<and> matches (jf_chat_id (chat_filter chat)) (chat_id (job_scope r)) \<and>
         matches (jf_workspace_id (chat_filter chat)) (workspace_id (job_scope r)) \<and>
         matches (jf_goal_id (chat_filter chat)) (goal_id (job_scope r)) \<and>
         list_all (\<lambda>cl. cl (to_dict (job_scope r))) []) (jobs db) = pending_jobs chat db"
  proof -
    have n: "(jf_statuses (chat_filter chat) = [] \<or> status_text (status r) \<in> set (jf_statuses (chat_filter chat)))
        \<longleftrightarrow> status r \<notin> job_terminal_states" for r
      unfolding chat_filter_def job_filter.simps nonterminal_texts by simp
    show ?thesis
      unfolding n pending_jobs_def
      by (rule filter_cong[OF refl]) (use assms in \<open>simp add: chat_filter_def pending_in_def matches_def\<close>)
  qed
  have st: "list_all (\<lambda>t. job_status_of t \<noteq> None) (jf_statuses (chat_filter chat))"
    by (simp add: chat_filter_def job_status_of_def job_states_def)
  have "append_json_scope_visibility h (jf_scope (chat_filter chat)) [] = Inr []"
    by (simp add: chat_filter_def append_json_scope_visibility_def)
  then have l: "list_jobs h (chat_filter chat) db = Inr (take (clamp_limit 1000)
      (sort_key (\<lambda>r. (- updated_at r, - priority r, job_id r)) (pending_jobs chat db)))"
    using f st by (simp add: list_jobs_def) (simp add: chat_filter_def)
  have "pending_jobs chat db = []" if "sort_key (\<lambda>r. (- updated_at r, - priority r, job_id r)) (pending_jobs chat db) = []"
    using that by (metis length_0_conv length_sort)
  then show ?thesis unfolding l by (auto simp: clamp_limit_def dest: in_set_takeD)
qed

lemma filter_map_length_le:
  assumes "\<And>x. x \<in> set xs \<Longrightarrow> P (g x) \<Longrightarrow> P x"
  shows "length (filter P (map g xs)) \<le> length (filter P xs)"
  using assms by (induction xs) auto

lemma filter_map_length_less:
  assumes "\<And>x. x \<in> set xs \<Longrightarrow> P (g x) \<Longrightarrow> P x" and "x \<in> set xs" and "P x" and "\<not> P (g x)"
  shows "length (filter P (map g xs)) < length (filter P xs)"
  using assms
proof (induction xs)
  case (Cons y ys)
  have le: "length (filter P (map g ys)) \<le> length (filter P ys)"
    by (rule filter_map_length_le) (use Cons.prems(1) in auto)
  show ?case
  proof (cases "y = x")
    case True
    with Cons.prems le show ?thesis by auto
  next
    case False
    with Cons have "length (filter P (map g ys)) < length (filter P ys)" by auto
    with Cons.prems(1)[of y] show ?thesis by auto
  qed
qed simp

lemma cancel_job_pending:
  assumes wf: "store_wf db" and run: "cancel_job h jid reason None actor db = (Inr x, db')"
  shows "store_wf db'" and "length (pending_jobs chat db') \<le> length (pending_jobs chat db)"
    and "j \<in> set (pending_jobs chat db) \<Longrightarrow> job_id j = jid \<Longrightarrow>
      length (pending_jobs chat db') < length (pending_jobs chat db)"
proof -
  from run obtain job where r: "request_job_cancel h jid reason None actor db = (Inr job, db')"
    by (auto simp: cancel_job_def obind_Inr)
  show "store_wf db'" using request_job_cancel_step[OF wf, of h jid reason None actor] r
    by (simp add: job_step_def)
  have dist: "distinct (map job_id (jobs db))" using wf by (simp add: store_wf_def jobs_wf_def)
  have "length (pending_jobs chat db') \<le> length (pending_jobs chat db) \<and>
      (j \<in> set (pending_jobs chat db) \<longrightarrow> job_id j = jid \<longrightarrow> length (pending_jobs chat db') < length (pending_jobs chat db))"
    using store_wf_jobs[OF wf] r
  proof (cases rule: request_job_cancel_Inr)
    case already
    have "\<not> pending_in chat job" using already(4) by (auto simp: pending_in_def)
    moreover have "j = job" if "j \<in> set (jobs db)" "job_id j = jid"
      using find_distinct_key[OF dist that(1)] already(1) that(2) by (simp add: job_row_tx_Inr)
    ultimately show ?thesis using already(3) by (auto simp: pending_jobs_def)
  next
    case (requested row)
    let ?f = "cancel_row (status row \<in> cancel_immediate_states) (py_strip reason) (clock h)"
    from requested(5,1) obtain n where
      js: "jobs db' = map (\<lambda>r. if job_id r = jid then (?f r)\<lparr>event_cursor := n\<rparr> else r) (jobs db)"
      by (rule job_mutation_row)
    let ?g = "\<lambda>r. if job_id r = jid then (?f r)\<lparr>event_cursor := n\<rparr> else r"
    have g: "pending_in chat (?g r) \<longleftrightarrow> pending_in chat r \<and> job_id r \<noteq> jid" for r
      by (simp add: pending_in_def cancel_row_def)
    have "length (filter (pending_in chat) (map ?g (jobs db))) \<le> length (filter (pending_in chat) (jobs db))"
      by (rule filter_map_length_le) (simp only: g)
    moreover have "length (filter (pending_in chat) (map ?g (jobs db))) < length (filter (pending_in chat) (jobs db))"
      if "j \<in> set (jobs db)" "pending_in chat j" "job_id j = jid"
      by (rule filter_map_length_less[where x = j]) (use that g in \<open>blast+\<close>)
    ultimately show ?thesis by (simp add: pending_jobs_def js)
  qed
  then show "length (pending_jobs chat db') \<le> length (pending_jobs chat db)"
    and "j \<in> set (pending_jobs chat db) \<Longrightarrow> job_id j = jid \<Longrightarrow>
      length (pending_jobs chat db') < length (pending_jobs chat db)" by simp_all
qed

lemma cancel_jobs_pending:
  assumes "store_wf db" and "cancel_jobs h js n db = (Inr m, db')"
  shows "store_wf db' \<and> length (pending_jobs chat db') \<le> length (pending_jobs chat db)"
  using assms
proof (induction js arbitrary: n db)
  case (Cons j js)
  from Cons.prems(2) obtain x db1 where c: "cancel_job h (job_id j) ''chat_deleted'' None None db = (Inr x, db1)"
    and rest: "cancel_jobs h js (Suc n) db1 = (Inr m, db')"
    by (auto simp: obind_Inr)
  from Cons.IH[OF cancel_job_pending(1)[OF Cons.prems(1) c] rest] cancel_job_pending(2)[OF Cons.prems(1) c, of chat]
  show ?case by simp
qed simp

lemma delete_chat_loop_ends:
  assumes "store_wf db" and "chat \<noteq> []"
  shows "\<exists>r db'. delete_chat_loop h chat n db = Some (r, db') \<and>
    (\<forall>m. r = Inr m \<longrightarrow> store_wf db' \<and> pending_jobs chat db' = [])"
  using assms(1)
proof (induction "length (pending_jobs chat db)" arbitrary: n db rule: less_induct)
  case less
  from list_chat_jobs[OF assms(2)] obtain js where js: "list_jobs h (chat_filter chat) db = Inr js"
    "set js \<subseteq> set (pending_jobs chat db)" "js = [] \<longrightarrow> pending_jobs chat db = []" by blast
  show ?case
  proof (cases js)
    case Nil
    with js less.prems show ?thesis by (subst delete_chat_loop.simps) simp
  next
    case (Cons j rest)
    show ?thesis
    proof (cases "cancel_jobs h js n db")
      case (Pair x db1)
      show ?thesis
      proof (cases x)
        case (Inl e)
        with js Cons Pair show ?thesis by (subst delete_chat_loop.simps) simp
      next
        case (Inr m)
        from Pair Inr Cons obtain y db0 where
          c: "cancel_job h (job_id j) ''chat_deleted'' None None db = (Inr y, db0)"
          and r: "cancel_jobs h rest (Suc n) db0 = (Inr m, db1)"
          by (auto simp: obind_Inr)
        have "j \<in> set (pending_jobs chat db)" using js(2) Cons by auto
        then have "length (pending_jobs chat db0) < length (pending_jobs chat db)"
          using cancel_job_pending(3)[OF less.prems c] by simp
        moreover note cancel_jobs_pending[OF cancel_job_pending(1)[OF less.prems c] r, of chat]
        ultimately have lt: "length (pending_jobs chat db1) < length (pending_jobs chat db)" and w: "store_wf db1"
          by simp_all
        from less.hyps[OF lt w, of m] js Cons Pair Inr show ?thesis
          by (subst delete_chat_loop.simps) simp
      qed
    qed
  qed
qed

end
