(* ===== verification/Core_Eval.thy ===== *)
theory Core_Eval
  imports Core_Json
begin

text \<open>
  Code equations with which the kernel evaluates the model on concrete inputs: identifiers digit
  by digit, characters compared and classified on their bits.
\<close>

section \<open>Identifiers\<close>

fun hex_run :: "nat \<Rightarrow> integer \<Rightarrow> string \<Rightarrow> string" where
  "hex_run 0 n acc = acc"
| "hex_run (Suc k) n acc = hex_run k (n div 16) (hex_digit (nat_of_integer (n mod 16)) # acc)"

lemma hex_run_map:
  "hex_run k (integer_of_nat n) acc = map (\<lambda>i. hex_digit ((n div 16 ^ i) mod 16)) (rev [0..<k]) @ acc"
proof (induction k arbitrary: n acc)
  case (Suc k)
  have d: "integer_of_nat n div 16 = integer_of_nat (n div 16)" "integer_of_nat n mod 16 = integer_of_nat (n mod 16)"
    by (simp_all add: integer_of_nat_eq_of_nat of_nat_div of_nat_mod)
  have "[0..<Suc k] = 0 # map Suc [0..<k]" by (simp add: map_Suc_upt upt_conv_Cons)
  then have "rev [0..<Suc k] = map Suc (rev [0..<k]) @ [0]" by (simp add: rev_map)
  then show ?case
    by (simp add: d Suc.IH div_mult2_eq comp_def nat_of_integer_integer_of_nat del: upt_Suc)
qed simp

lemma uuid_hex_code [code]: "uuid_hex n = hex_run 32 (integer_of_nat n) []"
  by (simp add: uuid_hex_def hex_run_map)

text \<open>The rest of a step is not looked at before the step has run.\<close>

declare ebind_def [code_unfold]

lemma case_prod_let [code_unfold]: "case_prod f p = (let x = p in f (fst x) (snd x))"
  by (simp add: case_prod_beta)

section \<open>Characters\<close>

fun bits_less :: "bool list \<Rightarrow> bool list \<Rightarrow> bool" where
  "bits_less (x # xs) (y # ys) = (if x = y then bits_less xs ys else y)"
| "bits_less xs ys = False"

fun bits_val :: "bool list \<Rightarrow> nat" where
  "bits_val [] = 0"
| "bits_val (x # xs) = of_bool x * 2 ^ length xs + bits_val xs"

lemma bits_val_less: "bits_val xs < 2 ^ length xs"
  by (induction xs) auto

lemma bits_less_val: "length xs = length ys \<Longrightarrow> bits_less xs ys = (bits_val xs < bits_val ys)"
proof (induction xs ys rule: bits_less.induct)
  case (1 x xs y ys)
  then show ?case using bits_val_less[of xs] bits_val_less[of ys] by (cases x; cases y) auto
qed auto

lemma char_value:
  "(of_char (Char b0 b1 b2 b3 b4 b5 b6 b7) :: nat) = of_bool b0 + 2 * of_bool b1 + 4 * of_bool b2 + 8 * of_bool b3 +
     16 * of_bool b4 + 32 * of_bool b5 + 64 * of_bool b6 + 128 * of_bool b7"
  by simp

lemma bits_value: "bits_val [b7, b6, b5, b4, b3, b2, b1, b0] = (of_char (Char b0 b1 b2 b3 b4 b5 b6 b7) :: nat)"
  unfolding char_value by simp

lemma less_char_code [code]:
  "Char a0 a1 a2 a3 a4 a5 a6 a7 < Char b0 b1 b2 b3 b4 b5 b6 b7 \<longleftrightarrow>
    bits_less [a7, a6, a5, a4, a3, a2, a1, a0] [b7, b6, b5, b4, b3, b2, b1, b0]"
  using bits_less_val[of "[a7, a6, a5, a4, a3, a2, a1, a0]" "[b7, b6, b5, b4, b3, b2, b1, b0]"]
  unfolding bits_value less_char_def by simp

lemma letter_value:
  fixes x y z u :: nat
  assumes "x \<le> 1" and "y \<le> 1" and "z \<le> 1" and "u \<le> 1" and "b6 \<or> b5 \<and> b4"
  shows "33 < x + 2 * y + 4 * z + 8 * u + 16 * of_bool b4 + 32 * of_bool b5 + 64 * of_bool b6 + 128 * of_bool False \<and>
    x + 2 * y + 4 * z + 8 * u + 16 * of_bool b4 + 32 * of_bool b5 + 64 * of_bool b6 + 128 * of_bool False < 128"
  using assms by (cases b4; cases b5; cases b6) auto

lemma py_space_code [code]:
  "py_space (Char b0 b1 b2 b3 b4 b5 b6 b7) =
     (if \<not> b7 \<and> (b6 \<or> b5 \<and> b4) then False
      else let n = (of_char (Char b0 b1 b2 b3 b4 b5 b6 b7) :: nat) in
        (9 \<le> n \<and> n \<le> 13) \<or> (28 \<le> n \<and> n \<le> 32) \<or> n = 133 \<or> n = 160)"
proof (cases "\<not> b7 \<and> (b6 \<or> b5 \<and> b4)")
  case True
  then have "33 < (of_char (Char b0 b1 b2 b3 b4 b5 b6 b7) :: nat) \<and> (of_char (Char b0 b1 b2 b3 b4 b5 b6 b7) :: nat) < 128"
    using letter_value[of "of_bool b0" "of_bool b1" "of_bool b2" "of_bool b3" b6 b5 b4]
    unfolding char_value by (metis (full_types) of_bool_less_eq_one)
  with True show ?thesis unfolding py_space_def Let_def by simp
next
  case False
  then show ?thesis unfolding py_space_def by (simp only: if_False)
qed

lemma plain_value:
  fixes x y :: nat
  assumes "x \<le> 1" and "y \<le> 1" and "b6 \<and> \<not> (b2 \<and> b3 \<and> b4) \<or> b5 \<and> b4"
  shows "31 < x + 2 * y + 4 * of_bool b2 + 8 * of_bool b3 + 16 * of_bool b4 + 32 * of_bool b5 + 64 * of_bool b6 + 128 * of_bool b7"
    and "x + 2 * y + 4 * of_bool b2 + 8 * of_bool b3 + 16 * of_bool b4 + 32 * of_bool b5 + 64 * of_bool b6 + 128 * of_bool b7 \<noteq> 34"
    and "x + 2 * y + 4 * of_bool b2 + 8 * of_bool b3 + 16 * of_bool b4 + 32 * of_bool b5 + 64 * of_bool b6 + 128 * of_bool b7 \<noteq> 92"
  using assms by (cases b2; cases b3; cases b4; cases b5; cases b6; cases b7; simp)+

lemma json_char_plain: "31 < (of_char c :: nat) \<Longrightarrow> (of_char c :: nat) \<noteq> 34 \<Longrightarrow> (of_char c :: nat) \<noteq> 92 \<Longrightarrow> json_char c = [c]"
  by (simp add: json_char_def)

lemma json_char_code [code]:
  "json_char (Char b0 b1 b2 b3 b4 b5 b6 b7) =
     (if b6 \<and> \<not> (b2 \<and> b3 \<and> b4) \<or> b5 \<and> b4 then [Char b0 b1 b2 b3 b4 b5 b6 b7]
      else let c = Char b0 b1 b2 b3 b4 b5 b6 b7; n = (of_char c :: nat) in
        if n = 34 then [char_of (92 :: nat), c]
        else if n = 92 then [c, c]
        else if n = 10 then char_of (92 :: nat) # ''n''
        else if n = 13 then char_of (92 :: nat) # ''r''
        else if n = 9 then char_of (92 :: nat) # ''t''
        else if n = 12 then char_of (92 :: nat) # ''f''
        else if n = 8 then char_of (92 :: nat) # ''b''
        else if n < 32 then char_of (92 :: nat) # ''u00'' @ [hex_digit (n div 16), hex_digit (n mod 16)]
        else [c])"
proof (cases "b6 \<and> \<not> (b2 \<and> b3 \<and> b4) \<or> b5 \<and> b4")
  case True
  have "of_bool b0 \<le> (1 :: nat)" "of_bool b1 \<le> (1 :: nat)" by simp_all
  note v = plain_value[OF this True, of b7]
  have "json_char (Char b0 b1 b2 b3 b4 b5 b6 b7) = [Char b0 b1 b2 b3 b4 b5 b6 b7]"
    by (rule json_char_plain) (unfold char_value, rule v(1), rule v(2), rule v(3))
  with True show ?thesis by (simp only: if_True)
next
  case False
  then show ?thesis unfolding json_char_def Let_def by (simp only: if_False)
qed

end
