(* ===== verification/Work_Samples.thy ===== *)
theory Work_Samples
  imports Work_Service_Facts Core_Eval "HOL-Library.Code_Target_Nat"
begin

text \<open>
  Concrete runs of the repository, evaluated once each: the inputs at which the properties of the
  Work Fabric are instantiated.
\<close>

section \<open>A host and its requests\<close>

definition host0 :: host where
  "host0 = \<lparr>sha256_hex = (\<lambda>t. ''f0''), float_repr = (\<lambda>r. ''1.0''), parse_float = (\<lambda>t. None),
     container_str = (\<lambda>j. ''{}''), uuid4 = (\<lambda>n. n), clock = 100, max_inline_json = 65536, faults = []\<rparr>"

definition job0 :: job_request where
  "job0 = \<lparr>jr_kind = ''k'', jr_owner_kind = ''chat'', jr_owner_id = ''c'', jr_scope = NoScope,
     jr_priority = 0, jr_input_manifest = [], jr_artifact_refs = [], jr_retry_policy = [],
     jr_max_attempts = 2, jr_idempotency_key = ''i'', jr_available_at = None, jr_job_id = ''j'',
     jr_actor = None, jr_correlation_id = []\<rparr>"

definition finish0 :: finish_request where
  "finish0 = \<lparr>fr_status = ''succeeded'', fr_lease_owner = ''v'', fr_lease_epoch = 2, fr_result_ref = [],
     fr_diagnostics_ref = [], fr_progress = None, fr_error = [], fr_now = Some 210\<rparr>"

definition event0 :: event_request where
  "event0 = event_request0\<lparr>req_event_type := ''t'', req_aggregate_kind := ''chat'',
     req_aggregate_id := ''c'', req_idempotency_key := ''x''\<rparr>"

definition question0 :: interaction_request where
  "question0 = \<lparr>ir_kind = ''q'', ir_prompt = ''p'', ir_scope = NoScope, ir_owner_kind = ''r'',
     ir_owner_id = ''o'', ir_schema = [], ir_metadata = [], ir_expires_at = 0,
     ir_idempotency_key = [], ir_interaction_id = ''q1'', ir_actor = default_actor,
     ir_correlation_id = []\<rparr>"

definition receipt0 :: receipt_request where
  "receipt0 = \<lparr>rr_operation_id = ''op'', rr_kind = ''cap'', rr_status = ''succeeded'', rr_scope = NoScope,
     rr_request = [], rr_response = [], rr_effect_ref = [], rr_error = [], rr_idempotency_key = [],
     rr_actor = None, rr_correlation_id = []\<rparr>"

section \<open>A job: claimed, expired, claimed again, finished\<close>

definition "db_created = snd (create_job host0 job0 empty_db)"
definition "db_leased = snd (lease_next_job host0 ''w'' [] [] 60 None db_created)"
definition "db_recovered = snd (recover_expired_job_leases host0 (Some 200) db_leased)"
definition "db_leased2 = snd (lease_next_job host0 ''v'' [] [] 60 (Some 200) db_recovered)"
definition "db_finished = snd (finish_job host0 ''j'' finish0 db_leased2)"

definition job_summary :: "work_db \<Rightarrow> (job_status \<times> string \<times> int \<times> int \<times> bool) option" where
  "job_summary db = map_option (\<lambda>r. (status r, lease_owner r, lease_epoch r, revision r, cancel_requested r))
     (get_job ''j'' db)"

definition context0 :: "work_db \<Rightarrow> job_context" where
  "context0 db = \<lparr>cx_job = the (get_job ''j'' db), cx_owner = ''v'', cx_epoch = 2, cx_ttl = 60, cx_local = False\<rparr>"

lemma job_chain:
  "case create_job host0 job0 empty_db of (r1, d1) \<Rightarrow>
   case lease_next_job host0 ''w'' [] [] 60 None d1 of (r2, d2) \<Rightarrow>
   case recover_expired_job_leases host0 (Some 200) d2 of (r3, d3) \<Rightarrow>
   case lease_next_job host0 ''v'' [] [] 60 (Some 200) d3 of (r4, d4) \<Rightarrow>
   case finish_job host0 ''j'' finish0 d4 of (r5, d5) \<Rightarrow>
   case commit_result host0 (context0 d4) (\<lambda>db. Inr (empty_result, db)) False d4 of (r6, d6) \<Rightarrow>
     \<not> isl r6 \<and> \<not> isl r1 \<and> job_summary d1 = Some (Queued, [], 0, 1, False) \<and>
     \<not> isl r2 \<and> job_summary d2 = Some (Leased, ''w'', 1, 2, False) \<and>
       filter (job_lease_expired 200) (jobs d2) \<noteq> [] \<and>
     \<not> isl r3 \<and> job_summary d3 = Some (Queued, [], 1, 3, False) \<and>
     \<not> isl r4 \<and> job_summary d4 = Some (Leased, ''v'', 2, 4, False) \<and>
     \<not> isl r5 \<and> job_summary d5 = Some (Succeeded, [], 2, 5, False) \<and> length (events d5) = 5"
  by code_simp

section \<open>A job cancelled while it goes waiting\<close>

definition "db_started = snd (start_job host0 ''j'' ''w'' 1 False None (Some 110) db_leased)"
definition "db_cancelling = snd (request_job_cancel host0 ''j'' ''stop'' None None db_started)"
definition "db_waiting = snd (mark_job_waiting host0 ''j'' ''w'' 1 None (Some 120) db_cancelling)"
definition "db_woken = snd (wake_job host0 ''j'' None None None db_waiting)"

lemma cancel_chain:
  "case snd (create_job host0 job0 empty_db) of d1 \<Rightarrow>
   case snd (lease_next_job host0 ''w'' [] [] 60 None d1) of d2 \<Rightarrow>
   case start_job host0 ''j'' ''w'' 1 False None (Some 110) d2 of (r3, d3) \<Rightarrow>
   case request_job_cancel host0 ''j'' ''stop'' None None d3 of (r4, d4) \<Rightarrow>
   case mark_job_waiting host0 ''j'' ''w'' 1 None (Some 120) d4 of (r5, d5) \<Rightarrow>
   case wake_job host0 ''j'' None None None d5 of (r6, d6) \<Rightarrow>
     \<not> isl r3 \<and> job_summary d3 = Some (Running, ''w'', 1, 3, False) \<and>
     \<not> isl r4 \<and> job_summary d4 = Some (Running, ''w'', 1, 4, True) \<and>
     \<not> isl r5 \<and> job_summary d5 = Some (Waiting, [], 1, 5, True) \<and>
     \<not> isl r6 \<and> job_summary d6 = Some (Queued, [], 1, 6, False)"
  by code_simp

section \<open>The outbox: claimed, expired, claimed again, acknowledged\<close>

definition "db_logged = snd (append_event host0 event0 empty_db)"
definition "db_claimed = snd (claim_outbox host0 ''p'' 10 60 (Some 100) db_logged)"
definition "db_reclaimed = snd (claim_outbox host0 ''q'' 10 60 (Some 200) db_claimed)"
definition "oid0 = outbox_id (hd (outbox db_logged))"
definition "db_delivered = snd (acknowledge_outbox host0 oid0 ''q'' 2 (Some 210) db_reclaimed)"

lemma outbox_chain:
  "case append_event host0 event0 empty_db of (r1, d1) \<Rightarrow>
   case claim_outbox host0 ''p'' 10 60 (Some 100) d1 of (r2, d2) \<Rightarrow>
   case claim_outbox host0 ''q'' 10 60 (Some 200) d2 of (r3, d3) \<Rightarrow>
   case outbox_id (hd (outbox d1)) of oid \<Rightarrow>
   case acknowledge_outbox host0 oid ''q'' 2 (Some 210) d3 of (r4, d4) \<Rightarrow>
     \<not> isl r1 \<and> length (events d1) = 1 \<and> \<not> isl r2 \<and> outbox_holder d2 oid = Some (''p'', 1) \<and>
     \<not> isl r3 \<and> outbox_holder d3 oid = Some (''q'', 2) \<and>
     \<not> isl r4 \<and> map_option outbox_status (outbox_row_of oid d4) = Some OutDelivered"
  by code_simp

section \<open>A job with an unreadable retry delay\<close>

definition job_bad :: job_request where
  "job_bad = job0\<lparr>jr_retry_policy := [(''base_delay_s'', JStr ''soon'')]\<rparr>"

definition "db_poisoned = snd (lease_next_job host0 ''w'' [] [] 60 None (snd (create_job host0 job_bad empty_db)))"

lemma poison_chain:
  "filter (\<lambda>r. job_lease_expired 200 r \<and> isl (float_or_zero host0 (jget (retry_policy r) ''base_delay_s'')))
     (jobs (snd (lease_next_job host0 ''w'' [] [] 60 None (snd (create_job host0 job_bad empty_db))))) \<noteq> []"
  by code_simp

section \<open>A question and its answer, a receipt\<close>

definition "db_asked = snd (create_interaction host0 question0 empty_db)"
definition "db_answered = snd (resolve_interaction host0 ''q1'' ''answered'' (JStr ''yes'') None default_actor [] db_asked)"
definition "db_receipt = snd (record_operation_receipt host0 receipt0 empty_db)"

lemma interaction_chain:
  "case create_interaction host0 question0 empty_db of (r1, d1) \<Rightarrow>
   case resolve_interaction host0 ''q1'' ''answered'' (JStr ''yes'') None default_actor [] d1 of (r2, d2) \<Rightarrow>
     \<not> isl r1 \<and> map_option interaction_status (interaction_row_of ''q1'' d1) = Some IxOpen \<and>
     \<not> isl r2 \<and> map_option interaction_status (interaction_row_of ''q1'' d2) = Some IxAnswered"
  by code_simp

definition receipt1 :: jobject where
  "receipt1 = [(''receipt_id'', JStr ''r''), (''status'', JStr ''error''),
     (''error'', JObj [(''may_have_applied'', JBool True)])]"

lemma ingest_chain:
  "case ingest_capability_receipt host0 (AMapping receipt1) empty_db of (r, d) \<Rightarrow> \<not> isl r \<and> length (operations d) = 1"
  by code_simp

lemma receipt_chain:
  "case record_operation_receipt host0 receipt0 empty_db of (r, d) \<Rightarrow> \<not> isl r \<and> length (operations d) = 1"
  by code_simp

section \<open>What the runs give\<close>

lemma run_Inr: "\<not> isl (fst r) \<Longrightarrow> d = snd r \<Longrightarrow> \<exists>x. r = (Inr x, d)"
  by (metis prod.collapse sum.collapse(2))

lemmas sample_dbs =
  db_created_def db_leased_def db_recovered_def db_leased2_def db_finished_def
  db_started_def db_cancelling_def db_waiting_def db_woken_def
  db_logged_def db_claimed_def db_reclaimed_def oid0_def db_delivered_def
  db_asked_def db_answered_def db_receipt_def

lemma job_runs:
  "\<exists>x. create_job host0 job0 empty_db = (Inr x, db_created)"
  "\<exists>x. lease_next_job host0 ''w'' [] [] 60 None db_created = (Inr x, db_leased)"
  "\<exists>x. recover_expired_job_leases host0 (Some 200) db_leased = (Inr x, db_recovered)"
  "\<exists>x. lease_next_job host0 ''v'' [] [] 60 (Some 200) db_recovered = (Inr x, db_leased2)"
  "\<exists>x. finish_job host0 ''j'' finish0 db_leased2 = (Inr x, db_finished)"
  by (rule run_Inr, use job_chain in \<open>unfold case_prod_beta sample_dbs, blast\<close>, simp only: sample_dbs)+

lemma commit_runs: "\<not> isl (fst (commit_result host0 (context0 db_leased2) (\<lambda>db. Inr (empty_result, db)) False db_leased2))"
  using job_chain unfolding case_prod_beta sample_dbs by blast

lemma job_summaries:
  "job_summary db_created = Some (Queued, [], 0, 1, False)"
  "job_summary db_leased = Some (Leased, ''w'', 1, 2, False)"
  "job_summary db_recovered = Some (Queued, [], 1, 3, False)"
  "job_summary db_leased2 = Some (Leased, ''v'', 2, 4, False)"
  "job_summary db_finished = Some (Succeeded, [], 2, 5, False)"
  "length (events db_finished) = 5"
  "filter (job_lease_expired 200) (jobs db_leased) \<noteq> []"
  using job_chain unfolding case_prod_beta sample_dbs by blast+

lemma cancel_runs:
  "\<exists>x. start_job host0 ''j'' ''w'' 1 False None (Some 110) db_leased = (Inr x, db_started)"
  "\<exists>x. request_job_cancel host0 ''j'' ''stop'' None None db_started = (Inr x, db_cancelling)"
  "\<exists>x. mark_job_waiting host0 ''j'' ''w'' 1 None (Some 120) db_cancelling = (Inr x, db_waiting)"
  "\<exists>x. wake_job host0 ''j'' None None None db_waiting = (Inr x, db_woken)"
  by (rule run_Inr, use cancel_chain in \<open>unfold case_prod_beta sample_dbs, blast\<close>, simp only: sample_dbs)+

lemma cancel_summaries:
  "job_summary db_started = Some (Running, ''w'', 1, 3, False)"
  "job_summary db_cancelling = Some (Running, ''w'', 1, 4, True)"
  "job_summary db_waiting = Some (Waiting, [], 1, 5, True)"
  "job_summary db_woken = Some (Queued, [], 1, 6, False)"
  using cancel_chain unfolding case_prod_beta sample_dbs by blast+

lemma outbox_runs:
  "\<exists>x. append_event host0 event0 empty_db = (Inr x, db_logged)"
  "\<exists>x. claim_outbox host0 ''p'' 10 60 (Some 100) db_logged = (Inr x, db_claimed)"
  "\<exists>x. claim_outbox host0 ''q'' 10 60 (Some 200) db_claimed = (Inr x, db_reclaimed)"
  "\<exists>x. acknowledge_outbox host0 oid0 ''q'' 2 (Some 210) db_reclaimed = (Inr x, db_delivered)"
  by (rule run_Inr, use outbox_chain in \<open>unfold case_prod_beta sample_dbs, blast\<close>, simp only: sample_dbs)+

lemma outbox_summaries:
  "length (events db_logged) = 1"
  "outbox_holder db_claimed oid0 = Some (''p'', 1)"
  "outbox_holder db_reclaimed oid0 = Some (''q'', 2)"
  "map_option outbox_status (outbox_row_of oid0 db_delivered) = Some OutDelivered"
  using outbox_chain unfolding case_prod_beta sample_dbs by blast+

lemma interaction_runs:
  "\<exists>x. create_interaction host0 question0 empty_db = (Inr x, db_asked)"
  "\<exists>x. resolve_interaction host0 ''q1'' ''answered'' (JStr ''yes'') None default_actor [] db_asked = (Inr x, db_answered)"
  "\<exists>x. record_operation_receipt host0 receipt0 empty_db = (Inr x, db_receipt)"
  by (rule run_Inr, use interaction_chain receipt_chain in \<open>unfold case_prod_beta sample_dbs, blast\<close>, simp only: sample_dbs)+

lemma interaction_summaries:
  "map_option interaction_status (interaction_row_of ''q1'' db_asked) = Some IxOpen"
  "map_option interaction_status (interaction_row_of ''q1'' db_answered) = Some IxAnswered"
  "length (operations db_receipt) = 1"
  using interaction_chain receipt_chain unfolding case_prod_beta sample_dbs by blast+

text \<open>Every sample is a database the repository can reach.\<close>

lemma hex_host0: "hex_host host0"
proof -
  have "CHR ''f'' = hex_digit 15" "CHR ''0'' = hex_digit 0" by code_simp+
  then show ?thesis by (auto simp: hex_host_def host0_def)
qed

lemma reachable_empty: "reachable empty_db"
  by (simp add: reachable_def)

lemma reachable_step: "reachable db \<Longrightarrow> repo_step db db' \<Longrightarrow> reachable db'"
  unfolding reachable_def by (rule rtranclp.rtrancl_into_rtrancl)

lemma sample_steps:
  "repo_step empty_db db_created" "repo_step db_created db_leased" "repo_step db_leased db_recovered"
  "repo_step db_recovered db_leased2" "repo_step db_leased2 db_finished"
  "repo_step db_leased db_started" "repo_step db_started db_cancelling"
  "repo_step db_cancelling db_waiting" "repo_step db_waiting db_woken"
  "repo_step db_logged db_claimed" "repo_step db_claimed db_reclaimed"
  "repo_step db_reclaimed db_delivered"
  "repo_step empty_db db_asked" "repo_step db_asked db_answered" "repo_step empty_db db_receipt"
  unfolding sample_dbs by (intro repo_step.intros hex_host0)+

lemma logged_step: "repo_step empty_db db_logged"
proof -
  have "py_strip (req_aggregate_kind event0) \<notin> {''job'', ''operation'', ''interaction''}" by code_simp
  then show ?thesis unfolding db_logged_def by (rule step_append)
qed

lemma sample_reachable:
  "reachable db_created" "reachable db_leased" "reachable db_recovered" "reachable db_leased2"
  "reachable db_finished" "reachable db_started" "reachable db_cancelling" "reachable db_waiting"
  "reachable db_woken" "reachable db_logged" "reachable db_claimed" "reachable db_reclaimed"
  "reachable db_delivered" "reachable db_asked" "reachable db_answered" "reachable db_receipt"
proof -
  show c: "reachable db_created" by (rule reachable_step[OF reachable_empty sample_steps(1)])
  show l: "reachable db_leased" by (rule reachable_step[OF c sample_steps(2)])
  show r: "reachable db_recovered" by (rule reachable_step[OF l sample_steps(3)])
  show l2: "reachable db_leased2" by (rule reachable_step[OF r sample_steps(4)])
  show "reachable db_finished" by (rule reachable_step[OF l2 sample_steps(5)])
  show s: "reachable db_started" by (rule reachable_step[OF l sample_steps(6)])
  show ca: "reachable db_cancelling" by (rule reachable_step[OF s sample_steps(7)])
  show w: "reachable db_waiting" by (rule reachable_step[OF ca sample_steps(8)])
  show "reachable db_woken" by (rule reachable_step[OF w sample_steps(9)])
  show g: "reachable db_logged" by (rule reachable_step[OF reachable_empty logged_step])
  show k: "reachable db_claimed" by (rule reachable_step[OF g sample_steps(10)])
  show k2: "reachable db_reclaimed" by (rule reachable_step[OF k sample_steps(11)])
  show "reachable db_delivered" by (rule reachable_step[OF k2 sample_steps(12)])
  show a: "reachable db_asked" by (rule reachable_step[OF reachable_empty sample_steps(13)])
  show "reachable db_answered" by (rule reachable_step[OF a sample_steps(14)])
  show "reachable db_receipt" by (rule reachable_step[OF reachable_empty sample_steps(15)])
qed

end
