(* ===== verification/Work_Log_Properties.thy ===== *)
theory Work_Log_Properties
  imports Work_Samples
begin

text \<open>
  Properties of the event log, its outbox, the pump and the projections, each with a concrete
  run of the sample host.
\<close>

section \<open>The log\<close>

lemma reachable_log_wf: "reachable db \<Longrightarrow> log_wf db"
  using reachable_repo_wf by (simp add: repo_wf_def store_wf_def)

text \<open>
  C4: in every database the repository can reach, the log is dense: the i-th event has sequence
  number i + 1, the versions of every aggregate are 1, 2, .., and the outbox has exactly one row
  per event, in log order.
\<close>

theorem reachable_log_dense:
  assumes "reachable db"
  shows "length (outbox db) = length (events db) \<and>
    (\<forall>i<length (events db). sequence (events db ! i) = int i + 1 \<and>
       event_sequence (outbox db ! i) = int i + 1 \<and>
       outbox_event_id (outbox db ! i) = event_id (events db ! i)) \<and>
    (\<forall>k a. versions db k a = counting (length (versions db k a)))"
proof -
  have wf: "log_wf db" by (rule reachable_log_wf[OF assms])
  then have m: "map event_sequence (outbox db) = map sequence (events db)"
    "map outbox_event_id (outbox db) = map event_id (events db)" by (simp_all add: log_wf_def)
  then have len: "length (outbox db) = length (events db)" by (metis length_map)
  have "event_sequence (outbox db ! i) = sequence (events db ! i)"
    "outbox_event_id (outbox db ! i) = event_id (events db ! i)" if "i < length (events db)" for i
    using that m len by (metis nth_map)+
  with len sequence_nth[OF wf] wf show ?thesis by (auto simp: log_wf_def)
qed

lemma reachable_log_dense_witness:
  "sequence (events db_finished ! 4) = 5 \<and> outbox_event_id (outbox db_finished ! 4) = event_id (events db_finished ! 4)"
  using reachable_log_dense[OF sample_reachable(5)] job_summaries(6) by simp

text \<open>
  C26: a successful append either returns a recorded event and changes nothing, or appends exactly
  one event: the next sequence number, the next version of its aggregate (the one after the
  expected version, when one was given), with one pending outbox row.
\<close>

theorem append_exactly_once:
  assumes "reachable db" and "append_event h q db = (Inr e, db')"
  shows "(db' = db \<and> e \<in> set (events db)) \<or>
    (events db' = events db @ [e] \<and> sequence e = int (length (events db)) + 1 \<and>
     aggregate_version e = int (length (versions db (aggregate_kind e) (aggregate_id e))) + 1 \<and>
     (\<forall>v. req_expected_version q = Some v \<longrightarrow> aggregate_version e = v + 1) \<and>
     (\<exists>r. outbox db' = outbox db @ [r] \<and> outbox_status r = OutPending \<and> outbox_event_id r = event_id e))"
proof -
  have wf: "log_wf db" by (rule reachable_log_wf[OF assms(1)])
  have "insert_event_tx h q db = Inr (e, db')" using assms(2) by (simp add: append_event_def db_write_Inr)
  then show ?thesis
  proof (cases rule: insert_event_tx_cases)
    case (replay c)
    then show ?thesis by (auto simp: prior_event_def find_Some_iff split: if_splits)
  next
    case (append c r)
    have v: "aggregate_version e = max_version db (aggregate_kind e) (aggregate_id e) + 1"
      and "sequence e = event_counter db + 1" and ev: "events db' = events db @ [e]"
      and "outbox db' = outbox db @ [r]" "outbox_status r = OutPending" "outbox_event_id r = event_id e"
      using append(3) unfolding appended_def by auto
    moreover have "event_counter db = int (length (events db))" using wf by (simp add: log_wf_def)
    moreover have "max_version db (aggregate_kind e) (aggregate_id e) =
        int (length (versions db (aggregate_kind e) (aggregate_id e)))"
      by (rule max_version_length[OF wf])
    ultimately show ?thesis using append(4,5,12) by (intro disjI2) auto
  qed
qed

lemma append_exactly_once_witness:
  "\<exists>e. append_event host0 event0 empty_db = (Inr e, db_logged) \<and> events db_logged = [e] \<and> sequence e = 1"
proof -
  obtain e where run: "append_event host0 event0 empty_db = (Inr e, db_logged)" using outbox_runs(1) by blast
  from append_exactly_once[OF reachable_empty run] have "events db_logged = [e] \<and> sequence e = 1"
    by (simp add: empty_db_def)
  with run show ?thesis by blast
qed

text \<open>
  Appending is idempotent.  Sending the same request (with an idempotency key) again returns
  the recorded event and leaves the database as it is.
\<close>

theorem append_idempotent:
  assumes "append_event h q db = (Inr e, db1)" and "py_strip (req_idempotency_key q) \<noteq> []"
    and "json_ok (JObj (req_payload q))" and "db1 \<noteq> db"
  shows "append_event h q db1 = (Inr e, db1)"
  by (rule append_retry[OF assms])

lemma append_idempotent_witness:
  "\<exists>e. append_event host0 event0 db_logged = (Inr e, db_logged)"
proof -
  obtain e where run: "append_event host0 event0 empty_db = (Inr e, db_logged)" using outbox_runs(1) by blast
  have k: "py_strip (req_idempotency_key event0) \<noteq> []" "json_ok (JObj (req_payload event0))" by code_simp+
  have ne: "db_logged \<noteq> empty_db" 
    using outbox_summaries(1) by (metis empty_db_def list.size(3) work_db.select_convs(1) zero_neq_one)
  show ?thesis by (rule exI) (rule append_idempotent[OF run k ne])
qed

text \<open>
  Reading the whole log by pages is exhaustive.  For every page size the repository serves,
  the keyset scan ends and yields every event of the log once, in order.
\<close>

theorem event_scan_exhaustive:
  assumes "reachable db" and "page_size \<le> 5000"
  shows "exhaustive_keyset_pages (event_page h db) sequence (\<lambda>c. json_text h (JInt c)) page_size =
    Some (events db, None)"
  by (rule event_log.pages_exhaustive[OF reachable_log_wf[OF assms(1)]]) (use assms(2) in simp)

lemma event_scan_exhaustive_witness:
  "\<exists>evs. exhaustive_keyset_pages (event_page host0 db_finished) sequence (\<lambda>c. json_text host0 (JInt c)) 2 =
    Some (evs, None) \<and> length evs = 5"
  using event_scan_exhaustive[OF sample_reachable(5), of 2 host0] job_summaries(6) by simp

section \<open>The outbox\<close>

lemma acknowledge_holder:
  assumes "log_wf db" and "acknowledge_outbox h i w e now db = (Inr u, db')"
  shows "outbox_holder db i = Some (w, e)"
proof -
  let ?P = "\<lambda>r. outbox_id r = i \<and> outbox_held w e r"
  have "\<exists>r\<in>set (outbox db). ?P r"
  proof (rule ccontr)
    assume "\<not> ?thesis"
    then have none: "filter ?P (outbox db) = []" by (simp add: filter_empty_conv)
    then have "fst (sql_update ?P f (outbox db)) = 0" for f by (simp add: sql_update_def)
    with assms(2) show False
      unfolding acknowledge_outbox_def db_write_Inr by (auto simp: case_prod_beta)
  qed
  then obtain r where r: "r \<in> set (outbox db)" "outbox_id r = i" "outbox_held w e r" by blast
  have "distinct (map outbox_id (outbox db))" using assms(1) by (simp add: log_wf_def)
  from find_distinct_key[OF this r(1)] r(2,3) show ?thesis
    by (simp add: outbox_holder_def outbox_row_of_def outbox_held_def)
qed

lemma reject_holder:
  "reject_outbox h i w e err dl m now db = (Inr u, db') \<Longrightarrow> outbox_holder db i = Some (w, e)"
  by (auto simp: reject_outbox_def db_write_Inr outbox_holder_def outbox_row_of_def outbox_held_def
      Let_def split: option.splits)

text \<open>
  C28: fencing of deliveries.  Once a pump has lost its claim of an outbox row (the lease expired,
  another pump took it over, the row was settled), no interleaving of operations ever lets it
  acknowledge or reject that delivery.
\<close>

theorem lost_delivery_fenced:
  assumes "reachable s0" and "outbox_holder s0 i = Some (w, e)"
    and "repo_step\<^sup>*\<^sup>* s0 s1" and "outbox_holder s1 i \<noteq> Some (w, e)" and "repo_step\<^sup>*\<^sup>* s1 s2"
  shows "isl (fst (acknowledge_outbox h i w e now s2)) \<and> isl (fst (reject_outbox h i w e err dl m now s2))"
proof -
  have g0: "repo_wf s0" by (rule reachable_repo_wf[OF assms(1)])
  have g1: "repo_wf s1" by (rule outbox_lease.run_good[OF assms(3) g0])
  have g2: "log_wf s2" using outbox_lease.run_good[OF assms(5) g1] by (simp add: repo_wf_def store_wf_def)
  have "outbox_epoch s0 i = Some e"
    using assms(2) by (auto simp: outbox_holder_def outbox_epoch_def split: option.splits if_splits)
  then obtain e1 where e1: "outbox_epoch s1 i = Some e1" "e \<le> e1"
    using outbox_lease.run_epoch[OF assms(3) g0] by blast
  have lost: "outbox_holder s2 i \<noteq> Some (w, e)"
    by (rule outbox_lease.fenced[OF assms(5) g1 e1 assms(4)])
  show ?thesis
    using acknowledge_holder[OF g2] reject_holder lost
    by (metis prod.collapse sum.collapse(2))
qed

lemma lost_delivery_fenced_witness:
  "isl (fst (acknowledge_outbox host0 oid0 ''p'' 1 (Some 210) db_delivered))"
  using lost_delivery_fenced[OF sample_reachable(11) outbox_summaries(2)
      r_into_rtranclp[of repo_step, OF sample_steps(11)] _ r_into_rtranclp[of repo_step, OF sample_steps(12)], of host0 "Some 210" "[]" 0 1]
  by (simp add: outbox_summaries(3))

text \<open>
  Delivery is final.  A row that was delivered or declared dead is never changed again by any
  sequence of operations: an acknowledged event is not delivered a second time.
\<close>

theorem delivery_final:
  assumes "reachable db" and "repo_step\<^sup>*\<^sup>* db db'" and "outbox_row_of i db = Some r"
    and "outbox_status r \<in> {OutDelivered, OutDead}"
  shows "outbox_row_of i db' = Some r"
  using assms(2)
proof (induction rule: rtranclp_induct)
  case (step y z)
  have "repo_wf y" by (rule outbox_lease.run_good[OF step(1) reachable_repo_wf[OF assms(1)]])
  then have "outbox_moves y z" using repo_step_good[OF step(2)] by (simp add: good_step_def)
  from outbox_moves_get(1)[OF this step.IH] assms(4) show ?case by (auto simp: outbox_move_def)
qed (rule assms(3))

lemma delivery_final_witness:
  "map_option outbox_status (outbox_row_of oid0 (snd (claim_outbox host0 ''z'' 10 60 (Some 900) db_delivered))) = Some OutDelivered"
proof -
  obtain r where r: "outbox_row_of oid0 db_delivered = Some r" "outbox_status r = OutDelivered"
    using outbox_summaries(4) by auto
  have "repo_step\<^sup>*\<^sup>* db_delivered (snd (claim_outbox host0 ''z'' 10 60 (Some 900) db_delivered))"
    by (rule r_into_rtranclp) (rule step_claim)
  from delivery_final[OF sample_reachable(13) this r(1)] r(2) show ?thesis by simp
qed

text \<open>
  C29: the pump acknowledges only what its handlers handled.  Whatever one dispatch does (and
  however it ends), a row it leaves delivered was delivered before, or belongs to an event all of
  whose handlers returned.
\<close>

theorem pump_acknowledges_handled:
  assumes "reachable db" and "dispatch_once h consumer ttl has_handlers deliver limit db = (x, db')"
    and "r \<in> set (outbox db')" and "outbox_status r = OutDelivered"
  shows "r \<in> set (outbox db) \<or>
    (\<exists>e\<in>set (events db). event_id e = outbox_event_id r \<and> deliver e = Handled)"
  using dispatch_once_delivered[OF reachable_log_wf[OF assms(1)] assms(2)] assms(3,4)
  by (auto simp: delivered_ok_def)

lemma dispatch_run:
  "case dispatch_once host0 ''z'' 60 True (\<lambda>_. Handled) 10 db_logged of (x, d) \<Rightarrow>
     x = Inr 1 \<and> map outbox_status (outbox d) = [OutDelivered] \<and> map outbox_status (outbox db_logged) = [OutPending]"
  by code_simp

lemma pump_acknowledges_handled_witness:
  "\<exists>d r. dispatch_once host0 ''z'' 60 True (\<lambda>_. Handled) 10 db_logged = (Inr 1, d) \<and> r \<in> set (outbox d) \<and>
     (\<exists>e\<in>set (events db_logged). event_id e = outbox_event_id r)"
proof -
  obtain d where run: "dispatch_once host0 ''z'' 60 True (\<lambda>_. Handled) 10 db_logged = (Inr 1, d)"
    and st: "map outbox_status (outbox d) = [OutDelivered]" "map outbox_status (outbox db_logged) = [OutPending]"
    using dispatch_run by (auto split: prod.splits)
  from st(1) obtain r where r: "r \<in> set (outbox d)" "outbox_status r = OutDelivered" by (cases "outbox d") auto
  have "r \<notin> set (outbox db_logged)" using st(2) r(2) by (cases "outbox db_logged") auto
  with pump_acknowledges_handled[OF sample_reachable(10) run r] run r(1) show ?thesis by blast
qed

text \<open>
  A delivery that fails with a long error text cannot be rejected.  The pump passes the
  handler's whole exception text; above 4000 characters the reject itself raises, so the row keeps
  its lease, its attempts are not charged to a retry, and it never becomes dead.
\<close>

theorem long_error_not_rejected:
  assumes "outbox_holder db i = Some (w, e)" and "4000 < length (py_strip err)"
  shows "isl (fst (reject_outbox h i w e err dl m now db)) \<and> snd (reject_outbox h i w e err dl m now db) = db"
proof -
  have "isl (fst (reject_outbox h i w e err dl m now db))"
  proof (rule ccontr)
    assume "\<not> ?thesis"
    then obtain st db' where "reject_outbox h i w e err dl m now db = (Inr st, db')"
      by (metis prod.collapse sum.collapse(2))
    then have "\<exists>t. text_arg err ''outbox error'' False 4000 = Inr t"
      by (auto simp: reject_outbox_def db_write_Inr Let_def split: option.splits)
    with assms(2) show False by (auto simp: text_arg_Inr)
  qed
  moreover from this obtain er where "reject_outbox h i w e err dl m now db = (Inl er, snd (reject_outbox h i w e err dl m now db))"
    by (metis prod.collapse sum.collapse(1))
  then have "snd (reject_outbox h i w e err dl m now db) = db"
    unfolding reject_outbox_def by (rule db_write_Inl)
  ultimately show ?thesis ..
qed

lemma long_error_not_rejected_witness:
  "snd (reject_outbox host0 oid0 ''p'' 1 (replicate 4001 CHR ''x'') 1 20 None db_claimed) = db_claimed"
proof -
  have x: "\<not> py_space (CHR ''x'')" by code_simp
  have "py_strip (replicate 4001 CHR ''x'') = replicate 4001 CHR ''x''"
    by (rule py_strip_visible) (use x in auto)
  then have "4000 < length (py_strip (replicate 4001 CHR ''x''))" by simp
  from long_error_not_rejected[OF outbox_summaries(2) this] show ?thesis by blast
qed

section \<open>Projections\<close>



end
