(* ===== verification/Work_Job_Properties.thy ===== *)
theory Work_Job_Properties
  imports Work_Samples
begin

text \<open>
  Properties of the jobs: creation, the lease protocol, the life cycle, cancellation, recovery
  and the services above them, each with a concrete run of the sample host.
\<close>

lemma reachable_store_wf: "reachable db \<Longrightarrow> store_wf db"
  using reachable_repo_wf by (simp add: repo_wf_def)

lemma reachable_jobs_wf: "reachable db \<Longrightarrow> jobs_wf db"
  using reachable_store_wf by simp

lemma job_summary_row:
  "job_summary db = Some (st, w, e, v, b) \<Longrightarrow> \<exists>r. get_job ''j'' db = Some r \<and> status r = st \<and> lease_owner r = w \<and>
     lease_epoch r = e \<and> revision r = v \<and> cancel_requested r = b"
  by (auto simp: job_summary_def)

lemma get_job_set: "get_job j db = Some r \<Longrightarrow> r \<in> set (jobs db) \<and> job_id r = j"
  by (auto simp: get_job_def find_Some_iff)

lemma set_get_job: "jobs_wf db \<Longrightarrow> r \<in> set (jobs db) \<Longrightarrow> get_job (job_id r) db = Some r"
  unfolding get_job_def jobs_wf_def by (blast intro: find_distinct_key)

section \<open>The table\<close>

text \<open>
  C3: the invariant of the job table in every reachable database.  Identifiers are unique; a row
  holds a lease exactly while it is leased or running, is complete exactly when terminal, never
  exceeds its attempts, a cancelled one is never queued, leased or successful; and its revision is
  the number of events in its history.
\<close>

theorem reachable_jobs_invariant:
  assumes "reachable db"
  shows "distinct (map job_id (jobs db)) \<and>
    (\<forall>r\<in>set (jobs db).
       (lease_expires_at r \<noteq> None \<longleftrightarrow> status r \<in> job_leased_states) \<and>
       (lease_owner r \<noteq> [] \<longleftrightarrow> status r \<in> job_leased_states) \<and>
       (completed_at r \<noteq> None \<longleftrightarrow> status r \<in> job_terminal_states) \<and>
       0 \<le> attempt r \<and> attempt r \<le> max_attempts r \<and>
       (\<not> cancel_requested r \<or> status r \<notin> {Queued, Leased, Succeeded}) \<and>
       revision r = int (length (versions db ''job'' (job_id r))))"
proof -
  have s: "store_wf db" by (rule reachable_store_wf[OF assms])
  then have l: "log_wf db" and j: "jobs_wf db" by (simp_all add: store_wf_def)
  show ?thesis
    using j max_version_length[OF l] by (auto simp: jobs_wf_def job_row_wf_def)
qed

lemma reachable_jobs_invariant_witness:
  "\<exists>r\<in>set (jobs db_leased). status r = Leased \<and> lease_expires_at r \<noteq> None \<and> length (versions db_leased ''job'' ''j'') = 2"
proof -
  obtain r where r: "get_job ''j'' db_leased = Some r" "status r = Leased" "revision r = 2"
    using job_summary_row[OF job_summaries(2)] by blast
  from reachable_jobs_invariant[OF sample_reachable(2)] get_job_set[OF r(1)] r(2,3)
  have "lease_expires_at r \<noteq> None" "2 = int (length (versions db_leased ''job'' ''j''))"
    by (auto simp: job_leased_states_def)
  with get_job_set[OF r(1)] r(2) show ?thesis by force
qed

text \<open>
  C25: refinement of the life cycle.  Any operation of the repository, with any arguments, moves
  every job along the abstract life cycle or leaves its state alone, never lowers its revision,
  and changes its lease epoch only by claiming it from the queue, by one.  Jobs are never
  deleted.
\<close>

theorem lifecycle_refined:
  assumes "reachable db" and "repo_step db db'" and "get_job j db = Some r"
  shows "\<exists>r'. get_job j db' = Some r' \<and> status r' \<in> insert (status r) (lifecycle (status r)) \<and>
    revision r \<le> revision r' \<and>
    (lease_epoch r' = lease_epoch r \<or>
     lease_epoch r' = lease_epoch r + 1 \<and> status r = Queued \<and> status r' = Leased)"
proof -
  have "job_moves db db'"
    using repo_step_good[OF assms(2) reachable_repo_wf[OF assms(1)]] by (simp add: good_step_def)
  from job_moves_get(1)[OF this assms(3)] show ?thesis unfolding job_move_def by blast
qed

lemma lifecycle_refined_witness:
  "\<exists>r'. get_job ''j'' db_leased = Some r' \<and> status r' \<in> {Queued, Leased, Paused, Cancelled}"
proof -
  obtain r where "get_job ''j'' db_created = Some r" "status r = Queued"
    using job_summary_row[OF job_summaries(1)] by blast
  with lifecycle_refined[OF sample_reachable(1) sample_steps(2) this(1)] show ?thesis by auto
qed

text \<open>
  A settled job is a constant.  Once a job has succeeded or been cancelled, no sequence of
  operations changes any column of its row.
\<close>

theorem settled_job_constant:
  assumes "reachable db" and "repo_step\<^sup>*\<^sup>* db db'" and "get_job j db = Some r"
    and "status r \<in> {Succeeded, Cancelled}"
  shows "get_job j db' = Some r"
  by (rule run_settled[OF assms(2) reachable_repo_wf[OF assms(1)] assms(3,4)])

lemma settled_job_constant_witness:
  "get_job ''j'' (snd (wake_job host0 ''j'' None None None db_finished)) = get_job ''j'' db_finished"
proof -
  obtain r where r: "get_job ''j'' db_finished = Some r" "status r = Succeeded"
    using job_summary_row[OF job_summaries(5)] by blast
  have "repo_step\<^sup>*\<^sup>* db_finished (snd (wake_job host0 ''j'' None None None db_finished))"
    by (rule r_into_rtranclp) (rule step_wake)
  from settled_job_constant[OF sample_reachable(5) this r(1)] r show ?thesis by simp
qed

section \<open>Creation\<close>

lemma store_json_onorm: "store_json h m = Inr x \<Longrightarrow> x = onorm m"
  by (auto simp: store_json_def split: if_splits)

text \<open>
  Creating a job is idempotent.  Sending the same request (with an idempotency key) again
  returns the job it created, without a second job, event or outbox row.
\<close>

theorem create_job_idempotent:
  assumes "reachable db" and "create_job h q db = (Inr job, db1)" and "py_strip (jr_idempotency_key q) \<noteq> []"
    and "json_ok (JObj (jr_input_manifest q))" and "json_ok (JObj (jr_retry_policy q))" and "db1 \<noteq> db"
  shows "create_job h q db1 = (Inr job, db1)"
proof -
  have wf: "jobs_wf db" by (rule reachable_jobs_wf[OF assms(1)])
  have tx: "create_job_tx h q db = Inr (job, db1)" and nf: "''work.before_commit'' \<notin> set (faults h)"
    using assms(2) by (simp_all add: create_job_def db_write_Inr)
  from tx obtain c where c: "clean_job_args h q = Inr c" by (auto simp: create_job_tx_def)
  then have idem: "cj_idem c \<noteq> []" and requested: "text_arg (jr_job_id q) ''job_id'' False 512 = Inr (cj_requested c)"
    using assms(3) by (auto simp: clean_job_args_def text_arg_Inr)
  have none: "prior_job c db = None"
    using tx c assms(6) by (auto simp: create_job_tx_def split: option.splits)
  from tx c none obtain manifest policy where
    stored: "store_json h (jr_input_manifest q) = Inr manifest" "store_json h (jr_retry_policy q) = Inr policy" and
    new: "job_id (new_job_row h q c manifest policy db) \<notin> job_id ` set (jobs db)" and
    emit: "emit_job h (job_id (new_job_row h q c manifest policy db)) ''job.created'' (jr_actor q) (\<lambda>_. [])
        (no_trace\<lparr>trace_correlation := jr_correlation_id q, trace_idempotency := cj_idem c\<rparr>)
        (db\<lparr>draws := Suc (draws db), jobs := jobs db @ [new_job_row h q c manifest policy db]\<rparr>)
        = Inr (job, db1)"
    by (auto simp: create_job_tx_def insert_job_tx_def Let_def)
  define row where "row = new_job_row h q c manifest policy db"
  note new = new[folded row_def] and emit = emit[folded row_def] and eqs = stored[THEN store_json_onorm]
  have "clean_id (new_job_id h c db)"
    using clean_id_requested[OF requested] clean_id_new by (simp add: new_job_id_def)
  then have fresh: "fresh_job row" by (simp add: fresh_job_def new_job_row_def row_def)
  obtain n where job: "job = row\<lparr>event_cursor := n\<rparr>" and js: "jobs db1 = jobs db @ [job]"
  proof (rule emit_created[OF wf fresh new emit])
    fix e o' d
    assume j: "job = row\<lparr>event_cursor := sequence e\<rparr>" and d: "db1 = d\<lparr>jobs := jobs db @ [job]\<rparr>"
    have "jobs db1 = jobs db @ [job]" unfolding d by simp
    then show thesis by (rule that[OF j])
  qed
  have "prior_job c db1 = Some job"
    using none idem by (simp add: prior_job_def js find_append) (simp add: job row_def new_job_row_def)
  moreover have "same_job_request q (job_request_fingerprint h (cj_kind c) (cj_owner_kind c) (cj_owner_id c)
      (cj_scope c) (cj_refs c) q) (cj_requested c) (cj_scope c) (cj_refs c) job"
    using py_eq_onorm[OF assms(4)] py_eq_onorm[OF assms(5)]
    by (simp add: same_job_request_def job row_def eqs new_job_row_def new_job_id_def or_now_def split: option.splits)
  ultimately have "create_job_tx h q db1 = Inr (job, db1)"
    using c by (simp add: create_job_tx_def)
  with nf show ?thesis by (simp add: create_job_def db_write_Inr)
qed

lemma create_job_idempotent_witness:
  "\<exists>job. create_job host0 job0 db_created = (Inr job, db_created)"
proof -
  obtain job where run: "create_job host0 job0 empty_db = (Inr job, db_created)" using job_runs(1) by blast
  have k: "py_strip (jr_idempotency_key job0) \<noteq> []" "json_ok (JObj (jr_input_manifest job0))"
    "json_ok (JObj (jr_retry_policy job0))" by code_simp+
  have "get_job ''j'' db_created \<noteq> None" using job_summary_row[OF job_summaries(1)] by auto
  then have ne: "db_created \<noteq> empty_db" by (auto simp: get_job_def) (simp add: empty_db_def)
  show ?thesis by (rule exI) (rule create_job_idempotent[OF reachable_empty run k ne])
qed

section \<open>The lease\<close>

text \<open>
  C27: claiming.  A claim returns the first leasable job in the order of priority, readiness, age
  and identifier, leased to the caller under the next epoch until the lease time has passed; when
  it returns nothing, nothing was leasable and nothing changed.
\<close>

theorem lease_takes_first:
  assumes "reachable db" and "lease_next_job h owner kinds xs ttl now db = (Inr found, db')"
  shows "case found of
    None \<Rightarrow> db' = db \<and> filter (leasable (or_now h now) (map py_strip kinds) xs) (jobs db) = []
  | Some job \<Rightarrow> \<exists>row\<in>set (jobs db). leasable (or_now h now) (map py_strip kinds) xs row \<and>
      (\<forall>r\<in>set (filter (leasable (or_now h now) (map py_strip kinds) xs) (jobs db)). lease_order row \<le> lease_order r) \<and>
      get_job (job_id row) db' = Some job \<and> status job = Leased \<and> lease_owner job = py_strip owner \<and>
      lease_epoch job = lease_epoch row + 1 \<and> lease_expires_at job = Some (or_now h now + max 2 ttl) \<and>
      attempt job = attempt row + (if continuation row then 0 else 1)"
proof (cases found)
  case None
  with lease_next_job_None[of h owner kinds xs ttl now db db'] assms(2) show ?thesis
    by (auto simp: filter_empty_conv)
next
  case (Some job)
  have wf: "jobs_wf db" by (rule reachable_jobs_wf[OF assms(1)])
  from assms(2) Some have run: "lease_next_job h owner kinds xs ttl now db = (Inr (Some job), db')" by simp
  from lease_next_job_Inr[OF wf run] obtain row where
    row: "row \<in> set (jobs db)" "leasable (or_now h now) (map py_strip kinds) xs row"
    and least: "\<And>r. r \<in> set (jobs db) \<Longrightarrow> leasable (or_now h now) (map py_strip kinds) xs r \<Longrightarrow> lease_order row \<le> lease_order r"
    and m: "job_mutation db (job_id row) (lease_row (py_strip owner) (or_now h now + max 2 ttl) (or_now h now))
       ''job.leased'' job db'" by metis
  have g: "get_job (job_id row) db' = Some job"
    using job_mutation_lookup(1)[OF m row_update_ids(1), of "job_id row"] by (simp add: get_job_def)
  have "job_row_tx (job_id row) db = Inr row"
    using set_get_job[OF wf row(1)] by (simp add: job_row_tx_Inr get_job_def)
  from job_mutation_row[OF m this] obtain n where
    "job = (lease_row (py_strip owner) (or_now h now + max 2 ttl) (or_now h now) row)\<lparr>event_cursor := n\<rparr>" by blast
  with row least g Some show ?thesis by (auto simp: lease_row_def intro!: bexI[of _ row])
qed

lemma lease_takes_first_witness:
  "\<exists>job. lease_next_job host0 ''w'' [] [] 60 None db_created = (Inr (Some job), db_leased) \<and>
     lease_owner job = ''w'' \<and> lease_expires_at job = Some 160"
proof -
  obtain x where x: "lease_next_job host0 ''w'' [] [] 60 None db_created = (Inr x, db_leased)"
    using job_runs(2) by blast
  note L = lease_takes_first[OF sample_reachable(1) x]
  have "x \<noteq> None"
  proof
    assume "x = None"
    with L have "db_leased = db_created" by simp
    with job_summaries(1,2) show False by simp
  qed
  then obtain job where job: "x = Some job" by blast
  have "py_strip ''w'' = ''w''" by code_simp
  with L x job show ?thesis by (auto simp: or_now_def host0_def)
qed



text \<open>
  C2: mutual exclusion.  Along any run, two holders of the same job under the same epoch are the
  same worker, and epochs of later holders are never smaller.
\<close>

theorem one_worker_per_epoch:
  assumes "reachable s" and "repo_step\<^sup>*\<^sup>* s s'" and "job_holder s j = Some (w, e)"
    and "job_holder s' j = Some (w', e')"
  shows "e \<le> e' \<and> (e = e' \<longrightarrow> w = w')"
  by (rule job_lease.one_holder_per_epoch[OF assms(2) reachable_repo_wf[OF assms(1)] assms(3,4)])

lemma one_worker_per_epoch_witness:
  "(1 :: int) \<le> 2 \<and> job_holder db_leased2 ''j'' = Some (''v'', 2)"
proof -
  obtain r r' where r: "get_job ''j'' db_leased = Some r" "status r = Leased" "lease_owner r = ''w''" "lease_epoch r = 1"
    "get_job ''j'' db_leased2 = Some r'" "status r' = Leased" "lease_owner r' = ''v''" "lease_epoch r' = 2"
    using job_summary_row[OF job_summaries(2)] job_summary_row[OF job_summaries(4)] by blast
  then have h: "job_holder db_leased ''j'' = Some (''w'', 1)" "job_holder db_leased2 ''j'' = Some (''v'', 2)"
    by (simp_all add: job_holder_def job_leased_states_def)
  have "repo_step\<^sup>*\<^sup>* db_leased db_leased2" using sample_steps(3,4) by (meson r_into_rtranclp rtranclp.rtrancl_into_rtrancl)
  from one_worker_per_epoch[OF sample_reachable(2) this h] h show ?thesis by simp
qed

end
