(* ===== verification/Work_Settled.thy ===== *)
theory Work_Settled
  imports Work_Repository
begin

text \<open>
  Settled interactions and recorded receipts along any run of the repository: neither is ever
  changed or removed.
\<close>

definition settled_kept :: "work_db \<Rightarrow> work_db \<Rightarrow> bool" where
  "settled_kept db db' \<longleftrightarrow>
     (\<forall>i r. interaction_row_of i db = Some r \<longrightarrow> (\<exists>r'. interaction_row_of i db' = Some r' \<and>
        (interaction_terminal r \<longrightarrow> r' = r))) \<and>
     (\<exists>rs. operations db' = operations db @ rs)"

lemma settled_kept_same:
  "interactions db' = interactions db \<Longrightarrow> operations db' = operations db @ rs \<Longrightarrow> settled_kept db db'"
  by (auto simp: settled_kept_def interaction_row_of_def)

lemma settled_kept_unchanged:
  "interactions db' = interactions db \<Longrightarrow> operations db' = operations db \<Longrightarrow> settled_kept db db'"
  by (rule settled_kept_same[where rs = "[]"]) simp_all

lemma settled_kept_refl: "settled_kept db db"
  by (simp add: settled_kept_unchanged)

lemma settled_kept_job: "job_step db db' \<Longrightarrow> settled_kept db db'"
  by (rule settled_kept_unchanged) (simp_all add: job_step_def others_same_def)

lemma settled_kept_ix: "ix_step db db' \<Longrightarrow> settled_kept db db'"
  by (simp add: settled_kept_def ix_step_def)

lemma settled_kept_outbox: "outbox_step db db' \<Longrightarrow> settled_kept db db'"
  by (rule settled_kept_unchanged) (auto simp: outbox_step_def)

lemma settled_kept_append: "settled_kept db (snd (append_event h q db))"
  unfolding append_event_def
proof (rule db_write_invariant[where I = "settled_kept db"])
  fix e db'
  assume "insert_event_tx h q db = Inr (e, db')"
  then show "settled_kept db db'"
  proof (cases rule: insert_event_tx_cases)
    case replay
    then show ?thesis by (simp add: settled_kept_refl)
  next
    case (append c o')
    then show ?thesis using appended_frame[OF append(3)] by (intro settled_kept_unchanged)
  qed
qed (rule settled_kept_refl)

lemma settled_kept_receipt:
  assumes "log_wf db" and "operations_wf db"
  shows "settled_kept db (snd (record_operation_receipt h q db))"
proof (cases "record_operation_receipt h q db")
  case (Pair x db')
  show ?thesis
  proof (cases x)
    case (Inl e)
    have "db' = db"
      using Pair[unfolded Inl] by (auto simp: record_operation_receipt_def split: sum.splits dest: db_write_Inl)
    with Pair show ?thesis by (simp add: settled_kept_refl)
  next
    case (Inr r)
    from assms Pair[unfolded Inr] show ?thesis
    proof (cases rule: record_receipt_cases)
      case replay
      with Pair show ?thesis by (simp add: settled_kept_refl)
    next
      case (recorded c e o' db1)
      then show ?thesis
        using appended_frame[OF recorded(2)] Pair by (intro settled_kept_same[where rs = "[r]"]) simp_all
    qed
  qed
qed

lemma repo_step_settled:
  assumes "repo_step db db'" and wf: "repo_wf db"
  shows "settled_kept db db'"
proof -
  have s: "store_wf db" "log_wf db" "operations_wf db" "interactions_wf db"
    using wf by (simp_all add: repo_wf_def store_wf_def)
  note job = settled_kept_job and out = settled_kept_outbox and ix = settled_kept_ix
  from assms(1) show ?thesis
  proof cases
    case (step_append q h)
    then show ?thesis by (simp add: settled_kept_append)
  next
    case (step_receipt h rq)
    then show ?thesis using settled_kept_receipt[OF s(2,3)] by simp
  next
    case (step_recover_operations h before)
    then show ?thesis using recover_stale_none(1)[OF s(3)] by (simp add: settled_kept_refl)
  next
    case (step_reduce h name f initial b)
    obtain t where "db' = db\<lparr>projections := t\<rparr>"
      using step_reduce reduce_projection_frame by metis
    then show ?thesis by (intro settled_kept_unchanged) simp_all
  next
    case (step_goal_input gq h)
    then show ?thesis
      using create_goal_input_step[OF s(2,4)] by (auto intro!: ix ix_write_step[OF s(2,4)])
  next
    case (step_goal_answer h i resp v iactor corr now)
    then show ?thesis
      using resolve_goal_input_step[OF s(2,4)] by (auto intro!: ix ix_write_step[OF s(2,4)])
  next
    case (step_goal_dismiss h i v iactor corr now)
    then show ?thesis
      using dismiss_goal_input_step[OF s(2,4)] by (auto intro!: ix ix_write_step[OF s(2,4)])
  qed (simp_all add: job job_operation_steps[OF s(1)] out outbox_operation_steps[OF s(2)] ix
      create_interaction_step[OF s(2,4)] resolve_interaction_step[OF s(2,4)])
qed

lemma run_settled_interaction:
  assumes "repo_step\<^sup>*\<^sup>* db db'" and "repo_wf db" and "interaction_row_of i db = Some r" and "interaction_terminal r"
  shows "interaction_row_of i db' = Some r"
  using assms(1)
proof (induction rule: rtranclp_induct)
  case (step y z)
  have "repo_wf y" by (rule job_lease.run_good[OF step(1) assms(2)])
  from repo_step_settled[OF step(2) this] step.IH assms(4) show ?case by (auto simp: settled_kept_def)
qed (rule assms(3))

lemma run_operations:
  assumes "repo_step\<^sup>*\<^sup>* db db'" and "repo_wf db"
  shows "\<exists>rs. operations db' = operations db @ rs"
  using assms(1)
proof (induction rule: rtranclp_induct)
  case (step y z)
  have "repo_wf y" by (rule job_lease.run_good[OF step(1) assms(2)])
  from repo_step_settled[OF step(2) this] step.IH show ?case by (auto simp: settled_kept_def)
qed simp

end
