(* ===== verification/Work_Item_Properties.thy ===== *)
theory Work_Item_Properties
  imports Work_Samples Work_Settled
begin

text \<open>
  Properties of the questions to the user (\<^verbatim>\<open>interactions.py\<close>), of the receipts of capability
  calls (\<^verbatim>\<open>repository.py\<close>, \<^verbatim>\<open>service.py\<close>) and of the error paths of every operation.
\<close>

section \<open>Interactions\<close>

text \<open>
  C33: a question is settled once.  No sequence of operations changes any column of an
  interaction that was answered, dismissed, cancelled or timed out: a second answer is refused
  or, if it is the same, answered with the recorded row.
\<close>

theorem interaction_settles_once:
  assumes "reachable db" and "interaction_row_of i db = Some r" and "interaction_terminal r"
    and "repo_step\<^sup>*\<^sup>* db db'"
  shows "interaction_row_of i db' = Some r"
  by (rule run_settled_interaction[OF assms(4) reachable_repo_wf[OF assms(1)] assms(2,3)])

lemma interaction_settles_once_witness:
  "map_option interaction_status (interaction_row_of ''q1''
     (snd (resolve_interaction host0 ''q1'' ''cancelled'' JNull None default_actor [] db_answered))) = Some IxAnswered"
proof -
  obtain r where r: "interaction_row_of ''q1'' db_answered = Some r" "interaction_status r = IxAnswered"
    using interaction_summaries(2) by blast
  have t: "interaction_terminal r" by (simp add: interaction_terminal_iff r(2))
  have "repo_step\<^sup>*\<^sup>* db_answered (snd (resolve_interaction host0 ''q1'' ''cancelled'' JNull None default_actor [] db_answered))"
    by (rule r_into_rtranclp) (rule step_resolve)
  from interaction_settles_once[OF sample_reachable(15) r(1) t this] r(2) show ?thesis by simp
qed

text \<open>A resolution that returns gives the settled row that is stored.\<close>

lemma resolve_stored:
  assumes "repo_wf db" and "resolve_interaction h i st resp expected actor corr db = (Inr r, db')"
  shows "interaction_terminal r \<and> interaction_row_of i db' = Some r \<and> repo_wf db'"
proof -
  have w: "log_wf db" "interactions_wf db" using assms(1) by (simp_all add: repo_wf_def store_wf_def)
  have g: "repo_wf db'" using repo_step_good[OF step_resolve assms(1)] assms(2)
    by (metis good_step_def snd_conv)
  from w assms(2) show ?thesis
  proof (cases rule: resolve_interaction_cases)
    case repeated
    with g show ?thesis by simp
  next
    case (settled t current)
    then have "interaction_terminal r" by (simp add: interaction_terminal_def resolved_row_def)
    with settled g show ?thesis by simp
  qed
qed

lemma wait_turn_stored:
  assumes wf: "repo_wf db" and b: "\<And>d. repo_wf d \<Longrightarrow> repo_wf (turn_before t d)"
    and w: "\<And>d. repo_wf d \<Longrightarrow> repo_wf (turn_between t d)"
    and run: "wait_turn_result i deadline t db = (x, db')"
  shows "repo_wf db' \<and> (\<forall>r. x = Some (Inr r) \<longrightarrow> interaction_terminal r \<and> interaction_row_of i db' = Some r)"
proof -
  let ?d = "turn_before t db"
  have g: "repo_wf ?d" "repo_wf (turn_between t ?d)" by (rule b[OF wf], rule w[OF b[OF wf]])
  show ?thesis
  proof (cases "interaction_row_of i ?d")
    case None
    with run g show ?thesis by (auto simp: wait_turn_result_def get_interaction_def Let_def)
  next
    case (Some r0)
    show ?thesis
    proof (cases "interaction_terminal r0 \<or> \<not> (case deadline of None \<Rightarrow> False | Some d \<Rightarrow> d \<le> turn_time t)")
      case True
      with run g Some show ?thesis
        by (auto simp: wait_turn_result_def get_interaction_def Let_def split: if_splits option.splits)
    next
      case False
      let ?R = "resolve_interaction (turn_host t) i ''timed_out'' JNull (Some (interaction_version r0))
        default_actor [] (turn_between t ?d)"
      have g': "repo_wf (snd ?R)" using repo_step_good[OF step_resolve g(2)] by (simp add: good_step_def)
      show ?thesis
      proof (cases ?R)
        case (Pair y d2)
        with run Some False have "(x, db') = (case y of Inl (WorkConflict m) \<Rightarrow> None | _ \<Rightarrow> Some y, d2)"
          by (auto simp: wait_turn_result_def get_interaction_def Let_def split: sum.splits py_err.splits if_splits option.splits)
        moreover have "interaction_terminal r \<and> interaction_row_of i d2 = Some r" if "y = Inr r" for r
          using resolve_stored[OF g(2) Pair[unfolded that]] by simp
        ultimately show ?thesis using g' Pair by (auto split: sum.splits py_err.splits)
      qed
    qed
  qed
qed

text \<open>
  Waiting for a question returns only its settled record, and that record is the stored one,
  however the polls, the time-out and the answers of other users interleave.
\<close>

theorem wait_returns_terminal:
  assumes "reachable db"
    and "list_all (\<lambda>t. (\<forall>d. repo_wf d \<longrightarrow> repo_wf (turn_before t d)) \<and> (\<forall>d. repo_wf d \<longrightarrow> repo_wf (turn_between t d))) ts"
    and "wait_interaction i deadline ts db = (Some (Inr r), db')"
  shows "interaction_terminal r \<and> interaction_row_of i db' = Some r"
  using reachable_repo_wf[OF assms(1)] assms(2,3)
proof (induction ts arbitrary: db)
  case (Cons t ts)
  obtain x d where X: "wait_turn_result i deadline t db = (x, d)" by (cases "wait_turn_result i deadline t db")
  from Cons.prems(2) have e: "repo_wf c \<Longrightarrow> repo_wf (turn_before t c)" "repo_wf c \<Longrightarrow> repo_wf (turn_between t c)" for c
    by simp_all
  from wait_turn_stored[OF Cons.prems(1) e X] Cons.IH[of d] Cons.prems(2,3) X show ?case
    by (cases x) auto
qed simp

definition turn0 :: wait_turn where
  "turn0 = \<lparr>turn_host = host0, turn_time = 5, turn_before = id, turn_between = id\<rparr>"

lemma wait_returns_terminal_witness:
  "\<exists>r db'. wait_interaction ''q1'' (Some 3) [turn0] db_answered = (Some (Inr r), db') \<and> interaction_terminal r"
proof -
  obtain r where r: "interaction_row_of ''q1'' db_answered = Some r" "interaction_status r = IxAnswered"
    using interaction_summaries(2) by blast
  have t: "interaction_terminal r" by (simp add: interaction_terminal_iff r(2))
  have run: "wait_interaction ''q1'' (Some 3) [turn0] db_answered = (Some (Inr r), db_answered)"
    by (simp add: wait_turn_result_def get_interaction_def Let_def turn0_def r(1) t)
  have "list_all (\<lambda>t. (\<forall>d. repo_wf d \<longrightarrow> repo_wf (turn_before t d)) \<and> (\<forall>d. repo_wf d \<longrightarrow> repo_wf (turn_between t d))) [turn0]"
    by (simp add: turn0_def)
  from wait_returns_terminal[OF sample_reachable(15) this run] run show ?thesis by blast
qed

section \<open>Receipts\<close>

lemma reachable_operations_wf: "reachable db \<Longrightarrow> operations_wf db"
  using reachable_repo_wf by (simp add: repo_wf_def)

text \<open>
  Recording a receipt is idempotent for ever.  Once a receipt was recorded, sending the same
  request after any further run of the repository returns the recorded row and changes nothing.
\<close>

theorem receipt_idempotent:
  assumes "reachable db" and "record_operation_receipt h q db = (Inr r, db1)" and "r \<notin> set (operations db)"
    and "repo_step\<^sup>*\<^sup>* db1 db2"
  shows "record_operation_receipt h q db2 = (Inr r, db2)"
proof -
  have wf: "log_wf db" "operations_wf db"
    using reachable_repo_wf[OF assms(1)] by (simp_all add: repo_wf_def store_wf_def)
  have g1: "repo_wf db1"
    using repo_step_good[OF step_receipt[of db h q] reachable_repo_wf[OF assms(1)]] assms(2)
    by (simp add: good_step_def)
  from wf assms(2) show ?thesis
  proof (cases rule: record_receipt_cases)
    case replay
    with assms(3) show ?thesis by simp
  next
    case (recorded c e o' d)
    obtain rs where "operations db2 = (operations db @ [r]) @ rs"
      using run_operations[OF assms(4) g1] recorded(6) by auto
    moreover have "find (\<lambda>r. operation_id r = cr_id c) (operations db) = None"
      using recorded(7,12) find_None_key[of operation_id "cr_id c" "operations db"] by simp
    ultimately have "find (\<lambda>r. operation_id r = cr_id c) (operations db2) = Some r"
      using recorded(7) by (simp add: find_append)
    then have tx: "record_operation_receipt_tx h q c db2 = Inr (r, db2)"
      using recorded(8,10) by (simp add: record_operation_receipt_tx_def)
    have "''work.before_commit'' \<notin> set (faults h)"
      using assms(2) recorded(1) by (simp add: record_operation_receipt_def db_write_Inr)
    with tx recorded(1) show ?thesis by (simp add: record_operation_receipt_def db_write_Inr)
  qed
qed

lemma receipt_idempotent_witness:
  "\<exists>r. record_operation_receipt host0 receipt0 db_receipt = (Inr r, db_receipt)"
proof -
  obtain r where run: "record_operation_receipt host0 receipt0 empty_db = (Inr r, db_receipt)"
    using interaction_runs(3) by blast
  have "r \<notin> set (operations empty_db)" by (simp add: empty_db_def)
  from receipt_idempotent[OF reachable_empty run this] show ?thesis by blast
qed

text \<open>
  No operation is ever left planned or running.  In every reachable database each recorded
  operation is terminal, so the recovery of stale operations finds nothing and changes nothing.
\<close>

theorem no_stale_operation_ever:
  assumes "reachable db"
  shows "list_all operation_terminal (operations db) \<and> snd (recover_stale_operations h before db) = db \<and>
    (case fst (recover_stale_operations h before db) of Inl e \<Rightarrow> e = InjectedFault ''work.before_commit'' | Inr rs \<Rightarrow> rs = [])"
proof -
  note wf = reachable_operations_wf[OF assms]
  have "list_all operation_terminal (operations db)"
    using wf by (auto simp: operations_wf_def aggregate_wf_def receipt_wf_def list_all_iff)
  moreover have "case fst (recover_stale_operations h before db) of Inl e \<Rightarrow> e = InjectedFault ''work.before_commit'' | Inr rs \<Rightarrow> rs = []"
    using no_stale_operation[OF wf, of before]
    by (auto simp: recover_stale_operations_def db_write_def sqlite_unit_of_work_def sqlite_transaction_def
        fault_point_def require_def split: sum.splits if_splits)
  ultimately show ?thesis using recover_stale_none(1)[OF wf] by simp
qed

lemma no_stale_operation_ever_witness: "list_all operation_terminal (operations db_receipt)"
  using no_stale_operation_ever[OF sample_reachable(16)] by blast

text \<open>
  C34: a capability call that failed but may have applied its effect is recorded as an unknown
  effect, never as a plain failure, so nothing retries it blindly.
\<close>

theorem failed_receipt_may_have_applied:
  assumes "reachable db" and "ingest_capability_receipt h (AMapping raw) db = (Inr r, db')"
    and "r \<notin> set (operations db)"
    and "text_or h [jget raw ''status''] ''error'' \<notin> {''ok'', ''cancelled'', ''cancelled_before_start''}"
    and "jget (mapping_or_empty (jget raw ''error'')) ''may_have_applied'' = Some v" and "truthy v"
  shows "operation_status r = OpUnknownEffect \<and> (\<exists>rs. operations db' = rs @ [r])"
proof -
  have wf: "log_wf db" "operations_wf db"
    using reachable_repo_wf[OF assms(1)] by (simp_all add: repo_wf_def store_wf_def)
  from assms(2) obtain q where q: "receipt_request_of h raw = Inr q"
    and run: "record_operation_receipt h q db = (Inr r, db')"
    by (auto simp: ingest_capability_receipt_def split: sum.splits)
  have st: "rr_status q = ''unknown_effect''"
    using q assms(4,5,6) by (auto simp: receipt_request_of_def Let_def receipt_operation_status_def)
  from wf run show ?thesis
  proof (cases rule: record_receipt_cases)
    case replay
    with assms(3) show ?thesis by simp
  next
    case (recorded c e o' d)
    have "operation_status_of (rr_status q) = Some (cr_status c)"
      using recorded(1) by (auto simp: clean_receipt_args_def split: option.splits)
    then have "cr_status c = OpUnknownEffect"
      by (simp add: st operation_status_of_def operation_states_def)
    with recorded show ?thesis by simp
  qed
qed

lemma failed_receipt_may_have_applied_witness:
  "\<exists>r db'. ingest_capability_receipt host0 (AMapping receipt1) empty_db = (Inr r, db') \<and> operation_status r = OpUnknownEffect"
proof -
  obtain r db' where run: "ingest_capability_receipt host0 (AMapping receipt1) empty_db = (Inr r, db')"
    using ingest_chain by (auto split: prod.splits) (metis isl_def sum.collapse(2))
  have "r \<notin> set (operations empty_db)" by (simp add: empty_db_def)
  moreover have "text_or host0 [jget receipt1 ''status''] ''error'' \<notin> {''ok'', ''cancelled'', ''cancelled_before_start''}"
    by code_simp
  moreover have "jget (mapping_or_empty (jget receipt1 ''error'')) ''may_have_applied'' = Some (JBool True)"
    by code_simp
  moreover have "truthy (JBool True)" by simp
  ultimately have "operation_status r = OpUnknownEffect"
    using failed_receipt_may_have_applied[OF reachable_empty run] by blast
  with run show ?thesis by blast
qed

section \<open>Errors\<close>

text \<open>An operation that raised left the database as it was.\<close>

definition kept_on_error :: "work_db \<Rightarrow> 'a res \<times> work_db \<Rightarrow> bool" where
  "kept_on_error db r = (case fst r of Inl e \<Rightarrow> snd r = db | Inr x \<Rightarrow> True)"

lemma kept_db_write [simp]: "kept_on_error db (db_write h body db)"
  by (cases "db_write h body db") (auto simp: kept_on_error_def dest: db_write_Inl split: sum.split)

lemma kept_Inl [simp]: "kept_on_error db (Inl e, db)"
  by (simp add: kept_on_error_def)

text \<open>
  Every mutating operation of the repository that raises, for whatever reason, leaves the
  whole database exactly as it was: no row, no event and no outbox entry of it remains.
\<close>

theorem failed_operation_changes_nothing:
  "kept_on_error db (append_event h q db) \<and>
   kept_on_error db (claim_outbox h consumer limit ttl now db) \<and>
   kept_on_error db (acknowledge_outbox h oid consumer epoch now db) \<and>
   kept_on_error db (reject_outbox h oid consumer epoch err dl m now db) \<and>
   kept_on_error db (recover_expired_outbox h now db) \<and>
   kept_on_error db (create_job h jq db) \<and>
   kept_on_error db (lease_next_job h owner kinds xs ttl now db) \<and>
   kept_on_error db (start_job h jid owner epoch sync expected now db) \<and>
   kept_on_error db (heartbeat_job h jid owner epoch ttl p now db) \<and>
   kept_on_error db (update_job_progress h jid pg owner epoch expected merge actor now db) \<and>
   kept_on_error db (mark_job_waiting h jid owner epoch p now db) \<and>
   kept_on_error db (wake_job h jid expected available actor db) \<and>
   kept_on_error db (pause_job h jid reason expected actor db) \<and>
   kept_on_error db (request_job_cancel h jid reason expected actor db) \<and>
   kept_on_error db (acknowledge_job_cancel h jid owner epoch now db) \<and>
   kept_on_error db (finish_job h jid fq db) \<and>
   kept_on_error db (release_job h jid owner epoch err dl unknown now db) \<and>
   kept_on_error db (retry_job h jid expected available reset actor db) \<and>
   kept_on_error db (recover_expired_job_leases h now db) \<and>
   kept_on_error db (record_operation_receipt h rq db) \<and>
   kept_on_error db (recover_stale_operations h before db) \<and>
   kept_on_error db (reduce_projection h name f initial b db) \<and>
   kept_on_error db (create_interaction h iq db) \<and>
   kept_on_error db (resolve_interaction h i st resp expected_version iactor corr db)"
proof (intro conjI)
  show "kept_on_error db (create_job h jq db)"
    unfolding create_job_def by (simp split: sum.split)
  show "kept_on_error db (claim_outbox h consumer limit ttl now db)"
    unfolding claim_outbox_def by (simp add: Let_def split: sum.split)
  show "kept_on_error db (lease_next_job h owner kinds xs ttl now db)"
    unfolding lease_next_job_def by (simp add: Let_def split: sum.split)
  show "kept_on_error db (pause_job h jid reason expected actor db)"
    unfolding pause_job_def by (simp add: Let_def split: sum.split)
  show "kept_on_error db (request_job_cancel h jid reason expected actor db)"
    unfolding request_job_cancel_def by (simp add: Let_def split: sum.split)
  show "kept_on_error db (record_operation_receipt h rq db)"
    unfolding record_operation_receipt_def by (simp split: sum.split)
  show "kept_on_error db (reduce_projection h name f initial b db)"
    unfolding reduce_projection_def by (simp add: Let_def split: sum.split)
  show "kept_on_error db (create_interaction h iq db)"
    unfolding create_interaction_def by (simp add: Let_def split: sum.split)
  show "kept_on_error db (resolve_interaction h i st resp expected_version iactor corr db)"
    unfolding resolve_interaction_def by (simp add: Let_def split: option.split)
qed (simp_all add: append_event_def acknowledge_outbox_def reject_outbox_def recover_expired_outbox_def
    start_job_def heartbeat_job_def update_job_progress_def mark_job_waiting_def wake_job_def
    acknowledge_job_cancel_def finish_job_def release_job_def retry_job_def
    recover_expired_job_leases_def recover_stale_operations_def)

end
