(* ===== verification/Work_Service_Properties.thy ===== *)
theory Work_Service_Properties
  imports Work_Samples Work_Settled
begin

text \<open>
  Properties of recovery, cancellation, commits, chat deletion, receipts and interactions, each
  with a concrete run of the sample host.
\<close>

lemma reachable_wfs:
  assumes "reachable db"
  shows "repo_wf db" "store_wf db" "log_wf db" "jobs_wf db" "operations_wf db" "interactions_wf db"
  using reachable_repo_wf[OF assms] by (simp_all add: repo_wf_def store_wf_def)

section \<open>Recovery\<close>

text \<open>
  C5: a recovery of expired leases that returns leaves no expired lease.  Each expired job is in
  the state the policy prescribes, without a holder and under its old epoch; every other job is
  untouched; and the returned list names exactly the expired jobs.
\<close>

theorem expired_leases_recovered:
  assumes "reachable db" and "recover_expired_job_leases h now db = (Inr js, db')"
  shows "filter (job_lease_expired (or_now h now)) (jobs db') = [] \<and>
    length js = length (filter (job_lease_expired (or_now h now)) (jobs db)) \<and>
    list_all (\<lambda>row. if job_lease_expired (or_now h now) row
      then \<exists>job. get_job (job_id row) db' = Some job \<and> status job = recovery_target h row \<and>
             lease_owner job = [] \<and> lease_epoch job = lease_epoch row
      else get_job (job_id row) db' = Some row) (jobs db)"
proof -
  note R = recovered_jobs_not_expired[OF reachable_wfs(2)[OF assms(1)] assms(2)]
  have "length js = length (expired_jobs (or_now h now) db)" using R(2) by (metis length_map)
  then have "length js = length (filter (job_lease_expired (or_now h now)) (jobs db))"
    by (simp add: expired_jobs_def)
  with R show ?thesis by (simp add: list_all_iff)
qed

lemma expired_leases_recovered_witness:
  "filter (job_lease_expired 200) (jobs db_leased) \<noteq> [] \<and> filter (job_lease_expired 200) (jobs db_recovered) = []"
proof -
  obtain js where "recover_expired_job_leases host0 (Some 200) db_leased = (Inr js, db_recovered)"
    using job_runs(3) by blast
  from expired_leases_recovered[OF sample_reachable(2) this] job_summaries(7) show ?thesis by (simp add: or_now_def)
qed

text \<open>
  A complete recovery pass (jobs, outbox, operations) that returns leaves neither an expired
  job lease nor an expired delivery, reports as many jobs as had expired, and keeps the
  repository's invariant.
\<close>

theorem recovery_pass_complete:
  assumes "reachable db" and "recovery_run_once h stale now db = (Inr rep, db')"
  shows "repo_wf db' \<and> filter (job_lease_expired (or_now h now)) (jobs db') = [] \<and>
    filter (outbox_expired (or_now h now)) (outbox db') = [] \<and>
    recovered_jobs rep = length (filter (job_lease_expired (or_now h now)) (jobs db))"
  using recovery_complete_lemma[OF reachable_wfs(1)[OF assms(1)] assms(2)] by blast

lemma host0_faults: "faults host0 = []"
  by (simp add: host0_def)

lemma recovery_run: "\<exists>rep db'. recovery_run_once host0 60 (Some 200) db_leased = (Inr rep, db')"
proof -
  obtain js where js: "recover_expired_job_leases host0 (Some 200) db_leased = (Inr js, db_recovered)"
    using job_runs(3) by blast
  obtain n d where out: "recover_expired_outbox host0 (Some 200) db_recovered = (Inr n, d)"
    by (auto simp: recover_expired_outbox_def db_write_Inr host0_faults sql_update_def)
  have "reachable d" using reachable_step[OF sample_reachable(3) step_recover_outbox[of _ host0 "Some 200"]] out by simp
  then have "operations_wf d" using reachable_repo_wf by (simp add: repo_wf_def)
  note none = no_stale_operation[OF this, of "200 - max 60 60"]
  have "\<exists>ops d'. recover_stale_operations host0 (200 - max 60 60) d = (Inr ops, d')"
    using none by (simp add: recover_stale_operations_def db_write_Inr host0_faults)
  with js out show ?thesis by (auto simp: recovery_run_once_def or_now_def Let_def)
qed

lemma recovery_pass_complete_witness:
  "\<exists>rep db'. recovery_run_once host0 60 (Some 200) db_leased = (Inr rep, db') \<and> 0 < recovered_jobs rep \<and>
     filter (job_lease_expired 200) (jobs db') = []"
proof -
  obtain rep db' where run: "recovery_run_once host0 60 (Some 200) db_leased = (Inr rep, db')"
    using recovery_run by blast
  from recovery_pass_complete[OF sample_reachable(2) run] run job_summaries(7) show ?thesis by (simp add: or_now_def)
qed

text \<open>What one recovery pass needs of every row it touches.\<close>

lemma recover_jobs_delays:
  "recover_jobs h tm rows db = Inr r \<Longrightarrow> row \<in> set rows \<Longrightarrow>
     \<exists>d. float_or_zero h (jget (retry_policy row) ''base_delay_s'') = Inr d"
proof (induction rows arbitrary: db r)
  case (Cons x rows)
  from Cons.prems(1) obtain job db1 r2 where one: "recover_one_job h tm x db = Inr (job, db1)"
    and rest: "recover_jobs h tm rows db1 = Inr r2" by (auto split: prod.splits)
  show ?case
  proof (cases "row = x")
    case True
    with one show ?thesis by (auto simp: recover_one_job_def Let_def)
  next
    case False
    with Cons.prems(2) Cons.IH[OF rest] show ?thesis by simp
  qed
qed simp

text \<open>
  C40: one unreadable retry policy blocks all recovery.  The policy of a job is stored without a
  check; if its \<^verbatim>\<open>base_delay_s\<close> is a text that is no number and its lease expires, the recovery
  raises on it and rolls back, so no expired job of the whole repository is ever recovered.
\<close>

theorem bad_policy_blocks_recovery:
  assumes "reachable db" and "row \<in> set (jobs db)" and "job_lease_expired (or_now h now) row"
    and "isl (float_or_zero h (jget (retry_policy row) ''base_delay_s''))"
  shows "isl (fst (recover_expired_job_leases h now db)) \<and> snd (recover_expired_job_leases h now db) = db"
proof (cases "recover_expired_job_leases h now db")
  case (Pair x db')
  show ?thesis
  proof (cases x)
    case (Inl e)
    have "db' = db" using Pair[unfolded Inl] unfolding recover_expired_job_leases_def by (rule db_write_Inl)
    with Pair Inl show ?thesis by simp
  next
    case (Inr js)
    have run: "recover_jobs h (or_now h now) (expired_jobs (or_now h now) db) db = Inr (js, db')"
      using Pair Inr by (simp add: recover_expired_job_leases_expired db_write_Inr)
    have "row \<in> set (expired_jobs (or_now h now) db)"
      using expired_jobs_selected(3)[OF reachable_wfs(4)[OF assms(1)]] assms(2,3) by simp
    from recover_jobs_delays[OF run this] assms(4) show ?thesis by auto
  qed
qed

lemma bad_policy_blocks_recovery_witness:
  "snd (recover_expired_job_leases host0 (Some 200) db_poisoned) = db_poisoned"
proof -
  obtain r where r: "r \<in> set (jobs db_poisoned)" "job_lease_expired 200 r"
    "isl (float_or_zero host0 (jget (retry_policy r) ''base_delay_s''))"
    using poison_chain unfolding db_poisoned_def filter_empty_conv by blast
  have c: "reachable (snd (create_job host0 job_bad empty_db))"
    by (rule reachable_step[OF reachable_empty step_create_job])
  have "reachable db_poisoned"
    unfolding db_poisoned_def by (rule reachable_step[OF c step_lease])
  from bad_policy_blocks_recovery[OF this r(1), of host0 "Some 200"] r(2,3) show ?thesis
    by (simp add: or_now_def)
qed

section \<open>Cancellation and commits\<close>

text \<open>
  C39: a cancellation can be lost.  When a running job parks itself as waiting after its
  cancellation was requested, asking again does nothing (the request is already recorded), and
  waking it queues it again with the request cleared, so it runs as if never cancelled.
\<close>

theorem waiting_cancellation_lost:
  assumes "reachable db" and "get_job j db = Some row" and "status row = Waiting" and "cancel_requested row"
    and "wake_job h j None available actor db = (Inr job, db')"
  shows "snd (request_job_cancel h j reason None actor' db) = db \<and>
    get_job j db' = Some job \<and> status job = Queued \<and> \<not> cancel_requested job"
proof -
  note wf = reachable_wfs(4)[OF assms(1)]
  have "snd (request_job_cancel h j reason None actor' db) = db"
  proof (cases "request_job_cancel h j reason None actor' db")
    case (Pair x s)
    show ?thesis
    proof (cases x)
      case (Inl e)
      then show ?thesis using Pair
        by (auto simp: request_job_cancel_def split: sum.splits dest: db_write_Inl)
    next
      case (Inr y)
      from wf Pair[unfolded Inr] show ?thesis
      proof (cases rule: request_job_cancel_Inr)
        case already
        with Pair show ?thesis by simp
      next
        case (requested r)
        from requested(1) assms(2,4) requested(4) show ?thesis by (simp add: job_row_tx_Inr get_job_def)
      qed
    qed
  qed
  moreover from wf assms(5) obtain r where r: "job_row_tx j db = Inr r"
    and m: "job_mutation db j (wake_row (or_now h available) (clock h)) ''job.woken'' job db'"
    by (rule wake_job_Inr)
  moreover have "get_job j db' = Some job"
    using job_mutation_lookup(1)[OF m, of j] by (simp add: get_job_def)
  moreover obtain n where "job = (wake_row (or_now h available) (clock h) r)\<lparr>event_cursor := n\<rparr>"
    using job_mutation_row[OF m r] by blast
  ultimately show ?thesis by (simp add: wake_row_def)
qed

lemma waiting_cancellation_lost_witness:
  "\<exists>job. get_job ''j'' db_woken = Some job \<and> status job = Queued \<and> \<not> cancel_requested job"
proof -
  obtain row where row: "get_job ''j'' db_waiting = Some row" "status row = Waiting" "cancel_requested row"
    using cancel_summaries(3) by (auto simp: job_summary_def)
  obtain job where "wake_job host0 ''j'' None None None db_waiting = (Inr job, db_woken)" using cancel_runs(4) by blast
  from waiting_cancellation_lost[OF sample_reachable(8) row this] show ?thesis by blast
qed

text \<open>
  The worker's view of its own job fails closed.  When the context tells a worker that it need
  not stop, the worker still holds the lease, its time has not run out, and nobody has asked to
  cancel the job.
\<close>

theorem worker_may_continue:
  assumes "cancellation_requested h cx db = Inr (False, cx')"
  shows "job_holder db (job_id (cx_job cx)) = Some (cx_owner cx, cx_epoch cx) \<and>
    (\<exists>row. get_job (job_id (cx_job cx)) db = Some row \<and> \<not> cancel_requested row \<and>
       (case lease_expires_at row of None \<Rightarrow> clock h < 0 | Some t \<Rightarrow> clock h < t))"
proof -
  from assms obtain row where "get_job (job_id (cx_job cx)) db = Some row"
    "lease_owner row = cx_owner cx" "lease_epoch row = cx_epoch cx" "status row \<in> {Leased, Running}"
    "clock h < (case lease_expires_at row of None \<Rightarrow> 0 | Some t \<Rightarrow> t)" "\<not> cancel_requested row"
    by (auto simp: cancellation_requested_def context_refresh_def require_job_def Let_def
        split: if_splits option.splits)
  then show ?thesis
    by (auto simp: job_holder_def job_leased_states_def split: option.splits)
qed

lemma worker_may_continue_witness:
  "job_holder db_leased2 ''j'' = Some (''v'', 2)"
proof -
  obtain r where r: "get_job ''j'' db_leased2 = Some r" "status r = Leased" "lease_owner r = ''v''" "lease_epoch r = 2"
    "\<not> cancel_requested r"
    using job_summaries(4) by (auto simp: job_summary_def)
  obtain x where x: "lease_next_job host0 ''v'' [] [] 60 (Some 200) db_recovered = (Inr x, db_leased2)"
    using job_runs(4) by blast
  have "\<exists>t. lease_expires_at r = Some t \<and> 200 < t"
  proof -
    have "x \<noteq> None"
    proof
      assume "x = None"
      then have "db_leased2 = db_recovered" using x by (intro lease_next_job_None(1)) simp
      with job_summaries(3,4) show False by simp
    qed
    then obtain job where "lease_next_job host0 ''v'' [] [] 60 (Some 200) db_recovered = (Inr (Some job), db_leased2)"
      using x by auto
    from lease_next_job_Inr[OF reachable_wfs(4)[OF sample_reachable(3)] this] obtain row where
      row: "row \<in> set (jobs db_recovered)"
      and m: "job_mutation db_recovered (job_id row) (lease_row (py_strip ''v'') (or_now host0 (Some 200) + max 2 60) (or_now host0 (Some 200))) ''job.leased'' job db_leased2"
      by metis
    have lk: "get_job a db_leased2 = (if a = job_id row then Some job else get_job a db_recovered)" for a
      using job_mutation_lookup(1)[OF m row_update_ids(1), of a] by (simp add: get_job_def)
    have "job_id row = ''j''"
      using lk[of "''j''"] job_summaries(3,4) by (auto simp: job_summary_def split: if_splits)
    then have "r = job" using lk[of "''j''"] r(1) by simp
    moreover have "job_row_tx (job_id row) db_recovered = Inr row"
      using find_distinct_key[of job_id "jobs db_recovered" row] row reachable_wfs(4)[OF sample_reachable(3)]
      by (simp add: job_row_tx_Inr jobs_wf_def)
    ultimately show ?thesis using job_mutation_row[OF m] by (force simp: lease_row_def or_now_def)
  qed
  moreover have "job_id r = ''j''" using r(1) by (auto simp: get_job_def find_Some_iff)
  ultimately have "cancellation_requested host0 (context0 db_leased2) db_leased2 = Inr (False, context0 db_leased2)"
    using r by (auto simp: cancellation_requested_def context0_def context_refresh_def require_job_def Let_def host0_def)
  from worker_may_continue[OF this] r \<open>job_id r = ''j''\<close> show ?thesis by (simp add: context0_def)
qed

text \<open>
  C6: a commit is all or nothing.  If it fails, the caller's writes are rolled back with it; if it
  succeeds, the worker held the lease, nobody had asked to cancel before or during the caller's
  writes, and the job is settled as succeeded together with them.
\<close>

theorem commit_atomic:
  assumes "reachable db" and "commit_result h cx publish during db = (x, db')"
    and "\<And>y s. publish db = Inr (y, s) \<Longrightarrow> store_wf s"
  shows "case x of Inl e \<Rightarrow> db' = db
    | Inr (res, job) \<Rightarrow> job_holder db (job_id (cx_job cx)) = Some (cx_owner cx, cx_epoch cx) \<and>
        (\<exists>row. get_job (job_id (cx_job cx)) db = Some row \<and> \<not> cancel_requested row) \<and>
        \<not> cx_local cx \<and> \<not> during \<and> status job = Succeeded \<and>
        (\<exists>s. publish db = Inr (res, s) \<and> job_step s db')"
proof (cases x)
  case (Inl e)
  with commit_result_Inl[of h cx publish during db e db'] assms(2) show ?thesis by simp
next
  case (Inr r)
  obtain res job where r: "r = (res, job)" by (cases r)
  from assms(2)[unfolded Inr r] assms(3) obtain row db1 where c: "job_row_tx (job_id (cx_job cx)) db = Inr row"
    "expect_lease row (cx_owner cx) (cx_epoch cx) (clock h) job_leased_states = Inr ()"
    "\<not> cancel_requested row" "\<not> cx_local cx" "\<not> during" "publish db = Inr (res, db1)"
    "status job = Succeeded" "job_step db1 db'"
    by (rule commit_result_Inr)
  have "job_holder db (job_id (cx_job cx)) = Some (cx_owner cx, cx_epoch cx)"
    by (rule expect_lease_holder[OF c(1,2) order_refl])
  with c Inr r show ?thesis by (auto simp: job_row_tx_Inr get_job_def)
qed

lemma commit_atomic_witness:
  "\<exists>res job db'. commit_result host0 (context0 db_leased2) (\<lambda>db. Inr (empty_result, db)) False db_leased2 =
     (Inr (res, job), db') \<and> status job = Succeeded"
proof -
  obtain res job db' where run: "commit_result host0 (context0 db_leased2) (\<lambda>db. Inr (empty_result, db)) False db_leased2 =
     (Inr (res, job), db')"
    using commit_runs by (metis prod.collapse sum.collapse(2))
  from commit_atomic[OF sample_reachable(4) run] reachable_wfs(2)[OF sample_reachable(4)] have "status job = Succeeded"
    by simp
  with run show ?thesis by blast
qed

text \<open>
  C37: deleting a chat terminates.  The loop that cancels a chat's jobs page by page always returns,
  and when it returns without an error no job of the chat is pending: each is terminal or has its
  cancellation requested.
\<close>

theorem delete_chat_terminates:
  assumes "reachable db" and "py_strip chat \<noteq> []"
  shows "\<exists>r db'. delete_chat h chat db = Some (r, db') \<and>
    (isl r \<or> list_all (\<lambda>row. status row \<in> job_terminal_states \<or> cancel_requested row \<or>
        chat_id (job_scope row) \<noteq> py_strip chat) (jobs db'))"
proof -
  from delete_chat_loop_ends[OF reachable_wfs(2)[OF assms(1)] assms(2), of h 0] obtain r db' where
    d: "delete_chat_loop h (py_strip chat) 0 db = Some (r, db')"
    and e: "\<And>m. r = Inr m \<Longrightarrow> pending_jobs (py_strip chat) db' = []" by blast
  have "isl r \<or> list_all (\<lambda>row. status row \<in> job_terminal_states \<or> cancel_requested row \<or>
        chat_id (job_scope row) \<noteq> py_strip chat) (jobs db')"
    using e by (cases r) (auto simp: pending_jobs_def pending_in_def filter_empty_conv list_all_iff)
  with d assms(2) show ?thesis by (simp add: delete_chat_def)
qed

lemma delete_chat_terminates_witness:
  "\<exists>r db'. delete_chat host0 ''c'' db_created = Some (r, db')"
proof -
  have "py_strip ''c'' \<noteq> []" by code_simp
  from delete_chat_terminates[OF sample_reachable(1) this] show ?thesis by blast
qed

end
