(* ===== verification/Work_Scheduler.thy ===== *)
theory Work_Scheduler
  imports Work_Service "HOL-Library.AList"
begin

text \<open>
  The scheduler (\<^verbatim>\<open>work_fabric/scheduler.py\<close>): which kinds are eligible, admission under the
  concurrency limits, and the execution of one leased job with every way its handler can end.

  The scheduler's dictionaries are association lists in insertion order.  Between two repository
  calls of one execution anything may happen to the database: \<open>xe_before\<close> says what, and
  \<open>xe_host\<close> gives each call its clock.
\<close>

section \<open>State\<close>

text \<open>A limit is a number or a callable, which may raise or return something \<^verbatim>\<open>int()\<close> rejects.\<close>

datatype concurrency_limit = LimitIs int | LimitFails

record scheduler =
  sc_worker :: string
  sc_max :: int
  sc_ttl :: rat
  sc_handlers :: "(string \<times> bool) list"
  sc_limits :: "(string \<times> concurrency_limit) list"
  sc_active :: "(string \<times> string) list"

text \<open>A handler is its \<^verbatim>\<open>iscoroutinefunction\<close> flag; one that is not callable is \<open>None\<close>.\<close>

definition register_handler ::
  "string \<Rightarrow> bool option \<Rightarrow> concurrency_limit option \<Rightarrow> scheduler \<Rightarrow> scheduler res" where
  "register_handler kind handler limit s =
     (let k = py_strip kind in
      ebind (require (k \<noteq> []) (ValueError ''job handler kind is required'')) (\<lambda>_.
      case handler of
        None \<Rightarrow> Inl (TypeErr ''job handler must be callable'')
      | Some is_async \<Rightarrow>
          Inr (s\<lparr>sc_handlers := AList.update k is_async (sc_handlers s),
                 sc_limits := (case limit of None \<Rightarrow> AList.delete k (sc_limits s)
                               | Some l \<Rightarrow> AList.update k l (sc_limits s))\<rparr>)))"

text \<open>The constructor; \<open>drawn\<close> is what \<^verbatim>\<open>default_worker_id()\<close> would draw.\<close>

definition new_scheduler ::
  "string \<Rightarrow> string \<Rightarrow> (string \<times> bool option) list \<Rightarrow> int \<Rightarrow> rat \<Rightarrow> scheduler res" where
  "new_scheduler drawn worker handlers m ttl =
     efold (\<lambda>(k, handler). register_handler k handler None) handlers
       \<lparr>sc_worker = (if worker = [] then drawn else worker), sc_max = max 1 m, sc_ttl = max 6 ttl,
        sc_handlers = [], sc_limits = [], sc_active = []\<rparr>"

definition unregister_handler :: "string \<Rightarrow> scheduler \<Rightarrow> scheduler" where
  "unregister_handler kind s = s\<lparr>sc_handlers := AList.delete kind (sc_handlers s),
     sc_limits := AList.delete kind (sc_limits s)\<rparr>"

section \<open>Admission\<close>

definition active_count :: "string \<Rightarrow> scheduler \<Rightarrow> int" where
  "active_count kind s = int (length (filter (\<lambda>p. snd p = kind) (sc_active s)))"

fun limit_of :: "scheduler \<Rightarrow> concurrency_limit \<Rightarrow> int" where
  "limit_of s (LimitIs v) = max 1 (min (sc_max s) v)"
| "limit_of s LimitFails = 1"

definition eligible_kinds :: "scheduler \<Rightarrow> string list" where
  "eligible_kinds s = filter (\<lambda>k. case map_of (sc_limits s) k of None \<Rightarrow> True
     | Some l \<Rightarrow> active_count k s < limit_of s l) (map fst (sc_handlers s))"

definition track :: "string \<Rightarrow> string \<Rightarrow> scheduler \<Rightarrow> scheduler" where
  "track jid kind s = s\<lparr>sc_active := AList.update jid kind (sc_active s)\<rparr>"

text \<open>The done callback of the tracked task.\<close>

definition task_done :: "string \<Rightarrow> scheduler \<Rightarrow> scheduler" where
  "task_done jid s = s\<lparr>sc_active := AList.delete jid (sc_active s)\<rparr>"

text \<open>
  The body of \<^verbatim>\<open>for _ in range(available)\<close>; \<open>w n\<close> is what happened to the database before the
  n-th claim (jobs of this scheduler only start once the loop has returned control).
\<close>

fun admit_loop ::
  "host \<Rightarrow> (nat \<Rightarrow> work_db \<Rightarrow> work_db) \<Rightarrow> nat \<Rightarrow> nat \<Rightarrow> scheduler \<Rightarrow> work_db \<Rightarrow> nat res \<times> scheduler \<times> work_db" where
  "admit_loop h w 0 started s db = (Inr started, s, db)"
| "admit_loop h w (Suc n) started s db =
     (if eligible_kinds s = [] then (Inr started, s, db)
      else case lease_next_job h (sc_worker s) (eligible_kinds s) (map fst (sc_active s)) (sc_ttl s) None (w n db) of
        (Inl e, db') \<Rightarrow> (Inl e, s, db')
      | (Inr None, db') \<Rightarrow> (Inr started, s, db')
      | (Inr (Some job), db') \<Rightarrow> admit_loop h w n (Suc started) (track (job_id job) (job_kind job) s) db')"

definition admit :: "host \<Rightarrow> (nat \<Rightarrow> work_db \<Rightarrow> work_db) \<Rightarrow> scheduler \<Rightarrow> work_db \<Rightarrow> nat res \<times> scheduler \<times> work_db" where
  "admit h w s db =
     (let available = sc_max s - int (length (sc_active s)) in
      if available \<le> 0 \<or> sc_handlers s = [] then (Inr 0, s, db)
      else admit_loop h w (nat available) 0 s db)"

section \<open>Execution\<close>

definition float_or :: "host \<Rightarrow> json option \<Rightarrow> rat \<Rightarrow> rat res" where
  "float_or h v d = (case v of None \<Rightarrow> Inr d
     | Some w \<Rightarrow> if truthy w then float_or_zero h v else Inr d)"

definition retry_delay :: "host \<Rightarrow> job_row \<Rightarrow> rat res" where
  "retry_delay h job =
     ebind (float_or h (jget (retry_policy job) ''base_delay_s'') (1/2)) (\<lambda>b.
     ebind (float_or h (jget (retry_policy job) ''max_delay_s'') 60) (\<lambda>c.
     let base = max 0 b; cap = max base c in
     Inr (min cap (base * 2 ^ nat (max 0 (attempt job - 1))))))"

text \<open>What a handler returns, and \<^verbatim>\<open>_result\<close> on it.\<close>

datatype handler_value =
    ReturnsNone
  | ReturnsResult job_result
  | ReturnsText string
  | ReturnsMapping jobject
  | ReturnsOther

fun handler_result :: "host \<Rightarrow> handler_value \<Rightarrow> job_result res" where
  "handler_result h ReturnsNone = Inr empty_result"
| "handler_result h (ReturnsResult r) = Inr r"
| "handler_result h (ReturnsText t) = Inr (empty_result\<lparr>result_text := t\<rparr>)"
| "handler_result h (ReturnsMapping m) =
     ebind (dict_of (jget m ''progress'')) (\<lambda>p.
     Inr \<lparr>result_text = text_or h [jget m ''result_ref''] [],
          diagnostics_text = text_or h [jget m ''diagnostics_ref''] [], result_progress = p\<rparr>)"
| "handler_result h ReturnsOther = Inl (TypeErr ''job handler must return None, str, mapping, or JobResult'')"

text \<open>How the handler ended; \<open>HandlerError\<close> carries the class and text of any other exception.\<close>

datatype handler_end =
    HandlerReturned handler_value
  | HandlerRetry string rat
  | HandlerUnknown string
  | HandlerCancelled
  | HandlerError string

text \<open>\<^verbatim>\<open>f"{type(exc).__name__}: {exc}"\<close> of an exception the scheduler's own calls raise.\<close>

fun exc_text :: "py_err \<Rightarrow> string" where
  "exc_text (ValueError m) = ''ValueError: '' @ m"
| "exc_text (TypeErr m) = ''TypeError: '' @ m"
| "exc_text (WorkNotFound m) = ''WorkNotFound: '' @ m"
| "exc_text (WorkConflict m) = ''WorkConflict: '' @ m"
| "exc_text (InvalidTransition m) = ''InvalidTransition: '' @ m"
| "exc_text (LeaseLost m) = ''LeaseLost: '' @ m"
| "exc_text (RepositoryCorrupt m) = ''RepositoryCorrupt: '' @ m"
| "exc_text (IntegrityError m) = ''IntegrityError: '' @ m"
| "exc_text (InjectedFault m) = ''InjectedFault: '' @ m"
| "exc_text (StrictJSONError m) = ''StrictJSONError: '' @ m"
| "exc_text (GoalNotFound m) = ''GoalNotFound: '' @ m"
| "exc_text (GoalConflict m) = ''GoalConflict: '' @ m"
| "exc_text (GoalTransitionError m) = ''GoalTransitionError: '' @ m"
| "exc_text (GoalValidationError m) = ''GoalValidationError: '' @ m"
| "exc_text _ = ''RuntimeError: ''"

record exec_env =
  xe_host :: "nat \<Rightarrow> host"
  xe_before :: "nat \<Rightarrow> work_db \<Rightarrow> work_db"
  xe_handler :: "job_row \<Rightarrow> handler_end"

text \<open>\<^verbatim>\<open>try: release_job(..) except LeaseLost: pass\<close>.\<close>

definition forgive_lease :: "'a res \<times> work_db \<Rightarrow> unit res \<times> work_db" where
  "forgive_lease r = (case r of (Inr x, db) \<Rightarrow> (Inr (), db)
     | (Inl (LeaseLost m), db) \<Rightarrow> (Inr (), db) | (Inl e, db) \<Rightarrow> (Inl e, db))"

definition on_retry :: "exec_env \<Rightarrow> job_row \<Rightarrow> string \<Rightarrow> string \<Rightarrow> int \<Rightarrow> string \<Rightarrow> rat \<Rightarrow> work_db \<Rightarrow> unit res \<times> work_db" where
  "on_retry x job jid w e msg delay db =
     (case (if delay \<noteq> 0 then Inr delay else retry_delay (xe_host x 4) job) of
        Inl er \<Rightarrow> (Inl er, db)
      | Inr d \<Rightarrow> forgive_lease (release_job (xe_host x 4) jid w e msg d False None (xe_before x 4 db)))"

definition on_unknown :: "exec_env \<Rightarrow> string \<Rightarrow> string \<Rightarrow> int \<Rightarrow> string \<Rightarrow> work_db \<Rightarrow> unit res \<times> work_db" where
  "on_unknown x jid w e msg db =
     forgive_lease (release_job (xe_host x 4) jid w e msg 0 True None (xe_before x 4 db))"

text \<open>\<^verbatim>\<open>except asyncio.CancelledError\<close>: acknowledge a durable request, else propagate.\<close>

definition on_cancelled :: "exec_env \<Rightarrow> string \<Rightarrow> string \<Rightarrow> int \<Rightarrow> work_db \<Rightarrow> unit res \<times> work_db" where
  "on_cancelled x jid w e db =
     (case get_job jid (xe_before x 2 db) of
        None \<Rightarrow> (Inl (CancelledError []), xe_before x 2 db)
      | Some current \<Rightarrow>
          if cancel_requested current
          then forgive_lease (acknowledge_job_cancel (xe_host x 3) jid w e None (xe_before x 3 (xe_before x 2 db)))
          else (Inl (CancelledError []), xe_before x 2 db))"

text \<open>After a handler that returned: what to do with its value.\<close>

definition on_returned ::
  "exec_env \<Rightarrow> string \<Rightarrow> string \<Rightarrow> int \<Rightarrow> handler_value \<Rightarrow> work_db \<Rightarrow> (unit res \<times> job_row option) \<times> work_db" where
  "on_returned x jid w e v db0 =
     (let db = xe_before x 2 db0 in
      case require_job jid db of
        Inl er \<Rightarrow> ((Inl er, None), db)
      | Inr current \<Rightarrow>
          if status current = Waiting \<or> status current \<in> job_terminal_states then ((Inr (), Some current), db)
          else if cancel_requested current then
            (case acknowledge_job_cancel (xe_host x 3) jid w e None (xe_before x 3 db) of
               (Inl er, db') \<Rightarrow> ((Inl er, Some current), db') | (Inr _, db') \<Rightarrow> ((Inr (), Some current), db'))
          else
            (case handler_result (xe_host x 3) v of
               Inl er \<Rightarrow> ((Inl er, Some current), db)
             | Inr r \<Rightarrow>
                 (case finish_job (xe_host x 3) jid \<lparr>fr_status = ''succeeded'', fr_lease_owner = w,
                     fr_lease_epoch = e, fr_result_ref = result_text r, fr_diagnostics_ref = diagnostics_text r,
                     fr_progress = (if result_progress r = [] then None else Some (result_progress r)),
                     fr_error = [], fr_now = None\<rparr> (xe_before x 3 db) of
                    (Inl er, db') \<Rightarrow> ((Inl er, Some current), db') | (Inr _, db') \<Rightarrow> ((Inr (), Some current), db'))))"

definition execute_job :: "exec_env \<Rightarrow> scheduler \<Rightarrow> job_row \<Rightarrow> work_db \<Rightarrow> unit res \<times> work_db" where
  "execute_job x s leased db =
     (case new_context leased (sc_ttl s) of
        Inl er \<Rightarrow> (Inl er, db)
      | Inr cx \<Rightarrow>
          let jid = job_id leased; w = cx_owner cx; e = cx_epoch cx;
              handler = map_of (sc_handlers s) (job_kind leased) in
          case start_job (xe_host x 0) jid w e (handler = Some False) None None (xe_before x 0 db) of
            (Inl er, db1) \<Rightarrow> on_retry x leased jid w e (exc_text er) 0 db1
          | (Inr started, db1) \<Rightarrow>
              if handler = None then
                on_retry x started jid w e (''no handler registered for '' @ job_kind started) 5 db1
              else
                let db2 = xe_before x 1 db1 in
                case xe_handler x started of
                  HandlerRetry msg delay \<Rightarrow> on_retry x started jid w e msg (max 0 delay) db2
                | HandlerUnknown msg \<Rightarrow> on_unknown x jid w e msg db2
                | HandlerCancelled \<Rightarrow> on_cancelled x jid w e db2
                | HandlerError msg \<Rightarrow> on_retry x started jid w e msg 0 db2
                | HandlerReturned v \<Rightarrow>
                    (case on_returned x jid w e v db2 of
                       ((Inr u, _), db3) \<Rightarrow> (Inr u, db3)
                     | ((Inl er, current), db3) \<Rightarrow>
                         on_retry x (case current of None \<Rightarrow> started | Some c \<Rightarrow> c) jid w e (exc_text er) 0 db3))"

text \<open>One turn of the heartbeat loop after its interval: whether it goes on, and the context.\<close>

definition heartbeat_turn :: "host \<Rightarrow> job_context \<Rightarrow> work_db \<Rightarrow> (bool \<times> job_context) res \<times> work_db" where
  "heartbeat_turn h cx db =
     (case context_heartbeat h cx None db of
        (Inr cx', db') \<Rightarrow> (Inr (True, cx'), db')
      | (Inl (LeaseLost m), db') \<Rightarrow> (Inr (False, cx\<lparr>cx_local := True\<rparr>), db')
      | (Inl (CancelledError m), db') \<Rightarrow> (Inl (CancelledError m), db')
      | (Inl e, db') \<Rightarrow> (Inr (True, cx), db'))"

section \<open>Retry delays\<close>

lemma retry_delay_bounds:
  assumes "retry_delay h job = Inr d"
  obtains b c where "float_or h (jget (retry_policy job) ''base_delay_s'') (1/2) = Inr b"
    "float_or h (jget (retry_policy job) ''max_delay_s'') 60 = Inr c"
    "max 0 b \<le> d" "d \<le> max (max 0 b) c"
    "d = min (max (max 0 b) c) (max 0 b * 2 ^ nat (max 0 (attempt job - 1)))"
proof -
  from assms obtain b c where bc: "float_or h (jget (retry_policy job) ''base_delay_s'') (1/2) = Inr b"
    "float_or h (jget (retry_policy job) ''max_delay_s'') 60 = Inr c"
    and d: "d = min (max (max 0 b) c) (max 0 b * 2 ^ nat (max 0 (attempt job - 1)))"
    by (auto simp: retry_delay_def Let_def)
  have "max 0 b * 1 \<le> max 0 b * 2 ^ nat (max 0 (attempt job - 1))"
    by (rule mult_left_mono) simp_all
  then have "max 0 b \<le> d" by (simp add: d)
  moreover have "d \<le> max (max 0 b) c" by (simp add: d)
  ultimately show thesis using that[OF bc] d by blast
qed

section \<open>Admission keeps the limits\<close>

text \<open>
  The scheduler's own invariant: handlers under clean names, nothing tracked twice, the global
  limit kept, and every limited kind within its limit.
\<close>

definition within_limits :: "scheduler \<Rightarrow> bool" where
  "within_limits s \<longleftrightarrow> (\<forall>k\<in>set (map fst (sc_handlers s)). py_strip k = k) \<and>
     distinct (map fst (sc_active s)) \<and> int (length (sc_active s)) \<le> sc_max s \<and>
     (\<forall>k l. map_of (sc_limits s) k = Some l \<longrightarrow> active_count k s \<le> limit_of s l)"

lemma update_fresh: "k \<notin> set (map fst al) \<Longrightarrow> AList.update k v al = al @ [(k, v)]"
  by (induction al) auto

lemma track_fresh:
  "jid \<notin> set (map fst (sc_active s)) \<Longrightarrow> track jid kind s = s\<lparr>sc_active := sc_active s @ [(jid, kind)]\<rparr>"
  by (simp add: track_def update_fresh)

lemma limit_of_active [simp]: "limit_of (s\<lparr>sc_active := a\<rparr>) l = limit_of s l"
  by (cases l) simp_all

lemma track_within:
  assumes "within_limits s" and "jid \<notin> set (map fst (sc_active s))" and "kind \<in> set (eligible_kinds s)"
    and "int (length (sc_active s)) < sc_max s"
  shows "within_limits (track jid kind s)"
proof -
  have "active_count kind s < limit_of s l" if "map_of (sc_limits s) kind = Some l" for l
    using assms(3) that by (auto simp: eligible_kinds_def)
  with assms show ?thesis
    unfolding track_fresh[OF assms(2)] by (auto simp: within_limits_def active_count_def)
qed

lemma leased_kind:
  assumes wf: "jobs_wf db" and run: "lease_next_job h o' kinds xs ttl now db = (Inr (Some job), db')"
    and ne: "kinds \<noteq> []" and clean: "\<And>k. k \<in> set kinds \<Longrightarrow> py_strip k = k"
  shows "job_kind job \<in> set kinds" and "job_id job \<notin> set xs"
proof -
  from lease_next_job_Inr[OF wf run] obtain ks row where r: "ks = map py_strip kinds" "row \<in> set (jobs db)"
    "leasable (or_now h now) ks xs row"
    "job_mutation db (job_id row) (lease_row (py_strip o') (or_now h now + max 2 ttl) (or_now h now)) ''job.leased'' job db'"
    by metis
  have "job_row_tx (job_id row) db = Inr row"
    using find_distinct_key[of job_id "jobs db" row] r(2) wf by (simp add: job_row_tx_Inr jobs_wf_def)
  from job_mutation_row[OF r(4) this] obtain n where
    "job = (lease_row (py_strip o') (or_now h now + max 2 ttl) (or_now h now) row)\<lparr>event_cursor := n\<rparr>" by blast
  then have j: "job_kind job = job_kind row" "job_id job = job_id row" by (simp_all add: lease_row_def)
  have "map py_strip kinds = kinds" using clean by (simp add: map_idI)
  with r(1,3) ne have "job_kind row \<in> set kinds" "job_id row \<notin> set xs" by (simp_all add: leasable_def)
  then show "job_kind job \<in> set kinds" and "job_id job \<notin> set xs" by (simp_all add: j)
qed

lemma admit_loop_within:
  assumes "admit_loop h w n started s db = (r, s', db')" and "within_limits s" and "repo_wf db"
    and w: "\<And>n db. repo_wf db \<Longrightarrow> repo_wf (w n db)"
    and "int (length (sc_active s)) + int n \<le> sc_max s"
  shows "within_limits s' \<and> repo_wf db' \<and> (\<exists>new. sc_active s' = sc_active s @ new \<and>
    (\<forall>m. r = Inr m \<longrightarrow> m = started + length new))"
  using assms(1-3,5)
proof (induction n arbitrary: started s db)
  case (Suc n)
  let ?K = "eligible_kinds s"
  let ?L = "lease_next_job h (sc_worker s) ?K (map fst (sc_active s)) (sc_ttl s) None (w n db)"
  have g: "repo_wf (w n db)" by (rule w[OF Suc.prems(3)])
  then have jw: "jobs_wf (w n db)" by (simp add: repo_wf_def)
  have g': "repo_wf (snd ?L)" using repo_step_good[OF step_lease g] by (simp add: good_step_def)
  show ?case
  proof (cases "?K = []")
    case True
    with Suc.prems show ?thesis by auto
  next
    case False
    show ?thesis
    proof (cases ?L)
      case (Pair x db1)
      show ?thesis
      proof (cases x)
        case (Inl e)
        with Suc.prems False Pair g' show ?thesis by auto
      next
        case (Inr found)
        show ?thesis
        proof (cases found)
          case None
          with Suc.prems False Pair Inr g' show ?thesis by auto
        next
          case (Some job)
          have clean: "py_strip k = k" if "k \<in> set ?K" for k
            using that Suc.prems(2) by (auto simp: within_limits_def eligible_kinds_def)
          note K = leased_kind[OF jw Pair[unfolded Inr Some] False clean]
          have fresh: "job_id job \<notin> set (map fst (sc_active s))" by (rule K(2))
          let ?s = "track (job_id job) (job_kind job) s"
          have len: "sc_active ?s = sc_active s @ [(job_id job, job_kind job)]" "sc_max ?s = sc_max s"
            by (simp_all add: track_fresh[OF fresh])
          have lt: "int (length (sc_active s)) < sc_max s" using Suc.prems(4) by simp
          have "within_limits ?s" by (rule track_within[OF Suc.prems(2) fresh K(1) lt])
          moreover have "admit_loop h w n (Suc started) ?s db1 = (r, s', db')"
            using Suc.prems(1) False Pair Inr Some by simp
          moreover have "repo_wf db1" using g' Pair by simp
          ultimately have "within_limits s' \<and> repo_wf db' \<and> (\<exists>new. sc_active s' = sc_active ?s @ new \<and>
              (\<forall>m. r = Inr m \<longrightarrow> m = Suc started + length new))"
            using Suc.IH[of "Suc started" ?s db1] Suc.prems(4) len by simp
          then show ?thesis by (auto simp: len)
        qed
      qed
    qed
  qed
qed auto

section \<open>Execution gives the lease back\<close>

definition live_lease :: "string \<Rightarrow> string \<Rightarrow> int \<Rightarrow> rat \<Rightarrow> work_db \<Rightarrow> bool" where
  "live_lease jid w e tm db = (case get_job jid db of None \<Rightarrow> False
     | Some r \<Rightarrow> expect_lease r w e tm job_leased_states = Inr ())"

lemma not_live_status:
  "get_job jid db = Some r \<Longrightarrow> status r \<notin> job_leased_states \<Longrightarrow> \<not> live_lease jid w e tm db"
  by (auto simp: live_lease_def expect_lease_Inr)

lemma mutation_not_live:
  assumes "job_mutation db jid f etype job db'" and "\<And>r. job_id (f r) = job_id r"
    and "\<And>r. status (f r) \<notin> job_leased_states"
  shows "\<not> live_lease jid w e tm db'"
proof -
  from assms(1) obtain row where row: "job_row_tx jid db = Inr row"
    by (auto simp: job_mutation_def job_row_tx_Inr)
  have "get_job jid db' = Some job" using job_mutation_lookup(1)[OF assms(1,2), of jid] by (simp add: get_job_def)
  moreover obtain n where j: "job = (f row)\<lparr>event_cursor := n\<rparr>" using job_mutation_row[OF assms(1) row] by blast
  have "status job \<notin> job_leased_states" unfolding j using assms(3)[of row] by simp
  ultimately show ?thesis by (intro not_live_status)
qed

text \<open>\<^verbatim>\<open>LeaseLost\<close> only comes from the lease check.\<close>

lemma text_arg_not_lease [simp]: "text_arg v f r l \<noteq> Inl (LeaseLost m)"
  by (simp add: text_arg_def Let_def)

lemma store_json_not_lease [simp]: "store_json h v \<noteq> Inl (LeaseLost m)"
  by (simp add: store_json_def)

lemma require_eq_Inl: "require b e = Inl x \<longleftrightarrow> \<not> b \<and> x = e"
  by (auto simp: require_def)

lemma job_row_tx_not_lease [simp]: "job_row_tx jid db \<noteq> Inl (LeaseLost m)"
  by (simp add: job_row_tx_def split: option.split)

lemma ebind_not_lease:
  "(\<And>m. a \<noteq> Inl (LeaseLost m)) \<Longrightarrow> (\<And>y m. a = Inr y \<Longrightarrow> f y \<noteq> Inl (LeaseLost m)) \<Longrightarrow> ebind a f \<noteq> Inl (LeaseLost m)"
  by (auto simp: ebind_eq_Inl)

lemma require_not_lease: "(\<And>m. e \<noteq> LeaseLost m) \<Longrightarrow> require b e \<noteq> Inl (LeaseLost m)"
  by (auto simp: require_eq_Inl)

lemma clean_event_not_lease:
  assumes "req_scope q = AScope s"
  shows "clean_event_args h q \<noteq> Inl (LeaseLost m)"
  unfolding clean_event_args_def assms coerce_work_scope.simps Let_def
  by (intro ebind_not_lease text_arg_not_lease) simp_all

lemma insert_event_not_lease:
  assumes "req_scope q = AScope s"
  shows "insert_event_tx h q db \<noteq> Inl (LeaseLost m)"
proof -
  have row: "append_event_row h q c v db \<noteq> Inl (LeaseLost m)" for c v m
    unfolding append_event_row_def Let_def
    by (intro ebind_not_lease store_json_not_lease require_not_lease) simp_all
  have "(case prior_event db c of
         Some prior \<Rightarrow> ebind (require (same_event_request h q c prior)
             (WorkConflict ''event idempotency key was reused for another command'')) (\<lambda>_. Inr (prior, db))
       | None \<Rightarrow> let current = max_version db (cl_kind c) (cl_aggregate c);
               version = (case req_aggregate_version q of None \<Rightarrow> current + 1 | Some v \<Rightarrow> v) in
           ebind (require (case req_expected_version q of None \<Rightarrow> True | Some x \<Rightarrow> current = x)
             (WorkConflict (''aggregate version changed for '' @ cl_kind c @ '':'' @ cl_aggregate c))) (\<lambda>_.
           ebind (require (version = current + 1)
             (WorkConflict (''event version must advance exactly once for '' @ cl_kind c @ '':'' @ cl_aggregate c)))
           (\<lambda>_. append_event_row h q c version db))) \<noteq> Inl (LeaseLost m)" for c m
    unfolding Let_def
    by (cases "prior_event db c") (simp_all add: row ebind_eq_Inl require_eq_Inl)
  then show ?thesis
    unfolding insert_event_tx_def by (intro ebind_not_lease clean_event_not_lease[OF assms])
qed

lemma reread_not_lease: "ebind (job_row_tx jid db) (\<lambda>job. Inr (job, db)) \<noteq> Inl (LeaseLost m)"
  by (simp add: ebind_eq_Inl)

lemma emit_job_not_lease: "emit_job h jid etype actor extra tr db \<noteq> Inl (LeaseLost m)"
  unfolding emit_job_def job_event_tx_def
  by (intro ebind_not_lease job_row_tx_not_lease)
    (auto simp: ebind_eq_Inl insert_event_not_lease split: prod.splits)

lemma cas_job_not_lease: "cas_job jid row f msg db \<noteq> Inl (LeaseLost m)"
  by (auto simp: cas_job_def require_eq_Inl ebind_eq_Inl split: prod.splits)

lemma db_write_lease:
  assumes "db_write h body db = (Inl (LeaseLost m), db')"
  shows "body db = Inl (LeaseLost m) \<and> db' = db"
  using assms by (auto simp: db_write_def sqlite_unit_of_work_def sqlite_transaction_def fault_point_def ebind_eq_Inl require_eq_Inl
      split: sum.splits if_splits prod.splits)

lemma release_lost:
  assumes "release_job h jid w e msg d u None db = (Inl (LeaseLost m), db')"
  shows "\<not> live_lease jid w e (clock h) db'"
proof
  assume "live_lease jid w e (clock h) db'"
  with db_write_lease[OF assms[unfolded release_job_def]] obtain row where
    row: "job_row_tx jid db = Inr row" and l: "expect_lease row w e (clock h) job_leased_states = Inr ()"
    by (auto simp: live_lease_def get_job_def job_row_tx_Inr split: option.splits)
  have "(let tm = or_now h None in
       ebind (job_row_tx jid db) (\<lambda>row.
       ebind (expect_lease row w e tm job_leased_states) (\<lambda>_.
       let target = release_target u row; available = tm + max 0 d in
       ebind (text_arg msg ''job error'' False 16000) (\<lambda>err.
       ebind (cas_job jid row (release_row target available err tm) ''job release CAS lost for '' db) (\<lambda>db1.
       emit_job h jid (release_event target) (Some (worker_actor w))
         (\<lambda>r. [(''error'', JStr (job_error r)), (''available_at'', JFloat available)]) no_trace db1)))))
      \<noteq> Inl (LeaseLost m)"
    unfolding Let_def row ebind_Inr or_now_def option.case l
    by (intro ebind_not_lease text_arg_not_lease cas_job_not_lease emit_job_not_lease)
  with db_write_lease[OF assms[unfolded release_job_def]] show False by blast
qed

lemma acknowledge_lost:
  assumes "acknowledge_job_cancel h jid w e None db = (Inl (LeaseLost m), db')"
  shows "\<not> live_lease jid w e (clock h) db'"
proof
  assume "live_lease jid w e (clock h) db'"
  with db_write_lease[OF assms[unfolded acknowledge_job_cancel_def]] obtain row where
    row: "job_row_tx jid db = Inr row" and l: "expect_lease row w e (clock h) job_leased_states = Inr ()"
    by (auto simp: live_lease_def get_job_def job_row_tx_Inr split: option.splits)
  from l have "status row \<noteq> Cancelled" by (auto simp: expect_lease_Inr job_leased_states_def)
  then have "(let tm = or_now h None in
       ebind (job_row_tx jid db) (\<lambda>row.
       if status row = Cancelled then Inr (row, db)
       else
         ebind (expect_lease row w e tm job_leased_states) (\<lambda>_.
         ebind (require (cancel_requested row)
           (InvalidTransition (''job '' @ jid @ '' has no cancellation request''))) (\<lambda>_.
         emit_job h jid ''job.cancelled'' (Some (worker_actor w)) (\<lambda>_. []) no_trace
           (db\<lparr>jobs := snd (sql_update (\<lambda>r. job_id r = jid \<and> revision r = revision row) (acknowledged_row tm) (jobs db))\<rparr>)))))
      \<noteq> Inl (LeaseLost m)"
    unfolding Let_def row ebind_Inr or_now_def option.case l
    by (simp add: ebind_eq_Inl require_eq_Inl emit_job_not_lease)
  with db_write_lease[OF assms[unfolded acknowledge_job_cancel_def]] show False by blast
qed

text \<open>The calls that succeed.\<close>

lemma release_done:
  assumes "jobs_wf db" and "release_job h jid w e msg d u now db = (Inr job, db')"
  shows "\<not> live_lease jid w' e' tm db'"
  using assms
proof (rule release_job_Inr)
  fix row
  assume "job_mutation db jid (release_row (release_target u row) (or_now h now + max 0 d) (py_strip msg) (or_now h now))
     (release_event (release_target u row)) job db'"
  then show ?thesis
    by (rule mutation_not_live) (simp_all add: release_row_def release_target_def job_leased_states_def)
qed

lemma acknowledge_done:
  assumes "jobs_wf db" and "acknowledge_job_cancel h jid w e now db = (Inr job, db')"
  shows "\<not> live_lease jid w' e' tm db'"
  using assms
proof (cases rule: acknowledge_job_cancel_Inr)
  case already
  then show ?thesis
    by (intro not_live_status[of jid db' job]) (simp_all add: get_job_def job_row_tx_Inr job_leased_states_def)
next
  case (acknowledged row)
  show ?thesis
    by (rule mutation_not_live[OF acknowledged(5)]) (simp_all add: acknowledged_row_def job_leased_states_def)
qed

lemma finish_done:
  assumes "jobs_wf db" and "finish_job h jid q db = (Inr job, db')"
  shows "\<not> live_lease jid w' e' tm db'"
proof -
  have "finish_job_tx h jid q db = Inr (job, db')" using assms(2) by (simp add: finish_job_def db_write_Inr)
  with assms(1) show ?thesis
  proof (rule finish_job_tx_Inr)
    fix row target pj
    assume "target \<in> finish_targets"
      and "job_mutation db jid (finish_row target (py_strip (fr_result_ref q)) (py_strip (fr_diagnostics_ref q))
       pj (py_strip (fr_error q)) (or_now h (fr_now q))) (''job.'' @ fr_status q) job db'"
    note m = this
    from m(1) have "target \<notin> job_leased_states" by (auto simp: finish_targets_def job_leased_states_def)
    then show ?thesis by (intro mutation_not_live[OF m(2)]) (simp_all add: finish_row_def)
  qed
qed

section \<open>No successful execution keeps its lease\<close>

lemma repo_wf_jobs: "repo_wf db \<Longrightarrow> jobs_wf db"
  by (simp add: repo_wf_def)

lemma step_keeps_wf: "repo_step db db' \<Longrightarrow> repo_wf db \<Longrightarrow> repo_wf db'"
  using repo_step_good by (simp add: good_step_def)

text \<open>Whatever happens between two calls keeps the invariant of the repository.\<close>

definition env_keeps :: "exec_env \<Rightarrow> bool" where
  "env_keeps x \<longleftrightarrow> (\<forall>n db. repo_wf db \<longrightarrow> repo_wf (xe_before x n db))"

definition lease_given_back :: "exec_env \<Rightarrow> job_row \<Rightarrow> work_db \<Rightarrow> bool" where
  "lease_given_back x leased db \<longleftrightarrow>
     (\<exists>n. \<not> live_lease (job_id leased) (lease_owner leased) (lease_epoch leased) (clock (xe_host x n)) db)"

lemma given_backI:
  "\<not> live_lease (job_id leased) (lease_owner leased) (lease_epoch leased) (clock (xe_host x n)) db \<Longrightarrow>
    lease_given_back x leased db"
  by (auto simp: lease_given_back_def)

lemma forgive_lease_Inr:
  "forgive_lease r = (Inr u, db) \<longleftrightarrow> (\<exists>y. r = (Inr y, db)) \<or> (\<exists>m. r = (Inl (LeaseLost m), db))"
  by (cases r) (auto simp: forgive_lease_def split: sum.splits py_err.splits)

lemma release_forgiven:
  assumes "repo_wf db" and "forgive_lease (release_job (xe_host x n) (job_id leased) (lease_owner leased)
    (lease_epoch leased) msg d u None db) = (Inr v, db')"
  shows "lease_given_back x leased db'"
  using assms(2) unfolding forgive_lease_Inr
  by (elim disjE exE; intro given_backI[where n = n])
    (erule release_done[OF repo_wf_jobs[OF assms(1)]], erule release_lost)

lemma acknowledge_forgiven:
  assumes "repo_wf db" and "forgive_lease (acknowledge_job_cancel (xe_host x n) (job_id leased) (lease_owner leased)
    (lease_epoch leased) None db) = (Inr v, db')"
  shows "lease_given_back x leased db'"
  using assms(2) unfolding forgive_lease_Inr
  by (elim disjE exE; intro given_backI[where n = n])
    (erule acknowledge_done[OF repo_wf_jobs[OF assms(1)]], erule acknowledge_lost)

lemma on_retry_ends:
  assumes "env_keeps x" and "repo_wf db"
    and "on_retry x job (job_id leased) (lease_owner leased) (lease_epoch leased) msg d db = (Inr v, db')"
  shows "lease_given_back x leased db'"
proof -
  have "repo_wf (xe_before x 4 db)" using assms(1,2) by (simp add: env_keeps_def)
  with assms(3) show ?thesis
    by (auto simp: on_retry_def intro: release_forgiven split: sum.splits)
qed

lemma on_unknown_ends:
  assumes "env_keeps x" and "repo_wf db"
    and "on_unknown x (job_id leased) (lease_owner leased) (lease_epoch leased) msg db = (Inr v, db')"
  shows "lease_given_back x leased db'"
  using assms by (auto simp: on_unknown_def env_keeps_def intro: release_forgiven)

lemma on_cancelled_ends:
  assumes "env_keeps x" and "repo_wf db"
    and "on_cancelled x (job_id leased) (lease_owner leased) (lease_epoch leased) db = (Inr v, db')"
  shows "lease_given_back x leased db'"
proof -
  have "repo_wf (xe_before x 3 (xe_before x 2 db))" using assms(1,2) by (simp add: env_keeps_def)
  with assms(3) show ?thesis
    by (auto simp: on_cancelled_def intro: acknowledge_forgiven split: option.splits if_splits)
qed

text \<open>What a returned value leads to, and that every branch keeps the invariant.\<close>

lemma on_returned_ends:
  assumes "env_keeps x" and "repo_wf db"
    and run: "on_returned x (job_id leased) (lease_owner leased) (lease_epoch leased) v db = ((r, current), db')"
  shows "repo_wf db' \<and> (\<forall>u. r = Inr u \<longrightarrow> lease_given_back x leased db')"
proof -
  let ?d = "xe_before x 2 db" and ?j = "job_id leased" and ?w = "lease_owner leased" and ?e = "lease_epoch leased"
  have g: "repo_wf ?d" "repo_wf (xe_before x 3 ?d)" using assms(1,2) by (simp_all add: env_keeps_def)
  show ?thesis
  proof (cases "require_job ?j ?d")
    case (Inl er)
    with run g show ?thesis by (auto simp: on_returned_def Let_def)
  next
    case (Inr row)
    then have row: "get_job ?j ?d = Some row" by (auto simp: require_job_def split: option.splits)
    show ?thesis
    proof (cases "status row = Waiting \<or> status row \<in> job_terminal_states")
      case True
      then have "status row \<notin> job_leased_states" by (auto simp: job_leased_states_def job_terminal_states_def)
      from not_live_status[OF row this] have "lease_given_back x leased ?d" by (intro given_backI)
      with run Inr True g show ?thesis by (auto simp: on_returned_def Let_def)
    next
      case False
      show ?thesis
      proof (cases "cancel_requested row")
        case True
        let ?A = "acknowledge_job_cancel (xe_host x 3) ?j ?w ?e None (xe_before x 3 ?d)"
        have "repo_wf (snd ?A)" by (rule step_keeps_wf[OF step_acknowledge_cancel g(2)])
        moreover have "lease_given_back x leased d" if "?A = (Inr job, d)" for job d
          by (rule given_backI[where n = 3]) (rule acknowledge_done[OF repo_wf_jobs[OF g(2)] that])
        ultimately show ?thesis using run Inr False True
          by (cases ?A; cases "fst ?A") (auto simp: on_returned_def Let_def)
      next
        case nocancel: False
        show ?thesis
        proof (cases "handler_result (xe_host x 3) v")
          case (Inl er)
          with run Inr False nocancel g show ?thesis by (auto simp: on_returned_def Let_def)
        next
          case res: (Inr res)
          let ?q = "\<lparr>fr_status = ''succeeded'', fr_lease_owner = ?w, fr_lease_epoch = ?e,
            fr_result_ref = result_text res, fr_diagnostics_ref = diagnostics_text res,
            fr_progress = (if result_progress res = [] then None else Some (result_progress res)),
            fr_error = [], fr_now = None\<rparr>"
          let ?F = "finish_job (xe_host x 3) ?j ?q (xe_before x 3 ?d)"
          have "repo_wf (snd ?F)" by (rule step_keeps_wf[OF step_finish g(2)])
          moreover have "lease_given_back x leased d" if "?F = (Inr job, d)" for job d
            by (rule given_backI[where n = 3]) (rule finish_done[OF repo_wf_jobs[OF g(2)] that])
          ultimately show ?thesis using run Inr False nocancel res
            by (cases ?F; cases "fst ?F") (auto simp: on_returned_def Let_def)
        qed
      qed
    qed
  qed
qed

lemma execution_gives_back:
  assumes "env_keeps x" and "repo_wf db" and run: "execute_job x s leased db = (Inr u, db')"
  shows "lease_given_back x leased db'"
proof -
  let ?j = "job_id leased" and ?w = "lease_owner leased" and ?e = "lease_epoch leased"
  let ?handler = "map_of (sc_handlers s) (job_kind leased)"
  let ?S = "start_job (xe_host x 0) ?j ?w ?e (?handler = Some False) None None (xe_before x 0 db)"
  have env: "repo_wf (xe_before x n d)" if "repo_wf d" for n d using assms(1) that by (simp add: env_keeps_def)
  obtain cx where cx: "new_context leased (sc_ttl s) = Inr cx" "cx_owner cx = ?w" "cx_epoch cx = ?e"
    using run by (auto simp: execute_job_def new_context_def require_def split: sum.splits if_splits)
  obtain r db1 where S: "?S = (r, db1)" by (cases ?S)
  have g1: "repo_wf db1" using step_keeps_wf[OF step_start env[OF assms(2)]] S by (metis snd_conv)
  note retry = on_retry_ends[OF assms(1)]
  show ?thesis
  proof (cases r)
    case (Inl er)
    have "on_retry x leased ?j ?w ?e (exc_text er) 0 db1 = (Inr u, db')"
      using run cx S Inl by (simp add: execute_job_def Let_def)
    with retry[OF g1] show ?thesis .
  next
    case (Inr started)
    show ?thesis
    proof (cases "?handler = None")
      case True
      then have "on_retry x started ?j ?w ?e (''no handler registered for '' @ job_kind started) 5 db1 = (Inr u, db')"
        using run cx S Inr by (simp add: execute_job_def Let_def)
      with retry[OF g1] show ?thesis .
    next
      case False
      let ?d = "xe_before x 1 db1"
      note g2 = env[OF g1, of 1]
      note ran = run[unfolded execute_job_def cx(1) Let_def cx(2,3) sum.case S prod.case Inr] False
      show ?thesis
      proof (cases "xe_handler x started")
        case (HandlerRetry msg delay)
        with ran show ?thesis using retry[OF g2] by auto
      next
        case (HandlerUnknown msg)
        with ran show ?thesis using on_unknown_ends[OF assms(1) g2] by auto
      next
        case HandlerCancelled
        with ran show ?thesis using on_cancelled_ends[OF assms(1) g2] by auto
      next
        case (HandlerError msg)
        with ran show ?thesis using retry[OF g2] by auto
      next
        case (HandlerReturned v)
        obtain r2 c d3 where R: "on_returned x ?j ?w ?e v ?d = ((r2, c), d3)"
          by (cases "on_returned x ?j ?w ?e v ?d") auto
        from on_returned_ends[OF assms(1) g2 R] ran HandlerReturned R show ?thesis
          using retry[of d3] by (cases r2) auto
      qed
    qed
  qed
qed

end
