(* ===== verification/Work_Scheduler_Properties.thy ===== *)
theory Work_Scheduler_Properties
  imports Work_Scheduler Work_Samples
begin

text \<open>
  Properties of the scheduler (\<^verbatim>\<open>work_fabric/scheduler.py\<close>): its limits in every state it can
  reach, the lease after an execution, heartbeats and retry delays.
\<close>

section \<open>The limits\<close>



lemma active_count_nonneg [simp]: "0 \<le> active_count k s"
  by (simp add: active_count_def)


lemma limit_of_handlers [simp]:
  "limit_of (s\<lparr>sc_handlers := a, sc_limits := b\<rparr>) l = limit_of s l"
  by (cases l) simp_all

lemma active_count_handlers [simp]:
  "active_count k (s\<lparr>sc_handlers := a, sc_limits := b\<rparr>) = active_count k s"
  by (simp add: active_count_def)





lemma admit_within:
  assumes "admit h w s db = (r, s', db')" and "within_limits s" and "repo_wf db"
    and w: "\<And>n d. repo_wf d \<Longrightarrow> repo_wf (w n d)"
  shows "within_limits s' \<and> repo_wf db' \<and> (\<exists>new. sc_active s' = sc_active s @ new \<and>
    (\<forall>m. r = Inr m \<longrightarrow> m = length new))"
proof (cases "sc_max s - int (length (sc_active s)) \<le> 0 \<or> sc_handlers s = []")
  case True
  with assms show ?thesis by (auto simp: admit_def Let_def)
next
  case False
  then have "admit_loop h w (nat (sc_max s - int (length (sc_active s)))) 0 s db = (r, s', db')"
    using assms(1) by (simp add: admit_def Let_def)
  from admit_loop_within[OF this assms(2,3) w] False show ?thesis by simp
qed






definition scheduler0 :: scheduler where
  "scheduler0 = \<lparr>sc_worker = ''w'', sc_max = 2, sc_ttl = 60, sc_handlers = [(''k'', True)],
     sc_limits = [(''k'', LimitFails)], sc_active = []\<rparr>"



text \<open>
  An admission adds exactly the jobs it leased, in order and as many as it reports, and keeps
  the jobs that were running; it never claims a job that is still tracked.
\<close>

theorem admission_adds_what_it_leased:
  assumes "within_limits s" and "reachable db" and "\<forall>n d. repo_wf d \<longrightarrow> repo_wf (w n d)"
    and "admit h w s db = (r, s', db')"
  shows "\<exists>new. sc_active s' = sc_active s @ new \<and> distinct (map fst (sc_active s @ new)) \<and>
    int (length (sc_active s @ new)) \<le> sc_max s' \<and> (\<forall>m. r = Inr m \<longrightarrow> m = length new)"
  using admit_within[OF assms(4,1) reachable_repo_wf[OF assms(2)]] assms(3)
  by (auto simp: within_limits_def)

lemma admission_adds_what_it_leased_witness:
  "\<exists>r s' db' new. admit host0 (\<lambda>_ d. d) scheduler0 db_created = (r, s', db') \<and> sc_active s' = new \<and> distinct (map fst new)"
proof -
  obtain r s' db' where a: "admit host0 (\<lambda>_ d. d) scheduler0 db_created = (r, s', db')"
    by (cases "admit host0 (\<lambda>_ d. d) scheduler0 db_created")
  have w: "within_limits scheduler0"
    by (simp add: within_limits_def scheduler0_def active_count_def) (simp add: py_strip_def py_space_def)
  have "\<forall>n d. repo_wf d \<longrightarrow> repo_wf ((\<lambda>_ d. d) (n :: nat) d)" by simp
  from admission_adds_what_it_leased[OF w sample_reachable(1) this a] obtain new where
    "sc_active s' = new" "distinct (map fst new)" by (auto simp: scheduler0_def)
  with a show ?thesis by blast
qed

section \<open>Leases\<close>





section \<open>Heartbeats and retries\<close>

lemma progress_column_not_lease: "progress_column h p row \<noteq> Inl (LeaseLost m)"
  by (auto simp: progress_column_def split: option.splits)

lemma heartbeat_lost:
  assumes "heartbeat_job h jid w e ttl p None db = (Inl (LeaseLost m), db')"
  shows "\<not> live_lease jid w e (clock h) db \<and> db' = db"
proof -
  note l = db_write_lease[OF assms[unfolded heartbeat_job_def]]
  have "\<not> live_lease jid w e (clock h) db"
  proof
    assume "live_lease jid w e (clock h) db"
    then obtain row where
      row: "job_row_tx jid db = Inr row" and le: "expect_lease row w e (clock h) job_leased_states = Inr ()"
      by (auto simp: live_lease_def get_job_def job_row_tx_Inr split: option.splits)
    have "(let tm = or_now h None in
       ebind (job_row_tx jid db) (\<lambda>row.
       ebind (expect_lease row w e tm job_leased_states) (\<lambda>_.
       ebind (progress_column h p row) (\<lambda>pj.
       ebind (cas_job jid row (heartbeat_row (tm + max 2 ttl) tm pj) ''job heartbeat CAS lost for '' db) (\<lambda>db1.
       ebind (job_row_tx jid db1) (\<lambda>job. Inr (job, db1))))))) \<noteq> Inl (LeaseLost m)"
      unfolding Let_def row ebind_Inr or_now_def option.case le
      by (intro ebind_not_lease progress_column_not_lease cas_job_not_lease reread_not_lease)
    with l show False by blast
  qed
  with l show ?thesis by blast
qed

text \<open>
  A heartbeat never gives up a live lease.  The loop stops only when the lease is no longer
  live; it then changes nothing and marks the context cancelled, so the handler is told to stop.
\<close>

theorem heartbeat_stops_without_lease:
  assumes "heartbeat_turn h cx db = (Inr (False, cx'), db')"
  shows "db' = db \<and> cx_local cx' \<and>
    (case get_job (job_id (cx_job cx)) db of None \<Rightarrow> True
     | Some row \<Rightarrow> expect_lease row (cx_owner cx) (cx_epoch cx) (clock h) job_leased_states \<noteq> Inr ())"
proof -
  from assms obtain m where
    "heartbeat_job h (job_id (cx_job cx)) (cx_owner cx) (cx_epoch cx) (cx_ttl cx) None None db = (Inl (LeaseLost m), db')"
    and l: "cx_local cx'"
    by (auto simp: heartbeat_turn_def context_heartbeat_def obind_def split: prod.splits sum.splits py_err.splits)
  from heartbeat_lost[OF this(1)] l show ?thesis
    by (auto simp: live_lease_def split: option.splits)
qed

definition expired0 :: "work_db \<Rightarrow> job_context" where
  "expired0 db = \<lparr>cx_job = the (get_job ''j'' db), cx_owner = ''w'', cx_epoch = 1, cx_ttl = 60, cx_local = False\<rparr>"

lemma heartbeat_run:
  "case heartbeat_turn (host0\<lparr>clock := 500\<rparr>) (expired0 db_leased) db_leased of
     (Inl e, db') \<Rightarrow> False | (Inr (go, cx), db') \<Rightarrow> \<not> go"
  by code_simp

lemma heartbeat_stops_without_lease_witness:
  "\<exists>cx. heartbeat_turn (host0\<lparr>clock := 500\<rparr>) (expired0 db_leased) db_leased = (Inr (False, cx), db_leased) \<and> cx_local cx"
proof -
  obtain cx db' where run: "heartbeat_turn (host0\<lparr>clock := 500\<rparr>) (expired0 db_leased) db_leased = (Inr (False, cx), db')"
    using heartbeat_run by (auto split: prod.splits sum.splits)
  from heartbeat_stops_without_lease[OF run] run show ?thesis by blast
qed

text \<open>
  The delay before a retry is the exponential back-off of the policy, at least its base and at
  most the larger of base and cap.
\<close>

theorem retry_delay_bounded:
  assumes "retry_delay h job = Inr d"
  shows "\<exists>b c. float_or h (jget (retry_policy job) ''base_delay_s'') (1/2) = Inr b \<and>
    float_or h (jget (retry_policy job) ''max_delay_s'') 60 = Inr c \<and>
    0 \<le> d \<and> max 0 b \<le> d \<and> d \<le> max (max 0 b) c \<and>
    (max 0 b * 2 ^ nat (max 0 (attempt job - 1)) \<le> c \<longrightarrow> d = max 0 b * 2 ^ nat (max 0 (attempt job - 1)))"
  using assms
proof (rule retry_delay_bounds)
  fix b c
  assume b: "float_or h (jget (retry_policy job) ''base_delay_s'') (1/2) = Inr b"
    and c: "float_or h (jget (retry_policy job) ''max_delay_s'') 60 = Inr c"
    and d: "max 0 b \<le> d" "d \<le> max (max 0 b) c" "d = min (max (max 0 b) c) (max 0 b * 2 ^ nat (max 0 (attempt job - 1)))"
  from d(1) have "0 \<le> d" by (rule order_trans[rotated]) simp
  with b c d show ?thesis by (intro exI[of _ b] exI[of _ c]) (auto simp: min_def max_def)
qed

lemma retry_run: "retry_delay host0 ((hd (jobs db_created))\<lparr>attempt := 3\<rparr>) = Inr 2"
  by code_simp

lemma retry_delay_bounded_witness: "(1/2 :: rat) \<le> 2 \<and> retry_delay host0 ((hd (jobs db_created))\<lparr>attempt := 3\<rparr>) = Inr 2"
  using retry_delay_bounded[OF retry_run] retry_run by simp

end
