(* ===== verification/Goal_Models.thy ===== *)
theory Goal_Models
  imports Work_Repository
begin

text \<open>
  The value contracts of goals (\<^verbatim>\<open>backend/goals/models.py\<close>) and the tables of the goal repository
  (the schema in \<^verbatim>\<open>backend/goals/repository.py\<close>), which live in the database of the Work Fabric.
  Columns are kept as in \<^verbatim>\<open>Work_Models\<close>: a JSON column is the value read back from it, a nullable
  \<^verbatim>\<open>REAL\<close> an option.
\<close>

section \<open>States\<close>

datatype goal_status =
    GDraft | GQueued | GRunning | GWaitingUser | GWaitingExternal | GBlocked | GPaused
  | GSucceeded | GFailed | GCancelled | GArchived

fun goal_status_text :: "goal_status \<Rightarrow> string" where
  "goal_status_text GDraft = ''draft''"
| "goal_status_text GQueued = ''queued''"
| "goal_status_text GRunning = ''running''"
| "goal_status_text GWaitingUser = ''waiting_user''"
| "goal_status_text GWaitingExternal = ''waiting_external''"
| "goal_status_text GBlocked = ''blocked''"
| "goal_status_text GPaused = ''paused''"
| "goal_status_text GSucceeded = ''succeeded''"
| "goal_status_text GFailed = ''failed''"
| "goal_status_text GCancelled = ''cancelled''"
| "goal_status_text GArchived = ''archived''"

definition goal_states :: "goal_status list" where
  "goal_states = [GDraft, GQueued, GRunning, GWaitingUser, GWaitingExternal, GBlocked, GPaused,
     GSucceeded, GFailed, GCancelled, GArchived]"

definition goal_status_of :: "string \<Rightarrow> goal_status option" where
  "goal_status_of t = find (\<lambda>s. goal_status_text s = t) goal_states"

definition goal_terminal_states :: "goal_status set" where
  "goal_terminal_states = {GSucceeded, GFailed, GCancelled, GArchived}"

definition step_kinds :: "string list" where
  "step_kinds = [''agent'', ''python'', ''process'', ''child'', ''verification'', ''input'', ''wait'',
     ''integration'']"

datatype step_status =
    SPending | SReady | SLeased | SRunning | SWaiting | SRetryScheduled
  | SSucceeded | SFailed | SBlocked | SSkipped | SCancelled

fun step_status_text :: "step_status \<Rightarrow> string" where
  "step_status_text SPending = ''pending''"
| "step_status_text SReady = ''ready''"
| "step_status_text SLeased = ''leased''"
| "step_status_text SRunning = ''running''"
| "step_status_text SWaiting = ''waiting''"
| "step_status_text SRetryScheduled = ''retry_scheduled''"
| "step_status_text SSucceeded = ''succeeded''"
| "step_status_text SFailed = ''failed''"
| "step_status_text SBlocked = ''blocked''"
| "step_status_text SSkipped = ''skipped''"
| "step_status_text SCancelled = ''cancelled''"

definition step_states :: "step_status list" where
  "step_states = [SPending, SReady, SLeased, SRunning, SWaiting, SRetryScheduled, SSucceeded, SFailed,
     SBlocked, SSkipped, SCancelled]"

definition step_status_of :: "string \<Rightarrow> step_status option" where
  "step_status_of t = find (\<lambda>s. step_status_text s = t) step_states"

definition step_terminal_states :: "step_status set" where
  "step_terminal_states = {SSucceeded, SFailed, SBlocked, SSkipped, SCancelled}"

datatype attention_status = AtOpen | AtAnswered | AtDismissed

fun attention_status_text :: "attention_status \<Rightarrow> string" where
  "attention_status_text AtOpen = ''open''"
| "attention_status_text AtAnswered = ''answered''"
| "attention_status_text AtDismissed = ''dismissed''"

datatype wait_status = WtPending | WtSatisfied | WtCancelled

fun wait_status_text :: "wait_status \<Rightarrow> string" where
  "wait_status_text WtPending = ''pending''"
| "wait_status_text WtSatisfied = ''satisfied''"
| "wait_status_text WtCancelled = ''cancelled''"

datatype effect_status = EfPlanned | EfDispatched | EfSucceeded | EfFailed | EfCancelled | EfUnknown

fun effect_status_text :: "effect_status \<Rightarrow> string" where
  "effect_status_text EfPlanned = ''planned''"
| "effect_status_text EfDispatched = ''dispatched''"
| "effect_status_text EfSucceeded = ''succeeded''"
| "effect_status_text EfFailed = ''failed''"
| "effect_status_text EfCancelled = ''cancelled''"
| "effect_status_text EfUnknown = ''unknown_effect''"

definition effect_states :: "effect_status list" where
  "effect_states = [EfPlanned, EfDispatched, EfSucceeded, EfFailed, EfCancelled, EfUnknown]"

definition effect_status_of :: "string \<Rightarrow> effect_status option" where
  "effect_status_of t = find (\<lambda>s. effect_status_text s = t) effect_states"

lemma goal_status_of_text [simp]: "goal_status_of (goal_status_text s) = Some s"
  by (cases s) (simp_all add: goal_status_of_def goal_states_def)

lemma goal_status_of_Some: "goal_status_of t = Some s \<Longrightarrow> goal_status_text s = t"
  unfolding goal_status_of_def by (metis (mono_tags, lifting) find_Some_iff)

lemma step_status_of_text [simp]: "step_status_of (step_status_text s) = Some s"
  by (cases s) (simp_all add: step_status_of_def step_states_def)

lemma step_status_of_Some: "step_status_of t = Some s \<Longrightarrow> step_status_text s = t"
  unfolding step_status_of_def by (metis (mono_tags, lifting) find_Some_iff)

lemma effect_status_of_text [simp]: "effect_status_of (effect_status_text s) = Some s"
  by (cases s) (simp_all add: effect_status_of_def effect_states_def)

section \<open>Records\<close>

record goal_row =
  g_id :: string
  g_owner :: string
  g_workspace :: string
  g_title :: string
  g_objective :: string
  g_constraints :: "json list"
  g_criteria :: "jobject list"
  g_policy :: jobject
  g_status :: goal_status
  g_priority :: int
  g_version :: int
  g_limits :: jobject
  g_usage :: jobject
  g_deadline :: "rat option"
  g_pause_reason :: string
  g_worktree :: string
  g_summary_ref :: string
  g_created :: rat
  g_updated :: rat
  g_completed :: "rat option"
  g_archived :: "rat option"

record step_row =
  s_id :: string
  s_goal :: string
  s_parent :: string
  s_ordinal :: int
  s_kind :: string
  s_instructions :: string
  s_config :: jobject
  s_status :: step_status
  s_required :: bool
  s_version :: int
  s_attempts :: int
  s_max_attempts :: int
  s_retry_policy :: jobject
  s_thread :: string
  s_cursor :: jobject
  s_child :: string
  s_process :: string
  s_worktree :: string
  s_wait_spec :: jobject
  s_verification :: jobject
  s_result_ref :: string
  s_error_ref :: string
  s_error :: string
  s_owner :: string
  s_epoch :: int
  s_expires :: "rat option"
  s_available :: rat
  s_created :: rat
  s_updated :: rat
  s_completed :: "rat option"

record attempt_row =
  a_id :: string
  a_goal :: string
  a_step :: string
  a_attempt :: int
  a_status :: step_status
  a_thread :: string
  a_cursor :: jobject
  a_machine :: string
  a_run :: string
  a_receipt :: string
  a_result_ref :: string
  a_error_ref :: string
  a_started :: rat
  a_updated :: rat
  a_completed :: "rat option"

record state_row =
  st_goal :: string
  st_key :: string
  st_value :: json
  st_version :: int
  st_updated :: rat

record attention_row =
  at_id :: string
  at_goal :: string
  at_step :: string
  at_kind :: string
  at_status :: attention_status
  at_prompt :: string
  at_schema :: jobject
  at_response :: json
  at_version :: int
  at_created :: rat
  at_updated :: rat
  at_resolved :: "rat option"

record wait_row =
  w_id :: string
  w_goal :: string
  w_step :: string
  w_source :: string
  w_matcher :: jobject
  w_status :: wait_status
  w_wake :: "rat option"
  w_result :: jobject
  w_event :: string
  w_created :: rat
  w_satisfied :: "rat option"

record effect_row =
  e_id :: string
  e_goal :: string
  e_step :: string
  e_attempt :: int
  e_sequence :: int
  e_kind :: string
  e_status :: effect_status
  e_key :: string
  e_request :: jobject
  e_response :: jobject
  e_receipt :: string
  e_error :: string
  e_created :: rat
  e_updated :: rat

record artifact_row =
  l_id :: string
  l_goal :: string
  l_step :: string
  l_ref :: string
  l_role :: string
  l_metadata :: jobject
  l_created :: rat

definition goal_terminal :: "goal_row \<Rightarrow> bool" where
  "goal_terminal g \<longleftrightarrow> g_status g \<in> goal_terminal_states"

definition step_terminal :: "step_row \<Rightarrow> bool" where
  "step_terminal s \<longleftrightarrow> s_status s \<in> step_terminal_states"

section \<open>Dictionaries for the wire\<close>

text \<open>\<^verbatim>\<open>text or None\<close>, and \<^verbatim>\<open>float(x) or None\<close> of a column that is read as 0 when it is NULL.\<close>

definition text_or_null :: "string \<Rightarrow> json" where
  "text_or_null s = (if s = [] then JNull else JStr s)"

definition time_or_null :: "rat option \<Rightarrow> json" where
  "time_or_null t = (case t of None \<Rightarrow> JNull | Some x \<Rightarrow> if x = 0 then JNull else JFloat x)"

definition goal_to_dict :: "goal_row \<Rightarrow> jobject" where
  "goal_to_dict g =
     [(''schema'', JStr ''variant1.goal.v1''), (''goal_id'', JStr (g_id g)),
      (''owner_chat_id'', text_or_null (g_owner g)), (''workspace_id'', text_or_null (g_workspace g)),
      (''title'', JStr (g_title g)), (''objective'', JStr (g_objective g)),
      (''constraints'', JArr (g_constraints g)),
      (''success_criteria'', JArr (map JObj (g_criteria g))),
      (''completion_policy'', JObj (g_policy g)), (''status'', JStr (goal_status_text (g_status g))),
      (''priority'', JInt (g_priority g)), (''version'', JInt (g_version g)),
      (''budget'', JObj [(''limits'', JObj (g_limits g)), (''usage'', JObj (g_usage g))]),
      (''deadline'', time_or_null (g_deadline g)), (''pause_reason'', text_or_null (g_pause_reason g)),
      (''active_worktree_id'', text_or_null (g_worktree g)),
      (''terminal_summary_ref'', text_or_null (g_summary_ref g)),
      (''created_at'', JFloat (g_created g)), (''updated_at'', JFloat (g_updated g)),
      (''completed_at'', time_or_null (g_completed g)), (''archived_at'', time_or_null (g_archived g))]"

definition step_to_dict :: "string list \<Rightarrow> step_row \<Rightarrow> jobject" where
  "step_to_dict dependencies s =
     [(''schema'', JStr ''variant1.goal-step.v1''), (''step_id'', JStr (s_id s)),
      (''goal_id'', JStr (s_goal s)), (''parent_step_id'', text_or_null (s_parent s)),
      (''ordinal'', JInt (s_ordinal s)), (''dependencies'', JArr (map JStr dependencies)),
      (''kind'', JStr (s_kind s)), (''instructions'', JStr (s_instructions s)),
      (''config'', JObj (s_config s)), (''status'', JStr (step_status_text (s_status s))),
      (''required'', JBool (s_required s)), (''version'', JInt (s_version s)),
      (''attempt_count'', JInt (s_attempts s)), (''max_attempts'', JInt (s_max_attempts s)),
      (''retry_policy'', JObj (s_retry_policy s)), (''native_thread_id'', text_or_null (s_thread s)),
      (''snapshot_cursor'', JObj (s_cursor s)), (''child_id'', text_or_null (s_child s)),
      (''process_id'', text_or_null (s_process s)), (''worktree_id'', text_or_null (s_worktree s)),
      (''wait_spec'', JObj (s_wait_spec s)), (''verification_spec'', JObj (s_verification s)),
      (''result_ref'', text_or_null (s_result_ref s)), (''error_ref'', text_or_null (s_error_ref s)),
      (''error'', text_or_null (s_error s)),
      (''lease'', JObj [(''owner'', text_or_null (s_owner s)), (''epoch'', JInt (s_epoch s)),
                        (''expires_at'', time_or_null (s_expires s))]),
      (''available_at'', JFloat (s_available s)), (''created_at'', JFloat (s_created s)),
      (''updated_at'', JFloat (s_updated s)), (''completed_at'', time_or_null (s_completed s))]"

definition attempt_to_dict :: "attempt_row \<Rightarrow> jobject" where
  "attempt_to_dict a =
     [(''schema'', JStr ''variant1.goal-step-attempt.v1''), (''attempt_id'', JStr (a_id a)),
      (''goal_id'', JStr (a_goal a)), (''step_id'', JStr (a_step a)), (''attempt'', JInt (a_attempt a)),
      (''status'', JStr (step_status_text (a_status a))),
      (''snapshot_thread_id'', text_or_null (a_thread a)), (''snapshot_cursor'', JObj (a_cursor a)),
      (''machine_revision'', text_or_null (a_machine a)), (''native_run_id'', text_or_null (a_run a)),
      (''last_receipt_id'', text_or_null (a_receipt a)), (''result_ref'', text_or_null (a_result_ref a)),
      (''error_ref'', text_or_null (a_error_ref a)), (''started_at'', JFloat (a_started a)),
      (''updated_at'', JFloat (a_updated a)), (''completed_at'', time_or_null (a_completed a))]"

definition attention_to_dict :: "attention_row \<Rightarrow> jobject" where
  "attention_to_dict r =
     [(''attention_id'', JStr (at_id r)), (''goal_id'', JStr (at_goal r)),
      (''step_id'', text_or_null (at_step r)), (''kind'', JStr (at_kind r)),
      (''status'', JStr (attention_status_text (at_status r))), (''prompt'', JStr (at_prompt r)),
      (''schema'', JObj (at_schema r)), (''response'', at_response r), (''version'', JInt (at_version r)),
      (''created_at'', JFloat (at_created r)), (''updated_at'', JFloat (at_updated r)),
      (''resolved_at'', time_or_null (at_resolved r))]"

definition wait_to_dict :: "wait_row \<Rightarrow> jobject" where
  "wait_to_dict r =
     [(''wait_id'', JStr (w_id r)), (''goal_id'', JStr (w_goal r)), (''step_id'', JStr (w_step r)),
      (''source'', JStr (w_source r)), (''matcher'', JObj (w_matcher r)),
      (''status'', JStr (wait_status_text (w_status r))), (''wake_at'', time_or_null (w_wake r)),
      (''result'', JObj (w_result r)), (''event_id'', text_or_null (w_event r)),
      (''created_at'', JFloat (w_created r)), (''satisfied_at'', time_or_null (w_satisfied r))]"

definition effect_to_dict :: "effect_row \<Rightarrow> jobject" where
  "effect_to_dict r =
     [(''effect_id'', JStr (e_id r)), (''goal_id'', JStr (e_goal r)), (''step_id'', JStr (e_step r)),
      (''attempt'', JInt (e_attempt r)), (''sequence'', JInt (e_sequence r)), (''kind'', JStr (e_kind r)),
      (''status'', JStr (effect_status_text (e_status r))), (''idempotency_key'', JStr (e_key r)),
      (''request'', JObj (e_request r)), (''response'', JObj (e_response r)),
      (''receipt_id'', text_or_null (e_receipt r)), (''error'', text_or_null (e_error r)),
      (''created_at'', JFloat (e_created r)), (''updated_at'', JFloat (e_updated r))]"

definition artifact_to_dict :: "artifact_row \<Rightarrow> jobject" where
  "artifact_to_dict r =
     [(''link_id'', JStr (l_id r)), (''goal_id'', JStr (l_goal r)), (''step_id'', text_or_null (l_step r)),
      (''artifact_ref'', JStr (l_ref r)), (''role'', JStr (l_role r)), (''metadata'', JObj (l_metadata r)),
      (''created_at'', JFloat (l_created r))]"

section \<open>The database\<close>

text \<open>
  The tables of the goals beside those of the Work Fabric, in one database: \<^verbatim>\<open>WorkRepository._write\<close>
  is the unit of work of both.
\<close>

record goal_db =
  gd_work :: work_db
  gd_goals :: "goal_row list"
  gd_steps :: "step_row list"
  gd_deps :: "(string \<times> string) list"
  gd_attempts :: "attempt_row list"
  gd_states :: "state_row list"
  gd_attention :: "attention_row list"
  gd_waits :: "wait_row list"
  gd_effects :: "effect_row list"
  gd_artifacts :: "artifact_row list"

definition empty_goal_db :: goal_db where
  "empty_goal_db = \<lparr>gd_work = empty_db, gd_goals = [], gd_steps = [], gd_deps = [], gd_attempts = [],
     gd_states = [], gd_attention = [], gd_waits = [], gd_effects = [], gd_artifacts = []\<rparr>"

definition goal_write :: "host \<Rightarrow> (goal_db, 'a) body \<Rightarrow> goal_db \<Rightarrow> 'a res \<times> goal_db" where
  "goal_write h body db = sqlite_unit_of_work h ''work.before_commit'' body db"

lemma goal_write_Inl: "goal_write h body db = (Inl e, db') \<Longrightarrow> db' = db"
  unfolding goal_write_def by (rule unit_of_work_Inl)

lemma goal_write_Inr:
  "goal_write h body db = (Inr x, db') \<longleftrightarrow>
     body db = Inr (x, db') \<and> ''work.before_commit'' \<notin> set (faults h)"
  by (simp add: goal_write_def unit_of_work_Inr)

lemma goal_write_invariant:
  "I db \<Longrightarrow> (\<And>x db'. body db = Inr (x, db') \<Longrightarrow> I db') \<Longrightarrow> I (snd (goal_write h body db))"
  unfolding goal_write_def by (rule unit_of_work_invariant)

lemma goal_terminal_iff: "goal_terminal g \<longleftrightarrow> g_status g \<in> {GSucceeded, GFailed, GCancelled, GArchived}"
  by (simp add: goal_terminal_def goal_terminal_states_def)

lemma step_terminal_iff: "step_terminal s \<longleftrightarrow> s_status s \<in> {SSucceeded, SFailed, SBlocked, SSkipped, SCancelled}"
  by (simp add: step_terminal_def step_terminal_states_def)

end
