(* ===== verification/Goal_Plan.thy ===== *)
theory Goal_Plan
  imports Goal_Models
begin

text \<open>
  The argument checks of the goal repository and the normalisation of a plan
  (\<^verbatim>\<open>backend/goals/repository.py\<close>: \<^verbatim>\<open>_text\<close>, \<^verbatim>\<open>_json\<close>, \<^verbatim>\<open>_normalize_plan\<close>), with the depth-first
  search that refuses cyclic dependencies.
\<close>

section \<open>Arguments\<close>

definition max_plan_steps :: nat where
  "max_plan_steps = 256"

definition max_json_bytes :: nat where
  "max_json_bytes = 2097152"

definition goal_text :: "string \<Rightarrow> string \<Rightarrow> bool \<Rightarrow> nat \<Rightarrow> string res" where
  "goal_text v field required limit =
     (let t = py_strip v in
      if required \<and> t = [] then Inl (GoalValidationError (field @ '' is required''))
      else if nul \<in> set t then Inl (GoalValidationError (field @ '' contains a NUL character''))
      else if limit < length t then
        Inl (GoalValidationError (field @ '' exceeds '' @ show_nat limit @ '' characters''))
      else Inr t)"

lemma goal_text_Inr:
  "goal_text v field required limit = Inr t \<longleftrightarrow>
     t = py_strip v \<and> (required \<longrightarrow> t \<noteq> []) \<and> length t \<le> limit \<and> nul \<notin> set t"
  by (auto simp: goal_text_def Let_def)

definition goal_json_value :: "pyval \<Rightarrow> json res" where
  "goal_json_value v = (case strict_json_value v ''$'' of
     Inl (StrictJSONError m) \<Rightarrow> Inl (GoalValidationError m) | r \<Rightarrow> r)"

text \<open>\<^verbatim>\<open>_json\<close> of a value that already is JSON, and of any value.\<close>

definition store_goal_json :: "host \<Rightarrow> json \<Rightarrow> json res" where
  "store_goal_json h j =
     (if max_json_bytes < utf8_length (json_text h j)
      then Inl (GoalValidationError ''inline goal JSON exceeds 2 MiB; use an artifact'')
      else Inr (jnorm j))"

definition goal_json :: "host \<Rightarrow> pyval \<Rightarrow> json res" where
  "goal_json h v = ebind (goal_json_value v) (store_goal_json h)"

definition store_goal_object :: "host \<Rightarrow> jobject \<Rightarrow> jobject res" where
  "store_goal_object h kvs = ebind (store_goal_json h (JObj kvs)) (\<lambda>_. Inr (onorm kvs))"

lemma store_goal_object_Inr: "store_goal_object h kvs = Inr r \<Longrightarrow> r = onorm kvs"
  by (auto simp: store_goal_object_def)

lemma goal_json_embed: "goal_json h (embed j) = store_goal_json h j"
  by (simp add: goal_json_def goal_json_value_def strict_embed)

text \<open>
  \<^verbatim>\<open>str(value or "")\<close>, \<^verbatim>\<open>dict(value or {})\<close> and \<^verbatim>\<open>(value or ())\<close> as an iterable, of an entry of a JSON
  object.  A \<^verbatim>\<open>dict\<close> of a list takes its items as pairs; a pair whose key is no text is refused here,
  where the code refuses it when the dictionary is stored.
\<close>

definition text_of :: "host \<Rightarrow> json option \<Rightarrow> string" where
  "text_of h v = (case v of None \<Rightarrow> [] | Some w \<Rightarrow> if truthy w then py_str h w else [])"

fun pair_of :: "json \<Rightarrow> (string \<times> json) res" where
  "pair_of (JArr [JStr k, v]) = Inr (k, v)"
| "pair_of (JStr [a, b]) = Inr ([a], JStr [b])"
| "pair_of (JObj [(a, _), (b, _)]) = Inr (a, JStr b)"
| "pair_of (JArr _) = Inl (ValueError ''dictionary update sequence element has wrong length; 2 is required'')"
| "pair_of (JStr _) = Inl (ValueError ''dictionary update sequence element has wrong length; 2 is required'')"
| "pair_of (JObj _) = Inl (ValueError ''dictionary update sequence element has wrong length; 2 is required'')"
| "pair_of _ = Inl (TypeErr ''cannot convert dictionary update sequence element to a sequence'')"

definition dict_of :: "json option \<Rightarrow> jobject res" where
  "dict_of v = (case v of None \<Rightarrow> Inr [] | Some w \<Rightarrow> if \<not> truthy w then Inr [] else
     (case w of JObj kvs \<Rightarrow> Inr kvs
      | JArr xs \<Rightarrow> ebind (emap pair_of xs) (\<lambda>ps. Inr (jupdate [] ps))
      | JStr s \<Rightarrow> Inl (ValueError ''dictionary update sequence element #0 has length 1; 2 is required'')
      | _ \<Rightarrow> Inl (TypeErr ''object is not iterable'')))"

definition items_of :: "json option \<Rightarrow> json list res" where
  "items_of v = (case v of None \<Rightarrow> Inr [] | Some w \<Rightarrow> if \<not> truthy w then Inr [] else
     (case w of JArr xs \<Rightarrow> Inr xs | JStr s \<Rightarrow> Inr (map (\<lambda>c. JStr [c]) s)
      | JObj kvs \<Rightarrow> Inr (map (JStr \<circ> fst) kvs) | _ \<Rightarrow> Inl (TypeErr ''object is not iterable'')))"

definition int_or :: "int \<Rightarrow> json option \<Rightarrow> int res" where
  "int_or d v = (case v of None \<Rightarrow> Inr d | Some w \<Rightarrow> if \<not> truthy w then Inr d else
     (case int_of_json w of Some i \<Rightarrow> Inr i
      | None \<Rightarrow> (case w of JStr s \<Rightarrow> Inl (ValueError ''invalid literal for int()'')
                | _ \<Rightarrow> Inl (TypeErr ''int() argument must be a string or a real number''))))"

text \<open>\<^verbatim>\<open>tuple(dict.fromkeys(xs))\<close>: the first of equal entries stays.\<close>

fun dedup :: "'a list \<Rightarrow> 'a list" where
  "dedup [] = []"
| "dedup (x # xs) = x # removeAll x (dedup xs)"

lemma set_dedup [simp]: "set (dedup xs) = set xs"
  by (induction xs) auto

lemma distinct_dedup: "distinct (dedup xs)"
  by (induction xs) (auto simp: distinct_removeAll)

section \<open>One step of a plan\<close>

record plan_row =
  p_id :: string
  p_ordinal :: nat
  p_parent :: string
  p_kind :: string
  p_instructions :: string
  p_config :: jobject
  p_deps :: "string list"
  p_required :: bool
  p_max_attempts :: int
  p_retry :: jobject
  p_wait :: jobject
  p_verification :: jobject

text \<open>The wait specification of a step of kind \<^verbatim>\<open>wait\<close>.\<close>

definition time_number :: "host \<Rightarrow> json option \<Rightarrow> rat res" where
  "time_number h v = (case float_or_zero h v of
     Inl e \<Rightarrow> Inl (GoalValidationError ''time wait wake_at/delay_s must be numeric'') | Inr r \<Rightarrow> Inr r)"

definition plan_wait :: "host \<Rightarrow> jobject \<Rightarrow> jobject \<Rightarrow> jobject res" where
  "plan_wait h config spec0 =
     (let spec = (if spec0 = [] then config else spec0) in
      ebind (goal_text (let t = text_of h (jget spec ''source'') in if t = [] then ''time'' else t)
        ''wait source'' True 100) (\<lambda>source.
      ebind (if source = ''time'' then
          ebind (time_number h (jget spec ''wake_at'')) (\<lambda>wake.
          ebind (time_number h (jget spec ''delay_s'')) (\<lambda>delay.
          require (\<not> (wake \<le> 0 \<and> delay \<le> 0))
            (GoalValidationError ''time wait requires a positive wake_at or delay_s'')))
        else Inr ()) (\<lambda>_.
      Inr (jset spec ''source'' (JStr source)))))"

definition plan_row_of :: "host \<Rightarrow> nat \<Rightarrow> string \<Rightarrow> jobject \<Rightarrow> plan_row res" where
  "plan_row_of h ordinal sid raw =
     ebind (goal_text (text_of h (jget raw ''kind'')) ''step kind'' True 40) (\<lambda>kind.
     ebind (require (kind \<in> set step_kinds)
       (GoalValidationError (''unsupported step kind: '' @ kind))) (\<lambda>_.
     ebind (dict_of (jget raw ''config'')) (\<lambda>config.
     ebind (dict_of (jget raw ''wait_spec'')) (\<lambda>spec0.
     ebind (if kind = ''wait'' then plan_wait h config spec0 else Inr spec0) (\<lambda>wait.
     ebind (items_of (jget raw ''dependencies'')) (\<lambda>items.
     ebind (emap (\<lambda>v. goal_text (text_of h (Some v)) ''dependency'' True 512) items) (\<lambda>deps.
     ebind (goal_text (text_of h (jget raw ''parent_step_id'')) ''parent_step_id'' False 512) (\<lambda>parent.
     ebind (goal_text (text_of h (jget raw ''instructions'')) ''instructions'' False 32000) (\<lambda>instructions.
     ebind (int_or 1 (jget raw ''max_attempts'')) (\<lambda>attempts.
     ebind (dict_of (jget raw ''retry_policy'')) (\<lambda>retry.
     ebind (dict_of (jget raw ''verification_spec'')) (\<lambda>verification.
     Inr \<lparr>p_id = sid, p_ordinal = ordinal, p_parent = parent, p_kind = kind,
          p_instructions = instructions, p_config = config, p_deps = dedup deps,
          p_required = (case jget raw ''required'' of None \<Rightarrow> True | Some v \<Rightarrow> truthy v),
          p_max_attempts = max 1 (min 100 attempts), p_retry = retry, p_wait = wait,
          p_verification = verification\<rparr>))))))))))))"

text \<open>The loop over the raw steps; a missing step id is drawn.\<close>

fun plan_rows :: "host \<Rightarrow> nat \<Rightarrow> nat \<Rightarrow> string list \<Rightarrow> json list \<Rightarrow> (plan_row list \<times> nat) res" where
  "plan_rows h n ordinal ids [] = Inr ([], n)"
| "plan_rows h n ordinal ids (raw # raws) =
     (case raw of
        JObj kvs \<Rightarrow>
          (let t = text_of h (jget kvs ''step_id'') in
           ebind (goal_text (if t = [] then new_id ''step'' (uuid4 h n) else t) ''step_id'' True 512) (\<lambda>sid.
           ebind (require (sid \<notin> set ids) (GoalValidationError (''duplicate step id: '' @ sid))) (\<lambda>_.
           ebind (plan_row_of h ordinal sid kvs) (\<lambda>row.
           ebind (plan_rows h (if t = [] then Suc n else n) (Suc ordinal) (sid # ids) raws) (\<lambda>(rows, n').
           Inr (row # rows, n'))))))
      | _ \<Rightarrow> Inl (GoalValidationError ''each plan step must be an object''))"

section \<open>The references of a plan\<close>

definition row_refs_ok :: "string list \<Rightarrow> plan_row \<Rightarrow> unit res" where
  "row_refs_ok ids row =
     ebind (require (p_parent row = [] \<or> p_parent row \<in> set ids)
       (GoalValidationError (''unknown parent step: '' @ p_parent row))) (\<lambda>_.
     ebind (emap (\<lambda>d. ebind (require (d \<in> set ids) (GoalValidationError (''unknown dependency: '' @ d)))
                (\<lambda>_. require (d \<noteq> p_id row) (GoalValidationError ''a step cannot depend on itself'')))
            (p_deps row)) (\<lambda>_. Inr ()))"

section \<open>The search for cycles\<close>

definition deps_of :: "plan_row list \<Rightarrow> string \<Rightarrow> string list option" where
  "deps_of rows s = map_option p_deps (find (\<lambda>r. p_id r = s) rows)"

text \<open>
  \<^verbatim>\<open>for s in steps: visit(s)\<close>, with the sets of the steps being visited and of those done, the last
  one done first.  The call that visits the dependencies of a step has the step in \<open>visiting\<close>.
\<close>

function visit_all :: "plan_row list \<Rightarrow> string list \<Rightarrow> string list \<Rightarrow> string list \<Rightarrow> string list res" where
  "visit_all rows [] visiting visited = Inr visited"
| "visit_all rows (s # ss) visiting visited =
     (if s \<in> set visiting then Inl (GoalValidationError ''step dependency graph contains a cycle'')
      else if s \<in> set visited then visit_all rows ss visiting visited
      else case deps_of rows s of
          None \<Rightarrow> Inl (RuntimeErr (''KeyError: '' @ s))
        | Some ds \<Rightarrow> ebind (visit_all rows ds (s # visiting) visited)
            (\<lambda>visited'. visit_all rows ss visiting (s # visited')))"
  by pat_completeness auto

lemma deps_of_Some: "deps_of rows s = Some ds \<Longrightarrow> s \<in> p_id ` set rows"
  unfolding deps_of_def using find_Some_key[of p_id s rows] by (auto simp: image_iff)

text \<open>Each level of the search takes a step of the plan off those not being visited.\<close>

lemma visit_measure:
  assumes "deps_of rows s = Some ds" and "s \<notin> set visiting"
  shows "card (p_id ` set rows - set (s # visiting)) < card (p_id ` set rows - set visiting)"
  using deps_of_Some[OF assms(1)] assms(2) by (intro psubset_card_mono) auto

termination visit_all
  by (relation "measures [\<lambda>(rows, ss, visiting, visited). card (p_id ` set rows - set visiting),
       \<lambda>(rows, ss, visiting, visited). length ss]")
    (use visit_measure in \<open>auto simp del: set_simps\<close>)

definition normalize_plan :: "host \<Rightarrow> nat \<Rightarrow> json list \<Rightarrow> (plan_row list \<times> nat) res" where
  "normalize_plan h n raw_steps =
     ebind (require (raw_steps \<noteq> [] \<and> length raw_steps \<le> max_plan_steps)
       (GoalValidationError ''plan must contain 1-256 steps'')) (\<lambda>_.
     ebind (plan_rows h n 0 [] raw_steps) (\<lambda>(rows, n').
     ebind (emap (row_refs_ok (map p_id rows)) rows) (\<lambda>_.
     ebind (visit_all rows (map p_id rows) [] []) (\<lambda>_.
     Inr (rows, n')))))"

section \<open>What the search decides\<close>

definition depends :: "plan_row list \<Rightarrow> (string \<times> string) set" where
  "depends rows = {(s, d). \<exists>ds. deps_of rows s = Some ds \<and> d \<in> set ds}"

text \<open>A list of steps in which every step comes after its dependencies (the head is the last).\<close>

fun topological :: "plan_row list \<Rightarrow> string list \<Rightarrow> bool" where
  "topological rows [] = True"
| "topological rows (s # vs) =
     (s \<notin> set vs \<and> (\<forall>ds. deps_of rows s = Some ds \<longrightarrow> set ds \<subseteq> set vs) \<and> deps_of rows s \<noteq> None \<and>
      topological rows vs)"

lemma visit_all_topological:
  assumes "visit_all rows ss visiting visited = Inr vs" and "topological rows visited"
    and "set visiting \<inter> set visited = {}"
  shows "topological rows vs \<and> set ss \<subseteq> set vs \<and> set visited \<subseteq> set vs \<and> set visiting \<inter> set vs = {}"
  using assms
proof (induction rows ss visiting visited arbitrary: vs rule: visit_all.induct)
  case (2 rows s ss visiting visited)
  have nv: "s \<notin> set visiting" using "2.prems"(1) by (auto split: if_splits)
  show ?case
  proof (cases "s \<in> set visited")
    case True
    then show ?thesis using 2 nv by auto
  next
    case False
    with "2.prems"(1) nv obtain ds v1 where d: "deps_of rows s = Some ds" "visit_all rows ds (s # visiting) visited = Inr v1"
      and r: "visit_all rows ss visiting (s # v1) = Inr vs"
      by (auto split: option.splits)
    have "set (s # visiting) \<inter> set visited = {}" using False "2.prems"(3) by auto
    from "2.IH"(2)[OF nv False d(1) d(2) "2.prems"(2) this]
    have v1: "topological rows v1" "set ds \<subseteq> set v1" "set visited \<subseteq> set v1" "set (s # visiting) \<inter> set v1 = {}"
      by simp_all
    have "topological rows (s # v1)" "set visiting \<inter> set (s # v1) = {}" using v1 d nv by auto
    from "2.IH"(3)[OF nv False d r this] v1 show ?thesis by auto
  qed
qed simp

lemma visit_all_accepts:
  assumes "acyclic (depends rows)" and "\<forall>s ds. deps_of rows s = Some ds \<longrightarrow> set ds \<subseteq> p_id ` set rows"
    and "set ss \<subseteq> p_id ` set rows" and "\<And>v s. v \<in> set visiting \<Longrightarrow> s \<in> set ss \<Longrightarrow> (v, s) \<in> (depends rows)\<^sup>+"
  shows "\<exists>vs. visit_all rows ss visiting visited = Inr vs"
  using assms
proof (induction rows ss visiting visited rule: visit_all.induct)
  case (2 rows s ss visiting visited)
  have nv: "s \<notin> set visiting" using "2.prems"(1,4) by (auto simp: acyclic_def)
  have tl: "set ss \<subseteq> p_id ` set rows" "\<And>v x. v \<in> set visiting \<Longrightarrow> x \<in> set ss \<Longrightarrow> (v, x) \<in> (depends rows)\<^sup>+"
    using "2.prems"(3,4) by auto
  show ?case
  proof (cases "s \<in> set visited")
    case True
    then show ?thesis using 2 nv by auto
  next
    case False
    have "s \<in> p_id ` set rows" using "2.prems"(3) by simp
    then obtain ds where ds: "deps_of rows s = Some ds"
      unfolding deps_of_def using find_None_key[of p_id s rows] by (cases "find (\<lambda>r. p_id r = s) rows") auto
    have edge: "(s, x) \<in> depends rows" if "x \<in> set ds" for x using that ds by (auto simp: depends_def)
    have "(v, x) \<in> (depends rows)\<^sup>+" if "v \<in> set (s # visiting)" "x \<in> set ds" for v x
      using that edge[OF that(2)] "2.prems"(4)[of v s] by (auto intro: trancl_into_trancl)
    with "2.IH"(2)[OF nv False ds "2.prems"(1,2)] "2.prems"(2) ds obtain v1 where v1: "visit_all rows ds (s # visiting) visited = Inr v1"
      by blast
    from "2.IH"(3)[OF nv False ds v1 "2.prems"(1,2) tl] show ?thesis using nv False ds v1 by simp
  qed
qed simp

text \<open>Along a topological order the dependencies cannot come back.\<close>

lemma topological_trancl:
  assumes "topological rows vs"
  shows "(s, d) \<in> (depends rows)\<^sup>+ \<Longrightarrow> s \<in> set vs \<Longrightarrow> s \<noteq> d \<and> d \<in> set vs"
  using assms
proof (induction vs arbitrary: s d)
  case (Cons x vs)
  have "d \<in> set vs \<and> s \<noteq> d" if "s = x"
  proof -
    from tranclD[OF Cons.prems(1)] obtain m where m: "(s, m) \<in> depends rows" "m = d \<or> (m, d) \<in> (depends rows)\<^sup>+"
      by (auto simp: rtrancl_eq_or_trancl)
    then have "m \<in> set vs" using Cons.prems(3) that by (auto simp: depends_def)
    with m(2) Cons.IH[of m d] Cons.prems(3) have "d \<in> set vs" by auto
    with that Cons.prems(3) show ?thesis by auto
  qed
  then show ?case using Cons.IH[of s d] Cons.prems by (cases "s = x") auto
qed simp

lemma topological_acyclic:
  assumes "topological rows vs" and "p_id ` set rows \<subseteq> set vs"
  shows "acyclic (depends rows)"
proof (rule acyclicI, rule allI, rule notI)
  fix s assume s: "(s, s) \<in> (depends rows)\<^sup>+"
  from tranclD[OF this] obtain d where "(s, d) \<in> depends rows" by blast
  then have "s \<in> p_id ` set rows" using deps_of_Some by (auto simp: depends_def)
  then show False using topological_trancl[OF assms(1) s] assms(2) by auto
qed

end
