(* ===== verification/Goal_Repository.thy ===== *)
theory Goal_Repository
  imports Goal_Plan
begin

text \<open>
  The goal aggregate (\<^verbatim>\<open>backend/goals/repository.py\<close>): the boundary every mutation shares (the
  version check, and the event appended with the version), creation, planning, transitions, budget,
  state and artifacts, and the queries.
\<close>

section \<open>The boundary of a mutation\<close>

text \<open>The keyword arguments \<^verbatim>\<open>actor\<close> and \<^verbatim>\<open>correlation_id\<close> every operation passes to its event.\<close>

record caller =
  ca_actor :: "work_actor option"
  ca_correlation :: string

definition goal_actor :: "work_actor option \<Rightarrow> work_actor" where
  "goal_actor a = (case a of Some x \<Rightarrow> x | None \<Rightarrow> \<lparr>actor_kind = ''system'', actor_id = ''goal-service''\<rparr>)"

definition goal_scope :: "goal_row \<Rightarrow> string \<Rightarrow> int \<Rightarrow> work_scope res" where
  "goal_scope g sid att = post_init (empty_work_scope\<lparr>chat_id := g_owner g, workspace_id := g_workspace g,
     goal_id := g_id g, step_id := sid, scope_attempt := att\<rparr>)"

definition goal_row_of :: "string \<Rightarrow> goal_db \<Rightarrow> goal_row option" where
  "goal_row_of gid db = find (\<lambda>r. g_id r = gid) (gd_goals db)"

definition require_goal_tx :: "string \<Rightarrow> goal_db \<Rightarrow> goal_row res" where
  "require_goal_tx gid db = (case goal_row_of gid db of
     None \<Rightarrow> Inl (GoalNotFound (''unknown goal: '' @ gid)) | Some g \<Rightarrow> Inr g)"

definition step_row_of :: "string \<Rightarrow> goal_db \<Rightarrow> step_row option" where
  "step_row_of sid db = find (\<lambda>r. s_id r = sid) (gd_steps db)"

definition get_step :: "string \<Rightarrow> string \<Rightarrow> goal_db \<Rightarrow> step_row option" where
  "get_step gid sid db = find (\<lambda>r. s_goal r = gid \<and> s_id r = sid) (gd_steps db)"

definition require_step_tx :: "string \<Rightarrow> string \<Rightarrow> goal_db \<Rightarrow> step_row res" where
  "require_step_tx gid sid db = (case get_step gid sid db of
     None \<Rightarrow> Inl (GoalNotFound (''unknown goal step: '' @ sid)) | Some s \<Rightarrow> Inr s)"

definition check_version :: "goal_row \<Rightarrow> int \<Rightarrow> unit res" where
  "check_version g expected = require (expected = g_version g)
     (GoalConflict (''goal version changed ('' @ show_int (g_version g) @ '' != '' @ show_int expected @ '')''))"

text \<open>\<^verbatim>\<open>except WorkConflict as exc: raise GoalConflict\<close>.\<close>

definition as_goal_conflict :: "'a res \<Rightarrow> 'a res" where
  "as_goal_conflict r = (case r of Inl (WorkConflict m) \<Rightarrow> Inl (GoalConflict m) | _ \<Rightarrow> r)"

definition goal_event :: "caller \<Rightarrow> string \<Rightarrow> work_scope \<Rightarrow> string \<Rightarrow> int \<Rightarrow> jobject \<Rightarrow> rat \<Rightarrow> event_request" where
  "goal_event c gid sc etype version pl tm = event_request0\<lparr>req_event_type := etype,
     req_aggregate_kind := ''goal'', req_aggregate_id := gid, req_aggregate_version := Some version,
     req_expected_version := Some (version - 1), req_scope := AScope sc,
     req_actor := Some (goal_actor (ca_actor c)), req_correlation_id := ca_correlation c,
     req_payload := pl, req_created_at := Some tm\<rparr>"

definition advance_tx ::
  "host \<Rightarrow> caller \<Rightarrow> goal_row \<Rightarrow> string \<Rightarrow> jobject \<Rightarrow> string \<Rightarrow> int \<Rightarrow> rat \<Rightarrow> (goal_db, int) body" where
  "advance_tx h c goal etype pl sid att tm db =
     (case sql_update (\<lambda>r. g_id r = g_id goal \<and> g_version r = g_version goal)
         (\<lambda>r. r\<lparr>g_version := g_version goal + 1, g_updated := tm\<rparr>) (gd_goals db) of (n, t) \<Rightarrow>
      ebind (require (n = 1) (GoalConflict ''goal version changed during mutation'')) (\<lambda>_.
      ebind (goal_scope goal sid att) (\<lambda>sc.
      ebind (as_goal_conflict (insert_event_tx h
          (goal_event c (g_id goal) sc etype (g_version goal + 1) pl tm) (gd_work db))) (\<lambda>(_, w).
      Inr (g_version goal + 1, db\<lparr>gd_goals := t, gd_work := w\<rparr>)))))"

text \<open>A mutation of the goal found at the expected version.\<close>

definition with_goal :: "string \<Rightarrow> int \<Rightarrow> (goal_row \<Rightarrow> (goal_db, 'a) body) \<Rightarrow> (goal_db, 'a) body" where
  "with_goal gid expected f db =
     ebind (require_goal_tx gid db) (\<lambda>goal. ebind (check_version goal expected) (\<lambda>_. f goal db))"

definition take_draws :: "nat \<Rightarrow> goal_db \<Rightarrow> goal_db" where
  "take_draws n db = db\<lparr>gd_work := (gd_work db)\<lparr>draws := draws (gd_work db) + n\<rparr>\<rparr>"

definition drawn :: "host \<Rightarrow> string \<Rightarrow> nat \<Rightarrow> goal_db \<Rightarrow> string" where
  "drawn h prefix i db = new_id prefix (uuid4 h (draws (gd_work db) + i))"

definition null_or :: "string \<Rightarrow> json" where
  "null_or s = (if s = [] then JNull else JStr s)"

section \<open>Rows updated by their key\<close>

definition update_goal_row :: "string \<Rightarrow> (goal_row \<Rightarrow> goal_row) \<Rightarrow> goal_db \<Rightarrow> goal_db" where
  "update_goal_row gid f db = db\<lparr>gd_goals := snd (sql_update (\<lambda>r. g_id r = gid) f (gd_goals db))\<rparr>"

definition update_step_row :: "string \<Rightarrow> (step_row \<Rightarrow> step_row) \<Rightarrow> goal_db \<Rightarrow> goal_db" where
  "update_step_row sid f db = db\<lparr>gd_steps := snd (sql_update (\<lambda>r. s_id r = sid) f (gd_steps db))\<rparr>"

definition update_attempt_row :: "string \<Rightarrow> int \<Rightarrow> (attempt_row \<Rightarrow> attempt_row) \<Rightarrow> goal_db \<Rightarrow> goal_db" where
  "update_attempt_row sid n f db = db\<lparr>gd_attempts :=
     snd (sql_update (\<lambda>r. a_step r = sid \<and> a_attempt r = n) f (gd_attempts db))\<rparr>"

definition update_waits :: "(wait_row \<Rightarrow> bool) \<Rightarrow> (wait_row \<Rightarrow> wait_row) \<Rightarrow> goal_db \<Rightarrow> goal_db" where
  "update_waits P f db = db\<lparr>gd_waits := snd (sql_update P f (gd_waits db))\<rparr>"

definition update_attention :: "(attention_row \<Rightarrow> bool) \<Rightarrow> (attention_row \<Rightarrow> attention_row) \<Rightarrow> goal_db \<Rightarrow> goal_db" where
  "update_attention P f db = db\<lparr>gd_attention := snd (sql_update P f (gd_attention db))\<rparr>"

definition update_effects :: "(effect_row \<Rightarrow> bool) \<Rightarrow> (effect_row \<Rightarrow> effect_row) \<Rightarrow> goal_db \<Rightarrow> goal_db" where
  "update_effects P f db = db\<lparr>gd_effects := snd (sql_update P f (gd_effects db))\<rparr>"

definition state_row_of :: "string \<Rightarrow> string \<Rightarrow> goal_db \<Rightarrow> state_row option" where
  "state_row_of gid key db = find (\<lambda>r. st_goal r = gid \<and> st_key r = key) (gd_states db)"

text \<open>\<^verbatim>\<open>INSERT .. ON CONFLICT(goal_id,state_key) DO UPDATE\<close>.\<close>

definition upsert_state :: "string \<Rightarrow> string \<Rightarrow> json \<Rightarrow> rat \<Rightarrow> goal_db \<Rightarrow> goal_db" where
  "upsert_state gid key v tm db = db\<lparr>gd_states :=
     (if state_row_of gid key db = None
      then gd_states db @ [\<lparr>st_goal = gid, st_key = key, st_value = v, st_version = 1, st_updated = tm\<rparr>]
      else snd (sql_update (\<lambda>r. st_goal r = gid \<and> st_key r = key)
        (\<lambda>r. r\<lparr>st_value := v, st_version := st_version r + 1, st_updated := tm\<rparr>) (gd_states db)))\<rparr>"

section \<open>Creation\<close>

record goal_request =
  gq_title :: string
  gq_objective :: string
  gq_owner :: string
  gq_workspace :: string
  gq_constraints :: "json list"
  gq_criteria :: "jobject list"
  gq_policy :: jobject
  gq_priority :: int
  gq_limits :: jobject
  gq_deadline :: rat
  gq_state :: jobject
  gq_id :: string
  gq_caller :: caller

text \<open>The checked arguments.\<close>

record clean_goal =
  cg_id :: string
  cg_title :: string
  cg_objective :: string
  cg_owner :: string
  cg_workspace :: string
  cg_constraints :: "json list"
  cg_criteria :: "jobject list"
  cg_policy :: jobject
  cg_limits :: jobject
  cg_deadline :: rat

definition clean_goal_args :: "host \<Rightarrow> string \<Rightarrow> goal_request \<Rightarrow> clean_goal res" where
  "clean_goal_args h fresh q =
     ebind (goal_text (if gq_id q = [] then fresh else gq_id q) ''goal_id'' True 512) (\<lambda>gid.
     ebind (goal_text (gq_title q) ''title'' True 500) (\<lambda>title.
     ebind (goal_text (gq_objective q) ''objective'' True 32000) (\<lambda>objective.
     ebind (require (length (gq_criteria q) \<le> 256)
       (GoalValidationError ''success criteria exceed 256 entries'')) (\<lambda>_.
     ebind (goal_text (gq_owner q) ''owner_chat_id'' False 512) (\<lambda>chat.
     ebind (goal_text (gq_workspace q) ''workspace_id'' False 512) (\<lambda>workspace.
     ebind (store_goal_json h (JArr (gq_constraints q))) (\<lambda>_.
     ebind (store_goal_json h (JArr (map JObj (gq_criteria q)))) (\<lambda>_.
     ebind (store_goal_object h (if gq_policy q = [] then [(''kind'', JStr ''all_required'')] else gq_policy q)) (\<lambda>policy.
     ebind (store_goal_object h (gq_limits q)) (\<lambda>limits.
     ebind (require (0 \<le> gq_deadline q)
       (GoalValidationError ''deadline must be a finite non-negative timestamp'')) (\<lambda>_.
     Inr \<lparr>cg_id = gid, cg_title = title, cg_objective = objective, cg_owner = chat,
          cg_workspace = workspace, cg_constraints = map jnorm (gq_constraints q),
          cg_criteria = map onorm (gq_criteria q), cg_policy = policy, cg_limits = limits,
          cg_deadline = gq_deadline q\<rparr>)))))))))))"

text \<open>Whether the recorded goal is the one this request would create.\<close>

definition goal_identity_matches :: "goal_request \<Rightarrow> clean_goal \<Rightarrow> goal_row \<Rightarrow> bool" where
  "goal_identity_matches q c g \<longleftrightarrow>
     g_title g = cg_title c \<and> g_objective g = cg_objective c \<and> g_owner g = cg_owner c \<and>
     g_workspace g = cg_workspace c \<and>
     py_eq (JArr (g_constraints g)) (JArr (cg_constraints c)) \<and>
     py_eq (JArr (map JObj (g_criteria g))) (JArr (map JObj (cg_criteria c))) \<and>
     py_eq (JObj (g_policy g)) (JObj (cg_policy c)) \<and> g_priority g = gq_priority q \<and>
     py_eq (JObj (g_limits g)) (JObj (cg_limits c)) \<and>
     (case g_deadline g of None \<Rightarrow> 0 | Some t \<Rightarrow> t) = cg_deadline c"

fun initial_state_matches :: "host \<Rightarrow> string \<Rightarrow> goal_db \<Rightarrow> jobject \<Rightarrow> bool res" where
  "initial_state_matches h gid db [] = Inr True"
| "initial_state_matches h gid db ((raw_key, v) # kvs) =
     ebind (goal_text raw_key ''state key'' True 240) (\<lambda>key.
     case state_row_of gid key db of
       None \<Rightarrow> Inr False
     | Some r \<Rightarrow> ebind (store_goal_json h v) (\<lambda>w.
         if py_eq (st_value r) w then initial_state_matches h gid db kvs else Inr False))"

definition insert_initial_state :: "host \<Rightarrow> string \<Rightarrow> rat \<Rightarrow> string \<times> json \<Rightarrow> goal_db \<Rightarrow> goal_db res" where
  "insert_initial_state h gid tm kv db =
     ebind (goal_text (fst kv) ''state key'' True 240) (\<lambda>key.
     ebind (store_goal_json h (snd kv)) (\<lambda>w.
     ebind (require (state_row_of gid key db = None) (IntegrityError ''workflow_goal_state'')) (\<lambda>_.
     Inr (db\<lparr>gd_states := gd_states db @
       [\<lparr>st_goal = gid, st_key = key, st_value = w, st_version = 1, st_updated = tm\<rparr>]\<rparr>))))"

definition new_goal_row :: "host \<Rightarrow> goal_request \<Rightarrow> clean_goal \<Rightarrow> goal_row" where
  "new_goal_row h q c =
     \<lparr>g_id = cg_id c, g_owner = cg_owner c, g_workspace = cg_workspace c, g_title = cg_title c,
      g_objective = cg_objective c, g_constraints = cg_constraints c, g_criteria = cg_criteria c,
      g_policy = cg_policy c, g_status = GDraft, g_priority = gq_priority q, g_version = 1,
      g_limits = cg_limits c, g_usage = [], g_deadline = (if cg_deadline c = 0 then None else Some (cg_deadline c)),
      g_pause_reason = [], g_worktree = [], g_summary_ref = [], g_created = clock h,
      g_updated = clock h, g_completed = None, g_archived = None\<rparr>"

definition create_goal_tx :: "host \<Rightarrow> goal_request \<Rightarrow> clean_goal \<Rightarrow> (goal_db, goal_row) body" where
  "create_goal_tx h q c db0 =
     (let db = (if gq_id q = [] then take_draws 1 db0 else db0) in
      case goal_row_of (cg_id c) db of
        Some existing \<Rightarrow>
          ebind (initial_state_matches h (cg_id c) db (gq_state q)) (\<lambda>same.
          ebind (require (goal_identity_matches q c existing \<and> same)
            (GoalConflict ''goal idempotency identity was reused with different content'')) (\<lambda>_.
          Inr (existing, db)))
      | None \<Rightarrow>
          (let row = new_goal_row h q c in
           ebind (efold (insert_initial_state h (cg_id c) (clock h)) (gq_state q)
             (db\<lparr>gd_goals := gd_goals db @ [row]\<rparr>)) (\<lambda>db1.
           ebind (goal_scope row [] 0) (\<lambda>sc.
           ebind (as_goal_conflict (insert_event_tx h (goal_event (gq_caller q) (cg_id c) sc ''goal.created'' 1
               [(''status'', JStr ''draft''), (''title'', JStr (cg_title c))] (clock h)) (gd_work db1))) (\<lambda>(_, w).
           Inr (row, db1\<lparr>gd_work := w\<rparr>))))))"

definition create_goal :: "host \<Rightarrow> goal_request \<Rightarrow> goal_db \<Rightarrow> goal_row res \<times> goal_db" where
  "create_goal h q db =
     (case clean_goal_args h (drawn h ''goal'' 0 db) q of
        Inl e \<Rightarrow> (Inl e, db)
      | Inr c \<Rightarrow> goal_write h (create_goal_tx h q c) db)"

section \<open>Planning\<close>

definition new_step_row :: "string \<Rightarrow> rat \<Rightarrow> plan_row \<Rightarrow> step_row" where
  "new_step_row gid tm p =
     \<lparr>s_id = p_id p, s_goal = gid, s_parent = p_parent p, s_ordinal = int (p_ordinal p), s_kind = p_kind p,
      s_instructions = p_instructions p, s_config = onorm (p_config p), s_status = SPending,
      s_required = p_required p, s_version = 1, s_attempts = 0, s_max_attempts = p_max_attempts p,
      s_retry_policy = onorm (p_retry p), s_thread = [], s_cursor = [], s_child = [], s_process = [],
      s_worktree = [], s_wait_spec = onorm (p_wait p), s_verification = onorm (p_verification p),
      s_result_ref = [], s_error_ref = [], s_error = [], s_owner = [], s_epoch = 0, s_expires = None,
      s_available = 0, s_created = tm, s_updated = tm, s_completed = None\<rparr>"

text \<open>One INSERT of a step: its JSON columns, then its primary key.\<close>

definition insert_step :: "host \<Rightarrow> string \<Rightarrow> rat \<Rightarrow> plan_row \<Rightarrow> goal_db \<Rightarrow> goal_db res" where
  "insert_step h gid tm p db =
     ebind (store_goal_object h (p_config p)) (\<lambda>_.
     ebind (store_goal_object h (p_retry p)) (\<lambda>_.
     ebind (store_goal_object h (p_wait p)) (\<lambda>_.
     ebind (store_goal_object h (p_verification p)) (\<lambda>_.
     ebind (require (step_row_of (p_id p) db = None) (IntegrityError ''workflow_step.step_id'')) (\<lambda>_.
     Inr (db\<lparr>gd_steps := gd_steps db @ [new_step_row gid tm p]\<rparr>))))))"

definition plan_goal_tx ::
  "host \<Rightarrow> string \<Rightarrow> plan_row list \<Rightarrow> nat \<Rightarrow> int \<Rightarrow> caller \<Rightarrow> (goal_db, goal_row) body" where
  "plan_goal_tx h gid plan n expected c db0 =
     (let drawn_db = take_draws (n - draws (gd_work db0)) db0 in with_goal gid expected (\<lambda>goal db.
     ebind (require (g_status goal = GDraft) (GoalTransitionError ''only a draft goal can be planned'')) (\<lambda>_.
     ebind (require (filter (\<lambda>s. s_goal s = g_id goal) (gd_steps db) = [])
       (GoalConflict ''goal already has a plan; create a new draft to replace it'')) (\<lambda>_.
     ebind (efold (insert_step h (g_id goal) (clock h)) plan db) (\<lambda>db1.
     let db2 = db1\<lparr>gd_deps := gd_deps db1 @ concat (map (\<lambda>p. map (Pair (p_id p)) (p_deps p)) plan)\<rparr> in
     ebind (advance_tx h c goal ''goal.planned''
       [(''step_count'', JInt (int (length plan))), (''step_ids'', JArr (map (JStr \<circ> p_id) plan))]
       [] 0 (clock h) db2) (\<lambda>(_, db3).
     ebind (require_goal_tx (g_id goal) db3) (\<lambda>g. Inr (g, db3))))))) drawn_db)"

definition plan_goal ::
  "host \<Rightarrow> string \<Rightarrow> json list \<Rightarrow> int \<Rightarrow> caller \<Rightarrow> goal_db \<Rightarrow> goal_row res \<times> goal_db" where
  "plan_goal h gid steps expected c db =
     (case normalize_plan h (draws (gd_work db)) steps of
        Inl e \<Rightarrow> (Inl e, db)
      | Inr (plan, n) \<Rightarrow> goal_write h (plan_goal_tx h gid plan n expected c) db)"

section \<open>Transitions\<close>

fun goal_allowed :: "goal_status \<Rightarrow> goal_status set" where
  "goal_allowed GDraft = {GQueued, GCancelled}"
| "goal_allowed GQueued = {GRunning, GPaused, GCancelled, GBlocked}"
| "goal_allowed GRunning = {GWaitingUser, GWaitingExternal, GBlocked, GPaused, GSucceeded, GFailed, GCancelled}"
| "goal_allowed GWaitingUser = {GRunning, GBlocked, GPaused, GSucceeded, GFailed, GCancelled}"
| "goal_allowed GWaitingExternal = {GRunning, GBlocked, GPaused, GSucceeded, GFailed, GCancelled}"
| "goal_allowed GBlocked = {GRunning, GPaused, GSucceeded, GFailed, GCancelled}"
| "goal_allowed GPaused = {GQueued, GRunning, GCancelled}"
| "goal_allowed GSucceeded = {GArchived}"
| "goal_allowed GFailed = {GArchived}"
| "goal_allowed GCancelled = {GArchived}"
| "goal_allowed GArchived = {}"

text \<open>The two UPDATEs with which a cancellation closes what is waiting.\<close>

definition cancel_goal_waits :: "string \<Rightarrow> goal_db \<Rightarrow> goal_db" where
  "cancel_goal_waits gid = update_waits (\<lambda>w. w_goal w = gid \<and> w_status w = WtPending)
     (\<lambda>w. w\<lparr>w_status := WtCancelled\<rparr>)"

definition dismiss_goal_attention :: "string \<Rightarrow> rat \<Rightarrow> goal_db \<Rightarrow> goal_db" where
  "dismiss_goal_attention gid tm = update_attention (\<lambda>r. at_goal r = gid \<and> at_status r = AtOpen)
     (\<lambda>r. r\<lparr>at_status := AtDismissed, at_version := at_version r + 1, at_updated := tm, at_resolved := Some tm\<rparr>)"

definition transition_row :: "goal_status \<Rightarrow> string \<Rightarrow> string \<Rightarrow> rat \<Rightarrow> goal_row \<Rightarrow> goal_row" where
  "transition_row target pause_reason summary tm r = r\<lparr>g_status := target, g_pause_reason := pause_reason,
     g_summary_ref := (if summary \<noteq> [] then summary else g_summary_ref r),
     g_completed := (if target \<in> {GSucceeded, GFailed, GCancelled} then Some tm else g_completed r),
     g_archived := (if target = GArchived then Some tm else g_archived r)\<rparr>"

definition transition_goal_tx ::
  "host \<Rightarrow> string \<Rightarrow> goal_status \<Rightarrow> int \<Rightarrow> string \<Rightarrow> string \<Rightarrow> caller \<Rightarrow> string \<Rightarrow> (goal_db, goal_row) body" where
  "transition_goal_tx h gid target expected reason summary c etype db = with_goal gid expected (\<lambda>goal db.
     if target = g_status goal then Inr (goal, db)
     else
       ebind (require (target \<in> goal_allowed (g_status goal))
         (GoalTransitionError (''cannot transition goal '' @ goal_status_text (g_status goal) @ '' -> '' @
            goal_status_text target))) (\<lambda>_.
       ebind (if target \<in> {GPaused, GBlocked} then goal_text reason ''reason'' False 4000 else Inr []) (\<lambda>pause_reason.
       let db1 = update_goal_row (g_id goal) (transition_row target pause_reason summary (clock h)) db;
           db2 = (if target = GCancelled
                  then dismiss_goal_attention (g_id goal) (clock h) (cancel_goal_waits (g_id goal) db1) else db1) in
       ebind (advance_tx h c goal (if etype = [] then ''goal.'' @ goal_status_text target else etype)
         [(''from'', JStr (goal_status_text (g_status goal))), (''to'', JStr (goal_status_text target)),
          (''reason'', null_or reason)] [] 0 (clock h) db2) (\<lambda>(_, db3).
       ebind (require_goal_tx (g_id goal) db3) (\<lambda>g. Inr (g, db3)))))) db"

definition transition_goal ::
  "host \<Rightarrow> string \<Rightarrow> string \<Rightarrow> int \<Rightarrow> string \<Rightarrow> string \<Rightarrow> caller \<Rightarrow> string \<Rightarrow> goal_db \<Rightarrow> goal_row res \<times> goal_db" where
  "transition_goal h gid st expected reason summary c etype db =
     (case goal_text st ''goal status'' True 40 of
        Inl e \<Rightarrow> (Inl e, db)
      | Inr t \<Rightarrow> (case goal_status_of t of
          None \<Rightarrow> (Inl (GoalValidationError (''unsupported goal status: '' @ t)), db)
        | Some target \<Rightarrow> goal_write h (transition_goal_tx h gid target expected reason summary c etype) db))"

section \<open>Budget, state, artifacts\<close>

fun budget_number :: "pyval \<Rightarrow> (json \<times> rat) option" where
  "budget_number (PInt i) = Some (JInt i, of_int i)"
| "budget_number (PFloat r) = Some (JFloat r, r)"
| "budget_number _ = None"

fun add_usage :: "host \<Rightarrow> (string \<times> pyval) list \<Rightarrow> jobject \<Rightarrow> jobject res" where
  "add_usage h [] usage = Inr usage"
| "add_usage h ((key, raw) # delta) usage =
     (case budget_number raw of
        None \<Rightarrow> Inl (GoalValidationError (''budget delta '' @ key @ '' must be finite numeric''))
      | Some (_, x) \<Rightarrow>
          ebind (float_or_zero h (jget usage key)) (\<lambda>old.
          ebind (require (0 \<le> old + x) (GoalValidationError ''budget usage cannot become negative'')) (\<lambda>_.
          add_usage h delta (jset usage key (JFloat (old + x))))))"

definition delta_json :: "(string \<times> pyval) list \<Rightarrow> jobject" where
  "delta_json delta = map (\<lambda>p. (fst p, case budget_number (snd p) of Some (j, _) \<Rightarrow> j | None \<Rightarrow> JNull)) delta"

definition update_budget_usage_tx ::
  "host \<Rightarrow> string \<Rightarrow> (string \<times> pyval) list \<Rightarrow> int \<Rightarrow> caller \<Rightarrow> (goal_db, goal_row) body" where
  "update_budget_usage_tx h gid delta expected c db = with_goal gid expected (\<lambda>goal db.
     ebind (add_usage h delta (g_usage goal)) (\<lambda>usage.
     ebind (store_goal_object h usage) (\<lambda>stored.
     ebind (advance_tx h c goal ''goal.budget_updated''
       [(''delta'', JObj (delta_json delta)), (''usage'', JObj usage)] [] 0 (clock h)
       (update_goal_row (g_id goal) (\<lambda>r. r\<lparr>g_usage := stored\<rparr>) db)) (\<lambda>(_, db1).
     ebind (require_goal_tx (g_id goal) db1) (\<lambda>g. Inr (g, db1)))))) db"

definition update_budget_usage ::
  "host \<Rightarrow> string \<Rightarrow> (string \<times> pyval) list \<Rightarrow> int \<Rightarrow> caller \<Rightarrow> goal_db \<Rightarrow> goal_row res \<times> goal_db" where
  "update_budget_usage h gid delta expected c db = goal_write h (update_budget_usage_tx h gid delta expected c) db"

definition state_set_tx ::
  "host \<Rightarrow> string \<Rightarrow> string \<Rightarrow> pyval \<Rightarrow> int \<Rightarrow> caller \<Rightarrow> (goal_db, goal_row) body" where
  "state_set_tx h gid k value expected c db = with_goal gid expected (\<lambda>goal db.
     ebind (goal_json h value) (\<lambda>v.
     ebind (advance_tx h c goal ''goal.state_set'' [(''key'', JStr k)] [] 0 (clock h)
       (upsert_state (g_id goal) k v (clock h) db)) (\<lambda>(_, db1).
     ebind (require_goal_tx (g_id goal) db1) (\<lambda>g. Inr (g, db1))))) db"

definition state_set ::
  "host \<Rightarrow> string \<Rightarrow> string \<Rightarrow> pyval \<Rightarrow> int \<Rightarrow> caller \<Rightarrow> goal_db \<Rightarrow> goal_row res \<times> goal_db" where
  "state_set h gid key value expected c db =
     (case goal_text key ''state key'' True 240 of
        Inl e \<Rightarrow> (Inl e, db)
      | Inr k \<Rightarrow> goal_write h (state_set_tx h gid k value expected c) db)"

definition link_artifact ::
  "host \<Rightarrow> string \<Rightarrow> string \<Rightarrow> string \<Rightarrow> string \<Rightarrow> jobject \<Rightarrow> (goal_db, artifact_row) body" where
  "link_artifact h gid sid ref role meta db =
     (case find (\<lambda>r. l_goal r = gid \<and> l_step r = sid \<and> l_ref r = ref \<and> l_role r = role) (gd_artifacts db) of
        Some existing \<Rightarrow> Inr (existing, db)
      | None \<Rightarrow>
          ebind (store_goal_object h meta) (\<lambda>m.
          let row = \<lparr>l_id = drawn h ''goalart'' 0 db, l_goal = gid, l_step = sid, l_ref = ref,
                     l_role = role, l_metadata = m, l_created = clock h\<rparr> in
          ebind (require (l_id row \<notin> l_id ` set (gd_artifacts db))
            (IntegrityError ''workflow_goal_artifact.link_id'')) (\<lambda>_.
          Inr (row, (take_draws 1 db)\<lparr>gd_artifacts := gd_artifacts db @ [row]\<rparr>))))"

definition attach_artifact_tx ::
  "host \<Rightarrow> string \<Rightarrow> string \<Rightarrow> int \<Rightarrow> string \<Rightarrow> string \<Rightarrow> jobject \<Rightarrow> caller \<Rightarrow> (goal_db, artifact_row) body" where
  "attach_artifact_tx h gid ref expected role sid meta c db = with_goal gid expected (\<lambda>goal db.
     ebind (if sid = [] then Inr () else ebind (require_step_tx (g_id goal) sid db) (\<lambda>_. Inr ())) (\<lambda>_.
     ebind (link_artifact h (g_id goal) sid ref role meta db) (\<lambda>(row, db1).
     ebind (advance_tx h c goal ''goal.artifact_attached''
       [(''link_id'', JStr (l_id row)), (''artifact_ref'', JStr ref), (''role'', JStr role)]
       sid 0 (clock h) db1) (\<lambda>(_, db2). Inr (row, db2))))) db"

definition attach_artifact ::
  "host \<Rightarrow> string \<Rightarrow> string \<Rightarrow> int \<Rightarrow> string \<Rightarrow> string \<Rightarrow> jobject \<Rightarrow> caller \<Rightarrow> goal_db \<Rightarrow> artifact_row res \<times> goal_db" where
  "attach_artifact h gid artifact_ref expected role sid meta c db =
     (case ebind (goal_text artifact_ref ''artifact_ref'' True 2000) (\<lambda>ref.
           ebind (goal_text role ''artifact role'' True 120) (\<lambda>clean_role. Inr (ref, clean_role))) of
        Inl e \<Rightarrow> (Inl e, db)
      | Inr (ref, clean_role) \<Rightarrow> goal_write h (attach_artifact_tx h gid ref expected clean_role sid meta c) db)"

section \<open>Queries\<close>

definition require_goal :: "string \<Rightarrow> goal_db \<Rightarrow> goal_row res" where
  "require_goal gid db = require_goal_tx gid db"

definition latest_composer_goal :: "string \<Rightarrow> bool \<Rightarrow> goal_db \<Rightarrow> goal_row option" where
  "latest_composer_goal chat active_only db =
     (case rev (sort_key (\<lambda>g. (g_created g, g_id g)) (filter (\<lambda>g. g_owner g = chat \<and>
          jget (g_policy g) ''entrypoint'' = Some (JStr ''composer_goal'') \<and>
          (active_only \<longrightarrow> g_status g \<notin> goal_terminal_states)) (gd_goals db))) of
        [] \<Rightarrow> None | g # _ \<Rightarrow> Some g)"

definition active_composer_goal :: "string \<Rightarrow> goal_db \<Rightarrow> goal_row option" where
  "active_composer_goal chat db = latest_composer_goal chat True db"

definition known_goal_status :: "string \<Rightarrow> unit res" where
  "known_goal_status st = require (st = [] \<or> goal_status_of st \<noteq> None)
     (GoalValidationError (''unsupported goal status: '' @ st))"

definition clamp_page :: "int \<Rightarrow> nat" where
  "clamp_page limit = nat (max 1 (min 500 limit))"

definition list_goals :: "string \<Rightarrow> string \<Rightarrow> string \<Rightarrow> int \<Rightarrow> goal_db \<Rightarrow> goal_row list res" where
  "list_goals st chat workspace limit db =
     ebind (known_goal_status st) (\<lambda>_.
     Inr (take (clamp_page limit) (sort_key (\<lambda>g. (- g_priority g, - g_updated g, g_id g))
       (filter (\<lambda>g. (st = [] \<or> goal_status_text (g_status g) = st) \<and> (chat = [] \<or> g_owner g = chat) \<and>
          (workspace = [] \<or> g_workspace g = workspace)) (gd_goals db)))))"

definition scan_goals :: "string \<Rightarrow> int \<Rightarrow> goal_db \<Rightarrow> goal_row list" where
  "scan_goals after limit db =
     take (clamp_page limit) (sort_key g_id (filter (\<lambda>g. after < g_id g) (gd_goals db)))"

definition count_goals :: "string \<Rightarrow> goal_db \<Rightarrow> nat res" where
  "count_goals st db = ebind (known_goal_status st) (\<lambda>_.
     Inr (length (filter (\<lambda>g. st = [] \<or> goal_status_text (g_status g) = st) (gd_goals db))))"

definition goal_event_cursor :: "string \<Rightarrow> goal_db \<Rightarrow> int res" where
  "goal_event_cursor gid db = ebind (require_goal gid db) (\<lambda>_.
     Inr (fold max (map sequence (filter (\<lambda>e. aggregate_kind e = ''goal'' \<and> aggregate_id e = gid)
       (events (gd_work db)))) 0))"

definition list_steps :: "string \<Rightarrow> goal_db \<Rightarrow> step_row list res" where
  "list_steps gid db = ebind (require_goal gid db) (\<lambda>_.
     Inr (sort_key (\<lambda>s. (s_ordinal s, s_id s)) (filter (\<lambda>s. s_goal s = gid) (gd_steps db))))"

text \<open>The dependencies of each step that has some, grouped in the order of the joined rows.\<close>

definition goal_dependencies :: "string \<Rightarrow> goal_db \<Rightarrow> (string \<times> string list) list" where
  "goal_dependencies gid db =
     (let rows = sort_key (\<lambda>d. d) (filter (\<lambda>d. get_step gid (fst d) db \<noteq> None) (gd_deps db)) in
      map (\<lambda>s. (s, map snd (filter (\<lambda>d. fst d = s) rows))) (dedup (map fst rows)))"

definition state_get :: "string \<Rightarrow> string option \<Rightarrow> goal_db \<Rightarrow> json res" where
  "state_get gid key db = ebind (require_goal gid db) (\<lambda>_.
     Inr (case key of
        Some k \<Rightarrow> (case state_row_of gid k db of None \<Rightarrow> JNull | Some r \<Rightarrow> st_value r)
      | None \<Rightarrow> JObj (map (\<lambda>r. (st_key r, st_value r))
          (sort_key st_key (filter (\<lambda>r. st_goal r = gid) (gd_states db))))))"

definition list_artifacts :: "string \<Rightarrow> goal_db \<Rightarrow> artifact_row list res" where
  "list_artifacts gid db = ebind (require_goal gid db) (\<lambda>_.
     Inr (sort_key (\<lambda>r. (l_created r, l_id r)) (filter (\<lambda>r. l_goal r = gid) (gd_artifacts db))))"

end
