(* ===== verification/Goal_Steps.thy ===== *)
theory Goal_Steps
  imports Goal_Repository
begin

text \<open>
  The steps of a goal (\<^verbatim>\<open>backend/goals/repository.py\<close>): status changes, the leased attempts, waits,
  inputs and the ledger of external effects.
\<close>

section \<open>Steps\<close>

definition with_step ::
  "string \<Rightarrow> string \<Rightarrow> int \<Rightarrow> (goal_row \<Rightarrow> step_row \<Rightarrow> (goal_db, 'a) body) \<Rightarrow> (goal_db, 'a) body" where
  "with_step gid sid expected f db = with_goal gid expected (\<lambda>goal db.
     ebind (require_step_tx (g_id goal) sid db) (\<lambda>step. f goal step db)) db"

definition goal_and_step :: "string \<Rightarrow> string \<Rightarrow> (goal_db, goal_row \<times> step_row) body" where
  "goal_and_step gid sid db =
     ebind (require_goal_tx gid db) (\<lambda>g. ebind (require_step_tx gid sid db) (\<lambda>s. Inr ((g, s), db)))"

definition attempt_row_of :: "string \<Rightarrow> int \<Rightarrow> goal_db \<Rightarrow> attempt_row option" where
  "attempt_row_of sid n db = find (\<lambda>a. a_step a = sid \<and> a_attempt a = n) (gd_attempts db)"

definition set_step_status_tx ::
  "host \<Rightarrow> string \<Rightarrow> string \<Rightarrow> step_status \<Rightarrow> int \<Rightarrow> int option \<Rightarrow> string \<Rightarrow> rat \<Rightarrow> caller \<Rightarrow>
   (goal_db, goal_row \<times> step_row) body" where
  "set_step_status_tx h gid sid target expected step_version reason available c db =
     with_step gid sid expected (\<lambda>goal step db.
     ebind (require (case step_version of None \<Rightarrow> True | Some v \<Rightarrow> s_version step = v)
       (GoalConflict ''step version changed'')) (\<lambda>_.
     if s_status step = target then Inr ((goal, step), db)
     else
       ebind (require (\<not> (step_terminal step \<and> target \<notin> {SPending, SRetryScheduled}))
         (GoalTransitionError (''terminal step cannot transition '' @ step_status_text (s_status step) @ '' -> '' @
            step_status_text target))) (\<lambda>_.
       ebind (goal_text reason ''step reason'' False 4000) (\<lambda>clean_reason.
       let tm = clock h;
           completed = (if target \<in> step_terminal_states then Some tm else None);
           db1 = update_step_row (s_id step) (\<lambda>r. r\<lparr>s_status := target, s_version := s_version r + 1,
             s_error := clean_reason, s_available := available, s_owner := [], s_expires := None,
             s_updated := tm, s_completed := completed\<rparr>) db;
           db2 = (if s_attempts step \<noteq> 0 \<and> s_status step \<in> {SLeased, SRunning, SWaiting}
                  then update_attempt_row (s_id step) (s_attempts step)
                    (\<lambda>a. a\<lparr>a_status := target, a_updated := tm, a_completed := completed\<rparr>) db1
                  else db1) in
       ebind (advance_tx h c goal ''goal.step_status''
         [(''step_id'', JStr (s_id step)), (''from'', JStr (step_status_text (s_status step))),
          (''to'', JStr (step_status_text target)), (''reason'', null_or reason),
          (''available_at'', JFloat available)] (s_id step) 0 tm db2) (\<lambda>(_, db3).
       goal_and_step (g_id goal) (s_id step) db3))))) db"

definition set_step_status ::
  "host \<Rightarrow> string \<Rightarrow> string \<Rightarrow> string \<Rightarrow> int \<Rightarrow> int option \<Rightarrow> string \<Rightarrow> rat \<Rightarrow> caller \<Rightarrow> goal_db \<Rightarrow>
   (goal_row \<times> step_row) res \<times> goal_db" where
  "set_step_status h gid sid st expected step_version reason available c db =
     (case goal_text st ''step status'' True 40 of
        Inl e \<Rightarrow> (Inl e, db)
      | Inr t \<Rightarrow> (case step_status_of t of
          None \<Rightarrow> (Inl (GoalValidationError (''unsupported step status: '' @ t)), db)
        | Some target \<Rightarrow>
            goal_write h (set_step_status_tx h gid sid target expected step_version reason available c) db))"

section \<open>Leased attempts\<close>

definition step_thread :: "string \<Rightarrow> string \<Rightarrow> int \<Rightarrow> string" where
  "step_thread gid sid n = ''goal:'' @ gid @ '':step:'' @ sid @ '':attempt:'' @ show_int n"

definition lease_step_tx ::
  "host \<Rightarrow> string \<Rightarrow> string \<Rightarrow> int \<Rightarrow> string \<Rightarrow> rat \<Rightarrow> caller \<Rightarrow>
   (goal_db, goal_row \<times> step_row \<times> attempt_row) body" where
  "lease_step_tx h gid sid expected worker ttl c db = with_step gid sid expected (\<lambda>goal step db.
     ebind (require (\<not> (s_status step \<noteq> SReady \<or> clock h < s_available step))
       (GoalTransitionError ''only an available ready step can be leased'')) (\<lambda>_.
     let n = s_attempts step + 1; tm = clock h; expires = tm + max 5 ttl; epoch = s_epoch step + 1;
         thread = step_thread (g_id goal) (s_id step) n in
     ebind (require (n \<le> s_max_attempts step)
       (GoalTransitionError ''step attempt budget is exhausted'')) (\<lambda>_.
     let att = \<lparr>a_id = drawn h ''attempt'' 0 db, a_goal = g_id goal, a_step = s_id step, a_attempt = n,
           a_status = SLeased, a_thread = thread, a_cursor = [], a_machine = [], a_run = [],
           a_receipt = [], a_result_ref = [], a_error_ref = [], a_started = tm, a_updated = tm,
           a_completed = None\<rparr>;
         db1 = update_step_row (s_id step) (\<lambda>r. r\<lparr>s_status := SLeased, s_version := s_version r + 1,
           s_attempts := n, s_owner := worker, s_epoch := epoch, s_expires := Some expires,
           s_thread := thread, s_updated := tm\<rparr>) (take_draws 1 db) in
     ebind (require (a_id att \<notin> a_id ` set (gd_attempts db) \<and> attempt_row_of (s_id step) n db = None)
       (IntegrityError ''workflow_step_attempt'')) (\<lambda>_.
     ebind (advance_tx h c goal ''goal.step_leased''
       [(''step_id'', JStr (s_id step)), (''attempt'', JInt n), (''lease_epoch'', JInt epoch),
        (''lease_expires_at'', JFloat expires), (''snapshot_thread_id'', JStr thread)]
       (s_id step) n tm (db1\<lparr>gd_attempts := gd_attempts db1 @ [att]\<rparr>)) (\<lambda>(_, db2).
     ebind (goal_and_step (g_id goal) (s_id step) db2) (\<lambda>((g, s), db3).
     Inr ((g, s, att), db3))))))) db"

definition lease_step ::
  "host \<Rightarrow> string \<Rightarrow> string \<Rightarrow> int \<Rightarrow> string \<Rightarrow> rat \<Rightarrow> caller \<Rightarrow> goal_db \<Rightarrow>
   (goal_row \<times> step_row \<times> attempt_row) res \<times> goal_db" where
  "lease_step h gid sid expected by_worker ttl c db =
     (case goal_text by_worker ''lease_owner'' True 512 of
        Inl e \<Rightarrow> (Inl e, db)
      | Inr worker \<Rightarrow> goal_write h (lease_step_tx h gid sid expected worker ttl c) db)"

text \<open>A NULL expiry is read as 0.\<close>

definition expiry :: "step_row \<Rightarrow> rat" where
  "expiry s = (case s_expires s of None \<Rightarrow> 0 | Some t \<Rightarrow> t)"

definition heartbeat_step_tx ::
  "host \<Rightarrow> string \<Rightarrow> string \<Rightarrow> string \<Rightarrow> int \<Rightarrow> rat \<Rightarrow> (goal_db, step_row) body" where
  "heartbeat_step_tx h gid sid by_worker at_epoch ttl db =
     ebind (require_goal_tx gid db) (\<lambda>goal.
     ebind (require_step_tx (g_id goal) sid db) (\<lambda>step.
     ebind (require (\<not> (g_status goal \<in> {GCancelled, GArchived, GFailed, GSucceeded} \<or>
         s_status step \<notin> {SLeased, SRunning} \<or> s_owner step \<noteq> by_worker \<or>
         s_epoch step \<noteq> at_epoch \<or> expiry step \<le> clock h))
       (GoalConflict ''step lease was lost before renewal'')) (\<lambda>_.
     let db1 = update_step_row (s_id step) (\<lambda>r. r\<lparr>s_expires := Some (clock h + max 5 ttl),
           s_updated := clock h\<rparr>) db in
     ebind (require_step_tx (g_id goal) sid db1) (\<lambda>s. Inr (s, db1)))))"

definition heartbeat_step ::
  "host \<Rightarrow> string \<Rightarrow> string \<Rightarrow> string \<Rightarrow> int \<Rightarrow> rat \<Rightarrow> goal_db \<Rightarrow> step_row res \<times> goal_db" where
  "heartbeat_step h gid sid by_worker at_epoch ttl db = goal_write h (heartbeat_step_tx h gid sid by_worker at_epoch ttl) db"

definition attempt_of :: "string \<Rightarrow> int \<Rightarrow> goal_db \<Rightarrow> attempt_row res" where
  "attempt_of sid n db = (case attempt_row_of sid n db of
     None \<Rightarrow> Inl (RuntimeErr ''AssertionError'') | Some a \<Rightarrow> Inr a)"

definition start_step_tx ::
  "host \<Rightarrow> string \<Rightarrow> string \<Rightarrow> int \<Rightarrow> string \<Rightarrow> int \<Rightarrow> caller \<Rightarrow> (goal_db, goal_row \<times> step_row \<times> attempt_row) body" where
  "start_step_tx h gid sid expected by_worker at_epoch c db = with_step gid sid expected (\<lambda>goal step db.
     ebind (require (\<not> (s_status step \<noteq> SLeased \<or> s_owner step \<noteq> by_worker \<or> s_epoch step \<noteq> at_epoch))
       (GoalConflict ''step lease was lost before start'')) (\<lambda>_.
     let tm = clock h;
         db1 = update_step_row (s_id step) (\<lambda>r. r\<lparr>s_status := SRunning, s_version := s_version r + 1,
           s_updated := tm\<rparr>) db;
         db2 = update_attempt_row (s_id step) (s_attempts step)
           (\<lambda>a. a\<lparr>a_status := SRunning, a_updated := tm\<rparr>) db1 in
     ebind (advance_tx h c goal ''goal.step_started''
       [(''step_id'', JStr (s_id step)), (''attempt'', JInt (s_attempts step))]
       (s_id step) (s_attempts step) tm db2) (\<lambda>(_, db3).
     ebind (goal_and_step (g_id goal) (s_id step) db3) (\<lambda>((g, s), db4).
     ebind (attempt_of (s_id step) (s_attempts step) db4) (\<lambda>a. Inr ((g, s, a), db4)))))) db"

definition start_step ::
  "host \<Rightarrow> string \<Rightarrow> string \<Rightarrow> int \<Rightarrow> string \<Rightarrow> int \<Rightarrow> caller \<Rightarrow> goal_db \<Rightarrow>
   (goal_row \<times> step_row \<times> attempt_row) res \<times> goal_db" where
  "start_step h gid sid expected by_worker at_epoch c db = goal_write h (start_step_tx h gid sid expected by_worker at_epoch c) db"

record step_finish =
  sf_status :: string
  sf_result_ref :: string
  sf_error_ref :: string
  sf_error :: string
  sf_attempt :: "int option"
  sf_owner :: string
  sf_epoch :: "int option"

definition finish_step_tx ::
  "host \<Rightarrow> string \<Rightarrow> string \<Rightarrow> step_status \<Rightarrow> int \<Rightarrow> step_finish \<Rightarrow> caller \<Rightarrow> (goal_db, goal_row \<times> step_row) body" where
  "finish_step_tx h gid sid target expected q c db = with_step gid sid expected (\<lambda>goal step db.
     ebind (require (s_status step \<in> {SLeased, SRunning, SWaiting, SReady})
       (GoalTransitionError (''cannot finish step from '' @ step_status_text (s_status step)))) (\<lambda>_.
     ebind (require (case sf_attempt q of None \<Rightarrow> True | Some n \<Rightarrow> s_attempts step = n)
       (GoalConflict ''step attempt was superseded before completion'')) (\<lambda>_.
     ebind (require (case sf_epoch q of None \<Rightarrow> True
         | Some e \<Rightarrow> s_epoch step = e \<and> (sf_owner q \<noteq> [] \<longrightarrow> s_owner step = sf_owner q))
       (GoalConflict ''step lease epoch was superseded before completion'')) (\<lambda>_.
     ebind (goal_text (sf_error q) ''step error'' False 4000) (\<lambda>err.
     let tm = clock h;
         db1 = update_step_row (s_id step) (\<lambda>r. r\<lparr>s_status := target, s_version := s_version r + 1,
           s_result_ref := sf_result_ref q, s_error_ref := sf_error_ref q, s_error := err, s_owner := [],
           s_expires := None, s_updated := tm, s_completed := Some tm\<rparr>) db;
         n = (case sf_attempt q of Some a \<Rightarrow> a | None \<Rightarrow> s_attempts step);
         db2 = (if n \<noteq> 0 then update_attempt_row (s_id step) n
                  (\<lambda>a. a\<lparr>a_status := target, a_result_ref := sf_result_ref q, a_error_ref := sf_error_ref q,
                     a_updated := tm, a_completed := Some tm\<rparr>) db1
                else db1) in
     ebind (advance_tx h c goal (''goal.step_'' @ step_status_text target)
       [(''step_id'', JStr (s_id step)), (''attempt'', JInt n), (''status'', JStr (step_status_text target)),
        (''result_ref'', null_or (sf_result_ref q)), (''error_ref'', null_or (sf_error_ref q)),
        (''error'', null_or (sf_error q))] (s_id step) n tm db2) (\<lambda>(_, db3).
     goal_and_step (g_id goal) (s_id step) db3)))))) db"

definition finish_step ::
  "host \<Rightarrow> string \<Rightarrow> string \<Rightarrow> int \<Rightarrow> step_finish \<Rightarrow> caller \<Rightarrow> goal_db \<Rightarrow> (goal_row \<times> step_row) res \<times> goal_db" where
  "finish_step h gid sid expected q c db =
     (case step_status_of (sf_status q) of
        None \<Rightarrow> (Inl (GoalValidationError ''finish status must be terminal''), db)
      | Some target \<Rightarrow>
          if target \<notin> step_terminal_states
          then (Inl (GoalValidationError ''finish status must be terminal''), db)
          else goal_write h (finish_step_tx h gid sid target expected q c) db)"

record attempt_projection =
  ap_attempt :: int
  ap_cursor :: jobject
  ap_machine :: string
  ap_run :: string
  ap_receipt :: string

definition exact_cursor :: "host \<Rightarrow> jobject \<Rightarrow> unit res" where
  "exact_cursor h cursor =
     (let bad = GoalValidationError ''attempt projection requires an exact SnapshotCursor'' in
      if text_of h (jget cursor ''thread_id'') = [] then Inl bad
      else ebind (int_or 0 (jget cursor ''sequence'')) (\<lambda>n.
        require (0 < n \<and> text_of h (jget cursor ''snapshot_id'') \<noteq> []) bad))"

definition update_attempt_projection_tx ::
  "host \<Rightarrow> string \<Rightarrow> string \<Rightarrow> int \<Rightarrow> attempt_projection \<Rightarrow> caller \<Rightarrow> (goal_db, attempt_row) body" where
  "update_attempt_projection_tx h gid sid expected q c db = with_step gid sid expected (\<lambda>goal step db.
     ebind (case attempt_row_of (s_id step) (ap_attempt q) db of
         None \<Rightarrow> Inl (GoalNotFound ''unknown step attempt'') | Some a \<Rightarrow> Inr a) (\<lambda>row.
     let thread = text_of h (jget (ap_cursor q) ''thread_id''); tm = clock h in
     ebind (require (a_thread row = thread)
       (GoalConflict ''snapshot cursor thread does not match the attempt'')) (\<lambda>_.
     ebind (store_goal_object h (ap_cursor q)) (\<lambda>cursor.
     let db1 = update_attempt_row (s_id step) (ap_attempt q) (\<lambda>a. a\<lparr>a_cursor := cursor,
           a_machine := ap_machine q, a_run := ap_run q, a_receipt := ap_receipt q, a_updated := tm\<rparr>) db;
         db2 = update_step_row (s_id step) (\<lambda>r. r\<lparr>s_cursor := cursor, s_thread := thread,
           s_version := s_version r + 1, s_updated := tm\<rparr>) db1 in
     ebind (advance_tx h c goal ''goal.step_snapshot_projected''
       [(''step_id'', JStr (s_id step)), (''attempt'', JInt (ap_attempt q)),
        (''snapshot_cursor'', JObj (ap_cursor q)), (''machine_revision'', JStr (ap_machine q)),
        (''native_run_id'', JStr (ap_run q))] (s_id step) (ap_attempt q) tm db2) (\<lambda>(_, db3).
     ebind (attempt_of (s_id step) (ap_attempt q) db3) (\<lambda>a. Inr (a, db3))))))) db"

definition update_attempt_projection ::
  "host \<Rightarrow> string \<Rightarrow> string \<Rightarrow> int \<Rightarrow> attempt_projection \<Rightarrow> caller \<Rightarrow> goal_db \<Rightarrow> attempt_row res \<times> goal_db" where
  "update_attempt_projection h gid sid expected q c db =
     (case exact_cursor h (ap_cursor q) of
        Inl e \<Rightarrow> (Inl e, db)
      | Inr _ \<Rightarrow> goal_write h (update_attempt_projection_tx h gid sid expected q c) db)"

definition retry_step_tx ::
  "host \<Rightarrow> string \<Rightarrow> string \<Rightarrow> int \<Rightarrow> rat \<Rightarrow> bool \<Rightarrow> caller \<Rightarrow> (goal_db, goal_row \<times> step_row) body" where
  "retry_step_tx h gid sid expected delay continuation_turn c db = with_step gid sid expected (\<lambda>goal step db.
     ebind (require (\<not> goal_terminal goal)
       (GoalTransitionError ''A terminal goal cannot schedule another child turn'')) (\<lambda>_.
     ebind (require (continuation_turn \<longrightarrow> jget (g_policy goal) ''entrypoint'' = Some (JStr ''composer_goal''))
       (GoalValidationError ''Continuation admission requires an explicit composer goal'')) (\<lambda>_.
     ebind (require (s_status step \<in> {SFailed, SBlocked})
       (GoalTransitionError ''only a failed or blocked step can be retried'')) (\<lambda>_.
     ebind (require (\<not> (s_max_attempts step \<le> s_attempts step \<and> \<not> continuation_turn))
       (GoalTransitionError ''step has exhausted max_attempts'')) (\<lambda>_.
     let tm = clock h; available = tm + max 0 delay;
         db1 = update_step_row (s_id step) (\<lambda>r. r\<lparr>s_status := SRetryScheduled, s_version := s_version r + 1,
           s_error := [], s_error_ref := [], s_result_ref := [], s_available := available,
           s_completed := None, s_updated := tm,
           s_max_attempts := (if continuation_turn then max (s_max_attempts step) (s_attempts step + 1)
                              else s_max_attempts step)\<rparr>) db in
     ebind (advance_tx h c goal ''goal.step_retry_scheduled''
       [(''step_id'', JStr (s_id step)), (''available_at'', JFloat available),
        (''next_attempt'', JInt (s_attempts step + 1))] (s_id step) 0 tm db1) (\<lambda>(_, db2).
     goal_and_step (g_id goal) (s_id step) db2)))))) db"

definition retry_step ::
  "host \<Rightarrow> string \<Rightarrow> string \<Rightarrow> int \<Rightarrow> rat \<Rightarrow> bool \<Rightarrow> caller \<Rightarrow> goal_db \<Rightarrow> (goal_row \<times> step_row) res \<times> goal_db" where
  "retry_step h gid sid expected delay continuation_turn c db = goal_write h (retry_step_tx h gid sid expected delay continuation_turn c) db"

definition list_attempts :: "string \<Rightarrow> string \<Rightarrow> goal_db \<Rightarrow> attempt_row list res" where
  "list_attempts gid sid db = ebind (require_goal gid db) (\<lambda>_.
     Inr (sort_key (\<lambda>a. (a_step a, a_attempt a))
       (filter (\<lambda>a. a_goal a = gid \<and> (sid = [] \<or> a_step a = sid)) (gd_attempts db))))"

section \<open>Waits\<close>

definition attempt_follows :: "step_row \<Rightarrow> (attempt_row \<Rightarrow> attempt_row) \<Rightarrow> goal_db \<Rightarrow> goal_db" where
  "attempt_follows step f db = (if s_attempts step \<noteq> 0 then update_attempt_row (s_id step) (s_attempts step) f db else db)"

definition create_wait_tx ::
  "host \<Rightarrow> string \<Rightarrow> string \<Rightarrow> int \<Rightarrow> string \<Rightarrow> jobject \<Rightarrow> rat \<Rightarrow> string \<Rightarrow> caller \<Rightarrow> (goal_db, wait_row) body" where
  "create_wait_tx h gid sid expected source matcher wake wid c db0 =
     (let drawn_db = take_draws 1 db0 in with_step gid sid expected (\<lambda>goal step db.
     ebind (require (\<not> step_terminal step) (GoalTransitionError ''terminal step cannot wait'')) (\<lambda>_.
     ebind (store_goal_object h matcher) (\<lambda>stored.
     let tm = clock h; wake_json = (case zero_none wake of None \<Rightarrow> JNull | Some t \<Rightarrow> JFloat t);
         row = \<lparr>w_id = wid, w_goal = g_id goal, w_step = s_id step, w_source = source, w_matcher = stored,
           w_status = WtPending, w_wake = zero_none wake, w_result = [], w_event = [], w_created = tm,
           w_satisfied = None\<rparr> in
     ebind (require (wid \<notin> w_id ` set (gd_waits db)) (IntegrityError ''workflow_wait.wait_id'')) (\<lambda>_.
     ebind (store_goal_object h [(''source'', JStr source), (''matcher'', JObj matcher),
         (''wake_at'', wake_json), (''wait_id'', JStr wid)]) (\<lambda>spec.
     let db1 = update_waits (\<lambda>w. w_step w = s_id step \<and> w_status w = WtPending) (\<lambda>w. w\<lparr>w_status := WtCancelled\<rparr>) db;
         db2 = update_step_row (s_id step) (\<lambda>r. r\<lparr>s_status := SWaiting, s_version := s_version r + 1,
           s_wait_spec := spec, s_owner := [], s_expires := None, s_updated := tm\<rparr>)
           (db1\<lparr>gd_waits := gd_waits db1 @ [row]\<rparr>);
         db3 = attempt_follows step (\<lambda>a. a\<lparr>a_status := SWaiting, a_updated := tm\<rparr>) db2 in
     ebind (advance_tx h c goal ''goal.step_waiting''
       [(''step_id'', JStr (s_id step)), (''wait_id'', JStr wid), (''source'', JStr source),
        (''wake_at'', wake_json), (''resources_released'', JBool True)] (s_id step) (s_attempts step) tm db3)
       (\<lambda>(_, db4). Inr (row, db4))))))) drawn_db)"

definition create_wait ::
  "host \<Rightarrow> string \<Rightarrow> string \<Rightarrow> int \<Rightarrow> string \<Rightarrow> jobject \<Rightarrow> rat \<Rightarrow> caller \<Rightarrow> goal_db \<Rightarrow> wait_row res \<times> goal_db" where
  "create_wait h gid sid expected source matcher wake c db =
     (case goal_text source ''wait source'' True 120 of
        Inl e \<Rightarrow> (Inl e, db)
      | Inr src \<Rightarrow> goal_write h (create_wait_tx h gid sid expected src matcher wake
          (drawn h ''wait'' 0 db) c) db)"

definition wait_row_of :: "string \<Rightarrow> goal_db \<Rightarrow> wait_row option" where
  "wait_row_of wid db = find (\<lambda>w. w_id w = wid) (gd_waits db)"

definition wait_outcome :: "string \<Rightarrow> step_status option" where
  "wait_outcome t = (case step_status_of t of None \<Rightarrow> None
     | Some s \<Rightarrow> if s \<in> {SSucceeded, SFailed, SBlocked, SCancelled} then Some s else None)"

definition satisfied_wait :: "jobject \<Rightarrow> string \<Rightarrow> rat \<Rightarrow> wait_row \<Rightarrow> wait_row" where
  "satisfied_wait res ev tm w = w\<lparr>w_status := WtSatisfied, w_result := res, w_event := ev, w_satisfied := Some tm\<rparr>"

definition satisfy_wait_tx ::
  "host \<Rightarrow> string \<Rightarrow> int \<Rightarrow> jobject \<Rightarrow> string \<Rightarrow> caller \<Rightarrow> (goal_db, goal_row \<times> wait_row \<times> step_row) body" where
  "satisfy_wait_tx h wid expected value event c db = (case wait_row_of wid db of
       None \<Rightarrow> Inl (GoalNotFound (''unknown wait: '' @ wid))
     | Some wait \<Rightarrow> with_goal (w_goal wait) expected (\<lambda>goal db.
         if w_status wait = WtSatisfied then
           ebind (require_step_tx (g_id goal) (w_step wait) db) (\<lambda>step. Inr ((goal, wait, step), db))
         else
           ebind (require (w_status wait = WtPending)
             (GoalTransitionError (''cannot satisfy '' @ wait_status_text (w_status wait) @ '' wait''))) (\<lambda>_.
           ebind (require_step_tx (g_id goal) (w_step wait) db) (\<lambda>step.
           ebind (let t = text_of h (jget value ''status'') in
              case wait_outcome (if t = [] then ''succeeded'' else t) of
                None \<Rightarrow> Inl (GoalValidationError ''wait result status is invalid'') | Some s \<Rightarrow> Inr s) (\<lambda>outcome.
           let a = text_of h (jget value ''artifact_ref'');
               result_ref' = (if a \<noteq> [] then a else text_of h (jget value ''result_ref''));
               error_ref' = text_of h (jget value ''error_ref''); tm = clock h in
           ebind (goal_text (text_of h (jget value ''error'')) ''wait result error'' False 4000) (\<lambda>err.
           ebind (store_goal_object h value) (\<lambda>stored.
           let db1 = update_waits (\<lambda>w. w_id w = w_id wait) (satisfied_wait stored event tm) db;
               db2 = update_step_row (s_id step) (\<lambda>r. r\<lparr>s_status := outcome, s_version := s_version r + 1,
                 s_result_ref := result_ref', s_error_ref := error_ref', s_error := err, s_owner := [],
                 s_expires := None, s_updated := tm, s_completed := Some tm\<rparr>) db1;
               db3 = attempt_follows step (\<lambda>a. a\<lparr>a_status := outcome, a_result_ref := result_ref',
                 a_error_ref := error_ref', a_updated := tm, a_completed := Some tm\<rparr>) db2 in
           ebind (advance_tx h c goal ''goal.wait_satisfied''
             [(''wait_id'', JStr (w_id wait)), (''step_id'', JStr (s_id step)), (''source'', JStr (w_source wait)),
              (''event_id'', null_or event), (''outcome'', JStr (step_status_text outcome))]
             (s_id step) (s_attempts step) tm db3) (\<lambda>(_, db4).
           ebind (goal_and_step (g_id goal) (s_id step) db4) (\<lambda>((g, s), db5).
           Inr ((g, satisfied_wait stored event tm wait, s), db5))))))))) db)"

definition satisfy_wait ::
  "host \<Rightarrow> string \<Rightarrow> int \<Rightarrow> jobject \<Rightarrow> string \<Rightarrow> caller \<Rightarrow> goal_db \<Rightarrow>
   (goal_row \<times> wait_row \<times> step_row) res \<times> goal_db" where
  "satisfy_wait h wid expected value event c db = goal_write h (satisfy_wait_tx h wid expected value event c) db"

definition list_waits :: "string \<Rightarrow> string \<Rightarrow> goal_db \<Rightarrow> wait_row list res" where
  "list_waits gid st db = ebind (require_goal gid db) (\<lambda>_.
     ebind (require (st \<in> {[], ''pending'', ''satisfied'', ''cancelled''}) (GoalValidationError ''invalid wait status'')) (\<lambda>_.
     Inr (sort_key (\<lambda>w. (w_created w, w_id w))
       (filter (\<lambda>w. w_goal w = gid \<and> (st = [] \<or> wait_status_text (w_status w) = st)) (gd_waits db)))))"

section \<open>Inputs\<close>

definition attention_row_of :: "string \<Rightarrow> goal_db \<Rightarrow> attention_row option" where
  "attention_row_of aid db = find (\<lambda>r. at_id r = aid) (gd_attention db)"

definition request_input_tx ::
  "host \<Rightarrow> string \<Rightarrow> string \<Rightarrow> int \<Rightarrow> string \<Rightarrow> jobject \<Rightarrow> string \<Rightarrow> string \<Rightarrow> caller \<Rightarrow> (goal_db, attention_row) body" where
  "request_input_tx h gid sid expected clean_prompt sch aid wid c db0 =
     (let drawn_db = take_draws 2 db0 in with_step gid sid expected (\<lambda>goal step db.
     ebind (require (\<not> step_terminal step) (GoalTransitionError ''terminal step cannot request input'')) (\<lambda>_.
     ebind (goal_scope goal (s_id step) (s_attempts step)) (\<lambda>sc.
     ebind (create_goal_input_tx h \<lparr>gi_interaction_id = aid, gi_goal_id = g_id goal, gi_step_id = s_id step,
         gi_prompt = clean_prompt, gi_schema = sch, gi_scope = sc, gi_actor = goal_actor (ca_actor c),
         gi_correlation_id = ca_correlation c, gi_now = Some (clock h)\<rparr> (gd_work db)) (\<lambda>(_, w).
     ebind (store_goal_object h sch) (\<lambda>stored.
     let tm = clock h;
         row = \<lparr>at_id = aid, at_goal = g_id goal, at_step = s_id step, at_kind = ''input'', at_status = AtOpen,
           at_prompt = clean_prompt, at_schema = stored, at_response = JNull, at_version = 1,
           at_created = tm, at_updated = tm, at_resolved = None\<rparr>;
         wait = \<lparr>w_id = wid, w_goal = g_id goal, w_step = s_id step, w_source = ''user_input'',
           w_matcher = [(''attention_id'', JStr aid)], w_status = WtPending, w_wake = None, w_result = [],
           w_event = [], w_created = tm, w_satisfied = None\<rparr> in
     ebind (require (attention_row_of aid db = None) (IntegrityError ''workflow_attention.attention_id'')) (\<lambda>_.
     ebind (require (wait_row_of wid db = None) (IntegrityError ''workflow_wait.wait_id'')) (\<lambda>_.
     let db1 = db\<lparr>gd_work := w, gd_attention := gd_attention db @ [row], gd_waits := gd_waits db @ [wait]\<rparr>;
         db2 = update_step_row (s_id step) (\<lambda>r. r\<lparr>s_status := SWaiting, s_version := s_version r + 1,
           s_wait_spec := onorm [(''source'', JStr ''user_input''), (''attention_id'', JStr aid), (''wait_id'', JStr wid)],
           s_owner := [], s_expires := None, s_updated := tm\<rparr>) db1;
         db3 = attempt_follows step (\<lambda>a. a\<lparr>a_status := SWaiting, a_updated := tm\<rparr>) db2 in
     ebind (advance_tx h c goal ''goal.input_requested''
       [(''attention_id'', JStr aid), (''wait_id'', JStr wid), (''step_id'', JStr (s_id step)),
        (''resources_released'', JBool True)] (s_id step) (s_attempts step) tm db3)
       (\<lambda>(_, db4). Inr (row, db4))))))))) drawn_db)"

definition request_input ::
  "host \<Rightarrow> string \<Rightarrow> string \<Rightarrow> int \<Rightarrow> string \<Rightarrow> jobject \<Rightarrow> caller \<Rightarrow> goal_db \<Rightarrow> attention_row res \<times> goal_db" where
  "request_input h gid sid expected question sch c db =
     (case goal_text question ''input prompt'' True 8000 of
        Inl e \<Rightarrow> (Inl e, db)
      | Inr p \<Rightarrow> goal_write h (request_input_tx h gid sid expected p sch (drawn h ''interaction'' 0 db)
          (drawn h ''wait'' 1 db) c) db)"

definition open_attention :: "string \<Rightarrow> goal_db \<Rightarrow> attention_row res" where
  "open_attention aid db = (case attention_row_of aid db of
     None \<Rightarrow> Inl (GoalNotFound (''unknown attention: '' @ aid)) | Some r \<Rightarrow> Inr r)"

definition attention_still_open :: "attention_row \<Rightarrow> int \<Rightarrow> unit res" where
  "attention_still_open r v = require (\<not> (at_status r \<noteq> AtOpen \<or> at_version r \<noteq> v))
     (GoalConflict ''attention is no longer open at the expected version'')"

definition closed_attention :: "attention_status \<Rightarrow> rat \<Rightarrow> attention_row \<Rightarrow> attention_row" where
  "closed_attention st tm r = r\<lparr>at_status := st, at_version := at_version r + 1, at_updated := tm, at_resolved := Some tm\<rparr>"

definition settle_user_waits :: "string \<Rightarrow> wait_status \<Rightarrow> jobject \<Rightarrow> rat \<Rightarrow> goal_db \<Rightarrow> goal_db" where
  "settle_user_waits sid st res tm = update_waits
     (\<lambda>w. w_step w = sid \<and> w_source w = ''user_input'' \<and> w_status w = WtPending)
     (\<lambda>w. w\<lparr>w_status := st, w_result := res, w_satisfied := Some tm\<rparr>)"

definition respond_input_tx ::
  "host \<Rightarrow> string \<Rightarrow> json \<Rightarrow> int \<Rightarrow> int \<Rightarrow> caller \<Rightarrow> (goal_db, goal_row \<times> attention_row) body" where
  "respond_input_tx h aid answer expected attention_version c db =
     ebind (open_attention aid db) (\<lambda>attention.
     with_goal (at_goal attention) expected (\<lambda>goal db.
       ebind (attention_still_open attention attention_version) (\<lambda>_.
       ebind (require_step_tx (g_id goal) (at_step attention) db) (\<lambda>step.
       ebind (as_goal_conflict (resolve_goal_input_tx h (at_id attention) answer attention_version
           (goal_actor (ca_actor c)) (ca_correlation c) (Some (clock h)) (gd_work db))) (\<lambda>(_, w).
       let tm = clock h in
       ebind (store_goal_object h [(''response'', answer), (''attention_id'', JStr (at_id attention))]) (\<lambda>wait_result.
       ebind (store_goal_json h answer) (\<lambda>stored.
       let db1 = update_attention (\<lambda>r. at_id r = at_id attention) 
             (\<lambda>r. (closed_attention AtAnswered tm r)\<lparr>at_response := JNull\<rparr>) (db\<lparr>gd_work := w\<rparr>);
           db2 = settle_user_waits (s_id step) WtSatisfied wait_result tm db1;
           db3 = upsert_state (g_id goal) (''input:'' @ s_id step) stored tm db2;
           db4 = update_step_row (s_id step) (\<lambda>r. r\<lparr>s_status := SSucceeded, s_version := s_version r + 1,
             s_owner := [], s_expires := None, s_updated := tm, s_completed := Some tm\<rparr>) db3;
           db5 = attempt_follows step (\<lambda>a. a\<lparr>a_status := SSucceeded, a_updated := tm, a_completed := Some tm\<rparr>) db4 in
       ebind (advance_tx h c goal ''goal.input_answered''
         [(''attention_id'', JStr (at_id attention)), (''step_id'', JStr (s_id step))]
         (s_id step) 0 tm db5) (\<lambda>(_, db6).
       ebind (require_goal_tx (g_id goal) db6) (\<lambda>g.
       Inr ((g, (closed_attention AtAnswered tm attention)\<lparr>at_response := JNull\<rparr>), db6)))))))))
       db)"

definition respond_input ::
  "host \<Rightarrow> string \<Rightarrow> json \<Rightarrow> int \<Rightarrow> int \<Rightarrow> caller \<Rightarrow> goal_db \<Rightarrow> (goal_row \<times> attention_row) res \<times> goal_db" where
  "respond_input h aid answer expected attention_version c db = goal_write h (respond_input_tx h aid answer expected attention_version c) db"

definition dismiss_input_tx ::
  "host \<Rightarrow> string \<Rightarrow> int \<Rightarrow> caller \<Rightarrow> (goal_db, goal_row \<times> attention_row) body" where
  "dismiss_input_tx h aid attention_version c db =
     ebind (open_attention aid db) (\<lambda>attention.
     ebind (require_goal_tx (at_goal attention) db) (\<lambda>goal.
     ebind (attention_still_open attention attention_version) (\<lambda>_.
     ebind (require_step_tx (g_id goal) (at_step attention) db) (\<lambda>step.
     ebind (as_goal_conflict (dismiss_goal_input_tx h (at_id attention) attention_version
         (goal_actor (ca_actor c)) (ca_correlation c) (Some (clock h)) (gd_work db))) (\<lambda>(_, w).
     let tm = clock h;
         db1 = update_attention (\<lambda>r. at_id r = at_id attention) (closed_attention AtDismissed tm) (db\<lparr>gd_work := w\<rparr>);
         db2 = settle_user_waits (s_id step) WtCancelled
           [(''attention_id'', JStr (at_id attention)), (''reason'', JStr ''user_skipped'')] tm db1;
         db3 = update_step_row (s_id step) (\<lambda>r. r\<lparr>s_status := SBlocked, s_version := s_version r + 1,
           s_error := ''Required user input was skipped'', s_owner := [], s_expires := None, s_updated := tm,
           s_completed := Some tm\<rparr>) db2;
         db4 = attempt_follows step (\<lambda>a. a\<lparr>a_status := SBlocked, a_updated := tm, a_completed := Some tm\<rparr>) db3 in
     ebind (advance_tx h c goal ''goal.input_dismissed''
       [(''attention_id'', JStr (at_id attention)), (''step_id'', JStr (s_id step)),
        (''reason'', JStr ''user_skipped'')] (s_id step) 0 tm db4) (\<lambda>(_, db5).
     ebind (require_goal_tx (g_id goal) db5) (\<lambda>g.
     Inr ((g, closed_attention AtDismissed tm attention), db5))))))))"

definition dismiss_input ::
  "host \<Rightarrow> string \<Rightarrow> int \<Rightarrow> caller \<Rightarrow> goal_db \<Rightarrow> (goal_row \<times> attention_row) res \<times> goal_db" where
  "dismiss_input h aid attention_version c db = goal_write h (dismiss_input_tx h aid attention_version c) db"

definition list_attention :: "string \<Rightarrow> string \<Rightarrow> goal_db \<Rightarrow> attention_row list res" where
  "list_attention gid st db = ebind (require_goal gid db) (\<lambda>_.
     ebind (require (st \<in> {[], ''open'', ''answered'', ''dismissed''}) (GoalValidationError ''invalid attention status'')) (\<lambda>_.
     Inr (sort_key (\<lambda>r. (at_created r, at_id r))
       (filter (\<lambda>r. at_goal r = gid \<and> (st = [] \<or> attention_status_text (at_status r) = st)) (gd_attention db)))))"

end
