(* ===== verification/Goal_Effects.thy ===== *)
theory Goal_Effects
  imports Goal_Steps
begin

text \<open>
  The ledger of external effects, the cancellation of a whole goal, and the bounded history
  (\<^verbatim>\<open>backend/goals/repository.py\<close>).
\<close>

section \<open>Effects\<close>

definition prior_effect :: "string \<Rightarrow> string \<Rightarrow> goal_db \<Rightarrow> effect_row option" where
  "prior_effect gid key db = find (\<lambda>r. e_goal r = gid \<and> e_key r = key) (gd_effects db)"

definition next_effect_sequence :: "string \<Rightarrow> goal_db \<Rightarrow> int" where
  "next_effect_sequence gid db =
     fold max (map e_sequence (filter (\<lambda>r. e_goal r = gid) (gd_effects db))) 0 + 1"

definition record_effect_tx ::
  "host \<Rightarrow> string \<Rightarrow> string \<Rightarrow> int \<Rightarrow> string \<Rightarrow> string \<Rightarrow> jobject \<Rightarrow> effect_status \<Rightarrow> caller \<Rightarrow>
   (goal_db, effect_row) body" where
  "record_effect_tx h gid sid expected kind key request st c db =
     ebind (require_goal_tx gid db) (\<lambda>goal.
     ebind (require_step_tx (g_id goal) sid db) (\<lambda>step.
     case prior_effect (g_id goal) key db of
       Some prior \<Rightarrow>
         ebind (require (\<not> (e_step prior \<noteq> s_id step \<or> e_kind prior \<noteq> kind \<or>
             \<not> py_eq (JObj (e_request prior)) (JObj request)))
           (GoalConflict ''effect idempotency key was reused for a different request'')) (\<lambda>_. Inr (prior, db))
     | None \<Rightarrow>
         ebind (check_version goal expected) (\<lambda>_.
         ebind (goal_text kind ''effect kind'' True 120) (\<lambda>clean_kind.
         ebind (store_goal_object h request) (\<lambda>stored.
         let tm = clock h; n = next_effect_sequence (g_id goal) db;
             row = \<lparr>e_id = drawn h ''effect'' 0 db, e_goal = g_id goal, e_step = s_id step,
               e_attempt = s_attempts step, e_sequence = n, e_kind = clean_kind, e_status = st, e_key = key,
               e_request = stored, e_response = [], e_receipt = [], e_error = [], e_created = tm,
               e_updated = tm\<rparr> in
         ebind (require (e_id row \<notin> e_id ` set (gd_effects db)) (IntegrityError ''workflow_effect.effect_id'')) (\<lambda>_.
         ebind (advance_tx h c goal ''goal.effect_recorded''
           [(''effect_id'', JStr (e_id row)), (''sequence'', JInt n), (''status'', JStr (effect_status_text st)),
            (''kind'', JStr kind), (''idempotency_key'', JStr key)] (s_id step) (s_attempts step) tm
           ((take_draws 1 db)\<lparr>gd_effects := gd_effects db @ [row]\<rparr>)) (\<lambda>(_, db1).
         Inr (row, db1))))))))"

definition record_effect ::
  "host \<Rightarrow> string \<Rightarrow> string \<Rightarrow> int \<Rightarrow> string \<Rightarrow> string \<Rightarrow> jobject \<Rightarrow> string \<Rightarrow> caller \<Rightarrow> goal_db \<Rightarrow>
   effect_row res \<times> goal_db" where
  "record_effect h gid sid expected kind key request st c db =
     (case effect_status_of st of
        None \<Rightarrow> (Inl (GoalValidationError ''invalid effect status''), db)
      | Some s \<Rightarrow> (case goal_text key ''effect idempotency_key'' True 512 of
          Inl e \<Rightarrow> (Inl e, db)
        | Inr idem \<Rightarrow> goal_write h (record_effect_tx h gid sid expected kind idem request s c) db))"

fun effect_allowed :: "effect_status \<Rightarrow> effect_status set" where
  "effect_allowed EfPlanned = {EfDispatched, EfCancelled, EfFailed}"
| "effect_allowed EfDispatched = {EfSucceeded, EfFailed, EfUnknown, EfCancelled}"
| "effect_allowed _ = {}"

definition get_effect :: "string \<Rightarrow> goal_db \<Rightarrow> effect_row option" where
  "get_effect eid db = find (\<lambda>r. e_id r = eid) (gd_effects db)"

definition settled_effect :: "effect_status \<Rightarrow> jobject \<Rightarrow> string \<Rightarrow> string \<Rightarrow> rat \<Rightarrow> effect_row \<Rightarrow> effect_row" where
  "settled_effect st resp receipt err tm r = r\<lparr>e_status := st, e_response := resp, e_receipt := receipt,
     e_error := err, e_updated := tm\<rparr>"

definition update_effect_tx ::
  "host \<Rightarrow> string \<Rightarrow> int \<Rightarrow> effect_status \<Rightarrow> jobject \<Rightarrow> string \<Rightarrow> string \<Rightarrow> caller \<Rightarrow> (goal_db, effect_row) body" where
  "update_effect_tx h eid expected st resp receipt err c db =
     (case get_effect eid db of
        None \<Rightarrow> Inl (GoalNotFound (''unknown effect: '' @ eid))
      | Some effect \<Rightarrow>
          ebind (require_goal_tx (e_goal effect) db) (\<lambda>goal.
          if st = e_status effect then
            ebind (require (py_eq (JObj (e_response effect)) (JObj resp) \<and> e_receipt effect = receipt \<and>
                e_error effect = err)
              (GoalConflict ''effect transition was replayed with different terminal data'')) (\<lambda>_. Inr (effect, db))
          else
            ebind (check_version goal expected) (\<lambda>_.
            ebind (require (st \<in> effect_allowed (e_status effect))
              (GoalTransitionError (''cannot transition effect '' @ effect_status_text (e_status effect) @ '' -> '' @
                 effect_status_text st))) (\<lambda>_.
            ebind (store_goal_object h resp) (\<lambda>stored.
            ebind (goal_text err ''effect error'' False 4000) (\<lambda>clean_err.
            ebind (advance_tx h c goal ''goal.effect_updated''
              [(''effect_id'', JStr (e_id effect)), (''from'', JStr (effect_status_text (e_status effect))),
               (''to'', JStr (effect_status_text st)), (''receipt_id'', null_or receipt)]
              (e_step effect) (e_attempt effect) (clock h)
              (update_effects (\<lambda>r. e_id r = e_id effect) (settled_effect st stored receipt clean_err (clock h)) db)) (\<lambda>(_, db1).
            Inr (settled_effect st stored receipt clean_err (clock h) effect, db1))))))))"

definition update_effect ::
  "host \<Rightarrow> string \<Rightarrow> int \<Rightarrow> string \<Rightarrow> jobject \<Rightarrow> string \<Rightarrow> string \<Rightarrow> caller \<Rightarrow> goal_db \<Rightarrow> effect_row res \<times> goal_db" where
  "update_effect h eid expected st resp receipt err c db =
     (case effect_status_of st of
        None \<Rightarrow> (Inl (GoalValidationError ''invalid effect status''), db)
      | Some s \<Rightarrow> goal_write h (update_effect_tx h eid expected s resp receipt err c) db)"

definition list_effects :: "string \<Rightarrow> goal_db \<Rightarrow> effect_row list res" where
  "list_effects gid db = ebind (require_goal gid db) (\<lambda>_.
     Inr (sort_key e_sequence (filter (\<lambda>r. e_goal r = gid) (gd_effects db))))"

section \<open>Cancelling a goal\<close>

definition cancellable_goal_states :: "goal_status set" where
  "cancellable_goal_states = {GDraft, GQueued, GRunning, GWaitingUser, GWaitingExternal, GBlocked, GPaused, GCancelled}"

text \<open>
  The admission of a user's stop: the owner, the observed version, and whether the same request was
  admitted before (then its key's content has to be the same).  \<^const>\<open>None\<close> is a repeated request.
\<close>

definition intent_field :: "json \<Rightarrow> string \<Rightarrow> json res" where
  "intent_field v k = (case v of JObj kvs \<Rightarrow> (case jget kvs k of Some j \<Rightarrow> Inr j
       | None \<Rightarrow> Inl (RuntimeErr (''KeyError: '' @ k)))
     | _ \<Rightarrow> Inl (TypeErr ''indices must be integers or slices''))"

definition cancel_intent_key :: "host \<Rightarrow> string \<Rightarrow> string" where
  "cancel_intent_key h request_id = ''cancel_request:'' @ sha256_hex h request_id"

definition admit_cancel ::
  "host \<Rightarrow> goal_row \<Rightarrow> string \<Rightarrow> int \<Rightarrow> string \<Rightarrow> string \<Rightarrow> goal_db \<Rightarrow> string option res" where
  "admit_cancel h goal chat expected clean_reason request_id db =
     ebind (require (\<not> (chat = [] \<or> g_owner goal \<noteq> chat \<or> request_id = []))
       (GoalConflict ''Cancel intent requires the exact goal owner and request identity'')) (\<lambda>_.
     ebind (require (1 \<le> expected \<and> expected \<le> g_version goal)
       (GoalConflict ''Cancel intent has an invalid or future observed version'')) (\<lambda>_.
     let key = cancel_intent_key h request_id in
     case state_row_of (g_id goal) key db of
       None \<Rightarrow> Inr (Some key)
     | Some previous \<Rightarrow>
         ebind (intent_field (st_value previous) ''observed_version'') (\<lambda>v.
         ebind (require (py_eq v (JInt expected)) (GoalConflict ''Cancel request_id has different content'')) (\<lambda>_.
         ebind (intent_field (st_value previous) ''reason'') (\<lambda>r.
         ebind (require (py_eq r (JStr clean_reason)) (GoalConflict ''Cancel request_id has different content'')) (\<lambda>_.
         Inr None))))))"

definition cleanup_token :: "host \<Rightarrow> string \<Rightarrow> goal_row \<Rightarrow> goal_db \<Rightarrow> string" where
  "cleanup_token h request_id goal db =
     (if request_id = [] then drawn h ''cleanup'' 0 db else request_id) @ '':'' @ show_int (g_version goal + 1)"

definition request_cleanup ::
  "host \<Rightarrow> caller \<Rightarrow> goal_row \<Rightarrow> string \<Rightarrow> string \<Rightarrow> goal_db \<Rightarrow> goal_db res" where
  "request_cleanup h c goal clean_reason token db =
     (let pending = [(''status'', JStr ''pending''), (''complete'', JBool False), (''requested_at'', JFloat (clock h)),
                     (''reason'', JStr clean_reason), (''token'', JStr token)] in
      ebind (store_goal_json h (JObj pending)) (\<lambda>v.
      ebind (advance_tx h c goal ''goal.cleanup_requested'' pending [] 0 (clock h)
        (upsert_state (g_id goal) ''resource_cleanup'' v (clock h)
          (if ca_correlation c = [] then take_draws 1 db else db))) (\<lambda>(_, db1). Inr db1)))"

definition mark_cancelled :: "host \<Rightarrow> caller \<Rightarrow> goal_row \<Rightarrow> string \<Rightarrow> goal_db \<Rightarrow> goal_db res" where
  "mark_cancelled h c goal clean_reason db =
     ebind (advance_tx h c goal ''goal.cancelled''
       [(''from'', JStr (goal_status_text (g_status goal))), (''to'', JStr ''cancelled''),
        (''reason'', null_or clean_reason)] [] 0 (clock h)
       (update_goal_row (g_id goal) (\<lambda>r. r\<lparr>g_status := GCancelled, g_pause_reason := [],
          g_completed := (case g_completed r of None \<Rightarrow> Some (clock h) | Some t \<Rightarrow> Some t),
          g_updated := clock h\<rparr>) db)) (\<lambda>(_, db1). Inr db1)"

definition cancel_goal_effects :: "string \<Rightarrow> string \<Rightarrow> rat \<Rightarrow> goal_db \<Rightarrow> goal_db" where
  "cancel_goal_effects gid clean_reason tm = update_effects
     (\<lambda>r. e_goal r = gid \<and> e_status r \<in> {EfPlanned, EfDispatched})
     (\<lambda>r. r\<lparr>e_status := EfCancelled, e_error := clean_reason, e_updated := tm\<rparr>)"

text \<open>One turn of the loop over the steps; the goal is read again after every event.\<close>

definition cancelled_step :: "string \<Rightarrow> rat \<Rightarrow> step_row \<Rightarrow> step_row" where
  "cancelled_step clean_reason tm r = r\<lparr>s_status := SCancelled, s_version := s_version r + 1,
     s_error := clean_reason, s_available := 0, s_owner := [], s_expires := None, s_updated := tm,
     s_completed := Some tm\<rparr>"

definition cancel_one_step :: "host \<Rightarrow> caller \<Rightarrow> string \<Rightarrow> string \<Rightarrow> step_row \<Rightarrow> goal_db \<Rightarrow> goal_db res" where
  "cancel_one_step h c gid clean_reason step db =
     ebind (require_goal_tx gid db) (\<lambda>goal.
     let tm = clock h;
         db1 = update_step_row (s_id step) (cancelled_step clean_reason tm) db;
         db2 = (if s_attempts step \<noteq> 0 \<and> s_status step \<in> {SLeased, SRunning, SWaiting}
                then update_attempt_row (s_id step) (s_attempts step)
                  (\<lambda>a. a\<lparr>a_status := SCancelled, a_updated := tm, a_completed := Some tm\<rparr>) db1
                else db1) in
     ebind (advance_tx h c goal ''goal.step_status''
       [(''step_id'', JStr (s_id step)), (''from'', JStr (step_status_text (s_status step))),
        (''to'', JStr ''cancelled''), (''reason'', null_or clean_reason), (''available_at'', JFloat 0)]
       (s_id step) 0 tm db2) (\<lambda>(_, db3). Inr db3))"

definition record_intent ::
  "host \<Rightarrow> string \<Rightarrow> string \<Rightarrow> string \<Rightarrow> int \<Rightarrow> int \<Rightarrow> goal_row \<Rightarrow> string \<Rightarrow> string \<Rightarrow> goal_db \<Rightarrow> goal_db res" where
  "record_intent h key request_id chat expected applied goal clean_reason token db =
     ebind (store_goal_json h (JObj [(''schema'', JStr ''variant1.goal-cancel-intent.v1''),
       (''request_id'', JStr request_id), (''owner_chat_id'', JStr chat), (''observed_version'', JInt expected),
       (''applied_to_version'', JInt applied), (''admitted_version'', JInt (g_version goal)),
       (''reason'', JStr clean_reason), (''cleanup_token'', JStr token)])) (\<lambda>v.
     ebind (require (state_row_of (g_id goal) key db = None) (IntegrityError ''workflow_goal_state'')) (\<lambda>_.
     Inr (db\<lparr>gd_states := gd_states db @
       [\<lparr>st_goal = g_id goal, st_key = key, st_value = v, st_version = 1, st_updated = clock h\<rparr>]\<rparr>)))"

text \<open>Everything after the admission: \<open>intent\<close> is the key and owner of a user's stop.\<close>

definition open_steps :: "string \<Rightarrow> goal_db \<Rightarrow> step_row list" where
  "open_steps gid db = filter (\<lambda>s. \<not> step_terminal s)
     (sort_key (\<lambda>s. (s_ordinal s, s_id s)) (filter (\<lambda>s. s_goal s = gid) (gd_steps db)))"

definition cancel_goal_body ::
  "host \<Rightarrow> caller \<Rightarrow> goal_row \<Rightarrow> int \<Rightarrow> string \<Rightarrow> (string \<times> string) option \<Rightarrow> (goal_db, goal_row) body" where
  "cancel_goal_body h c goal expected clean_reason intent db =
     (let gid = g_id goal; tm = clock h;
          terminal_cleanup = (intent \<noteq> None \<and> g_status goal \<in> {GSucceeded, GFailed, GArchived});
          token = cleanup_token h (ca_correlation c) goal db in
      ebind (require (g_status goal \<in> cancellable_goal_states \<or> terminal_cleanup)
        (GoalTransitionError (''cannot transition goal '' @ goal_status_text (g_status goal) @ '' -> cancelled''))) (\<lambda>_.
      ebind (request_cleanup h c goal clean_reason token db) (\<lambda>db1.
      ebind (require_goal_tx gid db1) (\<lambda>goal1.
      let steps = open_steps gid db1 in
      ebind (if g_status goal1 \<noteq> GCancelled \<and> \<not> terminal_cleanup
             then mark_cancelled h c goal1 clean_reason db1 else Inr db1) (\<lambda>db2.
      let db3 = cancel_goal_effects gid clean_reason tm
            (dismiss_goal_attention gid tm (cancel_goal_waits gid db2)) in
      ebind (efold (cancel_one_step h c gid clean_reason) steps db3) (\<lambda>db4.
      ebind (require_goal_tx gid db4) (\<lambda>goal2.
      ebind (case intent of None \<Rightarrow> Inr db4
         | Some (key, chat) \<Rightarrow> record_intent h key (ca_correlation c) chat expected (g_version goal) goal2
             clean_reason token db4) (\<lambda>db5.
      Inr (goal2, db5)))))))))"

definition cancel_goal_tx ::
  "host \<Rightarrow> string \<Rightarrow> int \<Rightarrow> string \<Rightarrow> caller \<Rightarrow> string option \<Rightarrow> (goal_db, goal_row) body" where
  "cancel_goal_tx h gid expected clean_reason c chat db =
     ebind (require_goal_tx gid db) (\<lambda>goal.
     case chat of
       None \<Rightarrow> ebind (check_version goal expected) (\<lambda>_. cancel_goal_body h c goal expected clean_reason None db)
     | Some ch \<Rightarrow> ebind (admit_cancel h goal ch expected clean_reason (ca_correlation c) db) (\<lambda>admitted.
         case admitted of
           None \<Rightarrow> Inr (goal, db)
         | Some key \<Rightarrow> cancel_goal_body h c goal expected clean_reason (Some (key, ch)) db))"

definition cancel_goal ::
  "host \<Rightarrow> string \<Rightarrow> int \<Rightarrow> string \<Rightarrow> caller \<Rightarrow> string option \<Rightarrow> goal_db \<Rightarrow> goal_row res \<times> goal_db" where
  "cancel_goal h gid expected reason c chat db =
     (case goal_text reason ''reason'' False 4000 of
        Inl e \<Rightarrow> (Inl e, db)
      | Inr clean_reason \<Rightarrow> goal_write h (cancel_goal_tx h gid expected clean_reason c chat) db)"

section \<open>The bounded history\<close>

text \<open>The newest \<open>cap\<close> rows of a table in ascending order: descending, limited, reversed.\<close>

definition newest :: "nat \<Rightarrow> ('r \<Rightarrow> 'k :: linorder) \<Rightarrow> 'r list \<Rightarrow> 'r list" where
  "newest cap key rows = rev (take cap (rev (sort_key key rows)))"

record goal_history =
  gh_attempts :: "jobject list"
  gh_waits :: "jobject list"
  gh_effects :: "jobject list"
  gh_attention :: "jobject list"
  gh_artifacts :: "jobject list"
  gh_limit :: nat
  gh_counts :: "nat list"
  gh_complete :: bool

definition snapshot_history :: "string \<Rightarrow> int \<Rightarrow> goal_db \<Rightarrow> goal_history" where
  "snapshot_history gid limit db =
     (let cap = clamp_page limit;
          attempts = filter (\<lambda>r. a_goal r = gid) (gd_attempts db);
          waits = filter (\<lambda>r. w_goal r = gid) (gd_waits db);
          effects = filter (\<lambda>r. e_goal r = gid) (gd_effects db);
          attention = filter (\<lambda>r. at_goal r = gid) (gd_attention db);
          artifacts = filter (\<lambda>r. l_goal r = gid) (gd_artifacts db);
          counts = [length attempts, length waits, length effects, length attention, length artifacts] in
      \<lparr>gh_attempts = map attempt_to_dict (newest cap (\<lambda>r. (a_started r, a_id r)) attempts),
       gh_waits = map wait_to_dict (newest cap (\<lambda>r. (w_created r, w_id r)) waits),
       gh_effects = map effect_to_dict (newest cap e_sequence effects),
       gh_attention = map attention_to_dict (newest cap (\<lambda>r. (at_status r = AtOpen, at_created r, at_id r)) attention),
       gh_artifacts = map artifact_to_dict (newest cap (\<lambda>r. (l_created r, l_id r)) artifacts),
       gh_limit = cap, gh_counts = counts, gh_complete = list_all (\<lambda>n. n \<le> cap) counts\<rparr>)"

end
