(* ===== verification/Goal_Inv.thy ===== *)
theory Goal_Inv
  imports Goal_Effects Work_Settled
begin

text \<open>
  The invariant of the goal store, what an operation may change in it, and one lemma for each kind
  of statement the operations are made of.  A statement keeps the invariant on its own except where
  two belong together (a row and its event, a leased step and its attempt); the lemmas compose with
  the transitivity of \<open>keeps\<close>.
\<close>

section \<open>The invariant\<close>

definition goal_ok :: "goal_row \<Rightarrow> bool" where
  "goal_ok g \<longleftrightarrow> clean_id (g_id g) \<and> (g_completed g \<noteq> None \<longleftrightarrow> goal_terminal g) \<and>
     (g_archived g \<noteq> None \<longleftrightarrow> g_status g = GArchived) \<and>
     (g_pause_reason g \<noteq> [] \<longrightarrow> g_status g \<in> {GPaused, GBlocked})"

text \<open>A lease is a worker's only while the step is leased or running; every lease is an attempt.\<close>

definition step_ok :: "step_row \<Rightarrow> bool" where
  "step_ok s \<longleftrightarrow> 0 \<le> s_attempts s \<and> s_attempts s \<le> s_max_attempts s \<and> 1 \<le> s_max_attempts s \<and>
     s_epoch s = s_attempts s \<and>
     (s_owner s \<noteq> [] \<longrightarrow> s_status s \<in> {SLeased, SRunning} \<and> s_expires s \<noteq> None)"

definition goals_wf :: "goal_db \<Rightarrow> bool" where
  "goals_wf db \<longleftrightarrow> aggregate_wf ''goal'' g_id g_version goal_ok (gd_goals db) (gd_work db)"

definition steps_wf :: "goal_db \<Rightarrow> bool" where
  "steps_wf db \<longleftrightarrow> distinct (map s_id (gd_steps db)) \<and> list_all step_ok (gd_steps db)"

text \<open>The attempts of a step are numbered 1, 2, .. up to its attempt count.\<close>

definition attempts_of :: "attempt_row list \<Rightarrow> string \<Rightarrow> int list" where
  "attempts_of t sid = map a_attempt (filter (\<lambda>a. a_step a = sid) t)"

definition attempts_wf :: "step_row list \<Rightarrow> attempt_row list \<Rightarrow> bool" where
  "attempts_wf steps t \<longleftrightarrow> (\<forall>s\<in>set steps. attempts_of t (s_id s) = counting (nat (s_attempts s))) \<and>
     a_step ` set t \<subseteq> s_id ` set steps"

definition effect_numbers :: "effect_row list \<Rightarrow> string \<Rightarrow> int list" where
  "effect_numbers t gid = map e_sequence (filter (\<lambda>r. e_goal r = gid) t)"

definition effect_keys :: "effect_row list \<Rightarrow> (string \<times> string) list" where
  "effect_keys t = map (\<lambda>r. (e_goal r, e_key r)) t"

definition effects_wf :: "effect_row list \<Rightarrow> bool" where
  "effects_wf t \<longleftrightarrow> (\<forall>gid. effect_numbers t gid = counting (length (effect_numbers t gid))) \<and>
     distinct (effect_keys t) \<and> distinct (map e_id t)"

text \<open>The dependencies of all plans join steps of the store and have no cycle.\<close>

definition deps_wf :: "step_row list \<Rightarrow> (string \<times> string) list \<Rightarrow> bool" where
  "deps_wf steps deps \<longleftrightarrow> acyclic (set deps) \<and> set deps \<subseteq> s_id ` set steps \<times> s_id ` set steps"

text \<open>The interaction of an answered question is settled.\<close>

definition interaction_settled :: "string \<Rightarrow> work_db \<Rightarrow> bool" where
  "interaction_settled i w \<longleftrightarrow> (\<exists>r. interaction_row_of i w = Some r \<and> interaction_terminal r)"

definition attention_wf :: "goal_db \<Rightarrow> bool" where
  "attention_wf db \<longleftrightarrow> distinct (map at_id (gd_attention db)) \<and>
     (\<forall>r\<in>set (gd_attention db). at_status r = AtAnswered \<longrightarrow> interaction_settled (at_id r) (gd_work db))"

definition goal_wf :: "goal_db \<Rightarrow> bool" where
  "goal_wf db \<longleftrightarrow> repo_wf (gd_work db) \<and> goals_wf db \<and> steps_wf db \<and>
     attempts_wf (gd_steps db) (gd_attempts db) \<and> effects_wf (gd_effects db) \<and>
     deps_wf (gd_steps db) (gd_deps db) \<and> attention_wf db"

section \<open>What an operation may change\<close>

definition goal_leads :: "(goal_status \<times> goal_status) set" where
  "goal_leads = {(a, b). b \<in> goal_allowed a}\<^sup>*"

definition goal_move :: "goal_row \<Rightarrow> goal_row \<Rightarrow> bool" where
  "goal_move g g' \<longleftrightarrow> g_version g \<le> g_version g' \<and> (g_status g, g_status g') \<in> goal_leads"

definition step_move :: "step_row \<Rightarrow> step_row \<Rightarrow> bool" where
  "step_move s s' \<longleftrightarrow> s_goal s' = s_goal s \<and> s_version s \<le> s_version s' \<and> s_epoch s \<le> s_epoch s' \<and>
     (s_owner s' \<noteq> [] \<longrightarrow> s_epoch s < s_epoch s' \<or> s_owner s' = s_owner s \<and> s_epoch s' = s_epoch s)"

definition goal_moves :: "goal_db \<Rightarrow> goal_db \<Rightarrow> bool" where
  "goal_moves db db' \<longleftrightarrow>
     (\<forall>i g. goal_row_of i db = Some g \<longrightarrow> (\<exists>g'. goal_row_of i db' = Some g' \<and> goal_move g g')) \<and>
     (\<forall>i s. step_row_of i db = Some s \<longrightarrow> (\<exists>s'. step_row_of i db' = Some s' \<and> step_move s s'))"

text \<open>The tables of the Work Fabric: the goals never touch its jobs, receipts or settled questions.\<close>

definition work_keeps :: "work_db \<Rightarrow> work_db \<Rightarrow> bool" where
  "work_keeps w w' \<longleftrightarrow> settled_kept w w' \<and> jobs w' = jobs w \<and> outbox_extends w w'"

text \<open>The events of a goal, and what an operation on one goal leaves of every other.\<close>

definition goal_log :: "string \<Rightarrow> goal_db \<Rightarrow> work_event list" where
  "goal_log gid db = filter (\<lambda>e. aggregate_kind e = ''goal'' \<and> aggregate_id e = gid) (events (gd_work db))"

definition only_goal :: "string \<Rightarrow> goal_db \<Rightarrow> goal_db \<Rightarrow> bool" where
  "only_goal gid db db' \<longleftrightarrow> (\<forall>i. i \<noteq> gid \<longrightarrow> goal_row_of i db' = goal_row_of i db \<and> goal_log i db' = goal_log i db) \<and>
     (\<exists>es. goal_log gid db' = goal_log gid db @ es) \<and>
     filter (\<lambda>s. s_goal s \<noteq> gid) (gd_steps db') = filter (\<lambda>s. s_goal s \<noteq> gid) (gd_steps db)"

definition keeps :: "string \<Rightarrow> goal_db \<Rightarrow> goal_db \<Rightarrow> bool" where
  "keeps gid db db' \<longleftrightarrow> (goal_wf db \<longrightarrow> goal_wf db' \<and> goal_moves db db' \<and>
     work_keeps (gd_work db) (gd_work db') \<and> only_goal gid db db')"

lemma goal_move_refl [simp]: "goal_move g g"
  by (simp add: goal_move_def goal_leads_def)

lemma step_move_refl [simp]: "step_move s s"
  by (simp add: step_move_def)

lemma goal_move_trans: "goal_move a b \<Longrightarrow> goal_move b c \<Longrightarrow> goal_move a c"
  by (auto simp: goal_move_def goal_leads_def)

lemma step_move_trans: "step_move a b \<Longrightarrow> step_move b c \<Longrightarrow> step_move a c"
  by (auto simp: step_move_def)

lemma goal_moves_trans: "goal_moves a b \<Longrightarrow> goal_moves b c \<Longrightarrow> goal_moves a c"
  unfolding goal_moves_def by (meson goal_move_trans step_move_trans)

lemma settled_kept_trans: "settled_kept a b \<Longrightarrow> settled_kept b c \<Longrightarrow> settled_kept a c"
  unfolding settled_kept_def by (metis append.assoc)

lemma work_keeps_refl [simp]: "work_keeps w w"
  by (simp add: work_keeps_def settled_kept_refl outbox_extends_same)

lemma work_keeps_trans: "work_keeps a b \<Longrightarrow> work_keeps b c \<Longrightarrow> work_keeps a c"
  using settled_kept_trans outbox_extends_trans by (simp add: work_keeps_def) blast

lemma only_goal_trans: "only_goal gid a b \<Longrightarrow> only_goal gid b c \<Longrightarrow> only_goal gid a c"
  unfolding only_goal_def by (metis append.assoc)

lemma keeps_trans: "keeps gid a b \<Longrightarrow> keeps gid b c \<Longrightarrow> keeps gid a c"
  using goal_moves_trans work_keeps_trans only_goal_trans by (simp add: keeps_def) blast

text \<open>A statement that leaves the goals, the steps and the Work Fabric alone.\<close>

lemma keeps_tables:
  assumes "gd_work db' = gd_work db" and "gd_goals db' = gd_goals db" and "gd_steps db' = gd_steps db"
    and "goal_wf db \<Longrightarrow> attempts_wf (gd_steps db) (gd_attempts db')"
    and "goal_wf db \<Longrightarrow> effects_wf (gd_effects db')" and "goal_wf db \<Longrightarrow> deps_wf (gd_steps db) (gd_deps db')"
    and "goal_wf db \<Longrightarrow> attention_wf db'"
  shows "keeps gid db db'"
  using assms by (auto simp: keeps_def goal_wf_def goals_wf_def steps_wf_def goal_moves_def goal_row_of_def step_row_of_def
      only_goal_def goal_log_def)

lemma keeps_refl: "keeps gid db db"
  by (rule keeps_tables) (simp_all add: goal_wf_def)

lemma attention_wf_frame:
  "gd_attention db' = gd_attention db \<Longrightarrow> gd_work db' = gd_work db \<Longrightarrow> attention_wf db' = attention_wf db"
  by (simp add: attention_wf_def)

lemma keeps_other:
  assumes "gd_work db' = gd_work db" and "gd_goals db' = gd_goals db" and "gd_steps db' = gd_steps db"
    and "gd_attempts db' = gd_attempts db" and "gd_effects db' = gd_effects db" and "gd_deps db' = gd_deps db"
    and "gd_attention db' = gd_attention db"
  shows "keeps gid db db'"
  by (rule keeps_tables) (use assms attention_wf_frame[of db' db] in \<open>simp_all add: goal_wf_def\<close>)

lemma keeps_states: "keeps gid db (db\<lparr>gd_states := t\<rparr>)"
  by (rule keeps_other) simp_all

lemma keeps_upsert: "keeps gid db (upsert_state i k v tm db)"
  unfolding upsert_state_def by (rule keeps_states)

lemma keeps_waits: "keeps gid db (update_waits P f db)"
  unfolding update_waits_def by (rule keeps_other) simp_all

lemma keeps_new_waits: "keeps gid db (db\<lparr>gd_waits := t\<rparr>)"
  by (rule keeps_other) simp_all

lemma keeps_artifacts: "keeps gid db (db\<lparr>gd_artifacts := t\<rparr>)"
  by (rule keeps_other) simp_all

section \<open>Attempts, effects, questions\<close>

lemma attempts_of_map:
  "(\<And>a. a_step (f a) = a_step a \<and> a_attempt (f a) = a_attempt a) \<Longrightarrow>
     attempts_of (map (\<lambda>a. if P a then f a else a) t) sid = attempts_of t sid"
  unfolding attempts_of_def by (induction t) auto

lemma keeps_attempt_row:
  assumes "\<And>a. a_step (f a) = a_step a \<and> a_attempt (f a) = a_attempt a"
  shows "keeps gid db (update_attempt_row sid n f db)"
proof (rule keeps_tables)
  assume "goal_wf db"
  then have wf: "attempts_wf (gd_steps db) (gd_attempts db)" by (simp add: goal_wf_def)
  show "attempts_wf (gd_steps db) (gd_attempts (update_attempt_row sid n f db))"
    using wf assms attempts_of_map[of f]
    by (auto simp: attempts_wf_def update_attempt_row_def sql_update_def)
qed (auto simp: update_attempt_row_def goal_wf_def attention_wf_def)

lemma effect_numbers_map:
  "(\<And>r. e_goal (f r) = e_goal r \<and> e_sequence (f r) = e_sequence r) \<Longrightarrow>
     effect_numbers (map (\<lambda>r. if P r then f r else r) t) gid = effect_numbers t gid"
  unfolding effect_numbers_def by (induction t) auto

lemma effect_keys_map:
  "(\<And>r. e_goal (f r) = e_goal r \<and> e_key (f r) = e_key r) \<Longrightarrow>
     effect_keys (map (\<lambda>r. if P r then f r else r) t) = effect_keys t"
  unfolding effect_keys_def by (induction t) auto

lemma keeps_effects:
  assumes "\<And>r. e_goal (f r) = e_goal r \<and> e_sequence (f r) = e_sequence r \<and> e_key (f r) = e_key r \<and> e_id (f r) = e_id r"
  shows "keeps gid db (update_effects P f db)"
proof (rule keeps_tables)
  assume "goal_wf db"
  then have wf: "effects_wf (gd_effects db)" by (simp add: goal_wf_def)
  have ids: "map e_id (map (\<lambda>r. if P r then f r else r) (gd_effects db)) = map e_id (gd_effects db)"
    by (rule map_key_update) (simp add: assms)
  show "effects_wf (gd_effects (update_effects P f db))"
    using wf assms effect_numbers_map[of f] effect_keys_map[of f]
    unfolding effects_wf_def update_effects_def sql_update_def by (simp add: ids del: map_map)
qed (auto simp: update_effects_def goal_wf_def attention_wf_def)

lemma next_effect_counting:
  assumes "effects_wf (gd_effects db)"
  shows "next_effect_sequence gid db = int (length (effect_numbers (gd_effects db) gid)) + 1"
  using assms fold_max_counting unfolding effects_wf_def next_effect_sequence_def effect_numbers_def by metis

lemma effects_wf_insert:
  assumes wf: "effects_wf (gd_effects db)" and n: "e_sequence r = next_effect_sequence (e_goal r) db"
    and key: "prior_effect (e_goal r) (e_key r) db = None" and id: "e_id r \<notin> e_id ` set (gd_effects db)"
  shows "effects_wf (gd_effects db @ [r])"
proof -
  have "effect_numbers (gd_effects db @ [r]) gid = counting (length (effect_numbers (gd_effects db @ [r]) gid))" for gid
  proof (cases "e_goal r = gid")
    case True
    have "effect_numbers (gd_effects db) gid = counting (length (effect_numbers (gd_effects db) gid))"
      using wf by (simp add: effects_wf_def)
    moreover have "effect_numbers (gd_effects db @ [r]) gid =
        effect_numbers (gd_effects db) gid @ [int (length (effect_numbers (gd_effects db) gid)) + 1]"
      using n True next_effect_counting[OF wf] by (simp add: effect_numbers_def)
    ultimately show ?thesis by (simp add: counting_Suc)
  next
    case False
    then show ?thesis using wf by (simp add: effect_numbers_def effects_wf_def)
  qed
  moreover have "(e_goal r, e_key r) \<notin> set (effect_keys (gd_effects db))"
    using key by (auto simp: effect_keys_def prior_effect_def find_None_iff)
  ultimately show ?thesis using wf id by (simp add: effects_wf_def effect_keys_def)
qed

lemma keeps_attention:
  assumes "\<And>r. at_id (f r) = at_id r"
    and "\<And>r. P r \<Longrightarrow> at_status (f r) = AtAnswered \<Longrightarrow> interaction_settled (at_id r) (gd_work db)"
  shows "keeps gid db (update_attention P f db)"
proof (rule keeps_tables)
  assume "goal_wf db"
  then have wf: "attention_wf db" by (simp add: goal_wf_def)
  have ids: "map at_id (map (\<lambda>r. if P r then f r else r) (gd_attention db)) = map at_id (gd_attention db)"
    by (rule map_key_update) (simp add: assms)
  then show "attention_wf (update_attention P f db)"
    using wf assms unfolding attention_wf_def update_attention_def sql_update_def by (auto simp del: map_map)
qed (auto simp: update_attention_def goal_wf_def)

section \<open>Goals and steps\<close>

lemma find_row_update:
  assumes "\<And>r. k (f r) = k r"
  shows "find (\<lambda>r. k r = i) (snd (sql_update (\<lambda>r. k r = j) f t)) =
    (case find (\<lambda>r. k r = i) t of None \<Rightarrow> None | Some r \<Rightarrow> Some (if i = j then f r else r))"
  unfolding sql_update_def snd_conv by (rule find_map_update) (rule assms)

lemma filter_update_other:
  "(\<And>r. r \<in> set t \<Longrightarrow> P r \<Longrightarrow> \<not> Q r \<and> \<not> Q (f r)) \<Longrightarrow>
     filter Q (map (\<lambda>r. if P r then f r else r) t) = filter Q t"
  by (induction t) auto

text \<open>An update that leaves the versions: no event is owed.\<close>

lemma aggregate_wf_touch:
  assumes wf: "aggregate_wf k key ver ok rs db" and f: "\<And>r. key (f r) = key r \<and> ver (f r) = ver r"
    and ok: "\<And>r. r \<in> set rs \<Longrightarrow> key r = a \<Longrightarrow> ok r \<Longrightarrow> ok (f r)"
  shows "aggregate_wf k key ver ok (map (\<lambda>r. if key r = a then f r else r) rs) db"
proof -
  have keys: "map key (map (\<lambda>r. if key r = a then f r else r) rs) = map key rs"
    by (rule map_key_map) (simp add: f)
  then have "key ` set (map (\<lambda>r. if key r = a then f r else r) rs) = key ` set rs" by (metis list.set_map)
  moreover have "ok x \<and> ver x = max_version db k (key x)"
    if x: "x \<in> set (map (\<lambda>r. if key r = a then f r else r) rs)" for x
  proof -
    from x obtain r where "r \<in> set rs" "x = (if key r = a then f r else r)" by auto
    with wf f ok show ?thesis by (simp add: aggregate_wf_def)
  qed
  ultimately show ?thesis using wf unfolding aggregate_wf_def keys by simp
qed

lemma keeps_goal_row:
  assumes f: "\<And>r. g_id (f r) = g_id r \<and> g_version (f r) = g_version r"
    and ok: "\<And>r. goal_wf db \<Longrightarrow> goal_row_of gid db = Some r \<Longrightarrow> goal_ok r \<Longrightarrow> goal_ok (f r) \<and> (g_status r, g_status (f r)) \<in> goal_leads"
  shows "keeps gid db (update_goal_row gid f db)"
  unfolding keeps_def
proof (intro impI conjI)
  assume wf: "goal_wf db"
  let ?t = "snd (sql_update (\<lambda>r. g_id r = gid) f (gd_goals db))"
  have g: "distinct (map g_id (gd_goals db))" "\<forall>r\<in>set (gd_goals db). goal_ok r"
    using wf by (auto simp: goal_wf_def goals_wf_def aggregate_wf_def)
  have t: "?t = map (\<lambda>r. if g_id r = gid then f r else r) (gd_goals db)" by (simp add: sql_update_def)
  have row: "goal_row_of gid db = Some r" if "r \<in> set (gd_goals db)" "g_id r = gid" for r
    using find_distinct_key[OF g(1) that(1)] that(2) by (simp add: goal_row_of_def)
  have "aggregate_wf ''goal'' g_id g_version goal_ok ?t (gd_work db)"
    unfolding t by (rule aggregate_wf_touch) (use wf f ok[OF wf] row in \<open>auto simp: goal_wf_def goals_wf_def\<close>)
  then show "goal_wf (update_goal_row gid f db)"
    using wf by (simp add: goal_wf_def goals_wf_def steps_wf_def update_goal_row_def attention_wf_def)
  have gk: "g_id (f r) = g_id r" for r using f by simp
  have "goal_row_of i db = Some r \<Longrightarrow> goal_ok r" for i r
    using g(2) find_Some_key[of g_id i "gd_goals db" r] by (simp add: goal_row_of_def)
  then show "goal_moves db (update_goal_row gid f db)"
    using f ok[OF wf]
    by (auto simp: goal_moves_def goal_row_of_def step_row_of_def update_goal_row_def find_row_update[of g_id f, OF gk]
        goal_move_def goal_leads_def)
  show "work_keeps (gd_work db) (gd_work (update_goal_row gid f db))"
    by (simp add: update_goal_row_def)
  show "only_goal gid db (update_goal_row gid f db)"
    by (simp add: only_goal_def goal_log_def goal_row_of_def update_goal_row_def find_row_update[of g_id f, OF gk]
        split: option.split)
qed

lemma keeps_step_row:
  assumes f: "\<And>r. s_id (f r) = s_id r \<and> s_attempts (f r) = s_attempts r"
    and ok: "\<And>r. goal_wf db \<Longrightarrow> step_row_of sid db = Some r \<Longrightarrow> step_ok r \<Longrightarrow>
      s_goal r = gid \<and> step_ok (f r) \<and> step_move r (f r)"
  shows "keeps gid db (update_step_row sid f db)"
  unfolding keeps_def
proof (intro impI conjI)
  assume wf: "goal_wf db"
  let ?t = "snd (sql_update (\<lambda>r. s_id r = sid) f (gd_steps db))"
  have s: "distinct (map s_id (gd_steps db))" "\<forall>r\<in>set (gd_steps db). step_ok r"
    using wf by (auto simp: goal_wf_def steps_wf_def list_all_iff)
  have t: "?t = map (\<lambda>r. if s_id r = sid then f r else r) (gd_steps db)" by (simp add: sql_update_def)
  have row: "step_row_of sid db = Some r" if "r \<in> set (gd_steps db)" "s_id r = sid" for r
    using find_distinct_key[OF s(1) that(1)] that(2) by (simp add: step_row_of_def)
  have ids: "map s_id ?t = map s_id (gd_steps db)" unfolding t using f by (intro map_key_map) simp
  then have ids': "s_id ` set ?t = s_id ` set (gd_steps db)" by (metis list.set_map)
  have "step_ok x" if x: "x \<in> set ?t" for x
  proof -
    from x obtain r where "r \<in> set (gd_steps db)" "x = (if s_id r = sid then f r else r)" unfolding t by auto
    with s(2) ok[OF wf] row show ?thesis by auto
  qed
  then have "steps_wf (update_step_row sid f db)"
    using s(1) ids by (simp add: steps_wf_def update_step_row_def list_all_iff del: map_map)
  moreover have "attempts_wf ?t (gd_attempts db)"
    using wf f ids' unfolding goal_wf_def attempts_wf_def by (auto simp: t)
  moreover have "deps_wf ?t (gd_deps db)"
    using wf ids' by (simp add: goal_wf_def deps_wf_def)
  ultimately show "goal_wf (update_step_row sid f db)"
    using wf by (simp add: goal_wf_def goals_wf_def update_step_row_def attention_wf_def)
  have sk: "s_id (f r) = s_id r" for r using f by simp
  have "step_row_of i db = Some r \<Longrightarrow> step_ok r" for i r
    using s(2) find_Some_key[of s_id i "gd_steps db" r] by (simp add: step_row_of_def)
  then show "goal_moves db (update_step_row sid f db)"
    using ok[OF wf]
    by (auto simp: goal_moves_def goal_row_of_def step_row_of_def update_step_row_def find_row_update[of s_id f, OF sk])
  show "work_keeps (gd_work db) (gd_work (update_step_row sid f db))"
    by (simp add: update_step_row_def)
  have "s_goal r = gid \<and> s_goal (f r) = gid" if "r \<in> set (gd_steps db)" "s_id r = sid" for r
    using ok[OF wf row[OF that]] s(2) that(1) by (simp add: step_move_def)
  then have "filter (\<lambda>s. s_goal s \<noteq> gid) ?t = filter (\<lambda>s. s_goal s \<noteq> gid) (gd_steps db)"
    unfolding t by (intro filter_update_other) blast
  then show "only_goal gid db (update_step_row sid f db)"
    by (simp add: only_goal_def goal_log_def goal_row_of_def update_step_row_def)
qed

end
