(* ===== verification/Goal_Advance.thy ===== *)
theory Goal_Advance
  imports Goal_Inv
begin

text \<open>
  The event every mutation of a goal appends with its new version, and what the transactions of the
  Work Fabric that a goal's operation runs (drawing names, asking and settling questions) leave.
\<close>

section \<open>The tables of the Work Fabric\<close>

lemma clean_kind_goal: "text_arg ''goal'' ''aggregate_kind'' True 100 = Inr ''goal''"
  by (simp add: text_arg_def py_strip_def py_space_def Let_def nul_def char_of_def)

lemma goal_log_kind: "goal_log gid db = filter (\<lambda>e. aggregate_id e = gid) (kind_events (gd_work db) ''goal'')"
  by (simp add: goal_log_def kind_events_def conj_commute)

lemma settled_kept_settled: "settled_kept w w' \<Longrightarrow> interaction_settled i w \<Longrightarrow> interaction_settled i w'"
  by (force simp: settled_kept_def interaction_settled_def)

text \<open>A change of the Work Fabric that appends no event of a goal.\<close>

lemma keeps_work:
  assumes "repo_wf (gd_work db) \<Longrightarrow> repo_wf w \<and> work_keeps (gd_work db) w \<and>
    kind_events w ''goal'' = kind_events (gd_work db) ''goal''"
  shows "keeps gid db (db\<lparr>gd_work := w\<rparr>)"
  unfolding keeps_def
proof (intro impI conjI)
  assume wf: "goal_wf db"
  then have w: "repo_wf w" "work_keeps (gd_work db) w" "kind_events w ''goal'' = kind_events (gd_work db) ''goal''"
    using assms by (simp_all add: goal_wf_def)
  have "attention_wf (db\<lparr>gd_work := w\<rparr>)"
    using wf w(2) settled_kept_settled by (simp add: goal_wf_def attention_wf_def work_keeps_def) blast
  then show "goal_wf (db\<lparr>gd_work := w\<rparr>)"
    using wf w(1) by (simp add: goal_wf_def goals_wf_def steps_wf_def aggregate_wf_frame[OF w(3)])
  show "goal_moves db (db\<lparr>gd_work := w\<rparr>)"
    by (simp add: goal_moves_def goal_row_of_def step_row_of_def)
  show "only_goal gid db (db\<lparr>gd_work := w\<rparr>)"
    using w(3) by (simp add: only_goal_def goal_row_of_def goal_log_kind)
  show "work_keeps (gd_work db) (gd_work (db\<lparr>gd_work := w\<rparr>))" using w(2) by simp
qed

lemma keeps_ix:
  assumes "repo_wf (gd_work db) \<Longrightarrow> ix_step (gd_work db) w"
  shows "keeps gid db (db\<lparr>gd_work := w\<rparr>)"
proof (rule keeps_work)
  assume wf: "repo_wf (gd_work db)"
  have ix: "ix_step (gd_work db) w" by (rule assms[OF wf])
  then show "repo_wf w \<and> work_keeps (gd_work db) w \<and> kind_events w ''goal'' = kind_events (gd_work db) ''goal''"
    using ix_step_wf[OF wf ix] settled_kept_ix[OF ix] by (simp add: ix_step_def work_keeps_def)
qed

lemma draws_repo_wf: "repo_wf (w\<lparr>draws := n\<rparr>) = repo_wf w"
  using operations_wf_frame[of "w\<lparr>draws := n\<rparr>" w] jobs_wf_kind_frame[of "w\<lparr>draws := n\<rparr>" w]
    interactions_wf_frame[of "w\<lparr>draws := n\<rparr>" w]
  by (simp add: repo_wf_def store_wf_def kind_events_def log_wf_def versions_def)

lemma keeps_draws: "keeps gid db (take_draws n db)"
  unfolding take_draws_def
  by (rule keeps_work) (simp add: draws_repo_wf kind_events_def work_keeps_def settled_kept_unchanged outbox_extends_same)

section \<open>The event of a mutation\<close>

lemma append_goal_work:
  assumes wf: "repo_wf w" and ap: "appended w e o' w'" and k: "aggregate_kind e = ''goal''"
  shows "repo_wf w' \<and> work_keeps w w'"
proof -
  have same: "kind_events w' j = kind_events w j" if "j \<noteq> ''goal''" for j
    using kind_events_appended[OF ap, of j] k that by auto
  have "log_wf w'" using wf appended_wf[OF _ ap] by (simp add: repo_wf_def store_wf_def)
  then have "repo_wf w'"
    using wf appended_frame[OF ap] same operations_wf_frame[of w' w] jobs_wf_kind_frame[of w' w] interactions_wf_frame[of w' w]
    by (simp add: repo_wf_def store_wf_def)
  then show ?thesis
    using appended_frame[OF ap] appended_outbox[OF ap] settled_kept_unchanged by (simp add: work_keeps_def)
qed

lemma as_goal_conflict_Inr [simp]: "as_goal_conflict r = Inr x \<longleftrightarrow> r = Inr x"
  by (auto simp: as_goal_conflict_def split: sum.splits py_err.splits)

text \<open>The append of a goal's event, for a clean goal id.\<close>

lemma goal_event_append:
  assumes "insert_event_tx h (goal_event c gid sc etype v pl tm) w = Inr (e, w')" and "clean_id gid"
  obtains o' where "appended w e o' w'" "aggregate_kind e = ''goal''" "aggregate_id e = gid"
    "aggregate_version e = v" "event_type e = py_strip etype"
proof -
  have q: "text_arg (req_aggregate_kind (goal_event c gid sc etype v pl tm)) ''aggregate_kind'' True 100 = Inr ''goal''"
    "text_arg (req_aggregate_id (goal_event c gid sc etype v pl tm)) ''aggregate_id'' True 512 = Inr gid"
    "req_idempotency_key (goal_event c gid sc etype v pl tm) = []"
    using assms(2) clean_kind_goal by (simp_all add: goal_event_def clean_id_def event_request0_def)
  show thesis
    by (rule insert_event_append[OF assms(1) q(1,2)])
       (use q(3) in simp, rule that, simp_all add: goal_event_def event_request0_def)
qed

definition advanced_row :: "rat \<Rightarrow> goal_row \<Rightarrow> goal_row" where
  "advanced_row tm r = r\<lparr>g_version := g_version r + 1, g_updated := tm\<rparr>"

lemma advance_tx_Inr:
  assumes run: "advance_tx h c goal etype pl sid att tm db = Inr (n, db')" and wf: "goal_wf db"
  obtains row e o' w where "goal_row_of (g_id goal) db = Some row" "g_version row = g_version goal"
    "appended (gd_work db) e o' w" "aggregate_kind e = ''goal''" "aggregate_id e = g_id goal"
    "aggregate_version e = g_version goal + 1" "event_type e = py_strip etype"
    "db' = db\<lparr>gd_goals := map (\<lambda>r. if g_id r = g_id goal then advanced_row tm r else r) (gd_goals db), gd_work := w\<rparr>"
proof -
  let ?f = "\<lambda>r. r\<lparr>g_version := g_version goal + 1, g_updated := tm\<rparr>"
  have dist: "distinct (map g_id (gd_goals db))" and ok: "\<forall>r\<in>set (gd_goals db). goal_ok r"
    using wf by (simp_all add: goal_wf_def goals_wf_def aggregate_wf_def)
  from run obtain t sc e w where
    upd: "sql_update (\<lambda>r. g_id r = g_id goal \<and> g_version r = g_version goal) ?f (gd_goals db) = (1, t)"
    and ins: "insert_event_tx h (goal_event c (g_id goal) sc etype (g_version goal + 1) pl tm) (gd_work db) = Inr (e, w)"
    and db': "db' = db\<lparr>gd_goals := t, gd_work := w\<rparr>"
    by (auto simp: advance_tx_def split: prod.splits)
  obtain row where row: "find (\<lambda>r. g_id r = g_id goal) (gd_goals db) = Some row"
  proof (cases "find (\<lambda>r. g_id r = g_id goal) (gd_goals db)")
    case None
    then have "filter (\<lambda>r. g_id r = g_id goal \<and> g_version r = g_version goal) (gd_goals db) = []"
      unfolding find_None_key filter_empty_conv by (auto simp: image_iff)
    with upd show ?thesis by (simp add: sql_update_def)
  qed
  note key = sql_update_key[OF dist row, of "\<lambda>r. g_version r = g_version goal" ?f]
  have v: "g_version row = g_version goal" and t: "t = map (\<lambda>r. if g_id r = g_id goal then ?f r else r) (gd_goals db)"
    using upd key by (auto split: if_splits)
  have only: "g_version r = g_version goal" if "r \<in> set (gd_goals db)" "g_id r = g_id goal" for r
    using find_distinct_key[OF dist that(1)] that(2) row v by simp
  have "t = map (\<lambda>r. if g_id r = g_id goal then advanced_row tm r else r) (gd_goals db)"
    unfolding t by (rule map_cong) (simp_all add: advanced_row_def only)
  then have db'': "db' = db\<lparr>gd_goals := map (\<lambda>r. if g_id r = g_id goal then advanced_row tm r else r) (gd_goals db), gd_work := w\<rparr>"
    by (simp add: db')
  have "clean_id (g_id goal)"
    using ok find_Some_key[of g_id, OF row] by (auto simp: goal_ok_def)
  from goal_event_append[OF ins this] obtain o' where
    "appended (gd_work db) e o' w" "aggregate_kind e = ''goal''" "aggregate_id e = g_id goal"
    "aggregate_version e = g_version goal + 1" "event_type e = py_strip etype" by blast
  moreover have "goal_row_of (g_id goal) db = Some row" using row by (simp add: goal_row_of_def)
  ultimately show thesis using that v db'' by blast
qed

lemma keeps_advance:
  assumes run: "advance_tx h c goal etype pl sid att tm db = Inr (n, db')" and gid: "g_id goal = gid"
  shows "keeps gid db db'"
  unfolding keeps_def
proof (rule impI)
  assume wf: "goal_wf db"
  from run wf obtain row e o' w where r: "goal_row_of (g_id goal) db = Some row" "g_version row = g_version goal"
    and ap: "appended (gd_work db) e o' w" and e: "aggregate_kind e = ''goal''" "aggregate_id e = g_id goal"
    and db': "db' = db\<lparr>gd_goals := map (\<lambda>r. if g_id r = g_id goal then advanced_row tm r else r) (gd_goals db), gd_work := w\<rparr>"
    by (rule advance_tx_Inr)
  have k: "g_id (advanced_row tm x) = g_id x" for x by (simp add: advanced_row_def)
  have w: "repo_wf w \<and> work_keeps (gd_work db) w"
    using append_goal_work[OF _ ap e(1)] wf by (simp add: goal_wf_def)
  have "aggregate_wf ''goal'' g_id g_version goal_ok
      (map (\<lambda>r. if g_id r = g_id goal then advanced_row tm r else r) (gd_goals db)) w"
    by (rule aggregate_wf_update[OF _ ap _ e, where f = "advanced_row tm" and row = row])
       (use wf r in \<open>auto simp: goal_wf_def goals_wf_def goal_row_of_def advanced_row_def goal_ok_def goal_terminal_iff\<close>)
  moreover have "attention_wf db'"
    using wf w settled_kept_settled by (simp add: db' goal_wf_def attention_wf_def work_keeps_def) blast
  ultimately have "goal_wf db'" using wf w by (simp add: db' goal_wf_def goals_wf_def steps_wf_def)
  moreover have "goal_moves db db'"
    by (auto simp: db' goal_moves_def goal_row_of_def step_row_of_def find_map_update[of g_id "advanced_row tm", OF k]
        advanced_row_def goal_move_def goal_leads_def)
  moreover have "only_goal gid db db'"
    using e gid by (auto simp: db' only_goal_def goal_row_of_def find_map_update[of g_id "advanced_row tm", OF k]
        goal_log_def appended_frame(6)[OF ap] split: option.split)
  ultimately show "goal_wf db' \<and> goal_moves db db' \<and> work_keeps (gd_work db) (gd_work db') \<and> only_goal gid db db'"
    using w by (simp add: db')
qed

text \<open>What the advance does to the goal itself.\<close>

lemma advance_effect:
  assumes run: "advance_tx h c goal etype pl sid att tm db = Inr (n, db')" and wf: "goal_wf db"
  shows "\<exists>e. goal_log (g_id goal) db' = goal_log (g_id goal) db @ [e] \<and> event_type e = py_strip etype \<and>
      aggregate_version e = g_version goal + 1"
    and "goal_row_of i db' = map_option (\<lambda>r. if i = g_id goal then advanced_row tm r else r) (goal_row_of i db)"
    and "\<exists>row. goal_row_of (g_id goal) db = Some row \<and> g_version row = g_version goal"
  using run wf
proof -
  from run wf obtain row e o' w where r: "goal_row_of (g_id goal) db = Some row" "g_version row = g_version goal"
    and ap: "appended (gd_work db) e o' w" and e: "aggregate_kind e = ''goal''" "aggregate_id e = g_id goal"
      "aggregate_version e = g_version goal + 1" "event_type e = py_strip etype"
    and db': "db' = db\<lparr>gd_goals := map (\<lambda>r. if g_id r = g_id goal then advanced_row tm r else r) (gd_goals db), gd_work := w\<rparr>"
    by (rule advance_tx_Inr)
  have k: "g_id (advanced_row tm x) = g_id x" for x by (simp add: advanced_row_def)
  show "\<exists>e. goal_log (g_id goal) db' = goal_log (g_id goal) db @ [e] \<and> event_type e = py_strip etype \<and>
      aggregate_version e = g_version goal + 1"
    using e by (simp add: db' goal_log_def appended_frame(6)[OF ap])
  show "goal_row_of i db' = map_option (\<lambda>r. if i = g_id goal then advanced_row tm r else r) (goal_row_of i db)"
    by (simp add: db' goal_row_of_def find_map_update[of g_id "advanced_row tm", OF k] split: option.split)
  show "\<exists>row. goal_row_of (g_id goal) db = Some row \<and> g_version row = g_version goal" using r by blast
qed

text \<open>The other tables are untouched.\<close>

lemma advance_frame:
  assumes "advance_tx h c goal etype pl sid att tm db = Inr (n, db')"
  shows "gd_steps db' = gd_steps db" "gd_deps db' = gd_deps db" "gd_attempts db' = gd_attempts db"
    "gd_states db' = gd_states db" "gd_attention db' = gd_attention db" "gd_waits db' = gd_waits db"
    "gd_effects db' = gd_effects db" "gd_artifacts db' = gd_artifacts db"
  using assms by (auto simp: advance_tx_def split: prod.splits)

end
