(* ===== verification/Goal_Keeps.thy ===== *)
theory Goal_Keeps
  imports Goal_Advance
begin

text \<open>
  Every operation of the goal repository keeps the invariant of the store and touches no goal but
  its own: one lemma for each transaction, by composing the lemmas on its statements.
\<close>

section \<open>Composing statements\<close>

named_theorems keeps_rules

lemma keepsI: "(goal_wf db \<Longrightarrow> keeps gid db db') \<Longrightarrow> keeps gid db db'"
  by (simp add: keeps_def)

lemma with_goal_Inr [simp]:
  "with_goal gid v f db = Inr y \<longleftrightarrow> (\<exists>g. goal_row_of gid db = Some g \<and> v = g_version g \<and> f g db = Inr y)"
  by (auto simp: with_goal_def require_goal_tx_def check_version_def split: option.splits)

lemma require_goal_Inr [simp]: "require_goal_tx gid db = Inr g \<longleftrightarrow> goal_row_of gid db = Some g"
  by (simp add: require_goal_tx_def split: option.splits)

lemma require_step_Inr [simp]: "require_step_tx gid sid db = Inr s \<longleftrightarrow> get_step gid sid db = Some s"
  by (simp add: require_step_tx_def split: option.splits)

lemma with_step_Inr [simp]:
  "with_step gid sid v f db = Inr y \<longleftrightarrow>
     (\<exists>g s. goal_row_of gid db = Some g \<and> v = g_version g \<and> get_step (g_id g) sid db = Some s \<and> f g s db = Inr y)"
  by (auto simp: with_step_def)

lemma goal_and_step_Inr [simp]:
  "goal_and_step gid sid db = Inr (x, db') \<longleftrightarrow>
     (\<exists>g s. goal_row_of gid db = Some g \<and> get_step gid sid db = Some s \<and> x = (g, s) \<and> db' = db)"
  by (auto simp: goal_and_step_def)

lemma goal_row_id: "goal_row_of gid db = Some g \<Longrightarrow> g_id g = gid"
  unfolding goal_row_of_def using find_Some_key[of g_id gid "gd_goals db" g] by simp

lemma step_row_id: "get_step gid sid db = Some s \<Longrightarrow> s_id s = sid \<and> s_goal s = gid \<and> s \<in> set (gd_steps db)"
  by (auto simp: get_step_def find_Some_iff)

lemma step_row_found: "goal_wf db \<Longrightarrow> get_step gid sid db = Some s \<Longrightarrow> step_row_of sid db = Some s"
  using find_distinct_key[of s_id "gd_steps db" s] step_row_id[of gid sid db s]
  by (simp add: goal_wf_def steps_wf_def step_row_of_def)

lemma keeps_if [keeps_rules]: "keeps gid db a \<Longrightarrow> keeps gid db b \<Longrightarrow> keeps gid db (if P then a else b)"
  by simp

lemma keeps_waits_then [keeps_rules]: "keeps gid db db1 \<Longrightarrow> keeps gid db (update_waits P f db1)"
  using keeps_trans keeps_waits by blast

lemma keeps_new_waits_then [keeps_rules]: "keeps gid db db1 \<Longrightarrow> keeps gid db (db1\<lparr>gd_waits := t\<rparr>)"
  using keeps_trans keeps_new_waits by blast

lemma keeps_states_then [keeps_rules]: "keeps gid db db1 \<Longrightarrow> keeps gid db (db1\<lparr>gd_states := t\<rparr>)"
  using keeps_trans keeps_states by blast

lemma keeps_upsert_then [keeps_rules]: "keeps gid db db1 \<Longrightarrow> keeps gid db (upsert_state i k v tm db1)"
  using keeps_trans keeps_upsert by blast

lemma keeps_artifacts_then [keeps_rules]: "keeps gid db db1 \<Longrightarrow> keeps gid db (db1\<lparr>gd_artifacts := t\<rparr>)"
  using keeps_trans keeps_artifacts by blast

lemma keeps_draws_then: "keeps gid db db1 \<Longrightarrow> keeps gid db (take_draws n db1)"
  using keeps_trans keeps_draws by blast

lemma keeps_attempt_then [keeps_rules]:
  "keeps gid db db1 \<Longrightarrow> (\<And>a. a_step (f a) = a_step a \<and> a_attempt (f a) = a_attempt a) \<Longrightarrow>
     keeps gid db (update_attempt_row sid n f db1)"
  using keeps_trans[OF _ keeps_attempt_row] by blast

lemma keeps_follows_then [keeps_rules]:
  "keeps gid db db1 \<Longrightarrow> (\<And>a. a_step (f a) = a_step a \<and> a_attempt (f a) = a_attempt a) \<Longrightarrow>
     keeps gid db (attempt_follows step f db1)"
  unfolding attempt_follows_def by (intro keeps_rules)

lemma keeps_effects_then [keeps_rules]:
  "keeps gid db db1 \<Longrightarrow> (\<And>r. e_goal (f r) = e_goal r \<and> e_sequence (f r) = e_sequence r \<and> e_key (f r) = e_key r \<and> e_id (f r) = e_id r) \<Longrightarrow>
     keeps gid db (update_effects P f db1)"
  using keeps_trans[OF _ keeps_effects] by blast

lemma keeps_attention_then [keeps_rules]:
  "keeps gid db db1 \<Longrightarrow> (\<And>r. at_id (f r) = at_id r) \<Longrightarrow>
     (\<And>r. P r \<Longrightarrow> at_status (f r) = AtAnswered \<Longrightarrow> interaction_settled (at_id r) (gd_work db1)) \<Longrightarrow>
     keeps gid db (update_attention P f db1)"
  using keeps_trans[OF _ keeps_attention] by blast

text \<open>Which tables a statement leaves.\<close>

lemmas row_updates = update_step_row_def update_attempt_row_def update_waits_def update_attention_def
  update_effects_def update_goal_row_def upsert_state_def take_draws_def attempt_follows_def

lemma gd_work_frame [simp]:
  "gd_work (update_step_row sid f db) = gd_work db" "gd_work (update_attempt_row sid n f2 db) = gd_work db"
    "gd_work (update_waits P3 f3 db) = gd_work db" "gd_work (update_attention P4 f4 db) = gd_work db"
    "gd_work (update_effects P5 f5 db) = gd_work db" "gd_work (update_goal_row gid f6 db) = gd_work db"
    "gd_work (upsert_state gid k v tm db) = gd_work db" "gd_work (attempt_follows step f2 db) = gd_work db"
  by (simp_all add: row_updates)

lemma gd_goals_frame [simp]:
  "gd_goals (update_step_row sid f db) = gd_goals db"
    "gd_goals (update_attempt_row sid n f2 db) = gd_goals db" "gd_goals (update_waits P3 f3 db) = gd_goals db"
    "gd_goals (update_attention P4 f4 db) = gd_goals db" "gd_goals (update_effects P5 f5 db) = gd_goals db"
    "gd_goals (upsert_state gid k v tm db) = gd_goals db" "gd_goals (take_draws n2 db) = gd_goals db"
    "gd_goals (attempt_follows step f2 db) = gd_goals db"
  by (simp_all add: row_updates)

lemma gd_steps_frame [simp]:
  "gd_steps (update_attempt_row sid n f2 db) = gd_steps db" "gd_steps (update_waits P3 f3 db) = gd_steps db"
    "gd_steps (update_attention P4 f4 db) = gd_steps db" "gd_steps (update_effects P5 f5 db) = gd_steps db"
    "gd_steps (update_goal_row gid f6 db) = gd_steps db" "gd_steps (upsert_state gid k v tm db) = gd_steps db"
    "gd_steps (take_draws n2 db) = gd_steps db" "gd_steps (attempt_follows step f2 db) = gd_steps db"
  by (simp_all add: row_updates)

lemma gd_deps_frame [simp]:
  "gd_deps (update_step_row sid f db) = gd_deps db" "gd_deps (update_attempt_row sid n f2 db) = gd_deps db"
    "gd_deps (update_waits P3 f3 db) = gd_deps db" "gd_deps (update_attention P4 f4 db) = gd_deps db"
    "gd_deps (update_effects P5 f5 db) = gd_deps db" "gd_deps (update_goal_row gid f6 db) = gd_deps db"
    "gd_deps (upsert_state gid k v tm db) = gd_deps db" "gd_deps (take_draws n2 db) = gd_deps db"
    "gd_deps (attempt_follows step f2 db) = gd_deps db"
  by (simp_all add: row_updates)

lemma gd_attempts_frame [simp]:
  "gd_attempts (update_step_row sid f db) = gd_attempts db"
    "gd_attempts (update_waits P3 f3 db) = gd_attempts db"
    "gd_attempts (update_attention P4 f4 db) = gd_attempts db"
    "gd_attempts (update_effects P5 f5 db) = gd_attempts db"
    "gd_attempts (update_goal_row gid f6 db) = gd_attempts db"
    "gd_attempts (upsert_state gid k v tm db) = gd_attempts db"
    "gd_attempts (take_draws n2 db) = gd_attempts db"
  by (simp_all add: row_updates)

lemma gd_states_frame [simp]:
  "gd_states (update_step_row sid f db) = gd_states db"
    "gd_states (update_attempt_row sid n f2 db) = gd_states db"
    "gd_states (update_waits P3 f3 db) = gd_states db" "gd_states (update_attention P4 f4 db) = gd_states db"
    "gd_states (update_effects P5 f5 db) = gd_states db"
    "gd_states (update_goal_row gid f6 db) = gd_states db" "gd_states (take_draws n2 db) = gd_states db"
    "gd_states (attempt_follows step f2 db) = gd_states db"
  by (simp_all add: row_updates)

lemma gd_attention_frame [simp]:
  "gd_attention (update_step_row sid f db) = gd_attention db"
    "gd_attention (update_attempt_row sid n f2 db) = gd_attention db"
    "gd_attention (update_waits P3 f3 db) = gd_attention db"
    "gd_attention (update_effects P5 f5 db) = gd_attention db"
    "gd_attention (update_goal_row gid f6 db) = gd_attention db"
    "gd_attention (upsert_state gid k v tm db) = gd_attention db"
    "gd_attention (take_draws n2 db) = gd_attention db"
    "gd_attention (attempt_follows step f2 db) = gd_attention db"
  by (simp_all add: row_updates)

lemma gd_waits_frame [simp]:
  "gd_waits (update_step_row sid f db) = gd_waits db"
    "gd_waits (update_attempt_row sid n f2 db) = gd_waits db"
    "gd_waits (update_attention P4 f4 db) = gd_waits db" "gd_waits (update_effects P5 f5 db) = gd_waits db"
    "gd_waits (update_goal_row gid f6 db) = gd_waits db" "gd_waits (upsert_state gid k v tm db) = gd_waits db"
    "gd_waits (take_draws n2 db) = gd_waits db" "gd_waits (attempt_follows step f2 db) = gd_waits db"
  by (simp_all add: row_updates)

lemma gd_effects_frame [simp]:
  "gd_effects (update_step_row sid f db) = gd_effects db"
    "gd_effects (update_attempt_row sid n f2 db) = gd_effects db"
    "gd_effects (update_waits P3 f3 db) = gd_effects db"
    "gd_effects (update_attention P4 f4 db) = gd_effects db"
    "gd_effects (update_goal_row gid f6 db) = gd_effects db"
    "gd_effects (upsert_state gid k v tm db) = gd_effects db" "gd_effects (take_draws n2 db) = gd_effects db"
    "gd_effects (attempt_follows step f2 db) = gd_effects db"
  by (simp_all add: row_updates)

lemma gd_artifacts_frame [simp]:
  "gd_artifacts (update_step_row sid f db) = gd_artifacts db"
    "gd_artifacts (update_attempt_row sid n f2 db) = gd_artifacts db"
    "gd_artifacts (update_waits P3 f3 db) = gd_artifacts db"
    "gd_artifacts (update_attention P4 f4 db) = gd_artifacts db"
    "gd_artifacts (update_effects P5 f5 db) = gd_artifacts db"
    "gd_artifacts (update_goal_row gid f6 db) = gd_artifacts db"
    "gd_artifacts (upsert_state gid k v tm db) = gd_artifacts db"
    "gd_artifacts (take_draws n2 db) = gd_artifacts db"
    "gd_artifacts (attempt_follows step f2 db) = gd_artifacts db"
  by (simp_all add: row_updates)

text \<open>An update of the step the operation found, wherever it stands among the other statements.\<close>

lemma keeps_step_then [keeps_rules]:
  assumes "keeps gid db db1" and step: "get_step i sid db = Some step" and "i = gid"
    and "gd_steps db1 = gd_steps db"
    and "\<And>r. s_id (f r) = s_id r \<and> s_attempts (f r) = s_attempts r"
    and "step_ok step \<Longrightarrow> step_ok (f step) \<and> step_move step (f step)"
  shows "keeps gid db (update_step_row (s_id step) f db1)"
proof (rule keepsI)
  assume wf: "goal_wf db"
  have "step_row_of (s_id step) db1 = Some step"
    using step_row_found[OF wf step] step_row_id[OF step] assms(4) by (simp add: step_row_of_def)
  then show ?thesis
    using step_row_id[OF step] assms(3,6)
    by (intro keeps_trans[OF assms(1)] keeps_step_row) (simp_all add: assms(5))
qed

text \<open>The same for its goal.\<close>

lemma keeps_goal_then [keeps_rules]:
  assumes "keeps gid db db1" and "goal_row_of gid db = Some goal" and "i = gid" and "gd_goals db1 = gd_goals db"
    and "\<And>r. g_id (f r) = g_id r \<and> g_version (f r) = g_version r"
    and "goal_ok goal \<Longrightarrow> goal_ok (f goal) \<and> (g_status goal, g_status (f goal)) \<in> goal_leads"
  shows "keeps gid db (update_goal_row i f db1)"
  unfolding assms(3)
  by (rule keeps_trans[OF assms(1)], rule keeps_goal_row[OF assms(5)])
     (use assms(2,4,6) in \<open>simp add: goal_row_of_def\<close>)

text \<open>The new status of a step that nobody holds any longer.\<close>

lemma step_closed:
  "step_ok s \<Longrightarrow> s_goal s' = s_goal s \<Longrightarrow> s_attempts s' = s_attempts s \<Longrightarrow> s_max_attempts s' = s_max_attempts s \<Longrightarrow>
     s_epoch s' = s_epoch s \<Longrightarrow> s_version s' = s_version s + 1 \<Longrightarrow> s_owner s' = [] \<Longrightarrow> step_ok s' \<and> step_move s s'"
  by (simp add: step_ok_def step_move_def)

section \<open>Transactions, by their statements\<close>

text \<open>What a body leaves when it returns: one rule for each construct the operations are written with.\<close>

definition post :: "(goal_db \<Rightarrow> bool) \<Rightarrow> ('a \<times> goal_db) res \<Rightarrow> bool" where
  "post Q r \<longleftrightarrow> (\<forall>x db'. r = Inr (x, db') \<longrightarrow> Q db')"

abbreviation ends :: "string \<Rightarrow> goal_db \<Rightarrow> ('a \<times> goal_db) res \<Rightarrow> bool" where
  "ends gid db \<equiv> post (keeps gid db)"

named_theorems ends_rules

lemma ends_Inr [ends_rules]: "Q db1 \<Longrightarrow> post Q (Inr (x, db1))"
  by (simp add: post_def)

lemma ends_Inl [ends_rules]: "post Q (Inl e)"
  by (simp add: post_def)

lemma ends_if [ends_rules]:
  "(P \<Longrightarrow> post Q a) \<Longrightarrow> (\<not> P \<Longrightarrow> post Q b) \<Longrightarrow> post Q (if P then a else b)"
  by simp

lemma ends_option [ends_rules]:
  "(v = None \<Longrightarrow> post Q a) \<Longrightarrow> (\<And>x. v = Some x \<Longrightarrow> post Q (b x)) \<Longrightarrow>
     post Q (case v of None \<Rightarrow> a | Some x \<Rightarrow> b x)"
  by (simp split: option.split)

lemma ends_pair [ends_rules]: "post Q (f x y) \<Longrightarrow> post Q (case (x, y) of (a, b) \<Rightarrow> f a b)"
  by simp

lemma ends_ebind: "(\<And>a. m = Inr a \<Longrightarrow> post Q (f a)) \<Longrightarrow> post Q (ebind m f)"
  by (auto simp: post_def)

lemma ends_require [ends_rules]: "(P \<Longrightarrow> post Q (f ())) \<Longrightarrow> post Q (ebind (require P e) f)"
  by (rule ends_ebind) simp

lemma ends_check [ends_rules]:
  "(\<And>t. goal_text v fld rq n = Inr t \<Longrightarrow> post Q (f t)) \<Longrightarrow> post Q (ebind (goal_text v fld rq n) f)"
  "(\<And>o'. store_goal_object h kvs = Inr o' \<Longrightarrow> post Q (g o')) \<Longrightarrow> post Q (ebind (store_goal_object h kvs) g)"
  "(\<And>j'. store_goal_json h j = Inr j' \<Longrightarrow> post Q (k j')) \<Longrightarrow> post Q (ebind (store_goal_json h j) k)"
  "(\<And>sc. goal_scope gl sid att = Inr sc \<Longrightarrow> post Q (l sc)) \<Longrightarrow> post Q (ebind (goal_scope gl sid att) l)"
  "(\<And>g. goal_row_of i db1 = Some g \<Longrightarrow> g_id g = i \<Longrightarrow> post Q (k1 g)) \<Longrightarrow>
     post Q (ebind (require_goal_tx i db1) k1)"
  "(\<And>s. get_step i sid db1 = Some s \<Longrightarrow> post Q (k2 s)) \<Longrightarrow> post Q (ebind (require_step_tx i sid db1) k2)"
  "(\<And>a. post Q (k3 a)) \<Longrightarrow> post Q (ebind (attempt_of sid n3 db1) k3)"
  by (rule ends_ebind, simp add: goal_row_id)+

lemma ends_from: "keeps gid db db1 \<Longrightarrow> ends gid db1 r \<Longrightarrow> ends gid db r"
  using keeps_trans by (auto simp: post_def)

lemma ends_advance [ends_rules]:
  "g_id goal = gid \<Longrightarrow> keeps gid db db1 \<Longrightarrow> (\<And>n db'. keeps gid db db' \<Longrightarrow> ends gid db (f (n, db'))) \<Longrightarrow>
     ends gid db (ebind (advance_tx h c goal etype pl sid att tm db1) f)"
  by (rule ends_ebind) (metis keeps_advance keeps_trans surj_pair)

lemma ends_goal_and_step [ends_rules]:
  "Q db1 \<Longrightarrow> post Q (goal_and_step i sid db1)"
  "(\<And>g s. post Q (f g s db1)) \<Longrightarrow> post Q (ebind (goal_and_step i sid db1) (\<lambda>((g, s), db'). f g s db'))"
  by (auto simp: post_def)

lemma ends_with_goal [ends_rules]:
  "(\<And>goal. goal_row_of gid db1 = Some goal \<Longrightarrow> g_id goal = gid \<Longrightarrow> g_version goal = v \<Longrightarrow> post Q (f goal db1)) \<Longrightarrow>
     post Q (with_goal gid v f db1)"
  using goal_row_id by (auto simp: post_def)

lemma ends_with_step [ends_rules]:
  "(\<And>goal step. goal_row_of gid db1 = Some goal \<Longrightarrow> g_id goal = gid \<Longrightarrow> g_version goal = v \<Longrightarrow>
      get_step gid sid db1 = Some step \<Longrightarrow> post Q (f goal step db1)) \<Longrightarrow>
     post Q (with_step gid sid v f db1)"
  using goal_row_id by (fastforce simp: post_def)

section \<open>Steps\<close>

lemma set_step_status_ends: "ends gid db (set_step_status_tx h gid sid target v sv reason av c db)"
  unfolding set_step_status_tx_def Let_def
  by (intro ends_rules keeps_rules keeps_refl | assumption)+ (simp_all add: step_closed)

lemma heartbeat_step_ends: "ends gid db (heartbeat_step_tx h gid sid w e ttl db)"
  unfolding heartbeat_step_tx_def Let_def
  by (intro ends_rules keeps_rules keeps_refl | assumption)+ (auto simp: step_ok_def step_move_def)

lemma start_step_ends: "ends gid db (start_step_tx h gid sid v w e c db)"
  unfolding start_step_tx_def Let_def
  by (intro ends_rules keeps_rules keeps_refl | assumption)+ (auto simp: step_ok_def step_move_def)

lemma finish_step_ends: "ends gid db (finish_step_tx h gid sid target v q c db)"
  unfolding finish_step_tx_def Let_def
  by (intro ends_rules keeps_rules keeps_refl | assumption)+ (simp_all add: step_closed)

lemma update_attempt_projection_ends: "ends gid db (update_attempt_projection_tx h gid sid v q c db)"
  unfolding update_attempt_projection_tx_def Let_def
  by (intro ends_rules ends_ebind keeps_rules keeps_refl | assumption)+ (simp_all add: step_ok_def step_move_def)

lemma retry_step_ends: "ends gid db (retry_step_tx h gid sid v dl cont c db)"
  unfolding retry_step_tx_def Let_def
  by (intro ends_rules keeps_rules keeps_refl | assumption)+ (auto simp: step_ok_def step_move_def)

lemma create_wait_ends: "ends gid db (create_wait_tx h gid sid v source matcher wake wid c db)"
  unfolding create_wait_tx_def Let_def
  by (rule ends_from[OF keeps_draws[of gid db 1]], (intro ends_rules keeps_rules keeps_refl | assumption)+) (simp_all add: step_closed keeps_refl)

lemma satisfy_wait_ends:
  assumes "wait_row_of wid db = Some w"
  shows "ends (w_goal w) db (satisfy_wait_tx h wid v value event c db)"
  unfolding satisfy_wait_tx_def Let_def assms option.case
  by (intro ends_rules ends_ebind keeps_rules keeps_refl | assumption)+ (simp_all add: step_closed)

section \<open>Questions\<close>

lemma interaction_set_settled:
  "interaction_row_of i w = Some r \<Longrightarrow> interaction_terminal r \<Longrightarrow> interaction_settled i w"
  by (auto simp: interaction_settled_def)

lemma work_parts: "repo_wf w \<Longrightarrow> log_wf w \<and> interactions_wf w"
  by (simp add: repo_wf_def store_wf_def)

lemma keeps_ask [keeps_rules]:
  assumes "create_goal_input_tx h q (gd_work db) = Inr (r, w)" and "py_strip (gi_interaction_id q) = gi_interaction_id q"
  shows "keeps gid db (db\<lparr>gd_work := w\<rparr>)"
  by (rule keeps_ix) (use create_goal_input_step[OF _ _ assms(2,1)] work_parts in blast)

lemma keeps_answer [keeps_rules]:
  assumes "resolve_goal_input_tx h i resp v actor corr now (gd_work db) = Inr (r, w)"
  shows "keeps gid db (db\<lparr>gd_work := w\<rparr>)"
  by (rule keeps_ix) (use resolve_goal_input_step[OF _ _ assms] work_parts in blast)

lemma keeps_skip [keeps_rules]:
  assumes "dismiss_goal_input_tx h i v actor corr now (gd_work db) = Inr (r, w)"
  shows "keeps gid db (db\<lparr>gd_work := w\<rparr>)"
  by (rule keeps_ix) (use dismiss_goal_input_step[OF _ _ assms] work_parts in blast)

lemma keeps_new_attention [keeps_rules]:
  assumes "keeps gid db db1" and "gd_attention db1 = gd_attention db" and "attention_row_of (at_id r) db = None"
    and "at_status r = AtOpen"
  shows "keeps gid db (db1\<lparr>gd_attention := gd_attention db @ [r]\<rparr>)"
proof (rule keeps_trans[OF assms(1)], rule keeps_tables)
  assume "goal_wf db1"
  then show "attention_wf (db1\<lparr>gd_attention := gd_attention db @ [r]\<rparr>)"
    using assms(2-4) by (auto simp: goal_wf_def attention_wf_def attention_row_of_def find_None_key)
qed (auto simp: goal_wf_def)

text \<open>The answer of a question leaves its interaction settled.\<close>

lemma answer_settles:
  assumes "resolve_goal_input_tx h i resp v actor corr now w0 = Inr (r, w)" and "repo_wf w0"
  shows "interaction_settled i w"
proof -
  from assms(1) obtain c where c: "interaction_row_of i w0 = Some c" "interaction_status c = IxOpen"
    and s: "settle_interaction_tx h c IxAnswered resp (or_now h now) actor corr
       [(''status'', JStr ''answered'')] (Some (or_now h now)) w0 = Inr (r, w)"
    by (auto simp: resolve_goal_input_tx_def open_at_version_Inr)
  have "interactions w = map (\<lambda>r. if interaction_id r = i then resolved_row IxAnswered resp (or_now h now) r else r) (interactions w0)"
    using settle_interaction_Inr[OF _ _ c _ s] work_parts[OF assms(2)] by simp
  then have "interaction_row_of i w = Some (resolved_row IxAnswered resp (or_now h now) c)"
    using c(1) find_map_update[of interaction_id "resolved_row IxAnswered resp (or_now h now)" i i "interactions w0"]
    by (simp add: interaction_row_of_def resolved_row_def)
  then show ?thesis by (simp add: interaction_settled_def interaction_terminal_iff resolved_row_def)
qed

lemma ends_questions [ends_rules]:
  "(\<And>r w. create_goal_input_tx h q w0 = Inr (r, w) \<Longrightarrow> post Q (f1 r w)) \<Longrightarrow>
     post Q (ebind (create_goal_input_tx h q w0) (\<lambda>(r, w). f1 r w))"
  "(\<And>r w. resolve_goal_input_tx h i resp v actor corr now w0 = Inr (r, w) \<Longrightarrow> post Q (f2 r w)) \<Longrightarrow>
     post Q (ebind (as_goal_conflict (resolve_goal_input_tx h i resp v actor corr now w0)) (\<lambda>(r, w). f2 r w))"
  "(\<And>r w. dismiss_goal_input_tx h i v actor corr now w0 = Inr (r, w) \<Longrightarrow> post Q (f3 r w)) \<Longrightarrow>
     post Q (ebind (as_goal_conflict (dismiss_goal_input_tx h i v actor corr now w0)) (\<lambda>(r, w). f3 r w))"
  by (auto intro!: ends_ebind)

lemma request_input_ends:
  assumes "py_strip aid = aid"
  shows "ends gid db (request_input_tx h gid sid v p sch aid wid c db)"
  unfolding request_input_tx_def Let_def
  by (rule ends_from[OF keeps_draws[of gid db 2]], (intro ends_rules keeps_rules keeps_refl | assumption)+)
     (simp_all add: step_closed keeps_refl assms)

lemma open_attention_Inr: "open_attention aid db = Inr r \<longleftrightarrow> attention_row_of aid db = Some r"
  by (simp add: open_attention_def split: option.splits)

lemma attention_row_id: "attention_row_of aid db = Some r \<Longrightarrow> at_id r = aid"
  unfolding attention_row_of_def using find_Some_key[of at_id aid "gd_attention db" r] by simp

lemma respond_input_ends:
  assumes "attention_row_of aid db = Some r" and "goal_wf db"
  shows "ends (at_goal r) db (respond_input_tx h aid answer v av c db)"
proof -
  have "open_attention aid db = Inr r" using assms(1) by (simp add: open_attention_Inr)
  moreover have "repo_wf (gd_work db)" using assms(2) by (simp add: goal_wf_def)
  ultimately show ?thesis
    unfolding respond_input_tx_def Let_def settle_user_waits_def
    by (simp only: ebind_Inr, (intro ends_rules ends_ebind keeps_rules keeps_refl | assumption)+)
       (auto simp: step_closed closed_attention_def answer_settles)
qed

lemma dismiss_input_ends:
  assumes "attention_row_of aid db = Some r"
  shows "ends (at_goal r) db (dismiss_input_tx h aid av c db)"
proof -
  have "open_attention aid db = Inr r" using assms by (simp add: open_attention_Inr)
  then show ?thesis
    unfolding dismiss_input_tx_def Let_def settle_user_waits_def
    by (simp only: ebind_Inr, (intro ends_rules ends_ebind keeps_rules keeps_refl | assumption)+)
       (simp_all add: step_closed closed_attention_def)
qed

section \<open>Goals\<close>

lemma update_budget_usage_ends: "ends gid db (update_budget_usage_tx h gid delta v c db)"
  unfolding update_budget_usage_tx_def Let_def
  by (intro ends_rules ends_ebind keeps_rules keeps_refl | assumption)+
     (simp_all add: goal_ok_def goal_terminal_def goal_leads_def)

lemma state_set_ends: "ends gid db (state_set_tx h gid k value v c db)"
  unfolding state_set_tx_def Let_def
  by (intro ends_rules ends_ebind keeps_rules keeps_refl | assumption)+

lemma transition_ok:
  "goal_ok g \<Longrightarrow> target \<in> goal_allowed (g_status g) \<Longrightarrow> (p \<noteq> [] \<longrightarrow> target \<in> {GPaused, GBlocked}) \<Longrightarrow>
     goal_ok (transition_row target p summary tm g) \<and> (g_status g, g_status (transition_row target p summary tm g)) \<in> goal_leads"
  by (cases "g_status g") (auto simp: goal_ok_def transition_row_def goal_terminal_iff goal_leads_def)

lemma transition_row_keys: "g_id (transition_row t p s tm r) = g_id r \<and> g_version (transition_row t p s tm r) = g_version r"
  by (simp add: transition_row_def)

lemma transition_goal_ends: "ends gid db (transition_goal_tx h gid target v reason summary c etype db)"
  unfolding transition_goal_tx_def Let_def cancel_goal_waits_def dismiss_goal_attention_def
  by (intro ends_rules ends_ebind keeps_rules keeps_refl | assumption)+
     (auto simp: transition_row_keys intro!: transition_ok[THEN conjunct1] transition_ok[THEN conjunct2]
       split: if_split_asm)

section \<open>Artifacts\<close>

lemma link_artifact_keeps: "link_artifact h i sid ref role meta db = Inr (row, db1) \<Longrightarrow> keeps gid db db1"
  by (auto simp: link_artifact_def Let_def split: option.splits intro!: keeps_draws_then keeps_rules keeps_refl)

lemma ends_link_artifact [ends_rules]:
  "keeps gid db db1 \<Longrightarrow> (\<And>row db2. keeps gid db db2 \<Longrightarrow> ends gid db (f (row, db2))) \<Longrightarrow>
     ends gid db (ebind (link_artifact h i sid ref role meta db1) f)"
  by (rule ends_ebind) (metis link_artifact_keeps keeps_trans surj_pair)

lemma attach_artifact_ends: "ends gid db (attach_artifact_tx h gid ref v role sid meta c db)"
  unfolding attach_artifact_tx_def Let_def
  by (intro ends_rules ends_ebind keeps_rules keeps_refl | assumption)+

section \<open>Effects\<close>

lemma keeps_new_effect [keeps_rules]:
  assumes "keeps gid db db1" and "gd_effects db1 = gd_effects db" and "e_sequence r = next_effect_sequence (e_goal r) db"
    and "prior_effect (e_goal r) (e_key r) db = None" and "e_id r \<notin> e_id ` set (gd_effects db)"
  shows "keeps gid db (db1\<lparr>gd_effects := gd_effects db @ [r]\<rparr>)"
proof (rule keeps_trans[OF assms(1)], rule keeps_tables)
  assume "goal_wf db1"
  then have "effects_wf (gd_effects db)" using assms(2) by (simp add: goal_wf_def)
  from effects_wf_insert[OF this assms(3-5)]
  show "effects_wf (gd_effects (db1\<lparr>gd_effects := gd_effects db @ [r]\<rparr>))" by simp
qed (auto simp: goal_wf_def attention_wf_def)

lemma record_effect_ends: "ends gid db (record_effect_tx h gid sid v kind key request st c db)"
  unfolding record_effect_tx_def Let_def
  by (intro ends_rules ends_ebind keeps_draws_then keeps_rules keeps_refl | assumption)+ simp_all

lemma update_effect_ends:
  assumes "get_effect eid db = Some r"
  shows "ends (e_goal r) db (update_effect_tx h eid v st resp receipt err c db)"
  unfolding update_effect_tx_def Let_def assms option.case
  by (intro ends_rules ends_ebind keeps_rules keeps_refl | assumption)+ (simp_all add: settled_effect_def)

end
