(* ===== verification/Goal_Cancel.thy ===== *)
theory Goal_Cancel
  imports Goal_Keeps
begin

text \<open>
  The cancellation of a whole goal: it keeps the invariant, and what it leaves of the goal's steps,
  waits, questions and effects.
\<close>

section \<open>The invariant\<close>

lemma request_cleanup_keeps:
  assumes "request_cleanup h c goal reason token db = Inr db1" and "g_id goal = gid"
  shows "keeps gid db db1"
proof -
  from assms(1) obtain pl v n where
    "advance_tx h c goal ''goal.cleanup_requested'' pl [] 0 (clock h) (upsert_state (g_id goal) ''resource_cleanup'' v (clock h)
        (if ca_correlation c = [] then take_draws 1 db else db)) = Inr (n, db1)"
    unfolding request_cleanup_def Let_def by auto
  moreover have "keeps gid db (upsert_state (g_id goal) ''resource_cleanup'' v (clock h)
        (if ca_correlation c = [] then take_draws 1 db else db))"
    by (intro keeps_rules keeps_draws_then keeps_refl)
  ultimately show ?thesis using keeps_advance[OF _ assms(2)] keeps_trans by blast
qed

lemma request_cleanup_frame:
  assumes "request_cleanup h c goal reason token db = Inr db1"
  shows "gd_steps db1 = gd_steps db" "gd_waits db1 = gd_waits db" "gd_attention db1 = gd_attention db"
    "gd_effects db1 = gd_effects db"
proof -
  from assms obtain pl v n where
    adv: "advance_tx h c goal ''goal.cleanup_requested'' pl [] 0 (clock h) (upsert_state (g_id goal) ''resource_cleanup'' v (clock h)
        (if ca_correlation c = [] then take_draws 1 db else db)) = Inr (n, db1)"
    unfolding request_cleanup_def Let_def by auto
  show "gd_steps db1 = gd_steps db" "gd_waits db1 = gd_waits db" "gd_attention db1 = gd_attention db"
    "gd_effects db1 = gd_effects db" by (simp_all add: advance_frame[OF adv])
qed

lemma request_cleanup_row:
  assumes "request_cleanup h c goal reason token db = Inr db1" and "goal_wf db" and "goal_row_of (g_id goal) db = Some goal"
  shows "goal_row_of (g_id goal) db1 = Some (advanced_row (clock h) goal)"
proof -
  let ?d = "\<lambda>v. upsert_state (g_id goal) ''resource_cleanup'' v (clock h)
        (if ca_correlation c = [] then take_draws 1 db else db)"
  from assms(1) obtain pl v n where
    adv: "advance_tx h c goal ''goal.cleanup_requested'' pl [] 0 (clock h) (?d v) = Inr (n, db1)"
    unfolding request_cleanup_def Let_def by auto
  have "keeps (g_id goal) db (?d v)" by (intro keeps_rules keeps_draws_then keeps_refl)
  then have "goal_wf (?d v)" using assms(2) by (simp add: keeps_def)
  moreover have "goal_row_of (g_id goal) (?d v) = Some goal" using assms(3) by (simp add: goal_row_of_def)
  ultimately show ?thesis using advance_effect(2)[OF adv, of "g_id goal"] by simp
qed

lemma mark_cancelled_keeps:
  assumes "mark_cancelled h c goal reason db = Inr db1" and row: "goal_row_of gid db = Some goal"
    and st: "g_status goal \<in> cancellable_goal_states" "g_status goal \<noteq> GCancelled"
  shows "keeps gid db db1"
proof -
  let ?f = "\<lambda>r. r\<lparr>g_status := GCancelled, g_pause_reason := [],
          g_completed := (case g_completed r of None \<Rightarrow> Some (clock h) | Some t \<Rightarrow> Some t), g_updated := clock h\<rparr>"
  from assms(1) obtain n pl where adv: "advance_tx h c goal ''goal.cancelled'' pl [] 0 (clock h)
      (update_goal_row (g_id goal) ?f db) = Inr (n, db1)"
    unfolding mark_cancelled_def by auto
  have lead: "(g_status goal, GCancelled) \<in> goal_leads"
    using st by (cases "g_status goal") (auto simp: goal_leads_def cancellable_goal_states_def)
  have "keeps gid db (update_goal_row (g_id goal) ?f db)"
    by (rule keeps_goal_then[OF keeps_refl row])
       (use lead st goal_row_id[OF row] in \<open>auto simp: cancellable_goal_states_def goal_ok_def goal_terminal_iff split: option.split\<close>)
  then show ?thesis using keeps_advance[OF adv goal_row_id[OF row]] keeps_trans by blast
qed

lemma mark_cancelled_frame:
  assumes "mark_cancelled h c goal reason db = Inr db1"
  shows "gd_steps db1 = gd_steps db" "gd_waits db1 = gd_waits db" "gd_attention db1 = gd_attention db"
    "gd_effects db1 = gd_effects db"
proof -
  from assms obtain n pl f where adv: "advance_tx h c goal ''goal.cancelled'' pl [] 0 (clock h)
      (update_goal_row (g_id goal) f db) = Inr (n, db1)"
    unfolding mark_cancelled_def by auto
  show "gd_steps db1 = gd_steps db" "gd_waits db1 = gd_waits db" "gd_attention db1 = gd_attention db"
    "gd_effects db1 = gd_effects db" by (simp_all add: advance_frame[OF adv])
qed

lemma cancelled_step_ok: "step_ok s \<Longrightarrow> step_ok (cancelled_step reason tm s) \<and> step_move s (cancelled_step reason tm s)"
  by (rule step_closed) (simp_all add: cancelled_step_def)

lemma cancel_one_step_keeps:
  assumes run: "cancel_one_step h c gid reason step db = Inr db1"
    and own: "\<And>r. step_row_of (s_id step) db = Some r \<Longrightarrow> s_goal r = gid"
  shows "keeps gid db db1"
proof -
  let ?d = "update_step_row (s_id step) (cancelled_step reason (clock h)) db"
  let ?e = "if s_attempts step \<noteq> 0 \<and> s_status step \<in> {SLeased, SRunning, SWaiting}
      then update_attempt_row (s_id step) (s_attempts step)
        (\<lambda>a. a\<lparr>a_status := SCancelled, a_updated := clock h, a_completed := Some (clock h)\<rparr>) ?d else ?d"
  from run obtain goal pl n where g: "goal_row_of gid db = Some goal"
    and adv: "advance_tx h c goal ''goal.step_status'' pl (s_id step) 0 (clock h) ?e = Inr (n, db1)"
    unfolding cancel_one_step_def Let_def by auto
  have "keeps gid db ?d"
    by (rule keeps_step_row) (use own cancelled_step_ok in \<open>auto simp: cancelled_step_def\<close>)
  then have "keeps gid db ?e" by (auto intro: keeps_attempt_then)
  then show ?thesis using keeps_advance[OF adv goal_row_id[OF g]] keeps_trans by blast
qed

text \<open>The loop over the open steps.\<close>

lemma cancel_steps_keeps:
  assumes run: "efold (cancel_one_step h c gid reason) steps db = Inr db'" and wf: "goal_wf db"
    and own: "\<forall>s\<in>set steps. step_row_of (s_id s) db = Some s \<and> s_goal s = gid"
  shows "keeps gid db db'"
proof (rule efold_invariant[where I = "keeps gid db", OF run keeps_refl])
  fix s d d'
  assume s: "s \<in> set steps" and k: "keeps gid db d" and r: "cancel_one_step h c gid reason s d = Inr d'"
  have "goal_moves db d" using k wf by (simp add: keeps_def)
  then obtain s' where "step_row_of (s_id s) d = Some s'" "s_goal s' = gid"
    using own s unfolding goal_moves_def step_move_def by metis
  then have "keeps gid d d'" by (intro cancel_one_step_keeps[OF r]) simp
  with k show "keeps gid db d'" by (rule keeps_trans)
qed

lemma open_steps_rows:
  assumes "goal_wf db" and "s \<in> set (open_steps gid db)"
  shows "step_row_of (s_id s) db = Some s \<and> s_goal s = gid"
  using assms find_distinct_key[of s_id "gd_steps db" s]
  by (simp add: open_steps_def goal_wf_def steps_wf_def step_row_of_def)

lemma record_intent_keeps: "record_intent h key rid chat v ap goal reason tok db = Inr db1 \<Longrightarrow> keeps gid db db1"
  by (auto simp: record_intent_def intro!: keeps_states)

text \<open>The databases a cancellation runs through.\<close>

lemma cancel_goal_body_Inr:
  assumes "cancel_goal_body h c goal v reason intent db = Inr (g, db')"
  obtains token db1 goal1 db2 db4 where
    "request_cleanup h c goal reason token db = Inr db1" "goal_row_of (g_id goal) db1 = Some goal1"
    "db2 = db1 \<or> mark_cancelled h c goal1 reason db1 = Inr db2 \<and> g_status goal1 \<noteq> GCancelled \<and>
       g_status goal \<in> cancellable_goal_states"
    "g_status goal1 = GCancelled \<or> mark_cancelled h c goal1 reason db1 = Inr db2 \<or>
       g_status goal \<in> {GSucceeded, GFailed, GArchived}"
    "efold (cancel_one_step h c (g_id goal) reason) (open_steps (g_id goal) db1)
       (cancel_goal_effects (g_id goal) reason (clock h)
         (dismiss_goal_attention (g_id goal) (clock h) (cancel_goal_waits (g_id goal) db2))) = Inr db4"
    "goal_row_of (g_id goal) db4 = Some g"
    "db' = db4 \<or> (\<exists>t. db' = db4\<lparr>gd_states := t\<rparr>)"
proof -
  let ?tc = "intent \<noteq> None \<and> g_status goal \<in> {GSucceeded, GFailed, GArchived}"
  from assms obtain db1 goal1 db2 db4 where
    adm: "g_status goal \<in> cancellable_goal_states \<or> ?tc"
    and a: "request_cleanup h c goal reason (cleanup_token h (ca_correlation c) goal db) db = Inr db1"
      "goal_row_of (g_id goal) db1 = Some goal1"
    and m: "(if g_status goal1 \<noteq> GCancelled \<and> \<not> ?tc then mark_cancelled h c goal1 reason db1 else Inr db1) = Inr db2"
    and e: "efold (cancel_one_step h c (g_id goal) reason) (open_steps (g_id goal) db1)
       (cancel_goal_effects (g_id goal) reason (clock h)
         (dismiss_goal_attention (g_id goal) (clock h) (cancel_goal_waits (g_id goal) db2))) = Inr db4"
      "goal_row_of (g_id goal) db4 = Some g"
    and i: "(case intent of None \<Rightarrow> Inr db4
         | Some (key, chat) \<Rightarrow> record_intent h key (ca_correlation c) chat v (g_version goal) g
             reason (cleanup_token h (ca_correlation c) goal db) db4) = Inr db'"
    unfolding cancel_goal_body_def Let_def ebind_eq_Inr require_eq_Inr require_goal_Inr by blast
  show thesis
  proof (rule that[OF a _ _ e])
    show "db2 = db1 \<or> mark_cancelled h c goal1 reason db1 = Inr db2 \<and> g_status goal1 \<noteq> GCancelled \<and>
       g_status goal \<in> cancellable_goal_states"
      using m adm by (auto split: if_splits)
    show "g_status goal1 = GCancelled \<or> mark_cancelled h c goal1 reason db1 = Inr db2 \<or>
        g_status goal \<in> {GSucceeded, GFailed, GArchived}"
      using m by (auto split: if_splits)
    show "db' = db4 \<or> (\<exists>t. db' = db4\<lparr>gd_states := t\<rparr>)"
      using i by (auto simp: record_intent_def split: option.splits)
  qed
qed

lemma cancel_goal_body_keeps:
  assumes run: "cancel_goal_body h c goal v reason intent db = Inr (g, db')" and wf: "goal_wf db"
    and row: "goal_row_of gid db = Some goal"
  shows "keeps gid db db'"
proof -
  have gid: "g_id goal = gid" by (rule goal_row_id[OF row])
  from run obtain token db1 goal1 db2 db4 where
    r: "request_cleanup h c goal reason token db = Inr db1" "goal_row_of gid db1 = Some goal1"
      "db2 = db1 \<or> mark_cancelled h c goal1 reason db1 = Inr db2 \<and> g_status goal1 \<noteq> GCancelled \<and>
         g_status goal \<in> cancellable_goal_states"
    and e: "efold (cancel_one_step h c gid reason) (open_steps gid db1) (cancel_goal_effects gid reason (clock h)
         (dismiss_goal_attention gid (clock h) (cancel_goal_waits gid db2))) = Inr db4"
    and s: "db' = db4 \<or> (\<exists>t. db' = db4\<lparr>gd_states := t\<rparr>)"
    unfolding gid[symmetric] by (rule cancel_goal_body_Inr)
  let ?d3 = "cancel_goal_effects gid reason (clock h) (dismiss_goal_attention gid (clock h) (cancel_goal_waits gid db2))"
  have k1: "keeps gid db db1" by (rule request_cleanup_keeps[OF r(1) gid])
  then have wf1: "goal_wf db1" using wf by (simp add: keeps_def)
  have "g_status goal1 = g_status goal"
    using request_cleanup_row[OF r(1) wf] row r(2) gid by (simp add: advanced_row_def)
  then have k2: "keeps gid db1 db2"
    using r(3) mark_cancelled_keeps[OF _ r(2)] keeps_refl by auto
  have k3: "keeps gid db2 ?d3"
    unfolding cancel_goal_effects_def dismiss_goal_attention_def cancel_goal_waits_def
    by (intro keeps_rules keeps_refl) auto
  have "gd_steps db2 = gd_steps db1" using r(3) mark_cancelled_frame(1) by blast
  then have d3: "gd_steps ?d3 = gd_steps db1"
    by (simp add: cancel_goal_effects_def dismiss_goal_attention_def cancel_goal_waits_def)
  have "step_row_of (s_id x) ?d3 = Some x \<and> s_goal x = gid" if "x \<in> set (open_steps gid db1)" for x
    using open_steps_rows[OF wf1 that] d3 by (simp add: step_row_of_def)
  moreover have "goal_wf ?d3" using k2 k3 wf1 by (simp add: keeps_def)
  ultimately have k4: "keeps gid ?d3 db4" by (intro cancel_steps_keeps[OF e]) simp_all
  have k5: "keeps gid db4 db'" using s keeps_refl keeps_states by blast
  show ?thesis using keeps_trans[OF keeps_trans[OF keeps_trans[OF keeps_trans[OF k1 k2] k3] k4] k5] .
qed

lemma cancel_goal_tx_Inr:
  assumes "cancel_goal_tx h gid v reason c chat db = Inr (g, db')"
  obtains goal intent where "goal_row_of gid db = Some goal"
    "chat \<noteq> None \<and> db' = db \<and> g = goal \<or> cancel_goal_body h c goal v reason intent db = Inr (g, db')"
    "chat = None \<Longrightarrow> v = g_version goal"
proof (cases chat)
  case None
  with assms that[of _ None] show thesis by (auto simp: cancel_goal_tx_def check_version_def)
next
  case (Some ch)
  with assms obtain goal adm where row: "goal_row_of gid db = Some goal"
    and r: "(case adm of None \<Rightarrow> Inr (goal, db)
       | Some key \<Rightarrow> cancel_goal_body h c goal v reason (Some (key, ch)) db) = Inr (g, db')"
    by (auto simp: cancel_goal_tx_def)
  show thesis
  proof (cases adm)
    case None
    with that[OF row, of None] r Some show thesis by simp
  next
    case (Some key)
    with that[OF row, of "Some (key, ch)"] r \<open>chat = Some ch\<close> show thesis by simp
  qed
qed

lemma cancel_goal_ends: "ends gid db (cancel_goal_tx h gid v reason c chat db)"
  unfolding post_def
proof (intro allI impI, rule keepsI)
  fix g db'
  assume run: "cancel_goal_tx h gid v reason c chat db = Inr (g, db')" and wf: "goal_wf db"
  from run obtain goal intent where row: "goal_row_of gid db = Some goal"
    and "chat \<noteq> None \<and> db' = db \<and> g = goal \<or> cancel_goal_body h c goal v reason intent db = Inr (g, db')"
    by (rule cancel_goal_tx_Inr)
  then show "keeps gid db db'" using keeps_refl cancel_goal_body_keeps[OF _ wf row] by blast
qed

section \<open>What a cancellation leaves\<close>

lemma cancel_one_step_frame:
  assumes "cancel_one_step h c gid reason step db = Inr db1"
  shows "gd_steps db1 = map (\<lambda>r. if s_id r = s_id step then cancelled_step reason (clock h) r else r) (gd_steps db)"
    "gd_waits db1 = gd_waits db" "gd_attention db1 = gd_attention db" "gd_effects db1 = gd_effects db"
proof -
  let ?d = "update_step_row (s_id step) (cancelled_step reason (clock h)) db"
  let ?e = "if s_attempts step \<noteq> 0 \<and> s_status step \<in> {SLeased, SRunning, SWaiting}
      then update_attempt_row (s_id step) (s_attempts step)
        (\<lambda>a. a\<lparr>a_status := SCancelled, a_updated := clock h, a_completed := Some (clock h)\<rparr>) ?d else ?d"
  from assms obtain goal pl n where adv: "advance_tx h c goal ''goal.step_status'' pl (s_id step) 0 (clock h) ?e = Inr (n, db1)"
    unfolding cancel_one_step_def Let_def by auto
  show "gd_steps db1 = map (\<lambda>r. if s_id r = s_id step then cancelled_step reason (clock h) r else r) (gd_steps db)"
    by (simp add: advance_frame[OF adv] update_step_row_def sql_update_def)
  show "gd_waits db1 = gd_waits db" "gd_attention db1 = gd_attention db" "gd_effects db1 = gd_effects db"
    by (simp_all add: advance_frame[OF adv])
qed

lemma cancel_steps_frame:
  assumes "efold (cancel_one_step h c gid reason) steps db = Inr db'"
  shows "gd_waits db' = gd_waits db \<and> gd_attention db' = gd_attention db \<and> gd_effects db' = gd_effects db"
  by (rule efold_invariant[where I = "\<lambda>d. gd_waits d = gd_waits db \<and> gd_attention d = gd_attention db \<and>
        gd_effects d = gd_effects db", OF assms])
     (auto dest: cancel_one_step_frame(2-4))

lemma cancel_steps_cancelled:
  assumes "efold (cancel_one_step h c gid reason) steps db = Inr db'" and "r \<in> set (gd_steps db')"
  shows "s_status r = SCancelled \<or> r \<in> set (gd_steps db) \<and> s_id r \<notin> s_id ` set steps"
  using assms
proof (induction steps arbitrary: db)
  case (Cons s steps)
  from Cons.prems(1) obtain d where d: "cancel_one_step h c gid reason s db = Inr d"
    "efold (cancel_one_step h c gid reason) steps d = Inr db'" by auto
  from Cons.IH[OF d(2) Cons.prems(2)] cancel_one_step_frame(1)[OF d(1)]
  show ?case by (auto simp: cancelled_step_def)
qed simp

text \<open>Nothing of the goal stays open.\<close>

definition nothing_open :: "string \<Rightarrow> goal_db \<Rightarrow> bool" where
  "nothing_open gid db \<longleftrightarrow>
     (\<forall>s\<in>set (gd_steps db). s_goal s = gid \<longrightarrow> step_terminal s) \<and>
     (\<forall>w\<in>set (gd_waits db). w_goal w = gid \<longrightarrow> w_status w \<noteq> WtPending) \<and>
     (\<forall>r\<in>set (gd_attention db). at_goal r = gid \<longrightarrow> at_status r \<noteq> AtOpen) \<and>
     (\<forall>r\<in>set (gd_effects db). e_goal r = gid \<longrightarrow> e_status r \<notin> {EfPlanned, EfDispatched})"

lemma cancel_goal_body_closes:
  assumes run: "cancel_goal_body h c goal v reason intent db = Inr (g, db')"
  shows "nothing_open (g_id goal) db'"
proof -
  let ?gid = "g_id goal"
  from run obtain token db1 goal1 db2 db4 where
    r: "db2 = db1 \<or> mark_cancelled h c goal1 reason db1 = Inr db2 \<and> g_status goal1 \<noteq> GCancelled \<and>
         g_status goal \<in> cancellable_goal_states"
    and e: "efold (cancel_one_step h c ?gid reason) (open_steps ?gid db1) (cancel_goal_effects ?gid reason (clock h)
         (dismiss_goal_attention ?gid (clock h) (cancel_goal_waits ?gid db2))) = Inr db4"
    and s: "db' = db4 \<or> (\<exists>t. db' = db4\<lparr>gd_states := t\<rparr>)"
    by (rule cancel_goal_body_Inr)
  let ?d3 = "cancel_goal_effects ?gid reason (clock h) (dismiss_goal_attention ?gid (clock h) (cancel_goal_waits ?gid db2))"
  have "gd_steps db2 = gd_steps db1" using r mark_cancelled_frame(1) by blast
  then have d3: "gd_steps ?d3 = gd_steps db1"
    by (simp add: cancel_goal_effects_def dismiss_goal_attention_def cancel_goal_waits_def)
  have "step_terminal x" if x: "x \<in> set (gd_steps db4)" "s_goal x = ?gid" for x
  proof (rule ccontr)
    assume nt: "\<not> step_terminal x"
    then have "s_status x \<noteq> SCancelled" by (auto simp: step_terminal_iff)
    with cancel_steps_cancelled[OF e x(1)] d3 have "x \<in> set (gd_steps db1)" "s_id x \<notin> s_id ` set (open_steps ?gid db1)"
      by auto
    moreover have "x \<in> set (open_steps ?gid db1)" using calculation(1) x(2) nt by (simp add: open_steps_def)
    ultimately show False by blast
  qed
  moreover have "gd_waits db4 = gd_waits ?d3" "gd_attention db4 = gd_attention ?d3" "gd_effects db4 = gd_effects ?d3"
    using cancel_steps_frame[OF e] by simp_all
  moreover have "w_status w \<noteq> WtPending" if "w \<in> set (gd_waits ?d3)" "w_goal w = ?gid" for w
    using that by (auto simp: cancel_goal_effects_def dismiss_goal_attention_def cancel_goal_waits_def
        update_waits_def sql_update_def split: if_splits)
  moreover have "at_status x \<noteq> AtOpen" if "x \<in> set (gd_attention ?d3)" "at_goal x = ?gid" for x
    using that by (auto simp: cancel_goal_effects_def dismiss_goal_attention_def cancel_goal_waits_def
        update_attention_def sql_update_def split: if_splits)
  moreover have "e_status x \<notin> {EfPlanned, EfDispatched}" if "x \<in> set (gd_effects ?d3)" "e_goal x = ?gid" for x
    using that by (auto simp: cancel_goal_effects_def dismiss_goal_attention_def cancel_goal_waits_def
        update_effects_def sql_update_def split: if_splits)
  ultimately show ?thesis using s by (auto simp: nothing_open_def)
qed

end
