(* ===== verification/Goal_Store.thy ===== *)
theory Goal_Store
  imports Goal_Cancel
begin

text \<open>
  The operations that insert rows (a leased attempt, the steps of a plan, a goal), and the goal
  repository as a whole: one step relation over all its operations.
\<close>

section \<open>Leasing\<close>

lemma keeps_lease:
  assumes step: "get_step gid sid db = Some step" and f: "\<And>r. s_id (f r) = s_id r"
    and ok: "step_ok step \<Longrightarrow> step_ok (f step) \<and> step_move step (f step)" and n: "s_attempts (f step) = s_attempts step + 1"
    and att: "a_step att = s_id step" "a_attempt att = s_attempts step + 1"
  shows "keeps gid db ((update_step_row (s_id step) f db)\<lparr>gd_attempts := gd_attempts db @ [att]\<rparr>)"
  unfolding keeps_def
proof (intro impI conjI)
  assume wf: "goal_wf db"
  let ?t = "map (\<lambda>r. if s_id r = s_id step then f r else r) (gd_steps db)"
  let ?d = "(update_step_row (s_id step) f db)\<lparr>gd_attempts := gd_attempts db @ [att]\<rparr>"
  have d: "gd_steps ?d = ?t" by (simp add: update_step_row_def sql_update_def)
  have s: "distinct (map s_id (gd_steps db))" "\<forall>r\<in>set (gd_steps db). step_ok r"
    and a: "attempts_wf (gd_steps db) (gd_attempts db)"
    using wf by (auto simp: goal_wf_def steps_wf_def list_all_iff)
  have mem: "step \<in> set (gd_steps db)" "s_goal step = gid" using step_row_id[OF step] by simp_all
  have only: "r = step" if "r \<in> set (gd_steps db)" "s_id r = s_id step" for r
    using find_distinct_key[OF s(1) that(1)] find_distinct_key[OF s(1) mem(1)] unfolding that(2) by simp
  have ids: "map s_id ?t = map s_id (gd_steps db)" using f by (intro map_key_map) simp
  then have ids': "s_id ` set ?t = s_id ` set (gd_steps db)" by (metis list.set_map)
  have row: "x \<in> set (gd_steps db) \<and> s_id x \<noteq> s_id step \<or> x = f step" if x: "x \<in> set ?t" for x
    using x only by (auto split: if_splits)
  have ok': "step_ok (f step)" "step_move step (f step)" using ok s(2) mem(1) by simp_all
  have "step_ok x" if "x \<in> set ?t" for x using row[OF that] s(2) ok'(1) by blast
  then have "steps_wf ?d"
    unfolding steps_wf_def d ids list_all_iff using s(1) by blast
  moreover have "attempts_wf ?t (gd_attempts db @ [att])"
    unfolding attempts_wf_def
  proof (intro conjI ballI)
    fix x assume "x \<in> set ?t"
    then consider "x \<in> set (gd_steps db)" "s_id x \<noteq> s_id step" | "x = f step" using row by blast
    then show "attempts_of (gd_attempts db @ [att]) (s_id x) = counting (nat (s_attempts x))"
    proof cases
      case 1
      then show ?thesis using a att by (simp add: attempts_wf_def attempts_of_def)
    next
      case 2
      have "0 \<le> s_attempts step" using s(2) mem(1) by (simp add: step_ok_def)
      moreover have "attempts_of (gd_attempts db) (s_id step) = counting (nat (s_attempts step))"
        using a mem(1) by (simp add: attempts_wf_def)
      ultimately show ?thesis
        using 2 att f n by (simp add: attempts_of_def nat_add_distrib counting_Suc)
    qed
  next
    show "a_step ` set (gd_attempts db @ [att]) \<subseteq> s_id ` set ?t"
      unfolding ids' using a att mem(1) by (auto simp: attempts_wf_def)
  qed
  moreover have "deps_wf ?t (gd_deps db)"
    using wf ids' by (simp add: goal_wf_def deps_wf_def)
  ultimately show "goal_wf ?d"
    using wf d by (simp add: goal_wf_def goals_wf_def attention_wf_def)
  have "step_row_of i db = Some r \<Longrightarrow> i = s_id step \<Longrightarrow> r = step" for i r
    using only find_Some_key[of s_id i "gd_steps db" r] by (simp add: step_row_of_def)
  then show "goal_moves db ?d"
    using ok'(2) by (auto simp: goal_moves_def goal_row_of_def step_row_of_def d find_map_update[of s_id f, OF f])
  have "filter (\<lambda>s. s_goal s \<noteq> gid) ?t = filter (\<lambda>s. s_goal s \<noteq> gid) (gd_steps db)"
    by (intro filter_update_other) (use only mem(2) ok'(2) in \<open>auto simp: step_move_def\<close>)
  then show "only_goal gid db ?d"
    by (simp add: only_goal_def goal_log_def goal_row_of_def d)
  show "work_keeps (gd_work db) (gd_work ?d)" by simp
qed

lemma lease_step_ends: "ends gid db (lease_step_tx h gid sid v worker ttl c db)"
  unfolding lease_step_tx_def Let_def
proof (intro ends_rules)
  fix goal step
  assume g: "g_id goal = gid" and step: "get_step gid sid db = Some step"
    and rdy: "\<not> (s_status step \<noteq> SReady \<or> clock h < s_available step)" and le: "s_attempts step + 1 \<le> s_max_attempts step"
  let ?f = "\<lambda>r. r\<lparr>s_status := SLeased, s_version := s_version r + 1, s_attempts := s_attempts step + 1, s_owner := worker,
      s_epoch := s_epoch step + 1, s_expires := Some (clock h + max 5 ttl),
      s_thread := step_thread (g_id goal) (s_id step) (s_attempts step + 1), s_updated := clock h\<rparr>"
  have "keeps gid (take_draws 1 db) ((update_step_row (s_id step) ?f (take_draws 1 db))\<lparr>gd_attempts := gd_attempts (take_draws 1 db) @ [att]\<rparr>)"
    if "a_step att = s_id step" "a_attempt att = s_attempts step + 1" for att
    using that step rdy le by (intro keeps_lease) (auto simp: step_ok_def step_move_def get_step_def)
  from keeps_trans[OF keeps_draws this]
  show "keeps gid db ((update_step_row (s_id step) ?f (take_draws 1 db))\<lparr>gd_attempts :=
      gd_attempts (update_step_row (s_id step) ?f (take_draws 1 db)) @
      [\<lparr>a_id = drawn h ''attempt'' 0 db, a_goal = g_id goal, a_step = s_id step, a_attempt = s_attempts step + 1,
           a_status = SLeased, a_thread = step_thread (g_id goal) (s_id step) (s_attempts step + 1), a_cursor = [], a_machine = [], a_run = [],
           a_receipt = [], a_result_ref = [], a_error_ref = [], a_started = clock h, a_updated = clock h,
           a_completed = None\<rparr>]\<rparr>)"
    by simp
qed assumption+

section \<open>Planning\<close>

lemma insert_step_keeps:
  assumes run: "insert_step h gid tm p db = Inr db'" and m: "1 \<le> p_max_attempts p"
  shows "keeps gid db db'"
  unfolding keeps_def
proof (rule impI)
  assume wf: "goal_wf db"
  let ?s = "new_step_row gid tm p"
  from run have fresh: "step_row_of (p_id p) db = None" and db': "db' = db\<lparr>gd_steps := gd_steps db @ [?s]\<rparr>"
    by (auto simp: insert_step_def)
  have ids: "p_id p \<notin> s_id ` set (gd_steps db)"
    using fresh unfolding step_row_of_def find_None_key .
  have s: "s_id ?s = p_id p" "s_goal ?s = gid" "step_ok ?s" "s_attempts ?s = 0"
    using m by (simp_all add: new_step_row_def step_ok_def)
  have "attempts_of (gd_attempts db) (p_id p) = []"
  proof -
    have "a_step x \<in> s_id ` set (gd_steps db)" if "x \<in> set (gd_attempts db)" for x
      using wf that by (auto simp: goal_wf_def attempts_wf_def)
    then show ?thesis using ids unfolding attempts_of_def filter_empty_conv map_is_Nil_conv by metis
  qed
  then have "goal_wf db'"
    using wf ids s by (auto simp: goal_wf_def goals_wf_def steps_wf_def attempts_wf_def deps_wf_def attention_wf_def db')
  moreover have "goal_moves db db'"
    by (auto simp: goal_moves_def goal_row_of_def step_row_of_def db' find_append)
  moreover have "only_goal gid db db'"
    using s by (simp add: only_goal_def goal_log_def goal_row_of_def db')
  ultimately show "goal_wf db' \<and> goal_moves db db' \<and> work_keeps (gd_work db) (gd_work db') \<and> only_goal gid db db'"
    by (simp add: db')
qed

lemma insert_steps_keeps:
  assumes "efold (insert_step h gid tm) plan db = Inr db'" and "\<forall>p\<in>set plan. 1 \<le> p_max_attempts p"
  shows "keeps gid db db'"
  by (rule efold_invariant[where I = "keeps gid db", OF assms(1) keeps_refl])
     (use assms(2) insert_step_keeps keeps_trans in blast)

lemma insert_steps_rows:
  assumes "efold (insert_step h gid tm) plan db = Inr db'"
  shows "gd_steps db' = gd_steps db @ map (new_step_row gid tm) plan \<and> gd_deps db' = gd_deps db \<and>
    set (map p_id plan) \<inter> s_id ` set (gd_steps db) = {}"
  using assms
proof (induction plan arbitrary: db)
  case (Cons p plan)
  from Cons.prems obtain d where d: "insert_step h gid tm p db = Inr d" "efold (insert_step h gid tm) plan d = Inr db'" by auto
  then have "d = db\<lparr>gd_steps := gd_steps db @ [new_step_row gid tm p]\<rparr>" "p_id p \<notin> s_id ` set (gd_steps db)"
    by (auto simp: insert_step_def step_row_of_def find_None_key)
  with Cons.IH[OF d(2)] show ?case by auto
qed simp

text \<open>The rows of an accepted plan.\<close>

lemma plan_row_of_Inr:
  "plan_row_of h k sid raw = Inr p \<Longrightarrow>
     p_id p = sid \<and> p_ordinal p = k \<and> 1 \<le> p_max_attempts p \<and> p_max_attempts p \<le> 100"
  by (auto simp: plan_row_of_def)

lemma plan_rows_Inr:
  assumes "plan_rows h n k ids raws = Inr (rows, n')"
  shows "distinct (map p_id rows) \<and> set (map p_id rows) \<inter> set ids = {} \<and>
    map p_ordinal rows = [k..<k + length raws] \<and> (\<forall>p\<in>set rows. 1 \<le> p_max_attempts p \<and> p_max_attempts p \<le> 100)"
  using assms
proof (induction h n k ids raws arbitrary: rows n' rule: plan_rows.induct)
  case (2 h n k ids raw raws)
  from "2.prems" obtain kvs where raw: "raw = JObj kvs" by (cases raw) auto
  from "2.prems" obtain sid row m rs where
    sid: "goal_text (if text_of h (jget kvs ''step_id'') = [] then new_id ''step'' (uuid4 h n)
        else text_of h (jget kvs ''step_id'')) ''step_id'' True 512 = Inr sid" "sid \<notin> set ids"
    and row: "plan_row_of h k sid kvs = Inr row"
    and rs: "plan_rows h m (Suc k) (sid # ids) raws = Inr (rs, n')"
    and m: "m = (if text_of h (jget kvs ''step_id'') = [] then Suc n else n)" and rows: "rows = row # rs"
    by (auto simp: raw Let_def)
  note IH = "2.IH"[OF raw refl sid(1) _ row rs[unfolded m]]
  have "[k..<k + length (raw # raws)] = k # [Suc k..<Suc k + length raws]" by (simp add: upt_conv_Cons del: upt_Suc)
  with IH sid(2) plan_row_of_Inr[OF row] show ?case by (auto simp: rows simp del: upt_Suc)
qed simp

lemma emap_all: "emap f xs = Inr ys \<Longrightarrow> x \<in> set xs \<Longrightarrow> \<exists>y. f x = Inr y"
  by (induction xs arbitrary: ys) auto

lemma row_refs_ok_Inr:
  assumes "row_refs_ok ids p = Inr u"
  shows "set (p_deps p) \<subseteq> set ids \<and> p_id p \<notin> set (p_deps p) \<and> (p_parent p = [] \<or> p_parent p \<in> set ids)"
proof -
  from assms obtain ys where parent: "p_parent p = [] \<or> p_parent p \<in> set ids" and
    deps: "emap (\<lambda>d. ebind (require (d \<in> set ids) (GoalValidationError (''unknown dependency: '' @ d)))
                (\<lambda>_. require (d \<noteq> p_id p) (GoalValidationError ''a step cannot depend on itself''))) (p_deps p) = Inr ys"
    by (auto simp: row_refs_ok_def)
  have "d \<in> set ids \<and> d \<noteq> p_id p" if "d \<in> set (p_deps p)" for d using emap_all[OF deps that] by auto
  with parent show ?thesis by blast
qed

text \<open>The edges of the plan table are those the search for cycles went along.\<close>

definition plan_edges :: "plan_row list \<Rightarrow> (string \<times> string) list" where
  "plan_edges rows = concat (map (\<lambda>p. map (Pair (p_id p)) (p_deps p)) rows)"

lemma deps_of_row: "distinct (map p_id rows) \<Longrightarrow> p \<in> set rows \<Longrightarrow> deps_of rows (p_id p) = Some (p_deps p)"
  using find_distinct_key[of p_id rows p] by (simp add: deps_of_def)

lemma deps_of_Some_row: "deps_of rows s = Some ds \<Longrightarrow> \<exists>p\<in>set rows. p_id p = s \<and> p_deps p = ds"
  using find_Some_key[of p_id s rows] by (auto simp: deps_of_def)

lemma plan_edges_depends:
  assumes "distinct (map p_id rows)" shows "set (plan_edges rows) = depends rows"
proof -
  have "x \<in> set (plan_edges rows) \<longleftrightarrow> (\<exists>p\<in>set rows. \<exists>d\<in>set (p_deps p). x = (p_id p, d))" for x
    by (auto simp: plan_edges_def)
  moreover have "x \<in> depends rows \<longleftrightarrow> (\<exists>p\<in>set rows. \<exists>d\<in>set (p_deps p). x = (p_id p, d))" for x
    using deps_of_row[OF assms] deps_of_Some_row[of rows] unfolding depends_def by (cases x) blast
  ultimately show ?thesis by blast
qed

definition good_plan :: "plan_row list \<Rightarrow> bool" where
  "good_plan rows \<longleftrightarrow> rows \<noteq> [] \<and> length rows \<le> max_plan_steps \<and> distinct (map p_id rows) \<and>
     map p_ordinal rows = [0..<length rows] \<and> (\<forall>p\<in>set rows. 1 \<le> p_max_attempts p \<and> p_max_attempts p \<le> 100) \<and>
     set (plan_edges rows) \<subseteq> p_id ` set rows \<times> p_id ` set rows \<and> acyclic (set (plan_edges rows))"

lemma normalize_plan_good:
  assumes "normalize_plan h n raws = Inr (rows, n')"
  shows "good_plan rows"
proof -
  from assms obtain u vs where raws: "raws \<noteq> []" "length raws \<le> max_plan_steps"
    and rows: "plan_rows h n 0 [] raws = Inr (rows, n')"
    and refs: "emap (row_refs_ok (map p_id rows)) rows = Inr u"
    and dfs: "visit_all rows (map p_id rows) [] [] = Inr vs"
    by (auto simp: normalize_plan_def)
  note r = plan_rows_Inr[OF rows]
  have len: "length rows = length raws" using r by (metis length_map length_upt add_0 diff_zero)
  have "topological rows vs" "p_id ` set rows \<subseteq> set vs" using visit_all_topological[OF dfs] by simp_all
  then have "acyclic (set (plan_edges rows))"
    using topological_acyclic plan_edges_depends r by metis
  moreover have "set (p_deps p) \<subseteq> p_id ` set rows" if "p \<in> set rows" for p
    using emap_all[OF refs that] row_refs_ok_Inr by fastforce
  ultimately show ?thesis
    using raws r len by (auto simp: good_plan_def plan_edges_def)
qed

lemma trancl_Un_disjoint:
  assumes "A \<subseteq> X \<times> X" and "B \<subseteq> Y \<times> Y" and "X \<inter> Y = {}" and "(x, y) \<in> (A \<union> B)\<^sup>+"
  shows "(x, y) \<in> A\<^sup>+ \<or> (x, y) \<in> B\<^sup>+"
  using assms(4)
proof (induction rule: trancl_induct)
  case (step y z)
  have "y \<in> X" if "(x, y) \<in> A\<^sup>+" using trancl_mono[OF that assms(1)] by (auto dest: tranclD2)
  moreover have "y \<in> Y" if "(x, y) \<in> B\<^sup>+" using trancl_mono[OF that assms(2)] by (auto dest: tranclD2)
  ultimately show ?case using step assms(1-3) by (auto intro: trancl_into_trancl)
qed auto

lemma acyclic_Un_disjoint:
  assumes "A \<subseteq> X \<times> X" and "B \<subseteq> Y \<times> Y" and "X \<inter> Y = {}" and "acyclic A" and "acyclic B"
  shows "acyclic (A \<union> B)"
proof (rule acyclicI, rule allI, rule notI)
  fix x assume "(x, x) \<in> (A \<union> B)\<^sup>+"
  from trancl_Un_disjoint[OF assms(1-3) this] assms(4,5) show False by (auto simp: acyclic_def)
qed

lemma plan_deps_keeps:
  assumes wf: "goal_wf db" and plan: "good_plan plan" and run: "efold (insert_step h gid tm) plan db = Inr db1"
  shows "keeps gid db1 (db1\<lparr>gd_deps := gd_deps db1 @ plan_edges plan\<rparr>)"
proof (rule keeps_tables)
  note rows = insert_steps_rows[OF run]
  have old: "acyclic (set (gd_deps db))" "set (gd_deps db) \<subseteq> s_id ` set (gd_steps db) \<times> s_id ` set (gd_steps db)"
    using wf by (simp_all add: goal_wf_def deps_wf_def)
  have new: "acyclic (set (plan_edges plan))" "set (plan_edges plan) \<subseteq> p_id ` set plan \<times> p_id ` set plan"
    using plan by (simp_all add: good_plan_def)
  have ids: "s_id ` set (gd_steps db1) = s_id ` set (gd_steps db) \<union> p_id ` set plan"
    using rows by (simp add: image_Un image_image new_step_row_def)
  have "acyclic (set (gd_deps db) \<union> set (plan_edges plan))"
    by (rule acyclic_Un_disjoint[OF old(2) new(2) _ old(1) new(1)]) (use rows in auto)
  then show "deps_wf (gd_steps db1) (gd_deps (db1\<lparr>gd_deps := gd_deps db1 @ plan_edges plan\<rparr>))"
    using old(2) new(2) rows unfolding deps_wf_def ids by auto
qed (simp_all add: goal_wf_def attention_wf_def)

lemma plan_goal_ends:
  assumes plan: "good_plan plan"
  shows "ends gid db (plan_goal_tx h gid plan n v c db)"
  unfolding post_def
proof (intro allI impI, rule keepsI)
  fix x db' assume run: "plan_goal_tx h gid plan n v c db = Inr (x, db')" and wf: "goal_wf db"
  let ?d = "take_draws (n - draws (gd_work db)) db"
  from run obtain goal db1 pl m where g: "goal_row_of gid ?d = Some goal"
    and ins: "efold (insert_step h (g_id goal) (clock h)) plan ?d = Inr db1"
    and adv: "advance_tx h c goal ''goal.planned'' pl [] 0 (clock h) (db1\<lparr>gd_deps := gd_deps db1 @ plan_edges plan\<rparr>) = Inr (m, db')"
    unfolding plan_goal_tx_def Let_def plan_edges_def by auto
  have gid: "g_id goal = gid" by (rule goal_row_id[OF g])
  have k0: "keeps gid db ?d" by (rule keeps_draws)
  then have wf0: "goal_wf ?d" using wf by (simp add: keeps_def)
  have k1: "keeps gid ?d db1"
    using insert_steps_keeps[OF ins[unfolded gid]] plan by (simp add: good_plan_def)
  note k2 = plan_deps_keeps[OF wf0 plan ins[unfolded gid]]
  show "keeps gid db db'"
    using keeps_trans[OF keeps_trans[OF keeps_trans[OF k0 k1] k2] keeps_advance[OF adv gid]] .
qed

section \<open>Creation\<close>

lemma clean_goal_args_id: "clean_goal_args h fresh q = Inr c \<Longrightarrow> clean_id (cg_id c)"
  by (auto simp: clean_goal_args_def goal_text_Inr clean_id_def text_arg_Inr py_strip_idem)

lemma create_goal_ends:
  assumes "clean_id (cg_id c)"
  shows "ends (cg_id c) db0 (create_goal_tx h q c db0)"
  unfolding post_def
proof (intro allI impI, rule keepsI)
  fix x db' assume run: "create_goal_tx h q c db0 = Inr (x, db')"
  let ?d = "if gq_id q = [] then take_draws 1 db0 else db0" and ?gid = "cg_id c"
  have k0: "keeps ?gid db0 ?d" by (simp add: keeps_draws keeps_refl)
  show "keeps ?gid db0 db'"
  proof (cases "goal_row_of ?gid ?d")
    case (Some g)
    then have "db' = ?d" using run by (auto simp: create_goal_tx_def Let_def)
    with k0 show ?thesis by simp
  next
    case None
    let ?row = "new_goal_row h q c"
    from run None obtain db1 sc e w where
      st: "efold (insert_initial_state h ?gid (clock h)) (gq_state q) (?d\<lparr>gd_goals := gd_goals ?d @ [?row]\<rparr>) = Inr db1"
      and ins: "insert_event_tx h (goal_event (gq_caller q) ?gid sc ''goal.created'' 1
               [(''status'', JStr ''draft''), (''title'', JStr (cg_title c))] (clock h)) (gd_work db1) = Inr (e, w)"
      and db': "db' = db1\<lparr>gd_work := w\<rparr>"
      unfolding create_goal_tx_def Let_def by auto
    have "\<exists>t. db1 = ?d\<lparr>gd_goals := gd_goals ?d @ [?row], gd_states := t\<rparr>"
    proof (rule efold_invariant[where I = "\<lambda>s. \<exists>t. s = ?d\<lparr>gd_goals := gd_goals ?d @ [?row], gd_states := t\<rparr>", OF st])
      show "\<exists>t. ?d\<lparr>gd_goals := gd_goals ?d @ [?row]\<rparr> = ?d\<lparr>gd_goals := gd_goals ?d @ [?row], gd_states := t\<rparr>"
        by (rule exI[where x = "gd_states ?d"]) simp
    qed (auto simp: insert_initial_state_def)
    then obtain t where db1: "db1 = ?d\<lparr>gd_goals := gd_goals ?d @ [?row], gd_states := t\<rparr>" by blast
    then have w1: "gd_work db1 = gd_work ?d" by simp
    from goal_event_append[OF ins[unfolded w1] assms] obtain o' where ap: "appended (gd_work ?d) e o' w"
      and e: "aggregate_kind e = ''goal''" "aggregate_id e = ?gid" by blast
    have row: "g_id ?row = ?gid" "g_version ?row = 1" "goal_ok ?row"
      using assms by (simp_all add: new_goal_row_def goal_ok_def goal_terminal_iff)
    have fresh: "g_id ?row \<notin> g_id ` set (gd_goals ?d)"
      using None unfolding goal_row_of_def find_None_key row(1) .
    have "keeps ?gid ?d db'"
      unfolding keeps_def
    proof (rule impI)
      assume wf: "goal_wf ?d"
      then have w: "repo_wf w \<and> work_keeps (gd_work ?d) w" using append_goal_work[OF _ ap e(1)] by (simp add: goal_wf_def)
      have d': "gd_goals db' = gd_goals ?d @ [?row]" "gd_work db' = w" "gd_steps db' = gd_steps ?d" "gd_deps db' = gd_deps ?d"
        "gd_attempts db' = gd_attempts ?d" "gd_effects db' = gd_effects ?d" "gd_attention db' = gd_attention ?d"
        by (simp_all add: db' db1)
      have "aggregate_wf ''goal'' g_id g_version goal_ok (gd_goals ?d @ [?row]) w"
        by (rule aggregate_wf_insert[where k = "''goal''" and key = g_id and ver = g_version and ok = goal_ok, OF _ ap e(1) _ fresh row(3,2)]) (use wf e row in \<open>simp_all add: goal_wf_def goals_wf_def\<close>)
      moreover have "attention_wf db'"
        using wf w settled_kept_settled unfolding goal_wf_def attention_wf_def work_keeps_def d' by blast
      ultimately have "goal_wf db'" using wf w unfolding goal_wf_def goals_wf_def steps_wf_def d' by simp
      moreover have "goal_moves ?d db'"
        unfolding goal_moves_def goal_row_of_def step_row_of_def d' by (auto simp: find_append)
      moreover have "only_goal ?gid ?d db'"
        using e row(1) unfolding only_goal_def goal_log_def goal_row_of_def d' appended_frame(6)[OF ap]
        by (auto simp: find_append split: option.split)
      ultimately show "goal_wf db' \<and> goal_moves ?d db' \<and> work_keeps (gd_work ?d) (gd_work db') \<and> only_goal ?gid ?d db'"
        using w unfolding d' by blast
    qed
    with k0 show ?thesis using keeps_trans by blast
  qed
qed

end
