(* ===== verification/Goal_Runs.thy ===== *)
theory Goal_Runs
  imports Goal_Store
begin

text \<open>
  The goal repository as a whole: the operations that name an expected version, all operations on
  one goal, the step relation of the store together with the Work Fabric underneath, and the steps
  of goals as leased rows under the fencing contract.
\<close>

section \<open>Operations with an expected version\<close>

inductive versioned :: "string \<Rightarrow> int \<Rightarrow> goal_db \<Rightarrow> goal_db \<Rightarrow> bool" where
  "plan_goal h gid steps v c db = (Inr x1, db') \<Longrightarrow> versioned gid v db db'"
| "transition_goal h gid st v reason summary c etype db = (Inr x2, db') \<Longrightarrow> versioned gid v db db'"
| "update_budget_usage h gid delta v c db = (Inr x3, db') \<Longrightarrow> versioned gid v db db'"
| "state_set h gid key value v c db = (Inr x4, db') \<Longrightarrow> versioned gid v db db'"
| "attach_artifact h gid ref v role sid meta c db = (Inr x5, db') \<Longrightarrow> versioned gid v db db'"
| "set_step_status h gid sid st v sv reason available c db = (Inr x6, db') \<Longrightarrow> versioned gid v db db'"
| "lease_step h gid sid v worker ttl c db = (Inr x7, db') \<Longrightarrow> versioned gid v db db'"
| "start_step h gid sid v worker epoch c db = (Inr x8, db') \<Longrightarrow> versioned gid v db db'"
| "finish_step h gid sid v q c db = (Inr x9, db') \<Longrightarrow> versioned gid v db db'"
| "update_attempt_projection h gid sid v ap c db = (Inr x10, db') \<Longrightarrow> versioned gid v db db'"
| "retry_step h gid sid v delay cont c db = (Inr x11, db') \<Longrightarrow> versioned gid v db db'"
| "create_wait h gid sid v source matcher wake c db = (Inr x12, db') \<Longrightarrow> versioned gid v db db'"
| "wait_row_of wid db = Some w \<Longrightarrow> satisfy_wait h wid v res ev c db = (Inr x13, db') \<Longrightarrow> versioned (w_goal w) v db db'"
| "request_input h gid sid v question sch c db = (Inr x14, db') \<Longrightarrow> versioned gid v db db'"
| "attention_row_of aid db = Some r \<Longrightarrow> respond_input h aid answer v av c db = (Inr x15, db') \<Longrightarrow>
    versioned (at_goal r) v db db'"

text \<open>What such an operation does to the version: nothing, or one more than the expected one.\<close>

definition bumped :: "string \<Rightarrow> int \<Rightarrow> goal_db \<Rightarrow> bool" where
  "bumped gid v db \<longleftrightarrow> (\<exists>r\<in>set (gd_goals db). g_id r = gid \<and> g_version r = v + 1)"

definition cas :: "string \<Rightarrow> int \<Rightarrow> goal_db \<Rightarrow> goal_db \<Rightarrow> bool" where
  "cas gid v db db' \<longleftrightarrow> (\<exists>g. goal_row_of gid db = Some g \<and> g_version g = v) \<and> (db' = db \<or> bumped gid v db')"

lemma advance_bumped:
  assumes "advance_tx h c goal etype pl sid att tm db1 = Inr (n, db')"
  shows "bumped (g_id goal) (g_version goal) db'"
proof -
  from assms obtain t where u: "sql_update (\<lambda>r. g_id r = g_id goal \<and> g_version r = g_version goal)
        (\<lambda>r. r\<lparr>g_version := g_version goal + 1, g_updated := tm\<rparr>) (gd_goals db1) = (1, t)"
    and t: "gd_goals db' = t"
    by (auto simp: advance_tx_def split: prod.splits)
  from u have "filter (\<lambda>r. g_id r = g_id goal \<and> g_version r = g_version goal) (gd_goals db1) \<noteq> []"
    by (auto simp: sql_update_def)
  then obtain r where "r \<in> set (gd_goals db1)" "g_id r = g_id goal \<and> g_version r = g_version goal"
    by (auto simp: filter_empty_conv)
  then have "r\<lparr>g_version := g_version goal + 1, g_updated := tm\<rparr> \<in> set t"
    using u by (auto simp: sql_update_def image_iff intro!: bexI[of _ r])
  then show ?thesis using \<open>g_id r = g_id goal \<and> _\<close> unfolding bumped_def t by (intro bexI) simp_all
qed

lemma bumps_advance:
  "g_id goal = gid \<Longrightarrow> g_version goal = v \<Longrightarrow> (\<And>n db'. bumped gid v db' \<Longrightarrow> post (cas gid v db) (f (n, db'))) \<Longrightarrow>
     post (cas gid v db) (ebind (advance_tx h c goal etype pl sid att tm db1) f)"
  by (rule ends_ebind) (metis advance_bumped surj_pair)

lemma ends_prod: "(\<And>x y. a = (x, y) \<Longrightarrow> post Q (f x y)) \<Longrightarrow> post Q (case a of (x, y) \<Rightarrow> f x y)"
  by (cases a) simp

lemma goal_row_of_frame [simp]:
  "goal_row_of gid (take_draws n db) = goal_row_of gid db"
  by (simp add: goal_row_of_def)

lemma set_step_status_cas: "post (cas gid v db) (set_step_status_tx h gid sid target v sv reason av c db)"
  unfolding set_step_status_tx_def Let_def
  by (intro ends_rules bumps_advance | assumption)+ (simp_all add: cas_def)

lemma plan_goal_cas: "post (cas gid v db) (plan_goal_tx h gid plan n v c db)"
  unfolding plan_goal_tx_def Let_def
  by (intro ends_rules bumps_advance ends_ebind | assumption)+ (simp_all add: cas_def)

lemma transition_goal_cas: "post (cas gid v db) (transition_goal_tx h gid target v reason summary c etype db)"
  unfolding transition_goal_tx_def Let_def
  by (intro ends_rules bumps_advance ends_ebind | assumption)+ (simp_all add: cas_def)

lemma update_budget_usage_cas: "post (cas gid v db) (update_budget_usage_tx h gid delta v c db)"
  unfolding update_budget_usage_tx_def Let_def
  by (intro ends_rules bumps_advance ends_ebind | assumption)+ (simp_all add: cas_def)

lemma state_set_cas: "post (cas gid v db) (state_set_tx h gid k value v c db)"
  unfolding state_set_tx_def Let_def
  by (intro ends_rules bumps_advance ends_ebind | assumption)+ (simp_all add: cas_def)

lemma attach_artifact_cas: "post (cas gid v db) (attach_artifact_tx h gid ref v role sid meta c db)"
  unfolding attach_artifact_tx_def Let_def
  by (intro ends_rules bumps_advance ends_ebind ends_prod | assumption)+ (simp_all add: cas_def)

lemma lease_step_cas: "post (cas gid v db) (lease_step_tx h gid sid v worker ttl c db)"
  unfolding lease_step_tx_def Let_def
  by (intro ends_rules bumps_advance | assumption)+ (simp_all add: cas_def)

lemma start_step_cas: "post (cas gid v db) (start_step_tx h gid sid v w e c db)"
  unfolding start_step_tx_def Let_def
  by (intro ends_rules bumps_advance | assumption)+ (simp_all add: cas_def)

lemma finish_step_cas: "post (cas gid v db) (finish_step_tx h gid sid target v q c db)"
  unfolding finish_step_tx_def Let_def
  by (intro ends_rules bumps_advance | assumption)+ (simp_all add: cas_def)

lemma update_attempt_projection_cas: "post (cas gid v db) (update_attempt_projection_tx h gid sid v q c db)"
  unfolding update_attempt_projection_tx_def Let_def
  by (intro ends_rules bumps_advance ends_ebind | assumption)+ (simp_all add: cas_def)

lemma retry_step_cas: "post (cas gid v db) (retry_step_tx h gid sid v dl cont c db)"
  unfolding retry_step_tx_def Let_def
  by (intro ends_rules bumps_advance | assumption)+ (simp_all add: cas_def)

lemma create_wait_cas: "post (cas gid v db) (create_wait_tx h gid sid v source matcher wake wid c db)"
  unfolding create_wait_tx_def Let_def
  by (intro ends_rules bumps_advance | assumption)+ (simp_all add: cas_def)

lemma satisfy_wait_cas:
  assumes "wait_row_of wid db = Some w"
  shows "post (cas (w_goal w) v db) (satisfy_wait_tx h wid v value event c db)"
  unfolding satisfy_wait_tx_def Let_def assms option.case
  by (intro ends_rules bumps_advance ends_ebind | assumption)+ (simp_all add: cas_def)

lemma request_input_cas: "post (cas gid v db) (request_input_tx h gid sid v p sch aid wid c db)"
  unfolding request_input_tx_def Let_def
  by (intro ends_rules bumps_advance | assumption)+ (simp_all add: cas_def)

lemma respond_input_cas:
  assumes "attention_row_of aid db = Some r"
  shows "post (cas (at_goal r) v db) (respond_input_tx h aid answer v av c db)"
proof -
  have "open_attention aid db = Inr r" using assms by (simp add: open_attention_Inr)
  then show ?thesis
    unfolding respond_input_tx_def Let_def
    by (simp only: ebind_Inr, (intro ends_rules bumps_advance ends_ebind | assumption)+) (simp_all add: cas_def)
qed

text \<open>A transaction that commits ends as its body does.\<close>

lemma write_post: "goal_write h body db = (Inr x, db') \<Longrightarrow> post Q (body db) \<Longrightarrow> Q db'"
  by (simp add: goal_write_Inr post_def)

lemma versioned_cas:
  assumes "versioned gid v db db'" shows "cas gid v db db'"
  using assms
proof cases
  case (1 h steps c x1)
  then show ?thesis by (auto simp: plan_goal_def split: sum.splits elim!: write_post intro: plan_goal_cas)
next
  case (2 h st reason summary c etype x2)
  then show ?thesis by (auto simp: transition_goal_def split: sum.splits option.splits elim!: write_post intro: transition_goal_cas)
next
  case (3 h delta c x3)
  then show ?thesis unfolding update_budget_usage_def by (rule write_post) (rule update_budget_usage_cas)
next
  case (4 h k val c x4)
  then show ?thesis by (auto simp: state_set_def split: sum.splits elim!: write_post intro: state_set_cas)
next
  case (5 h rf role sid md c x5)
  then show ?thesis by (auto simp: attach_artifact_def split: sum.splits elim!: write_post intro: attach_artifact_cas)
next
  case (6 h sid st sv reason av c x6)
  then show ?thesis by (auto simp: set_step_status_def split: sum.splits option.splits elim!: write_post intro: set_step_status_cas)
next
  case (7 h sid worker ttl c x7)
  then show ?thesis by (auto simp: lease_step_def split: sum.splits elim!: write_post intro: lease_step_cas)
next
  case (8 h sid worker ep c x8)
  then show ?thesis unfolding start_step_def by (rule write_post) (rule start_step_cas)
next
  case (9 h sid fq c x9)
  then show ?thesis by (auto simp: finish_step_def split: option.splits if_splits elim!: write_post intro: finish_step_cas)
next
  case (10 h sid ap c x10)
  then show ?thesis
    by (auto simp: update_attempt_projection_def split: sum.splits elim!: write_post intro: update_attempt_projection_cas)
next
  case (11 h sid dl ct c x11)
  then show ?thesis unfolding retry_step_def by (rule write_post) (rule retry_step_cas)
next
  case (12 h sid src mt wk c x12)
  then show ?thesis by (auto simp: create_wait_def split: sum.splits elim!: write_post intro: create_wait_cas)
next
  case (13 wid w h res ev c x13)
  then show ?thesis unfolding satisfy_wait_def by (auto elim!: write_post intro: satisfy_wait_cas)
next
  case (14 h sid question sch c x14)
  then show ?thesis by (auto simp: request_input_def split: sum.splits elim!: write_post intro: request_input_cas)
next
  case (15 aid r h answer av c x15)
  then show ?thesis unfolding respond_input_def by (auto elim!: write_post intro: respond_input_cas)
qed

lemma drawn_interaction_clean: "py_strip (drawn h ''interaction'' i db) = drawn h ''interaction'' i db"
proof -
  have "\<not> py_space c \<and> c \<noteq> nul" if "c \<in> set ''interaction''" for c
    using that by (auto simp: py_space_def nul_def char_of_def)
  from new_id_clean(1)[of "''interaction''", OF this] show ?thesis by (simp add: drawn_def)
qed

lemma versioned_keeps:
  assumes "versioned gid v db db'" shows "keeps gid db db'"
  using assms
proof cases
  case (1 h steps c x1)
  then show ?thesis
    by (auto simp: plan_goal_def split: sum.splits elim!: write_post intro!: plan_goal_ends dest: normalize_plan_good)
next
  case (2 h st reason summary c etype x2)
  then show ?thesis by (auto simp: transition_goal_def split: sum.splits option.splits elim!: write_post intro: transition_goal_ends)
next
  case (3 h delta c x3)
  then show ?thesis unfolding update_budget_usage_def by (rule write_post) (rule update_budget_usage_ends)
next
  case (4 h k val c x4)
  then show ?thesis by (auto simp: state_set_def split: sum.splits elim!: write_post intro: state_set_ends)
next
  case (5 h rf role sid md c x5)
  then show ?thesis by (auto simp: attach_artifact_def split: sum.splits elim!: write_post intro: attach_artifact_ends)
next
  case (6 h sid st sv reason av c x6)
  then show ?thesis by (auto simp: set_step_status_def split: sum.splits option.splits elim!: write_post intro: set_step_status_ends)
next
  case (7 h sid worker ttl c x7)
  then show ?thesis by (auto simp: lease_step_def split: sum.splits elim!: write_post intro: lease_step_ends)
next
  case (8 h sid worker ep c x8)
  then show ?thesis unfolding start_step_def by (rule write_post) (rule start_step_ends)
next
  case (9 h sid fq c x9)
  then show ?thesis by (auto simp: finish_step_def split: option.splits if_splits elim!: write_post intro: finish_step_ends)
next
  case (10 h sid ap c x10)
  then show ?thesis
    by (auto simp: update_attempt_projection_def split: sum.splits elim!: write_post intro: update_attempt_projection_ends)
next
  case (11 h sid dl ct c x11)
  then show ?thesis unfolding retry_step_def by (rule write_post) (rule retry_step_ends)
next
  case (12 h sid src mt wk c x12)
  then show ?thesis by (auto simp: create_wait_def split: sum.splits elim!: write_post intro: create_wait_ends)
next
  case (13 wid w h res ev c x13)
  then show ?thesis unfolding satisfy_wait_def by (auto elim!: write_post intro: satisfy_wait_ends)
next
  case (14 h sid question sch c x14)
  then show ?thesis
    by (auto simp: request_input_def drawn_interaction_clean split: sum.splits elim!: write_post intro: request_input_ends)
next
  case (15 aid r h answer av c x15)
  show ?thesis
  proof (rule keepsI)
    assume wf: "goal_wf db"
    from 15(3) respond_input_ends[OF 15(2) wf] show "keeps gid db db'"
      unfolding respond_input_def 15(1) by (rule write_post)
  qed
qed

section \<open>All operations on one goal\<close>

text \<open>
  Creation, the heartbeat, the ledger and the two operations that name no version of the goal (a
  skipped question, a user's stop) beside those that name one.
\<close>

inductive goal_op :: "string \<Rightarrow> goal_db \<Rightarrow> goal_db \<Rightarrow> bool" where
  op_versioned: "versioned gid v db db' \<Longrightarrow> goal_op gid db db'"
| op_create: "create_goal h q db = (Inr g, db') \<Longrightarrow> goal_op (g_id g) db db'"
| op_heartbeat: "heartbeat_step h gid sid worker epoch ttl db = (Inr s, db') \<Longrightarrow> goal_op gid db db'"
| op_record: "record_effect h gid sid v kind key request st c db = (Inr e, db') \<Longrightarrow> goal_op gid db db'"
| op_update: "get_effect eid db = Some r \<Longrightarrow> update_effect h eid v st resp receipt err c db = (Inr e, db') \<Longrightarrow>
    goal_op (e_goal r) db db'"
| op_skip: "attention_row_of aid db = Some a \<Longrightarrow> dismiss_input h aid av c db = (Inr d, db') \<Longrightarrow> goal_op (at_goal a) db db'"
| op_cancel: "cancel_goal h gid v reason c chat db = (Inr g, db') \<Longrightarrow> goal_op gid db db'"

lemma create_goal_id:
  assumes "create_goal_tx h q c db = Inr (g, db')" shows "g_id g = cg_id c"
  using assms goal_row_id by (auto simp: create_goal_tx_def Let_def new_goal_row_def split: option.splits)

lemma goal_op_keeps:
  assumes "goal_op gid db db'" shows "keeps gid db db'"
  using assms
proof cases
  case (op_versioned v)
  then show ?thesis by (rule versioned_keeps)
next
  case (op_create h q g)
  then obtain c where c: "clean_goal_args h (drawn h ''goal'' 0 db) q = Inr c"
    and w: "goal_write h (create_goal_tx h q c) db = (Inr g, db')"
    by (auto simp: create_goal_def split: sum.splits)
  then have "create_goal_tx h q c db = Inr (g, db')" by (simp add: goal_write_Inr)
  then show ?thesis
    using write_post[OF w create_goal_ends[OF clean_goal_args_id[OF c]]] create_goal_id op_create(1) by metis
next
  case (op_heartbeat h sid worker ep ttl s)
  then show ?thesis unfolding heartbeat_step_def by (elim write_post) (rule heartbeat_step_ends)
next
  case (op_record h sid v kind key request st c e)
  then show ?thesis by (auto simp: record_effect_def split: sum.splits option.splits elim!: write_post intro: record_effect_ends)
next
  case (op_update eid r h v st resp receipt err c e)
  then show ?thesis by (auto simp: update_effect_def split: option.splits elim!: write_post intro: update_effect_ends)
next
  case (op_skip aid a h av c d)
  then show ?thesis unfolding dismiss_input_def by (auto elim!: write_post intro: dismiss_input_ends)
next
  case (op_cancel h v reason c chat g)
  then show ?thesis by (auto simp: cancel_goal_def split: sum.splits elim!: write_post intro: cancel_goal_ends)
qed

section \<open>Steps of the store\<close>

text \<open>
  An operation on a goal, or an operation of the Work Fabric that appends no event of a goal (only
  this repository does).  An operation that raises leaves the store as it was.
\<close>

inductive goal_step :: "goal_db \<Rightarrow> goal_db \<Rightarrow> bool" where
  step_goal: "goal_op gid db db' \<Longrightarrow> goal_step db db'"
| step_work: "repo_step (gd_work db) w \<Longrightarrow> kind_events w ''goal'' = kind_events (gd_work db) ''goal'' \<Longrightarrow>
    goal_step db (db\<lparr>gd_work := w\<rparr>)"

definition reachable_goals :: "goal_db \<Rightarrow> bool" where
  "reachable_goals db \<longleftrightarrow> goal_step\<^sup>*\<^sup>* empty_goal_db db"

lemma goal_wf_empty: "goal_wf empty_goal_db"
proof -
  have "aggregate_wf ''goal'' g_id g_version goal_ok [] empty_db" by (simp add: aggregate_wf_def empty_db_def)
  then show ?thesis
    by (simp add: goal_wf_def goals_wf_def steps_wf_def attempts_wf_def effects_wf_def deps_wf_def attention_wf_def
        effect_numbers_def effect_keys_def empty_goal_db_def repo_wf_empty acyclic_def)
qed

lemma goal_wf_work:
  assumes wf: "goal_wf db" and w: "repo_wf w" "settled_kept (gd_work db) w"
    and k: "kind_events w ''goal'' = kind_events (gd_work db) ''goal''"
  shows "goal_wf (db\<lparr>gd_work := w\<rparr>)"
proof -
  have "attention_wf (db\<lparr>gd_work := w\<rparr>)"
    using wf settled_kept_settled[OF w(2)] by (simp add: goal_wf_def attention_wf_def)
  then show ?thesis
    using wf w(1) by (simp add: goal_wf_def goals_wf_def steps_wf_def aggregate_wf_frame[OF k])
qed

lemma goal_step_good:
  assumes "goal_step db db'" and wf: "goal_wf db"
  shows "goal_wf db' \<and> goal_moves db db'"
  using assms(1)
proof cases
  case (step_goal gid)
  then show ?thesis using goal_op_keeps wf by (auto simp: keeps_def)
next
  case (step_work w)
  have r: "repo_wf (gd_work db)" using wf by (simp add: goal_wf_def)
  have "repo_wf w" using repo_step_good[OF step_work(2) r] by (simp add: good_step_def)
  from goal_wf_work[OF wf this repo_step_settled[OF step_work(2) r] step_work(3)]
  show ?thesis by (simp add: step_work(1) goal_moves_def goal_row_of_def step_row_of_def)
qed

text \<open>The leases of the steps.\<close>

definition step_epoch :: "goal_db \<Rightarrow> string \<Rightarrow> int option" where
  "step_epoch db i = map_option s_epoch (step_row_of i db)"

definition step_holder :: "goal_db \<Rightarrow> string \<Rightarrow> (string \<times> int) option" where
  "step_holder db i = (case step_row_of i db of None \<Rightarrow> None
     | Some s \<Rightarrow> if s_owner s = [] then None else Some (s_owner s, s_epoch s))"

lemma goal_moves_step:
  assumes "goal_moves db db'" and "step_row_of i db = Some s"
  obtains s' where "step_row_of i db' = Some s'" "step_move s s'"
  using assms unfolding goal_moves_def by blast

interpretation step_lease: lease_fence goal_wf goal_step step_epoch step_holder
proof
  fix s s' :: goal_db and i w :: string and e :: int
  assume wf: "goal_wf s"
  show "step_holder s i = Some (w, e) \<Longrightarrow> step_epoch s i = Some e"
    by (auto simp: step_holder_def step_epoch_def split: option.splits if_splits)
  assume st: "goal_step s s'"
  have m: "goal_moves s s'" using goal_step_good[OF st wf] by simp
  show "goal_wf s'" using goal_step_good[OF st wf] by simp
  show "step_epoch s i = Some e \<Longrightarrow> \<exists>e'. step_epoch s' i = Some e' \<and> e \<le> e'"
    by (auto simp: step_epoch_def step_move_def elim!: goal_moves_step[OF m])
  show "step_holder s i = Some (w, e) \<or> (\<forall>e0. step_epoch s i = Some e0 \<longrightarrow> e0 < e)" if "step_holder s' i = Some (w, e)"
  proof (cases "step_row_of i s")
    case (Some r)
    from goal_moves_step[OF m this] obtain r' where "step_row_of i s' = Some r'" "step_move r r'" .
    with that Some show ?thesis by (auto simp: step_holder_def step_epoch_def step_move_def split: if_splits)
  qed (simp add: step_epoch_def)
qed

end
