(* ===== verification/Goal_Samples.thy ===== *)
theory Goal_Samples
  imports Goal_Runs Work_Samples
begin

text \<open>
  Concrete stores for the witnesses: a goal is created, planned with two steps, its first step made
  ready and leased.  The first operation is evaluated by the simplifier; the later ones are proved
  over the tables of the store before, the event of each by \<open>advance_sample\<close>.
\<close>

definition caller0 :: caller where
  "caller0 = \<lparr>ca_actor = None, ca_correlation = []\<rparr>"

definition request0 :: goal_request where
  "request0 = \<lparr>gq_title = ''t'', gq_objective = ''o'', gq_owner = ''c'', gq_workspace = [], gq_constraints = [],
     gq_criteria = [], gq_policy = [], gq_priority = 0, gq_limits = [], gq_deadline = 0, gq_state = [],
     gq_id = ''g'', gq_caller = caller0\<rparr>"

definition goal1 :: goal_row where
  "goal1 = \<lparr>g_id = ''g'', g_owner = ''c'', g_workspace = [], g_title = ''t'', g_objective = ''o'',
     g_constraints = [], g_criteria = [], g_policy = [(''kind'', JStr ''all_required'')], g_status = GDraft,
     g_priority = 0, g_version = 1, g_limits = [], g_usage = [], g_deadline = None, g_pause_reason = [],
     g_worktree = [], g_summary_ref = [], g_created = 100, g_updated = 100, g_completed = None, g_archived = None\<rparr>"

definition created :: goal_db where
  "created = snd (create_goal host0 request0 empty_goal_db)"

lemma create_sample:
  "case create_goal host0 request0 empty_goal_db of (r, db) \<Rightarrow> r = Inr goal1 \<and> gd_goals db = [goal1] \<and>
     gd_steps db = [] \<and> gd_deps db = [] \<and> gd_attempts db = [] \<and> gd_states db = [] \<and> gd_waits db = [] \<and>
     gd_effects db = [] \<and> gd_attention db = [] \<and> gd_artifacts db = [] \<and> length (events (gd_work db)) = 1"
  by code_simp

lemma created_run: "create_goal host0 request0 empty_goal_db = (Inr goal1, created)"
  using create_sample by (simp add: created_def split_beta prod_eq_iff)

lemma created_tables [simp]:
  "gd_goals created = [goal1]" "gd_steps created = []" "gd_deps created = []" "gd_attempts created = []"
  "gd_states created = []" "gd_waits created = []" "gd_effects created = []" "gd_attention created = []"
  "gd_artifacts created = []"
  using create_sample by (simp_all add: created_def split_beta)

lemma created_step: "goal_step empty_goal_db created"
  using created_run by (rule step_goal[OF op_create])

lemma created_reachable: "reachable_goals created"
  unfolding reachable_goals_def using created_step by (rule r_into_rtranclp)

section \<open>Mutations that commit\<close>

lemma hex_digit_inj: "hex_digit a = hex_digit b \<Longrightarrow> a < 16 \<Longrightarrow> b < 16 \<Longrightarrow> a = b"
  using arg_cong[of "hex_digit a" "hex_digit b" "of_char :: char \<Rightarrow> nat"]
  by (auto simp: hex_digit_def split: if_splits)

lemma uuid_hex_end: "uuid_hex n = map (\<lambda>i. hex_digit ((n div 16 ^ i) mod 16)) (rev [2..<32]) @
    [hex_digit ((n div 16) mod 16), hex_digit (n mod 16)]"
proof -
  have "[0..<32] = 0 # 1 # [2..<32::nat]" by (simp add: upt_rec)
  then show ?thesis unfolding uuid_hex_def by simp
qed

lemma new_id_inj: "new_id p a = new_id p b \<Longrightarrow> a < 256 \<Longrightarrow> b < 256 \<Longrightarrow> a = b"
proof -
  assume eq: "new_id p a = new_id p b" and l: "a < 256" "b < 256"
  have "hex_digit ((a div 16) mod 16) = hex_digit ((b div 16) mod 16)" "hex_digit (a mod 16) = hex_digit (b mod 16)"
    using eq unfolding new_id_def uuid_hex_end by simp_all
  then have "(a div 16) mod 16 = (b div 16) mod 16" "a mod 16 = b mod 16"
    by (auto dest: hex_digit_inj)
  moreover have "(a div 16) mod 16 = a div 16" "(b div 16) mod 16 = b div 16" using l by auto
  ultimately show "a = b" by (metis div_mod_decomp)
qed

text \<open>The log of the sample goal: the draws taken, the goal's last version, the names in use.\<close>

definition log_at :: "nat \<Rightarrow> int \<Rightarrow> work_db \<Rightarrow> bool" where
  "log_at n v w \<longleftrightarrow> draws w = n \<and> max_version w ''goal'' ''g'' = v \<and>
     (\<forall>e\<in>set (events w). \<exists>k<n. event_id e = new_id ''evt'' k) \<and>
     (\<forall>r\<in>set (outbox w). \<exists>k<n. outbox_id r = new_id ''out'' k)"

definition event_ready :: "goal_row \<Rightarrow> string \<Rightarrow> int \<Rightarrow> string \<Rightarrow> jobject \<Rightarrow> bool" where
  "event_ready goal sid att etype pl \<longleftrightarrow> (case goal_scope goal sid att of Inl _ \<Rightarrow> False | Inr sc \<Rightarrow>
     (case clean_event_args host0 (goal_event caller0 ''g'' sc etype (g_version goal + 1) pl 100) of Inl _ \<Rightarrow> False
      | Inr c \<Rightarrow> g_id goal = ''g'' \<and> cl_kind c = ''goal'' \<and> cl_aggregate c = ''g'' \<and> cl_idem c = [] \<and>
          \<not> isl (store_json host0 (to_dict (cl_scope c))) \<and> \<not> isl (store_json host0 (cl_payload c))))"

lemma not_Inl: "\<not> isl r \<Longrightarrow> \<exists>x. r = Inr x"
  by (cases r) simp_all

lemma advance_sample:
  assumes ready: "event_ready goal sid att etype pl" and log: "log_at n (g_version goal) (gd_work db)" and n: "n < 200"
    and upd: "sql_update (\<lambda>r. g_id r = g_id goal \<and> g_version r = g_version goal)
        (\<lambda>r. r\<lparr>g_version := g_version goal + 1, g_updated := 100\<rparr>) (gd_goals db) = (1, t)"
  obtains w where "advance_tx host0 caller0 goal etype pl sid att 100 db =
      Inr (g_version goal + 1, db\<lparr>gd_goals := t, gd_work := w\<rparr>)"
    "log_at (n + 2) (g_version goal + 1) w" "interactions w = interactions (gd_work db)"
proof -
  let ?w = "gd_work db"
  from ready obtain sc c s p where sc: "goal_scope goal sid att = Inr sc"
    and c: "clean_event_args host0 (goal_event caller0 ''g'' sc etype (g_version goal + 1) pl 100) = Inr c"
    and cl: "g_id goal = ''g''" "cl_kind c = ''goal''" "cl_aggregate c = ''g''" "cl_idem c = []"
    and st: "store_json host0 (to_dict (cl_scope c)) = Inr s" "store_json host0 (cl_payload c) = Inr p"
    by (auto simp: event_ready_def dest!: not_Inl split: sum.splits)
  let ?q = "goal_event caller0 ''g'' sc etype (g_version goal + 1) pl 100"
  let ?e = "new_event_row host0 ?q c (g_version goal + 1) p ?w" and ?o = "new_outbox_row host0 ?q ?w"
  let ?w' = "?w\<lparr>events := events ?w @ [?e], event_counter := sequence ?e, outbox := outbox ?w @ [?o], draws := Suc (Suc (draws ?w))\<rparr>"
  have d: "draws ?w = n" and v: "max_version ?w ''goal'' ''g'' = g_version goal" using log by (simp_all add: log_at_def)
  have id: "event_id ?e = new_id ''evt'' n" "outbox_id ?o = new_id ''out'' (Suc n)"
    by (simp_all add: new_event_row_def new_outbox_row_def host0_def d)
  have fresh: "event_id ?e \<notin> event_id ` set (events ?w)" "outbox_id ?o \<notin> outbox_id ` set (outbox ?w)"
    using log n new_id_inj[of _ n] new_id_inj[of _ "Suc n"] unfolding id log_at_def by fastforce+
  have q: "req_aggregate_version ?q = Some (g_version goal + 1)" "req_expected_version ?q = Some (g_version goal)"
    by (simp_all add: goal_event_def event_request0_def)
  have "append_event_row host0 ?q c (g_version goal + 1) ?w = Inr (?e, ?w')"
    unfolding append_event_row_def st ebind_Inr Let_def by (simp only: fresh require_def if_True not_False_eq_True ebind_Inr)
  then have ins: "insert_event_tx host0 ?q ?w = Inr (?e, ?w')"
    unfolding insert_event_tx_def c ebind_Inr prior_event_def cl q option.case Let_def v
    by (simp add: require_def)
  have "max_version ?w' ''goal'' ''g'' = g_version goal + 1"
    using v by (simp add: max_version_def new_event_row_def cl)
  then have "log_at (n + 2) (g_version goal + 1) ?w'"
    using log id by (auto simp: log_at_def d intro: less_SucI) (metis less_Suc_eq)+
  moreover have "advance_tx host0 caller0 goal etype pl sid att 100 db = Inr (g_version goal + 1, db\<lparr>gd_goals := t, gd_work := ?w'\<rparr>)"
    by (simp add: advance_tx_def upd[unfolded cl(1)] upd sc ins cl as_goal_conflict_def)
  ultimately show thesis by (intro that[of ?w']) simp_all
qed

lemma created_names:
  "case snd (create_goal host0 request0 empty_goal_db) of db \<Rightarrow> draws (gd_work db) = 2 \<and>
    max_version (gd_work db) ''goal'' ''g'' = 1 \<and>
    map event_id (events (gd_work db)) = [new_id ''evt'' 0] \<and> map outbox_id (outbox (gd_work db)) = [new_id ''out'' 1]"
  by code_simp

lemma created_log: "log_at 2 1 (gd_work created)"
proof -
  have "event_id e = new_id ''evt'' 0" if "e \<in> set (events (gd_work created))" for e
    using created_names that unfolding created_def[symmetric] by (auto simp: map_eq_Cons_conv)
  moreover have "outbox_id r = new_id ''out'' 1" if "r \<in> set (outbox (gd_work created))" for r
    using created_names that unfolding created_def[symmetric] by (auto simp: map_eq_Cons_conv)
  moreover have "draws (gd_work created) = 2" "max_version (gd_work created) ''goal'' ''g'' = 1"
    using created_names unfolding created_def[symmetric] by simp_all
  ultimately show ?thesis
    unfolding log_at_def by (intro conjI ballI exI[of _ 0] exI[of _ 1]) (simp_all del: One_nat_def)
qed

definition plan0 :: "json list" where
  "plan0 = [JObj [(''step_id'', JStr ''a''), (''kind'', JStr ''agent''), (''max_attempts'', JInt 2)],
     JObj [(''step_id'', JStr ''b''), (''kind'', JStr ''input''), (''dependencies'', JArr [JStr ''a''])]]"

definition plan_a :: plan_row where
  "plan_a = \<lparr>p_id = ''a'', p_ordinal = 0, p_parent = [], p_kind = ''agent'', p_instructions = [], p_config = [],
     p_deps = [], p_required = True, p_max_attempts = 2, p_retry = [], p_wait = [], p_verification = []\<rparr>"

definition plan_b :: plan_row where
  "plan_b = plan_a\<lparr>p_id := ''b'', p_ordinal := 1, p_kind := ''input'', p_deps := [''a''], p_max_attempts := 1\<rparr>"

lemma plan0_normal: "normalize_plan host0 2 plan0 = Inr ([plan_a, plan_b], 2)"
  by code_simp

definition step_a :: step_row where "step_a = new_step_row ''g'' 100 plan_a"
definition step_b :: step_row where "step_b = new_step_row ''g'' 100 plan_b"

definition sample :: "int \<Rightarrow> nat \<Rightarrow> step_row list \<Rightarrow> attempt_row list \<Rightarrow> goal_db \<Rightarrow> bool" where
  "sample v n steps attempts db \<longleftrightarrow> gd_goals db = [goal1\<lparr>g_version := v\<rparr>] \<and> gd_steps db = steps \<and>
     gd_deps db = [(''b'', ''a'')] \<and> gd_attempts db = attempts \<and> gd_states db = [] \<and> gd_waits db = [] \<and>
     gd_effects db = [] \<and> gd_attention db = [] \<and> gd_artifacts db = [] \<and> log_at n v (gd_work db)"

lemma stores0: "store_goal_object host0 [] = Inr []"
  by code_simp

lemma planned_event: "event_ready goal1 [] 0 ''goal.planned''
    [(''step_count'', JInt 2), (''step_ids'', JArr [JStr ''a'', JStr ''b''])]"
  by code_simp

lemma goal1_simps [simp]: "g_id goal1 = ''g''" "g_version goal1 = 1" "g_status goal1 = GDraft" "g_updated goal1 = 100"
  by (simp_all add: goal1_def)

lemma host0_simps [simp]: "clock host0 = 100" "faults host0 = []" "uuid4 host0 n = n"
  by (simp_all add: host0_def)

lemma plan_simps [simp]: "p_config plan_a = []" "p_retry plan_a = []" "p_wait plan_a = []" "p_verification plan_a = []"
  "p_config plan_b = []" "p_retry plan_b = []" "p_wait plan_b = []" "p_verification plan_b = []"
  "p_id plan_a = ''a''" "p_id plan_b = ''b''" "p_deps plan_a = []" "p_deps plan_b = [''a'']"
  by (simp_all add: plan_a_def plan_b_def)

lemma planned_run: "\<exists>x db. plan_goal host0 ''g'' plan0 1 caller0 created = (Inr x, db) \<and> sample 2 4 [step_a, step_b] [] db"
proof -
  have d: "draws (gd_work created) = 2" using created_log by (simp add: log_at_def)
  let ?db = "created\<lparr>gd_steps := [step_a, step_b], gd_deps := [(''b'', ''a'')]\<rparr>"
  obtain w where adv: "advance_tx host0 caller0 goal1 ''goal.planned''
        [(''step_count'', JInt 2), (''step_ids'', JArr [JStr ''a'', JStr ''b''])] [] 0 100 ?db =
      Inr (2, ?db\<lparr>gd_goals := [goal1\<lparr>g_version := 2\<rparr>], gd_work := w\<rparr>)" "log_at 4 2 w"
    by (rule advance_sample[OF planned_event, where n = 2 and db = ?db and t = "[goal1\<lparr>g_version := 2\<rparr>]"])
       (use created_log in \<open>simp_all add: sql_update_def goal1_def\<close>)
  have ins: "insert_step host0 ''g'' 100 plan_a created = Inr (created\<lparr>gd_steps := [step_a]\<rparr>)"
    "insert_step host0 ''g'' 100 plan_b (created\<lparr>gd_steps := [step_a]\<rparr>) = Inr (created\<lparr>gd_steps := [step_a, step_b]\<rparr>)"
    by (simp_all add: insert_step_def stores0 step_row_of_def step_a_def step_b_def) (simp_all add: new_step_row_def)
  have "take_draws 0 created = created" by (simp add: take_draws_def)
  then have "plan_goal_tx host0 ''g'' [plan_a, plan_b] 2 1 caller0 created =
      Inr (goal1\<lparr>g_version := 2\<rparr>, ?db\<lparr>gd_goals := [goal1\<lparr>g_version := 2\<rparr>], gd_work := w\<rparr>)"
    by (simp add: plan_goal_tx_def d with_goal_def require_goal_tx_def goal_row_of_def check_version_def ins adv Let_def)
  moreover have "sample 2 4 [step_a, step_b] [] (?db\<lparr>gd_goals := [goal1\<lparr>g_version := 2\<rparr>], gd_work := w\<rparr>)"
    using adv(2) by (simp add: sample_def)
  ultimately show ?thesis by (auto simp: plan_goal_def d plan0_normal goal_write_Inr)
qed

definition planned :: goal_db where "planned = snd (plan_goal host0 ''g'' plan0 1 caller0 created)"

lemma planned: "sample 2 4 [step_a, step_b] [] planned" and planned_step: "goal_step created planned"
  using planned_run by (auto simp: planned_def intro!: step_goal op_versioned elim: versioned.intros(1))

lemma step_ab_simps [simp]: "s_id step_a = ''a''" "s_id step_b = ''b''" "s_goal step_a = ''g''" "s_goal step_b = ''g''"
  "s_status step_a = SPending" "s_version step_a = 1" "s_attempts step_a = 0" "s_max_attempts step_a = 2"
  "s_available step_a = 0" "s_epoch step_a = 0" "s_owner step_a = []" "s_status step_b = SPending"
  "s_attempts step_b = 0" "s_error step_a = []" "s_updated step_a = 100" "s_completed step_a = None"
  "s_expires step_a = None"
  by (simp_all add: step_a_def step_b_def new_step_row_def plan_a_def plan_b_def)

text \<open>A mutation of step \<open>a\<close>, from one sample store to the next.\<close>

lemma sample_advance:
  assumes s: "sample v n [a, step_b] t db1" and w: "gd_work db = gd_work db1" "gd_goals db = gd_goals db1"
    and ready: "event_ready (goal1\<lparr>g_version := v\<rparr>) sid att etype pl" and n: "n < 200"
  obtains w' where "advance_tx host0 caller0 (goal1\<lparr>g_version := v\<rparr>) etype pl sid att 100 db =
      Inr (v + 1, db\<lparr>gd_goals := [goal1\<lparr>g_version := v + 1\<rparr>], gd_work := w'\<rparr>)" "log_at (n + 2) (v + 1) w'"
proof -
  let ?t = "[goal1\<lparr>g_version := v + 1\<rparr>]"
  have g: "gd_goals db = [goal1\<lparr>g_version := v\<rparr>]" and l: "log_at n v (gd_work db)" using s w by (simp_all add: sample_def)
  have "sql_update (\<lambda>r. g_id r = ''g'' \<and> g_version r = v) (\<lambda>r. r\<lparr>g_version := v + 1, g_updated := 100\<rparr>)
      [goal1\<lparr>g_version := v\<rparr>] = (1, ?t)"
    by (simp add: sql_update_def goal1_def)
  then have u: "sql_update (\<lambda>r. g_id r = g_id (goal1\<lparr>g_version := v\<rparr>) \<and> g_version r = g_version (goal1\<lparr>g_version := v\<rparr>))
      (\<lambda>r. r\<lparr>g_version := g_version (goal1\<lparr>g_version := v\<rparr>) + 1, g_updated := 100\<rparr>) (gd_goals db) = (1, ?t)"
    by (simp add: g)
  have l': "log_at n (g_version (goal1\<lparr>g_version := v\<rparr>)) (gd_work db)" using l by simp
  obtain w' where "advance_tx host0 caller0 (goal1\<lparr>g_version := v\<rparr>) etype pl sid att 100 db =
      Inr (g_version (goal1\<lparr>g_version := v\<rparr>) + 1, db\<lparr>gd_goals := ?t, gd_work := w'\<rparr>)"
      "log_at (n + 2) (g_version (goal1\<lparr>g_version := v\<rparr>) + 1) w'"
    using advance_sample[OF ready l' n u] by blast
  with that show thesis by simp
qed

lemma ready_event: "event_ready (goal1\<lparr>g_version := 2\<rparr>) ''a'' 0 ''goal.step_status''
    [(''step_id'', JStr ''a''), (''from'', JStr ''pending''), (''to'', JStr ''ready''), (''reason'', JNull),
     (''available_at'', JFloat 0)]"
  by code_simp

lemma no_reason: "goal_text [] ''step reason'' False 4000 = Inr []" "goal_text ''ready'' ''step status'' True 40 = Inr ''ready''"
  "step_status_of ''ready'' = Some SReady"
  by code_simp+

lemma ready_run: "\<exists>x db. set_step_status host0 ''g'' ''a'' ''ready'' 2 None [] 0 caller0 planned = (Inr x, db) \<and>
    sample 3 6 [step_a\<lparr>s_status := SReady, s_version := 2\<rparr>, step_b] [] db"
proof -
  let ?g = "goal1\<lparr>g_version := 2\<rparr>"
  let ?db = "planned\<lparr>gd_steps := [step_a\<lparr>s_status := SReady, s_version := 2\<rparr>, step_b]\<rparr>"
  obtain w where adv: "advance_tx host0 caller0 ?g ''goal.step_status''
      [(''step_id'', JStr ''a''), (''from'', JStr ''pending''), (''to'', JStr ''ready''), (''reason'', JNull),
       (''available_at'', JFloat 0)] ''a'' 0 100 ?db =
      Inr (3, ?db\<lparr>gd_goals := [goal1\<lparr>g_version := 3\<rparr>], gd_work := w\<rparr>)" "log_at 6 3 w"
    by (rule sample_advance[OF planned _ _ ready_event, where db = ?db]) simp_all
  have up: "update_step_row ''a'' (\<lambda>r. r\<lparr>s_status := SReady, s_version := s_version r + 1, s_error := [],
      s_available := 0, s_owner := [], s_expires := None, s_updated := 100, s_completed := None\<rparr>) planned = ?db"
    using planned by (simp add: update_step_row_def sql_update_def sample_def)
  have "set_step_status_tx host0 ''g'' ''a'' SReady 2 None [] 0 caller0 planned = Inr
      ((goal1\<lparr>g_version := 3\<rparr>, step_a\<lparr>s_status := SReady, s_version := 2\<rparr>), ?db\<lparr>gd_goals := [goal1\<lparr>g_version := 3\<rparr>], gd_work := w\<rparr>)"
    using planned by (simp add: set_step_status_tx_def sample_def with_step_def with_goal_def require_goal_tx_def goal_row_of_def
        require_step_tx_def get_step_def check_version_def Let_def up null_or_def adv(1) step_terminal_iff no_reason(1)
        goal_and_step_def step_terminal_states_def)
  moreover have "sample 3 6 [step_a\<lparr>s_status := SReady, s_version := 2\<rparr>, step_b] [] (?db\<lparr>gd_goals := [goal1\<lparr>g_version := 3\<rparr>], gd_work := w\<rparr>)"
    using adv(2) planned by (simp add: sample_def)
  ultimately show ?thesis
    by (auto simp: set_step_status_def no_reason goal_write_Inr)
qed

definition readied :: goal_db where
  "readied = snd (set_step_status host0 ''g'' ''a'' ''ready'' 2 None [] 0 caller0 planned)"

lemma readied: "sample 3 6 [step_a\<lparr>s_status := SReady, s_version := 2\<rparr>, step_b] [] readied"
  and readied_step: "goal_step planned readied"
  using ready_run by (auto simp: readied_def intro!: step_goal op_versioned elim: versioned.intros(6))

lemma log_at_draws: "log_at n v w \<Longrightarrow> log_at (n + k) v (w\<lparr>draws := draws w + k\<rparr>)"
  by (auto simp: log_at_def max_version_def) (meson trans_less_add1)+

lemma sample_draw: "sample v n [a, step_b] t db \<Longrightarrow> sample v (n + 1) [a, step_b] t (take_draws 1 db)"
  using log_at_draws[of n v "gd_work db" 1] by (simp add: sample_def take_draws_def)

lemma lease_event: "event_ready (goal1\<lparr>g_version := 3\<rparr>) ''a'' 1 ''goal.step_leased''
    [(''step_id'', JStr ''a''), (''attempt'', JInt 1), (''lease_epoch'', JInt 1),
     (''lease_expires_at'', JFloat 160), (''snapshot_thread_id'', JStr ''goal:g:step:a:attempt:1'')]"
  by code_simp

lemma lease_texts: "goal_text ''w'' ''lease_owner'' True 512 = Inr ''w''" "step_thread ''g'' ''a'' 1 = ''goal:g:step:a:attempt:1''"
  by code_simp+

definition leased_a :: step_row where
  "leased_a = step_a\<lparr>s_status := SLeased, s_version := 3, s_attempts := 1, s_owner := ''w'', s_epoch := 1,
     s_expires := Some 160, s_thread := ''goal:g:step:a:attempt:1''\<rparr>"

definition attempt_a :: attempt_row where
  "attempt_a = \<lparr>a_id = new_id ''attempt'' 6, a_goal = ''g'', a_step = ''a'', a_attempt = 1, a_status = SLeased,
     a_thread = ''goal:g:step:a:attempt:1'', a_cursor = [], a_machine = [], a_run = [], a_receipt = [],
     a_result_ref = [], a_error_ref = [], a_started = 100, a_updated = 100, a_completed = None\<rparr>"

lemma leased_run: "\<exists>x db. lease_step host0 ''g'' ''a'' 3 ''w'' 60 caller0 readied = (Inr x, db) \<and>
    sample 4 9 [leased_a, step_b] [attempt_a] db"
proof -
  let ?g = "goal1\<lparr>g_version := 3\<rparr>" and ?d = "take_draws 1 readied"
  let ?db = "?d\<lparr>gd_steps := [leased_a, step_b], gd_attempts := [attempt_a]\<rparr>"
  have sd: "sample 3 7 [step_a\<lparr>s_status := SReady, s_version := 2\<rparr>, step_b] [] ?d"
    using sample_draw[OF readied] by simp
  obtain w where adv: "advance_tx host0 caller0 ?g ''goal.step_leased''
      [(''step_id'', JStr ''a''), (''attempt'', JInt 1), (''lease_epoch'', JInt 1),
       (''lease_expires_at'', JFloat 160), (''snapshot_thread_id'', JStr ''goal:g:step:a:attempt:1'')] ''a'' 1 100 ?db =
      Inr (4, ?db\<lparr>gd_goals := [goal1\<lparr>g_version := 4\<rparr>], gd_work := w\<rparr>)" "log_at 9 4 w"
    by (rule sample_advance[OF sd _ _ lease_event, where db = ?db]) simp_all
  have up: "update_step_row ''a'' (\<lambda>r. r\<lparr>s_status := SLeased, s_version := s_version r + 1, s_attempts := 1,
      s_owner := ''w'', s_epoch := 1, s_expires := Some 160, s_thread := ''goal:g:step:a:attempt:1'', s_updated := 100\<rparr>) ?d =
      ?d\<lparr>gd_steps := [leased_a, step_b]\<rparr>"
    using sd by (simp add: update_step_row_def sql_update_def sample_def leased_a_def)
  have draws: "drawn host0 ''attempt'' 0 readied = new_id ''attempt'' 6"
    using readied by (simp add: drawn_def sample_def log_at_def)
  have ids: "s_id leased_a = ''a''" "s_goal leased_a = ''g''" by (simp_all add: leased_a_def)
  have att: "\<lparr>a_id = new_id ''attempt'' 6, a_goal = ''g'', a_step = ''a'', a_attempt = 1, a_status = SLeased,
     a_thread = ''goal:g:step:a:attempt:1'', a_cursor = [], a_machine = [], a_run = [], a_receipt = [],
     a_result_ref = [], a_error_ref = [], a_started = 100, a_updated = 100, a_completed = None\<rparr> = attempt_a"
    by (simp add: attempt_a_def)
  have none: "gd_attempts ?d = []" "gd_attempts readied = []" using sd readied by (simp_all add: sample_def)
  have "lease_step_tx host0 ''g'' ''a'' 3 ''w'' 60 caller0 readied = Inr
      ((goal1\<lparr>g_version := 4\<rparr>, leased_a, attempt_a), ?db\<lparr>gd_goals := [goal1\<lparr>g_version := 4\<rparr>], gd_work := w\<rparr>)"
    using readied unfolding sample_def
    by (simp add: lease_step_tx_def with_step_def with_goal_def require_goal_tx_def goal_row_of_def
        require_step_tx_def get_step_def check_version_def Let_def up[unfolded One_nat_def] lease_texts draws att none[unfolded One_nat_def]
        attempt_row_of_def adv(1)[unfolded One_nat_def] goal_and_step_def ids)
  moreover have "sample 4 9 [leased_a, step_b] [attempt_a] (?db\<lparr>gd_goals := [goal1\<lparr>g_version := 4\<rparr>], gd_work := w\<rparr>)"
    using adv(2) sd by (simp add: sample_def)
  ultimately show ?thesis
    by (auto simp: lease_step_def lease_texts goal_write_Inr)
qed

definition leased :: goal_db where
  "leased = snd (lease_step host0 ''g'' ''a'' 3 ''w'' 60 caller0 readied)"

lemma leased: "sample 4 9 [leased_a, step_b] [attempt_a] leased" and leased_step: "goal_step readied leased"
  using leased_run by (auto simp: leased_def intro!: step_goal op_versioned elim: versioned.intros(7))

lemma readied_reachable: "reachable_goals readied"
  using created_step planned_step readied_step unfolding reachable_goals_def
  by (meson rtranclp.rtrancl_into_rtrancl rtranclp.rtrancl_refl)

lemma leased_reachable: "reachable_goals leased"
  using readied_reachable leased_step unfolding reachable_goals_def by (rule rtranclp.rtrancl_into_rtrancl)

lemma leased_rows:
  "goal_row_of ''g'' leased = Some (goal1\<lparr>g_version := 4\<rparr>)" "step_row_of ''a'' leased = Some leased_a"
  using leased by (simp_all add: sample_def goal_row_of_def step_row_of_def leased_a_def)

section \<open>A stop and an effect\<close>

lemma single_advance:
  assumes g: "gd_goals db = [g]" "g_id g = ''g''" "g_updated g = 100" and ready: "event_ready g sid att etype pl"
    and l: "log_at n (g_version g) (gd_work db)" "n < 200"
  obtains w' where "advance_tx host0 caller0 g etype pl sid att 100 db =
      Inr (g_version g + 1, db\<lparr>gd_goals := [g\<lparr>g_version := g_version g + 1\<rparr>], gd_work := w'\<rparr>)"
    "log_at (n + 2) (g_version g + 1) w'"
proof -
  have u: "sql_update (\<lambda>r. g_id r = g_id g \<and> g_version r = g_version g)
      (\<lambda>r. r\<lparr>g_version := g_version g + 1, g_updated := 100\<rparr>) (gd_goals db) = (1, [g\<lparr>g_version := g_version g + 1\<rparr>])"
    using g by (simp add: sql_update_def)
  from advance_sample[OF ready l u] that show thesis by blast
qed

definition stopped_goal :: goal_row where
  "stopped_goal = goal1\<lparr>g_status := GCancelled, g_version := 2, g_completed := Some 100\<rparr>"

definition cleanup_pending :: jobject where
  "cleanup_pending = [(''status'', JStr ''pending''), (''complete'', JBool False), (''requested_at'', JFloat 100),
     (''reason'', JStr ''stop''), (''token'', JStr (new_id ''cleanup'' 2 @ '':2''))]"

lemma stop_events:
  "event_ready goal1 [] 0 ''goal.cleanup_requested'' cleanup_pending"
  "event_ready (goal1\<lparr>g_version := 2\<rparr>) [] 0 ''goal.cancelled'' [(''from'', JStr ''draft''), (''to'', JStr ''cancelled''), (''reason'', JStr ''stop'')]"
  "\<not> isl (store_goal_json host0 (JObj cleanup_pending))"
  "goal_text ''stop'' ''reason'' False 4000 = Inr ''stop''" "show_int 2 = ''2''"
  by code_simp+

lemma caller0_corr: "ca_correlation caller0 = []"
  by (simp add: caller0_def)

lemma stop_run: "\<exists>g db. cancel_goal host0 ''g'' 1 ''stop'' caller0 None created = (Inr g, db)"
proof -
  have l: "log_at 3 1 (gd_work (take_draws 1 created))"
    using log_at_draws[OF created_log, of 1] by (simp add: take_draws_def)
  obtain v where v: "store_goal_json host0 (JObj cleanup_pending) = Inr v" using not_Inl[OF stop_events(3)] by blast
  let ?d = "upsert_state ''g'' ''resource_cleanup'' v 100 (take_draws 1 created)"
  obtain w1 where a1: "advance_tx host0 caller0 goal1 ''goal.cleanup_requested'' cleanup_pending [] 0 100 ?d =
      Inr (2, ?d\<lparr>gd_goals := [goal1\<lparr>g_version := 2\<rparr>], gd_work := w1\<rparr>)" "log_at 5 2 w1"
    by (rule single_advance[OF _ _ _ stop_events(1), of ?d 3]) (use l in \<open>simp_all add: upsert_state_def take_draws_def\<close>)
  let ?d1 = "?d\<lparr>gd_goals := [goal1\<lparr>g_version := 2\<rparr>], gd_work := w1\<rparr>"
  let ?d2 = "?d1\<lparr>gd_goals := [stopped_goal]\<rparr>"
  have ready: "event_ready (goal1\<lparr>g_version := 2\<rparr>) [] 0 ''goal.cancelled'' [(''from'', JStr ''draft''), (''to'', JStr ''cancelled''), (''reason'', JStr ''stop'')]"
    by (rule stop_events)
  have u: "sql_update (\<lambda>r. g_id r = g_id (goal1\<lparr>g_version := 2\<rparr>) \<and> g_version r = g_version (goal1\<lparr>g_version := 2\<rparr>))
     (\<lambda>r. r\<lparr>g_version := g_version (goal1\<lparr>g_version := 2\<rparr>) + 1, g_updated := 100\<rparr>) (gd_goals ?d2) = (1, [stopped_goal\<lparr>g_version := 3\<rparr>])"
    by (simp add: sql_update_def stopped_goal_def)
  obtain w2 where a2: "advance_tx host0 caller0 (goal1\<lparr>g_version := 2\<rparr>) ''goal.cancelled''
      [(''from'', JStr ''draft''), (''to'', JStr ''cancelled''), (''reason'', JStr ''stop'')] [] 0 100 ?d2 =
      Inr (3, ?d2\<lparr>gd_goals := [stopped_goal\<lparr>g_version := 3\<rparr>], gd_work := w2\<rparr>)"
    by (rule advance_sample[OF ready _ _ u, of 5]) (use a1(2) in simp_all)
  have up: "update_goal_row ''g'' (\<lambda>r. r\<lparr>g_status := GCancelled, g_pause_reason := [],
        g_completed := (case g_completed r of None \<Rightarrow> Some (clock host0) | Some t \<Rightarrow> Some t), g_updated := 100\<rparr>) ?d1 = ?d2"
    by (simp add: update_goal_row_def sql_update_def stopped_goal_def goal1_def)
  have cl: "request_cleanup host0 caller0 goal1 ''stop'' (new_id ''cleanup'' 2 @ '':2'') created = Inr ?d1"
    using v a1(1) by (simp add: request_cleanup_def cleanup_pending_def caller0_def Let_def)
  have mk: "mark_cancelled host0 caller0 (goal1\<lparr>g_version := 2\<rparr>) ''stop'' ?d1 = Inr (?d2\<lparr>gd_goals := [stopped_goal\<lparr>g_version := 3\<rparr>], gd_work := w2\<rparr>)"
    using a2 up by (simp add: mark_cancelled_def null_or_def)
  have tok: "cleanup_token host0 [] goal1 created = new_id ''cleanup'' 2 @ '':2''"
    using created_log stop_events(5) by (simp add: cleanup_token_def drawn_def log_at_def)
  have sid: "g_id stopped_goal = ''g''" by (simp add: stopped_goal_def)
  have none: "open_steps ''g'' ?d1 = []" by (simp add: open_steps_def upsert_state_def take_draws_def)
  have "cancel_goal_body host0 caller0 goal1 1 ''stop'' None created =
      Inr (stopped_goal\<lparr>g_version := 3\<rparr>, cancel_goal_effects ''g'' ''stop'' 100 (dismiss_goal_attention ''g'' 100
        (cancel_goal_waits ''g'' (?d2\<lparr>gd_goals := [stopped_goal\<lparr>g_version := 3\<rparr>], gd_work := w2\<rparr>))))"
    using tok cl mk none sid
    by (simp add: cancel_goal_body_def Let_def caller0_corr cancellable_goal_states_def require_goal_tx_def goal_row_of_def
        cancel_goal_effects_def dismiss_goal_attention_def cancel_goal_waits_def update_effects_def update_attention_def update_waits_def)
  then have "\<exists>g db. cancel_goal_tx host0 ''g'' 1 ''stop'' caller0 None created = Inr (g, db)"
    by (simp add: cancel_goal_tx_def require_goal_tx_def goal_row_of_def check_version_def)
  then show ?thesis by (auto simp: cancel_goal_def stop_events goal_write_Inr)
qed

lemma effect_event: "event_ready (goal1\<lparr>g_version := 4\<rparr>) ''a'' 1 ''goal.effect_recorded''
    [(''effect_id'', JStr (new_id ''effect'' 9)), (''sequence'', JInt 1), (''status'', JStr ''planned''),
     (''kind'', JStr ''mail''), (''idempotency_key'', JStr ''k'')]"
  "goal_text ''k'' ''effect idempotency_key'' True 512 = Inr ''k''" "goal_text ''mail'' ''effect kind'' True 120 = Inr ''mail''"
  "effect_status_of ''planned'' = Some EfPlanned"
  by code_simp+

definition effect_a :: effect_row where
  "effect_a = \<lparr>e_id = new_id ''effect'' 9, e_goal = ''g'', e_step = ''a'', e_attempt = 1, e_sequence = 1,
     e_kind = ''mail'', e_status = EfPlanned, e_key = ''k'', e_request = [], e_response = [], e_receipt = [],
     e_error = [], e_created = 100, e_updated = 100\<rparr>"

lemma effect_run: "\<exists>db. record_effect host0 ''g'' ''a'' 4 ''mail'' ''k'' [] ''planned'' caller0 leased = (Inr effect_a, db) \<and>
    record_effect host0 ''g'' ''a'' 9 ''mail'' ''k'' [] ''planned'' caller0 db = (Inr effect_a, db)"
proof -
  let ?d = "(take_draws 1 leased)\<lparr>gd_effects := [effect_a]\<rparr>"
  have sd: "sample 4 10 [leased_a, step_b] [attempt_a] (take_draws 1 leased)" using sample_draw[OF leased] by simp
  obtain w where adv: "advance_tx host0 caller0 (goal1\<lparr>g_version := 4\<rparr>) ''goal.effect_recorded''
    [(''effect_id'', JStr (new_id ''effect'' 9)), (''sequence'', JInt 1), (''status'', JStr ''planned''),
     (''kind'', JStr ''mail''), (''idempotency_key'', JStr ''k'')] ''a'' 1 100 ?d =
      Inr (5, ?d\<lparr>gd_goals := [goal1\<lparr>g_version := 5\<rparr>], gd_work := w\<rparr>)"
    by (rule sample_advance[OF sd _ _ effect_event(1), where db = ?d]) simp_all
  let ?d' = "?d\<lparr>gd_goals := [goal1\<lparr>g_version := 5\<rparr>], gd_work := w\<rparr>"
  have steps: "get_step ''g'' ''a'' leased = Some leased_a" "get_step ''g'' ''a'' ?d' = Some leased_a"
    using leased sd by (simp_all add: get_step_def sample_def leased_a_def)
  have row: "\<lparr>e_id = new_id ''effect'' 9, e_goal = ''g'', e_step = ''a'', e_attempt = 1, e_sequence = 1,
     e_kind = ''mail'', e_status = EfPlanned, e_key = ''k'', e_request = [], e_response = [], e_receipt = [],
     e_error = [], e_created = 100, e_updated = 100\<rparr> = effect_a" by (simp add: effect_a_def)
  have dr: "drawn host0 ''effect'' 0 leased = new_id ''effect'' 9"
    using leased by (simp add: drawn_def sample_def log_at_def)
  have lsd: "s_id leased_a = ''a''" "s_attempts leased_a = 1" by (simp_all add: leased_a_def)
  have e: "gd_effects leased = []" using leased by (simp add: sample_def)
  then have seq: "next_effect_sequence ''g'' leased = 1" "prior_effect ''g'' ''k'' leased = None"
    by (simp_all add: next_effect_sequence_def prior_effect_def)
  have "record_effect_tx host0 ''g'' ''a'' 4 ''mail'' ''k'' [] EfPlanned caller0 leased = Inr (effect_a, ?d')"
    using adv[unfolded One_nat_def]
    by (simp add: record_effect_tx_def require_goal_tx_def leased_rows require_step_tx_def steps lsd seq check_version_def
        effect_event stores0 Let_def dr row e)
  moreover have "prior_effect ''g'' ''k'' ?d' = Some effect_a" "goal_row_of ''g'' ?d' = Some (goal1\<lparr>g_version := 5\<rparr>)"
    by (simp_all add: prior_effect_def effect_a_def goal_row_of_def)
  then have "record_effect_tx host0 ''g'' ''a'' 9 ''mail'' ''k'' [] EfPlanned caller0 ?d' = Inr (effect_a, ?d')"
    using steps(2) by (simp add: record_effect_tx_def require_goal_tx_def require_step_tx_def lsd) (simp add: effect_a_def)
  ultimately have "record_effect host0 ''g'' ''a'' 4 ''mail'' ''k'' [] ''planned'' caller0 leased = (Inr effect_a, ?d') \<and>
     record_effect host0 ''g'' ''a'' 9 ''mail'' ''k'' [] ''planned'' caller0 ?d' = (Inr effect_a, ?d')"
    by (simp add: record_effect_def effect_event goal_write_Inr)
  then show ?thesis by blast
qed

end
