(* ===== verification/Goal_Properties.thy ===== *)
theory Goal_Properties
  imports Goal_Runs Goal_Samples
begin

text \<open>
  What the goal repository promises of every store it can reach: rows that fit their status, a
  version that counts the events, dense attempt and effect numbers, plans without cycles, one
  writer per version, fenced leases, the lifecycle of a goal, and what a cancellation closes.
\<close>

section \<open>Facts of reachable stores\<close>

lemma goal_steps_good:
  assumes "goal_step\<^sup>*\<^sup>* db db'" and "goal_wf db"
  shows "goal_wf db' \<and> goal_moves db db'"
  using assms
proof (induction rule: rtranclp_induct)
  case base
  then show ?case by (simp add: goal_moves_def)
next
  case (step a b)
  then show ?case using goal_step_good[of a b] goal_moves_trans by blast
qed

lemma reachable_goals_wf: "reachable_goals db \<Longrightarrow> goal_wf db"
  unfolding reachable_goals_def using goal_steps_good[OF _ goal_wf_empty] by blast

lemma reachable_goals_steps: "reachable_goals db \<Longrightarrow> goal_step\<^sup>*\<^sup>* db db' \<Longrightarrow> reachable_goals db'"
  unfolding reachable_goals_def by (rule rtranclp_trans)

lemma goal_moves_row:
  assumes "goal_moves db db'" and "goal_row_of i db = Some g"
  obtains g' where "goal_row_of i db' = Some g'" "goal_move g g'"
  using assms unfolding goal_moves_def by blast

lemma goal_row_in: "goal_row_of gid db = Some g \<Longrightarrow> g \<in> set (gd_goals db) \<and> g_id g = gid"
  using find_Some_key[of g_id gid "gd_goals db" g] by (simp add: goal_row_of_def)

lemma step_row_in: "step_row_of sid db = Some s \<Longrightarrow> s \<in> set (gd_steps db) \<and> s_id s = sid"
  using find_Some_key[of s_id sid "gd_steps db" s] by (simp add: step_row_of_def)

lemma goal_log_versions: "map aggregate_version (goal_log gid db) = versions (gd_work db) ''goal'' gid"
  by (simp add: goal_log_def versions_def)

lemma goal_log_counts:
  assumes wf: "goal_wf db" and row: "goal_row_of gid db = Some g"
  shows "map aggregate_version (goal_log gid db) = counting (length (goal_log gid db))"
    "g_version g = int (length (goal_log gid db))"
proof -
  have log: "log_wf (gd_work db)" using wf by (simp add: goal_wf_def repo_wf_def store_wf_def)
  have "versions (gd_work db) ''goal'' gid = counting (length (versions (gd_work db) ''goal'' gid))"
    using log by (simp add: log_wf_def)
  then show "map aggregate_version (goal_log gid db) = counting (length (goal_log gid db))"
    by (metis goal_log_versions length_map)
  have "g_version g = max_version (gd_work db) ''goal'' gid"
    using wf goal_row_in[OF row] by (auto simp: goal_wf_def goals_wf_def aggregate_wf_def)
  then show "g_version g = int (length (goal_log gid db))"
    by (metis max_version_length[OF log] goal_log_versions length_map)
qed



section \<open>The lifecycle\<close>

lemma goal_leads_terminal:
  assumes "(a, b) \<in> goal_leads" and "a \<in> goal_terminal_states"
  shows "b = a \<or> b = GArchived"
  using assms(1) unfolding goal_leads_def
proof (induction rule: rtrancl_induct)
  case (step y z)
  then have "z \<in> goal_allowed y" "y = a \<or> y = GArchived" by simp_all
  then show ?case using assms(2) by (auto simp: goal_terminal_states_def)
qed simp

section \<open>Rows, versions and numbers\<close>

text \<open>
  C9: the rows of every reachable goal store fit their status: ids are distinct and clean, a goal has
  a completion time exactly when it is terminal, an archival time exactly when it is archived and a
  pause reason only while paused or blocked; a step has a lease owner only while it is leased or
  running, and then an expiry.
\<close>

theorem goal_store_typed:
  assumes "reachable_goals db"
  shows "distinct (map g_id (gd_goals db)) \<and> distinct (map s_id (gd_steps db)) \<and>
    (\<forall>g\<in>set (gd_goals db). clean_id (g_id g) \<and>
       (g_completed g \<noteq> None \<longleftrightarrow> g_status g \<in> {GSucceeded, GFailed, GCancelled, GArchived}) \<and>
       (g_archived g \<noteq> None \<longleftrightarrow> g_status g = GArchived) \<and>
       (g_pause_reason g \<noteq> [] \<longrightarrow> g_status g \<in> {GPaused, GBlocked})) \<and>
    (\<forall>s\<in>set (gd_steps db). s_owner s \<noteq> [] \<longrightarrow> s_status s \<in> {SLeased, SRunning} \<and> s_expires s \<noteq> None)"
  using reachable_goals_wf[OF assms]
  by (auto simp: goal_wf_def goals_wf_def aggregate_wf_def goal_ok_def goal_terminal_def goal_terminal_states_def
      steps_wf_def list_all_iff step_ok_def)

lemma goal_store_typed_witness:
  "s_owner leased_a = ''w'' \<and> leased_a \<in> set (gd_steps leased) \<and> s_status leased_a \<in> {SLeased, SRunning}"
proof -
  have "leased_a \<in> set (gd_steps leased)" "s_owner leased_a = ''w''" using leased by (simp_all add: sample_def leased_a_def)
  then show ?thesis using goal_store_typed[OF leased_reachable] by simp
qed

text \<open>
  C10: the version of a goal is the number of its events, which carry the versions 1, 2, .. in the
  order they were appended: no mutation goes unrecorded and no event is without its mutation.
\<close>

theorem goal_version_counts_events:
  assumes "reachable_goals db" and "goal_row_of gid db = Some g"
  shows "g_version g = int (length (goal_log gid db)) \<and>
    map aggregate_version (goal_log gid db) = counting (length (goal_log gid db))"
  using goal_log_counts[OF reachable_goals_wf[OF assms(1)] assms(2)] by simp

lemma goal_version_counts_events_witness: "length (goal_log ''g'' leased) = 4"
proof -
  have "goal_row_of ''g'' leased = Some (goal1\<lparr>g_version := 4\<rparr>)" using leased by (simp add: sample_def goal_row_of_def)
  from goal_version_counts_events[OF leased_reachable this] show ?thesis by simp
qed

text \<open>
  C11: the attempts of every step are numbered 1, 2, .. without a gap up to its attempt count, which
  never passes the step's limit and is its lease epoch; the effects of every goal are numbered
  1, 2, .. and no two of them share an idempotency key.
\<close>

theorem goal_numbers_dense:
  assumes "reachable_goals db"
  shows "(\<forall>s\<in>set (gd_steps db). attempts_of (gd_attempts db) (s_id s) = counting (nat (s_attempts s)) \<and>
      0 \<le> s_attempts s \<and> s_attempts s \<le> s_max_attempts s \<and> s_epoch s = s_attempts s) \<and>
    (\<forall>gid. effect_numbers (gd_effects db) gid = counting (length (effect_numbers (gd_effects db) gid))) \<and>
    distinct (effect_keys (gd_effects db))"
  using reachable_goals_wf[OF assms]
  by (auto simp: goal_wf_def steps_wf_def list_all_iff step_ok_def attempts_wf_def effects_wf_def)

lemma goal_numbers_dense_witness:
  "attempts_of (gd_attempts leased) ''a'' = [1] \<and> s_attempts leased_a \<le> s_max_attempts leased_a"
proof -
  have "leased_a \<in> set (gd_steps leased)" "s_id leased_a = ''a''" "s_attempts leased_a = 1"
    using leased by (simp_all add: sample_def leased_a_def)
  then show ?thesis using goal_numbers_dense[OF leased_reachable] by (auto simp: counting_def)
qed

section \<open>Plans\<close>

lemma plan_deps_closed:
  assumes "emap (row_refs_ok (map p_id rows)) rows = Inr us" and "deps_of rows s = Some ds"
  shows "set ds \<subseteq> p_id ` set rows"
proof -
  from assms(2) obtain r where "find (\<lambda>r. p_id r = s) rows = Some r" "ds = p_deps r" by (auto simp: deps_of_def)
  with find_Some_key[of p_id s rows r] have "r \<in> set rows" "ds = p_deps r" by simp_all
  with emap_all[OF assms(1)] row_refs_ok_Inr show ?thesis by fastforce
qed

lemma visit_all_error:
  assumes "visit_all rows ss visiting visited = Inl e" and "\<forall>s ds. deps_of rows s = Some ds \<longrightarrow> set ds \<subseteq> p_id ` set rows"
    and "set ss \<subseteq> p_id ` set rows"
  shows "e = GoalValidationError ''step dependency graph contains a cycle''"
  using assms
proof (induction rows ss visiting visited arbitrary: e rule: visit_all.induct)
  case (2 rows s ss visiting visited)
  have tl: "set ss \<subseteq> p_id ` set rows" using "2.prems"(3) by simp
  show ?case
  proof (cases "s \<in> set visiting \<or> s \<in> set visited")
    case True
    then show ?thesis using 2 tl by (auto split: if_splits)
  next
    case False
    have "s \<in> p_id ` set rows" using "2.prems"(3) by simp
    then obtain ds where ds: "deps_of rows s = Some ds"
      unfolding deps_of_def using find_None_key[of p_id s rows] by (cases "find (\<lambda>r. p_id r = s) rows") auto
    then have "set ds \<subseteq> p_id ` set rows" using "2.prems"(2) by blast
    then show ?thesis
      using 2 False ds tl by (cases "visit_all rows ds (s # visiting) visited") auto
  qed
qed simp

text \<open>
  C13: the depth-first search of \<^verbatim>\<open>_normalize_plan\<close> decides acyclicity: a plan of 1 to 256 steps whose
  rows and references are good is accepted as it is when the dependencies form no cycle, and refused
  with the cycle error when they do; the search returns on every plan.
\<close>

theorem plan_accepted_iff_acyclic:
  assumes "raws \<noteq> []" and "length raws \<le> max_plan_steps" and rows: "plan_rows h n 0 [] raws = Inr (rows, n')"
    and refs: "emap (row_refs_ok (map p_id rows)) rows = Inr us"
  shows "normalize_plan h n raws = (if acyclic (set (plan_edges rows)) then Inr (rows, n')
    else Inl (GoalValidationError ''step dependency graph contains a cycle''))"
proof -
  have closed: "\<forall>s ds. deps_of rows s = Some ds \<longrightarrow> set ds \<subseteq> p_id ` set rows"
    using plan_deps_closed[OF refs] by blast
  have edges: "set (plan_edges rows) = depends rows" using plan_rows_Inr[OF rows] plan_edges_depends by metis
  have run: "normalize_plan h n raws = ebind (visit_all rows (map p_id rows) [] []) (\<lambda>_. Inr (rows, n'))"
    using assms by (simp add: normalize_plan_def require_def)
  show ?thesis
  proof (cases "visit_all rows (map p_id rows) [] []")
    case (Inl e)
    have "e = GoalValidationError ''step dependency graph contains a cycle''"
      using visit_all_error[OF Inl closed] by simp
    moreover have "\<not> acyclic (depends rows)"
      using visit_all_accepts[OF _ closed, of "map p_id rows" "[]" "[]"] Inl by auto
    ultimately show ?thesis using run Inl edges by simp
  next
    case (Inr vs)
    have "acyclic (depends rows)"
      using visit_all_topological[OF Inr] topological_acyclic[of rows vs] by simp
    then show ?thesis using run Inr edges by simp
  qed
qed

lemma plan0_rows: "plan_rows host0 2 0 [] plan0 = Inr ([plan_a, plan_b], 2)"
  "emap (row_refs_ok (map p_id [plan_a, plan_b])) [plan_a, plan_b] = Inr [(), ()]"
  by code_simp+

lemma plan_accepted_iff_acyclic_witness: "normalize_plan host0 2 plan0 = Inr ([plan_a, plan_b], 2)"
proof -
  have "acyclic (set (plan_edges [plan_a, plan_b]))" by (simp add: plan_edges_def acyclic_insert) (simp add: acyclic_def)
  with plan_accepted_iff_acyclic[OF _ _ plan0_rows] show ?thesis by (simp add: plan0_def max_plan_steps_def)
qed

text \<open>
  C18: in every reachable store the dependencies of all plans together have no cycle and join steps
  of the store, so the ready steps can always be worked off in some order.
\<close>

theorem goal_deps_acyclic:
  assumes "reachable_goals db"
  shows "acyclic (set (gd_deps db)) \<and> (\<forall>(s, d)\<in>set (gd_deps db). step_row_of s db \<noteq> None \<and> step_row_of d db \<noteq> None)"
proof -
  have "deps_wf (gd_steps db) (gd_deps db)" using reachable_goals_wf[OF assms] by (simp add: goal_wf_def)
  moreover have "step_row_of i db \<noteq> None" if "i \<in> s_id ` set (gd_steps db)" for i
    using that find_None_key[of s_id i "gd_steps db"] by (auto simp: step_row_of_def)
  ultimately show ?thesis unfolding deps_wf_def by blast
qed

lemma goal_deps_acyclic_witness: "acyclic (set (gd_deps leased)) \<and> (''b'', ''a'') \<in> set (gd_deps leased)"
proof -
  have "(''b'', ''a'') \<in> set (gd_deps leased)" using leased by (simp add: sample_def)
  with goal_deps_acyclic[OF leased_reachable] show ?thesis by blast
qed

section \<open>One writer per version\<close>



section \<open>The lease of a step\<close>

lemma get_step_holder:
  assumes wf: "goal_wf db" and "get_step gid sid db = Some s" and "s_owner s = w" "w \<noteq> []" "s_epoch s = e"
  shows "step_holder db sid = Some (w, e)"
  using step_row_found[OF wf assms(2)] assms(3-5) by (simp add: step_holder_def)

lemma goal_write_fails: "\<forall>x. body db \<noteq> Inr x \<Longrightarrow> \<exists>e. goal_write h body db = (Inl e, db)"
  using goal_write_Inl[of h body db] goal_write_Inr[of h body db] by (cases "goal_write h body db"; cases "fst (goal_write h body db)") auto

text \<open>
  C8: the lease of a step is fenced.  Once a worker that was given a lease no longer holds it
  (expired and given to another, finished, cancelled), no later state of the store lets it start the
  step, renew the lease or finish the step under that lease: each of the three raises and changes
  nothing, whatever the version it names.
\<close>

theorem goal_step_lease_fenced:
  assumes reach: "reachable_goals db" and given: "step_epoch db sid = Some e0" "e \<le> e0"
    and lost: "step_holder db sid \<noteq> Some (worker, e)" and worker: "worker \<noteq> []" and later: "goal_step\<^sup>*\<^sup>* db db'"
    and q: "sf_epoch q = Some e" "sf_owner q = worker"
  shows "\<exists>e1 e2 e3. start_step h gid sid v worker e c db' = (Inl e1, db') \<and>
    heartbeat_step h gid sid worker e ttl db' = (Inl e2, db') \<and>
    finish_step h gid sid v q c db' = (Inl e3, db')"
proof -
  have wf: "goal_wf db'" using goal_steps_good[OF later] reachable_goals_wf[OF reach] by blast
  have not: "step_holder db' sid \<noteq> Some (worker, e)"
    by (rule step_lease.fenced[OF later reachable_goals_wf[OF reach] given lost])
  have held: False if "get_step gid sid db' = Some s" "s_owner s = worker" "s_epoch s = e" for s
    using get_step_holder[OF wf that(1) that(2) worker that(3)] not by simp
  have start: "start_step_tx h gid sid v worker e c db' \<noteq> Inr x" for x
    using held by (auto simp: start_step_tx_def goal_row_id)
  have beat: "heartbeat_step_tx h gid sid worker e ttl db' \<noteq> Inr x" for x
    using held by (auto simp: heartbeat_step_tx_def goal_row_id)
  have finish: "finish_step_tx h gid sid t v q c db' \<noteq> Inr x" for x t
    using held q worker by (auto simp: finish_step_tx_def goal_row_id)
  have "\<exists>e1. start_step h gid sid v worker e c db' = (Inl e1, db')" unfolding start_step_def using start by (intro goal_write_fails) simp
  moreover have "\<exists>e2. heartbeat_step h gid sid worker e ttl db' = (Inl e2, db')"
    unfolding heartbeat_step_def using beat by (intro goal_write_fails) simp
  moreover have "\<exists>e3. finish_step h gid sid v q c db' = (Inl e3, db')"
    unfolding finish_step_def using finish goal_write_fails[of "finish_step_tx h gid sid t v q c" db' h for t]
    by (auto split: option.split)
  ultimately show ?thesis by blast
qed

definition finish_z :: step_finish where
  "finish_z = \<lparr>sf_status = ''succeeded'', sf_result_ref = [], sf_error_ref = [], sf_error = [], sf_attempt = Some 1,
     sf_owner = ''z'', sf_epoch = Some 1\<rparr>"

lemma goal_step_lease_fenced_witness:
  "\<exists>e1 e2 e3. start_step host0 ''g'' ''a'' 4 ''z'' 1 caller0 leased = (Inl e1, leased) \<and>
    heartbeat_step host0 ''g'' ''a'' ''z'' 1 60 leased = (Inl e2, leased) \<and>
    finish_step host0 ''g'' ''a'' 4 finish_z caller0 leased = (Inl e3, leased)"
  by (rule goal_step_lease_fenced[OF leased_reachable, of _ 1 1])
    (simp_all add: leased_rows step_epoch_def step_holder_def leased_a_def finish_z_def)

section \<open>The lifecycle of a goal\<close>

text \<open>
  C14: along every run a goal stays recorded, its version never falls, and its status moves only
  along the transition table; a goal that succeeded, failed or was cancelled keeps that status or is
  archived, and an archived goal stays archived.
\<close>

theorem goal_lifecycle:
  assumes "reachable_goals db" and "goal_step\<^sup>*\<^sup>* db db'" and "goal_row_of gid db = Some g"
  shows "\<exists>g'. goal_row_of gid db' = Some g' \<and> g_version g \<le> g_version g' \<and>
    (g_status g, g_status g') \<in> {(a, b). b \<in> goal_allowed a}\<^sup>* \<and>
    (g_status g \<in> {GSucceeded, GFailed, GCancelled, GArchived} \<longrightarrow> g_status g' = g_status g \<or> g_status g' = GArchived)"
proof -
  have "goal_moves db db'" using goal_steps_good[OF assms(2)] reachable_goals_wf[OF assms(1)] by blast
  from goal_moves_row[OF this assms(3)] obtain g' where "goal_row_of gid db' = Some g'" "goal_move g g'" .
  then show ?thesis
    using goal_leads_terminal[of "g_status g" "g_status g'"]
    by (auto simp: goal_move_def goal_terminal_states_def goal_leads_def)
qed

lemma goal_lifecycle_witness:
  "\<exists>g'. goal_row_of ''g'' leased = Some g' \<and> (GDraft, g_status g') \<in> {(a, b). b \<in> goal_allowed a}\<^sup>*"
proof -
  have "goal_row_of ''g'' readied = Some (goal1\<lparr>g_version := 3\<rparr>)" using readied by (simp add: sample_def goal_row_of_def)
  from goal_lifecycle[OF readied_reachable r_into_rtranclp[of goal_step, OF leased_step] this] show ?thesis by auto
qed

text \<open>
  C16: an operation on one goal leaves every other goal alone: its row, its events and its steps are
  what they were, events are only added to the log of the goal itself, and of the Work Fabric no job
  changes and no settled question is opened again.
\<close>

theorem goal_isolated:
  assumes "reachable_goals db" and "goal_op gid db db'" and "i \<noteq> gid"
  shows "goal_row_of i db' = goal_row_of i db \<and> goal_log i db' = goal_log i db \<and>
    filter (\<lambda>s. s_goal s = i) (gd_steps db') = filter (\<lambda>s. s_goal s = i) (gd_steps db) \<and>
    (\<exists>es. goal_log gid db' = goal_log gid db @ es) \<and> jobs (gd_work db') = jobs (gd_work db) \<and>
    (\<forall>q. interaction_settled q (gd_work db) \<longrightarrow> interaction_settled q (gd_work db'))"
proof -
  have k: "work_keeps (gd_work db) (gd_work db')" "only_goal gid db db'"
    using goal_op_keeps[OF assms(2)] reachable_goals_wf[OF assms(1)] by (simp_all add: keeps_def)
  have "filter (\<lambda>s. s_goal s = i) t = filter (\<lambda>s. s_goal s = i) (filter (\<lambda>s. s_goal s \<noteq> gid) t)" for t
    using assms(3) by (induction t) auto
  then have "filter (\<lambda>s. s_goal s = i) (gd_steps db') = filter (\<lambda>s. s_goal s = i) (gd_steps db)"
    using k(2) unfolding only_goal_def by metis
  then show ?thesis
    using k assms(3) settled_kept_settled by (simp add: only_goal_def work_keeps_def) blast
qed

lemma goal_isolated_witness: "goal_row_of ''x'' leased = None \<and> jobs (gd_work leased) = jobs (gd_work readied)"
proof -
  have op: "goal_op ''g'' readied leased"
    using leased_run by (auto simp: leased_def intro!: op_versioned elim: versioned.intros(7))
  have "goal_row_of ''x'' readied = None" using readied by (simp add: sample_def goal_row_of_def)
  with goal_isolated[OF readied_reachable op, of "''x''"] show ?thesis by simp
qed

section \<open>What a cancellation closes\<close>

definition status_of_goal :: "string \<Rightarrow> goal_db \<Rightarrow> goal_status option" where
  "status_of_goal gid db = map_option g_status (goal_row_of gid db)"

lemma advance_status:
  assumes "advance_tx h c goal etype pl sid att tm db = Inr (n, db')"
  shows "status_of_goal i db' = status_of_goal i db"
proof -
  let ?f = "\<lambda>r. if g_id r = g_id goal \<and> g_version r = g_version goal then r\<lparr>g_version := g_version goal + 1, g_updated := tm\<rparr> else r"
  have "gd_goals db' = map ?f (gd_goals db)"
    using assms by (auto simp: advance_tx_def sql_update_def split: prod.splits)
  moreover have "g_id (?f r) = g_id r" "g_status (?f r) = g_status r" for r by simp_all
  ultimately show ?thesis
    using find_map_key[of g_id ?f i "gd_goals db"]
    by (cases "find (\<lambda>r. g_id r = i) (gd_goals db)") (simp_all add: status_of_goal_def goal_row_of_def)
qed

lemma status_frame [simp]:
  "status_of_goal i (upsert_state a k v tm db) = status_of_goal i db" "status_of_goal i (take_draws n db) = status_of_goal i db"
  "status_of_goal i (update_step_row sid f db) = status_of_goal i db"
  "status_of_goal i (update_attempt_row sid m g db) = status_of_goal i db"
  "status_of_goal i (db\<lparr>gd_states := t\<rparr>) = status_of_goal i db"
  "status_of_goal i (cancel_goal_effects gid reason tm db) = status_of_goal i db"
  "status_of_goal i (dismiss_goal_attention gid tm db) = status_of_goal i db"
  "status_of_goal i (cancel_goal_waits gid db) = status_of_goal i db"
  by (simp_all add: status_of_goal_def goal_row_of_def upsert_state_def update_step_row_def update_attempt_row_def
      cancel_goal_effects_def dismiss_goal_attention_def cancel_goal_waits_def update_effects_def update_attention_def update_waits_def)








section \<open>Effects\<close>




section \<open>Transitions\<close>

lemma goal_status_clean: "goal_text (goal_status_text t) ''goal status'' True 40 = Inr (goal_status_text t)"
  by (cases t; simp add: goal_text_def py_strip_def py_space_def Let_def nul_def char_of_def require_def)

lemma transition_status:
  assumes run: "transition_goal_tx h gid target v reason summary c etype db = Inr (g', db')" and row: "goal_row_of gid db = Some g"
    and ne: "target \<noteq> g_status g"
  shows "target \<in> goal_allowed (g_status g) \<and> status_of_goal gid db' = Some target"
proof -
  have gid: "g_id g = gid" by (rule goal_row_id[OF row])
  let ?d = "\<lambda>p. update_goal_row gid (transition_row target p summary (clock h)) db"
  from run row ne gid obtain p n ty pl where al: "target \<in> goal_allowed (g_status g)"
    and adv: "advance_tx h c g ty pl [] 0 (clock h) (if target = GCancelled
         then dismiss_goal_attention gid (clock h) (cancel_goal_waits gid (?d p)) else ?d p) = Inr (n, db')"
    by (auto simp: transition_goal_tx_def with_goal_def require_goal_tx_def Let_def)
  have "status_of_goal gid (?d p) = Some target"
    using row find_row_update[of g_id "transition_row target p summary (clock h)" gid gid "gd_goals db"]
    by (simp add: status_of_goal_def goal_row_of_def update_goal_row_def transition_row_def)
  then show ?thesis using al advance_status[OF adv, of gid] by (auto split: if_splits)
qed

text \<open>
  C17: what a transition of a recorded goal does: a version that is not the goal's is a conflict, a
  status that is neither the goal's own nor allowed after it is a transition error, both without a
  change; and when it returns, either the goal had that status and nothing changed or the status is
  allowed and is the goal's now.
\<close>

theorem transition_goal_outcome:
  assumes row: "goal_row_of gid db = Some g"
  shows "(v \<noteq> g_version g \<longrightarrow> transition_goal h gid (goal_status_text target) v reason summary c etype db =
      (Inl (GoalConflict (''goal version changed ('' @ show_int (g_version g) @ '' != '' @ show_int v @ '')'')), db)) \<and>
    (v = g_version g \<and> target \<noteq> g_status g \<and> target \<notin> goal_allowed (g_status g) \<longrightarrow>
      transition_goal h gid (goal_status_text target) v reason summary c etype db =
      (Inl (GoalTransitionError (''cannot transition goal '' @ goal_status_text (g_status g) @ '' -> '' @ goal_status_text target)), db)) \<and>
    (\<forall>g' db'. transition_goal h gid (goal_status_text target) v reason summary c etype db = (Inr g', db') \<longrightarrow>
      v = g_version g \<and> (target = g_status g \<and> db' = db \<or>
        target \<in> goal_allowed (g_status g) \<and> status_of_goal gid db' = Some target))"
proof -
  have run: "transition_goal h gid (goal_status_text target) v reason summary c etype db =
      goal_write h (transition_goal_tx h gid target v reason summary c etype) db"
    by (simp add: transition_goal_def goal_status_clean)
  have err: "goal_write h body db = (Inl e, db)" if "body db = Inl e" for body :: "(goal_db, goal_row) body" and e
    using that by (simp add: goal_write_def sqlite_unit_of_work_def sqlite_transaction_def)
  have tx: "transition_goal_tx h gid target v reason summary c etype db = Inl (GoalConflict (''goal version changed ('' @ show_int (g_version g) @ '' != '' @ show_int v @ '')''))"
    if "v \<noteq> g_version g"
    using that row by (simp add: transition_goal_tx_def with_goal_def require_goal_tx_def check_version_def require_def)
  have tr: "transition_goal_tx h gid target v reason summary c etype db = Inl (GoalTransitionError (''cannot transition goal '' @ goal_status_text (g_status g) @ '' -> '' @ goal_status_text target))"
    if "v = g_version g" "target \<noteq> g_status g" "target \<notin> goal_allowed (g_status g)"
    using that row by (simp add: transition_goal_tx_def with_goal_def require_goal_tx_def check_version_def require_def)
  have ok: "v = g_version g \<and> (target = g_status g \<and> db' = db \<or> target \<in> goal_allowed (g_status g) \<and> status_of_goal gid db' = Some target)"
    if "transition_goal_tx h gid target v reason summary c etype db = Inr (g', db')" for g' db'
  proof (cases "target = g_status g")
    case True
    then show ?thesis using that row by (auto simp: transition_goal_tx_def with_goal_def require_goal_tx_def check_version_def)
  next
    case False
    then show ?thesis using that row transition_status[OF that row False]
      by (auto simp: transition_goal_tx_def with_goal_def require_goal_tx_def check_version_def)
  qed
  show ?thesis unfolding run
  proof (intro conjI impI allI)
    show "v \<noteq> g_version g \<Longrightarrow> goal_write h (transition_goal_tx h gid target v reason summary c etype) db =
      (Inl (GoalConflict (''goal version changed ('' @ show_int (g_version g) @ '' != '' @ show_int v @ '')'')), db)"
      by (rule err, rule tx)
    show "v = g_version g \<and> target \<noteq> g_status g \<and> target \<notin> goal_allowed (g_status g) \<Longrightarrow>
      goal_write h (transition_goal_tx h gid target v reason summary c etype) db = (Inl (GoalTransitionError
        (''cannot transition goal '' @ goal_status_text (g_status g) @ '' -> '' @ goal_status_text target)), db)"
      by (rule err, rule tr) simp_all
    fix g' db' assume "goal_write h (transition_goal_tx h gid target v reason summary c etype) db = (Inr g', db')"
    then have "transition_goal_tx h gid target v reason summary c etype db = Inr (g', db')" by (simp add: goal_write_Inr)
    from ok[OF this] show "v = g_version g" "target = g_status g \<and> db' = db \<or>
        target \<in> goal_allowed (g_status g) \<and> status_of_goal gid db' = Some target" by simp_all
  qed
qed

lemma transition_goal_outcome_witness:
  "transition_goal host0 ''g'' ''running'' 1 [] [] caller0 [] created =
     (Inl (GoalTransitionError ''cannot transition goal draft -> running''), created)"
proof -
  have "goal_row_of ''g'' created = Some goal1" by (simp add: goal_row_of_def)
  from transition_goal_outcome[OF this, of 1 host0 GRunning "[]" "[]" caller0 "[]"] show ?thesis by simp
qed

end
