(* ===== verification/Goal_Conditions.thy ===== *)
theory Goal_Conditions
  imports Goal_Models Goal_Plan
begin

text \<open>
  The decisions of the goal supervisor that depend on rows only: the readiness of a step, the budget
  of a goal, the wait that is due (\<^verbatim>\<open>backend/goals/conditions.py\<close>), and the verification of the success
  criteria (\<^verbatim>\<open>backend/goals/verification.py\<close>).  The texts that explain a check are
  left out, and case is folded for ASCII letters.
\<close>

section \<open>Readiness\<close>

record readiness =
  rd_state :: step_status
  rd_reason :: string
  rd_deps :: "string list"

definition decide :: "step_status \<Rightarrow> string \<Rightarrow> string list \<Rightarrow> readiness" where
  "decide st reason deps = \<lparr>rd_state = st, rd_reason = reason, rd_deps = deps\<rparr>"

text \<open>The first dependency that is not satisfied decides.\<close>

fun deps_decision :: "string list \<Rightarrow> string list \<Rightarrow> (string \<Rightarrow> step_row option) \<Rightarrow> readiness" where
  "deps_decision deps [] steps = decide SReady ''all dependencies satisfied'' deps"
| "deps_decision deps (d # ds) steps =
     (case steps d of
        None \<Rightarrow> decide SBlocked (''dependency '' @ d @ '' is missing'') deps
      | Some dep \<Rightarrow>
          if s_status dep \<in> {SFailed, SBlocked, SCancelled}
          then decide SBlocked (''dependency '' @ d @ '' ended as '' @ step_status_text (s_status dep)) deps
          else if s_status dep \<notin> {SSucceeded, SSkipped}
          then decide SPending (''dependency '' @ d @ '' is '' @ step_status_text (s_status dep)) deps
          else deps_decision deps ds steps)"

definition dependency_readiness ::
  "step_row \<Rightarrow> string list \<Rightarrow> (string \<Rightarrow> step_row option) \<Rightarrow> rat \<Rightarrow> readiness" where
  "dependency_readiness step deps steps current =
     (if s_status step = SRetryScheduled \<and> current < s_available step
      then decide SPending ''retry delay has not elapsed'' deps
      else if s_status step \<notin> {SPending, SRetryScheduled, SReady}
      then decide (s_status step) ''step is not eligible for readiness'' deps
      else deps_decision deps deps steps)"

lemma decide_simps [simp]: "rd_state (decide st reason deps) = st" "rd_reason (decide st reason deps) = reason"
  by (simp_all add: decide_def)

definition dep_satisfied :: "(string \<Rightarrow> step_row option) \<Rightarrow> string \<Rightarrow> bool" where
  "dep_satisfied steps d \<longleftrightarrow> (case steps d of None \<Rightarrow> False | Some r \<Rightarrow> s_status r \<in> {SSucceeded, SSkipped})"

lemma deps_decision_ready: "rd_state (deps_decision deps ds steps) = SReady \<longleftrightarrow> list_all (dep_satisfied steps) ds"
  by (induction ds) (auto simp: dep_satisfied_def split: option.splits)

lemma readiness_ready:
  "rd_state (dependency_readiness step deps steps current) = SReady \<longleftrightarrow>
     s_status step \<in> {SPending, SRetryScheduled, SReady} \<and>
     \<not> (s_status step = SRetryScheduled \<and> current < s_available step) \<and> list_all (dep_satisfied steps) deps"
  by (auto simp: dependency_readiness_def deps_decision_ready)

section \<open>Budgets\<close>

record budget =
  bd_allowed :: bool
  bd_reason :: string
  bd_key :: string

text \<open>\<^verbatim>\<open>isinstance(v, (int, float))\<close> and not a bool.  A stored number is finite.\<close>

definition numeric :: "json \<Rightarrow> rat option" where
  "numeric v = (case v of JInt i \<Rightarrow> Some (of_int i) | JFloat r \<Rightarrow> Some r | _ \<Rightarrow> None)"

definition refused :: "string \<Rightarrow> string \<Rightarrow> budget" where
  "refused reason key = \<lparr>bd_allowed = False, bd_reason = reason, bd_key = key\<rparr>"

definition budget_key :: "goal_row \<Rightarrow> rat \<Rightarrow> string \<times> json \<Rightarrow> budget option" where
  "budget_key goal current kv =
     (let key = fst kv in
      case numeric (snd kv) of
        None \<Rightarrow> Some (refused (''budget limit '' @ key @ '' is not numeric'') key)
      | Some limit \<Rightarrow>
          if limit < 0 then Some (refused (''budget limit '' @ key @ '' is invalid'') key)
          else (case numeric (case jget (g_usage goal) key of None \<Rightarrow> JInt 0 | Some u \<Rightarrow> u) of
            None \<Rightarrow> Some (refused (''budget usage '' @ key @ '' is not numeric'') key)
          | Some usage \<Rightarrow>
              let effective = (if key = ''wall_time_s'' \<and> g_created goal \<noteq> 0
                               then max usage (current - g_created goal) else usage) in
              if limit \<le> effective then Some (refused (''budget '' @ key @ '' exhausted'') key) else None))"

fun first_some :: "('a \<Rightarrow> 'b option) \<Rightarrow> 'a list \<Rightarrow> 'b option" where
  "first_some f [] = None"
| "first_some f (x # xs) = (case f x of None \<Rightarrow> first_some f xs | Some y \<Rightarrow> Some y)"

definition budget_allows :: "goal_row \<Rightarrow> rat \<Rightarrow> budget" where
  "budget_allows goal current =
     (if (case g_deadline goal of None \<Rightarrow> False | Some t \<Rightarrow> t \<noteq> 0 \<and> t \<le> current)
      then refused ''goal deadline reached'' ''deadline''
      else case first_some (budget_key goal current) (sort_key fst (g_limits goal)) of
        Some b \<Rightarrow> b
      | None \<Rightarrow> \<lparr>bd_allowed = True, bd_reason = [], bd_key = []\<rparr>)"

section \<open>Waits\<close>

text \<open>The subset match of wake events, to the depth of 8; what is deeper never matches.\<close>

fun match_within :: "nat \<Rightarrow> json \<Rightarrow> json \<Rightarrow> bool" where
  "match_within 0 expected actual = False"
| "match_within (Suc n) (JObj kvs) actual =
     (case actual of
        JObj entries \<Rightarrow> list_all (\<lambda>p. case jget entries (fst p) of None \<Rightarrow> False
          | Some v \<Rightarrow> match_within n (snd p) v) kvs
      | _ \<Rightarrow> False)"
| "match_within (Suc n) expected actual = py_eq expected actual"

definition event_matches :: "jobject \<Rightarrow> jobject \<Rightarrow> bool" where
  "event_matches matcher event = match_within 9 (JObj matcher) (JObj event)"

definition wait_is_ready :: "wait_row \<Rightarrow> rat \<Rightarrow> jobject option \<Rightarrow> bool" where
  "wait_is_ready wait current event \<longleftrightarrow> w_status wait = WtPending \<and>
     ((case w_wake wait of None \<Rightarrow> False | Some t \<Rightarrow> t \<noteq> 0 \<and> t \<le> current) \<or>
      (case event of None \<Rightarrow> False | Some e \<Rightarrow> event_matches (w_matcher wait) e))"

section \<open>Verification\<close>

definition supported_criteria :: "string list" where
  "supported_criteria = [''process_exit'', ''file_content'', ''git_state'', ''reviewed_commit'', ''artifact_exists'',
     ''artifact_validation'', ''child_result'', ''review_no_blockers'', ''explicit_user_confirmation'']"

datatype criterion_status = CrPassed | CrFailed | CrUnsupported

record criterion_result =
  ck_id :: string
  ck_kind :: string
  ck_status :: criterion_status
  ck_required :: bool
  ck_evidence :: jobject

record verification_report =
  vr_goal :: string
  vr_passed :: bool
  vr_checks :: "criterion_result list"
  vr_step_failures :: "string list"
  vr_missing :: "string list"

text \<open>\<^verbatim>\<open>bool(raw.get(key))\<close>.\<close>

definition given :: "jobject \<Rightarrow> string \<Rightarrow> bool" where
  "given raw key = (case jget raw key of None \<Rightarrow> False | Some v \<Rightarrow> truthy v)"

definition criterion_id :: "host \<Rightarrow> jobject \<Rightarrow> nat \<Rightarrow> string" where
  "criterion_id h raw index =
     (if given raw ''id'' then text_of h (jget raw ''id'')
      else if given raw ''criterion_id'' then text_of h (jget raw ''criterion_id'')
      else ''criterion-'' @ show_int (int index + 1))"

definition evidence_for :: "host \<Rightarrow> jobject \<Rightarrow> nat \<Rightarrow> jobject \<Rightarrow> jobject" where
  "evidence_for h raw index evidence =
     (case jget evidence (criterion_id h raw index) of
        Some (JObj v) \<Rightarrow> v
      | _ \<Rightarrow> (case jget evidence (text_of h (jget raw ''kind'')) of Some (JObj v) \<Rightarrow> v | _ \<Rightarrow> []))"

definition contains :: "string \<Rightarrow> string \<Rightarrow> bool" where
  "contains t s = list_ex (\<lambda>i. take (length s) (drop i t) = s) [0..<Suc (length t)]"

definition folded :: "string \<Rightarrow> string" where
  "folded = map ascii_lower"

definition matching_artifacts :: "host \<Rightarrow> jobject \<Rightarrow> artifact_row list \<Rightarrow> artifact_row list" where
  "matching_artifacts h raw artifacts =
     (let wanted_ref = text_of h (jget raw ''artifact_ref'');
          wanted_format = folded (text_of h (jget raw ''format''));
          matches = filter (\<lambda>r. wanted_ref = [] \<or> l_ref r = wanted_ref) artifacts in
      if wanted_format = [] then matches
      else filter (\<lambda>r. contains (folded
          (if given (l_metadata r) ''format'' then text_of h (jget (l_metadata r) ''format'')
           else if given (l_metadata r) ''media_type'' then text_of h (jget (l_metadata r) ''media_type'')
           else l_role r)) wanted_format) matches)"

text \<open>\<^verbatim>\<open>int(raw.get("expected", raw.get("expected_exit_code", 0)))\<close>.\<close>

definition expected_exit :: "jobject \<Rightarrow> int res" where
  "expected_exit raw =
     (let v = (case jget raw ''expected'' of Some v \<Rightarrow> v
        | None \<Rightarrow> (case jget raw ''expected_exit_code'' of Some v \<Rightarrow> v | None \<Rightarrow> JInt 0)) in
      case int_of_json v of Some i \<Rightarrow> Inr i
      | None \<Rightarrow> (case v of JStr s \<Rightarrow> Inl (ValueError ''invalid literal for int()'')
                | _ \<Rightarrow> Inl (TypeErr ''int() argument must be a string or a real number'')))"

definition equals_int :: "json option \<Rightarrow> int \<Rightarrow> bool" where
  "equals_int v i = (case v of None \<Rightarrow> False | Some w \<Rightarrow> py_eq w (JInt i))"

definition criterion_passed ::
  "host \<Rightarrow> string \<Rightarrow> jobject \<Rightarrow> jobject \<Rightarrow> artifact_row list \<Rightarrow> bool res" where
  "criterion_passed h kind raw proof artifacts =
     (if kind = ''process_exit'' then
        ebind (expected_exit raw) (\<lambda>expected. Inr (equals_int (jget proof ''exit_code'') expected))
      else if kind = ''file_content'' then
        Inr (given proof ''matched'' \<and> (given proof ''content_sha256'' \<or> given proof ''evidence_ref''))
      else if kind = ''git_state'' then
        (let expected = (if given raw ''expected'' then text_of h (jget raw ''expected'')
               else if given raw ''state'' then text_of h (jget raw ''state'') else ''clean'') in
         Inr (text_of h (jget proof ''state'') = expected \<and> given proof ''head_oid''))
      else if kind = ''reviewed_commit'' then
        Inr (given proof ''commit_oid'' \<and> given proof ''review_fingerprint'' \<and>
          jget proof ''approved'' = Some (JBool True))
      else if kind = ''artifact_exists'' then Inr (matching_artifacts h raw artifacts \<noteq> [])
      else if kind = ''artifact_validation'' then
        Inr (jget proof ''valid'' = Some (JBool True) \<and> given proof ''artifact_ref'')
      else if kind = ''child_result'' then
        Inr (jget proof ''status'' = Some (JStr ''succeeded'') \<and> given proof ''child_id'')
      else if kind = ''review_no_blockers'' then
        Inr (equals_int (jget proof ''blockers'') 0 \<and> (given proof ''review_ref'' \<or> given proof ''review_fingerprint''))
      else Inr (jget proof ''confirmed'' = Some (JBool True) \<and> (given proof ''attention_id'' \<or> given proof ''actor'')))"

definition check_criterion ::
  "host \<Rightarrow> jobject \<Rightarrow> artifact_row list \<Rightarrow> nat \<times> jobject \<Rightarrow> criterion_result res" where
  "check_criterion h evidence artifacts ic =
     (let index = fst ic; raw = snd ic; cid = criterion_id h raw index; kind = text_of h (jget raw ''kind'');
          required = (case jget raw ''required'' of None \<Rightarrow> True | Some v \<Rightarrow> truthy v);
          proof = evidence_for h raw index evidence in
      if kind \<notin> set supported_criteria
      then Inr \<lparr>ck_id = cid, ck_kind = (if kind = [] then ''unknown'' else kind), ck_status = CrUnsupported,
                ck_required = required, ck_evidence = proof\<rparr>
      else ebind (criterion_passed h kind raw proof artifacts) (\<lambda>passed.
        Inr \<lparr>ck_id = cid, ck_kind = kind, ck_status = (if passed then CrPassed else CrFailed),
             ck_required = required,
             ck_evidence = (if kind = ''artifact_exists''
               then [(''artifact_refs'', JArr (map (JStr \<circ> l_ref) (matching_artifacts h raw artifacts)))]
               else proof)\<rparr>))"

definition verify_goal ::
  "host \<Rightarrow> string \<Rightarrow> jobject list \<Rightarrow> step_row list \<Rightarrow> jobject \<Rightarrow> artifact_row list \<Rightarrow> verification_report res" where
  "verify_goal h gid criteria steps evidence artifacts =
     ebind (emap (check_criterion h evidence artifacts) (zip [0..<length criteria] criteria)) (\<lambda>checks.
     let failures = map s_id (filter (\<lambda>s. s_required s \<and> s_status s \<in> {SFailed, SBlocked, SCancelled}) steps);
         missing = map s_id (filter (\<lambda>s. s_required s \<and> s_status s \<notin> {SSucceeded, SSkipped} \<and>
           s_id s \<notin> set failures) steps) in
     Inr \<lparr>vr_goal = gid,
          vr_passed = (failures = [] \<and> missing = [] \<and> list_all (\<lambda>c. ck_status c = CrPassed) (filter ck_required checks)),
          vr_checks = checks, vr_step_failures = failures, vr_missing = missing\<rparr>)"

text \<open>A report passes only with every required step done and every required criterion proved.\<close>

lemma verify_goal_passed:
  assumes "verify_goal h gid criteria steps evidence artifacts = Inr r" and "vr_passed r"
  shows "\<forall>s\<in>set steps. s_required s \<longrightarrow> s_status s \<in> {SSucceeded, SSkipped}"
    "\<forall>c\<in>set (vr_checks r). ck_required c \<longrightarrow> ck_status c = CrPassed" "length (vr_checks r) = length criteria"
proof -
  from assms(1) obtain checks where c: "emap (check_criterion h evidence artifacts) (zip [0..<length criteria] criteria) = Inr checks"
    by (auto simp: verify_goal_def)
  let ?failed = "filter (\<lambda>s. s_required s \<and> s_status s \<in> {SFailed, SBlocked, SCancelled}) steps"
  have r: "?failed = []" "filter (\<lambda>s. s_required s \<and> s_status s \<notin> {SSucceeded, SSkipped} \<and> s_id s \<notin> set (map s_id ?failed)) steps = []"
    "list_all (\<lambda>c. ck_status c = CrPassed) (filter ck_required checks)" "vr_checks r = checks"
    using assms c unfolding verify_goal_def Let_def by auto
  show "length (vr_checks r) = length criteria" using emap_Inr_length[OF c] r(4) by simp
  show "\<forall>s\<in>set steps. s_required s \<longrightarrow> s_status s \<in> {SSucceeded, SSkipped}"
    using r(2) unfolding r(1) filter_empty_conv by auto
  show "\<forall>c\<in>set (vr_checks r). ck_required c \<longrightarrow> ck_status c = CrPassed"
    using r(3,4) by (auto simp: list_all_iff)
qed

end
