(* ===== verification/Goal_Supervisor.thy ===== *)
theory Goal_Supervisor
  imports Goal_Effects Goal_Conditions Work_Scheduler
begin

text \<open>
  The supervisor of goals (\<^verbatim>\<open>backend/goals/supervisor.py\<close>): one tick wakes what is due, makes steps
  ready, dispatches them, applies what their handlers return and moves the goal; the fencing of
  expired leases it starts with (\<^verbatim>\<open>backend/goals/recovery.py\<close>) and the execution boundary
  (\<^verbatim>\<open>backend/goals/executor.py\<close>).  Handlers, wait resolvers and the budget of a parent session are
  functions that also say what the store is afterwards: whatever other callers did meanwhile, the
  renewals of the step's own lease by the heartbeat task included.
  Between two repository calls of a tick nothing else runs; a writer that did would make the next
  call raise a conflict, which ends the tick as any exception does.
\<close>

section \<open>The supervisor and its collaborators\<close>

record supervisor =
  sv_worker :: string
  sv_max_dispatch :: nat
  sv_ttl :: rat

definition new_supervisor :: "string \<Rightarrow> int \<Rightarrow> rat \<Rightarrow> supervisor" where
  "new_supervisor worker max_dispatch ttl =
     \<lparr>sv_worker = (if worker = [] then ''goal-supervisor'' else worker),
      sv_max_dispatch = nat (max 1 (min 32 max_dispatch)), sv_ttl = max 5 ttl\<rparr>"

definition system_caller :: "string \<Rightarrow> caller" where
  "system_caller worker = \<lparr>ca_actor = Some \<lparr>actor_kind = ''system'', actor_id = worker\<rparr>, ca_correlation = []\<rparr>"

text \<open>\<^verbatim>\<open>StepExecutionResult\<close>, without the metadata, which the supervisor does not read.\<close>

record step_result =
  xr_status :: string
  xr_result_ref :: string
  xr_diagnostics :: string
  xr_error :: string
  xr_wait_source :: string
  xr_wait_matcher :: jobject
  xr_wake_at :: rat
  xr_projection :: jobject

definition result_of :: "string \<Rightarrow> string \<Rightarrow> step_result" where
  "result_of st err = \<lparr>xr_status = st, xr_result_ref = [], xr_diagnostics = [], xr_error = err,
     xr_wait_source = [], xr_wait_matcher = [], xr_wake_at = 0, xr_projection = []\<rparr>"

datatype step_value =
    StepNone
  | StepResult step_result
  | StepText string
  | StepMapping jobject
  | StepOther

datatype step_end =
    StepReturned step_value
  | StepStopped
  | StepError string

record collaborators =
  co_resolver :: "string \<Rightarrow> (wait_row \<Rightarrow> goal_db \<Rightarrow> json res \<times> goal_db) option"
  co_event_driven :: "string list"
  co_handler :: "string \<Rightarrow> (goal_row \<Rightarrow> step_row \<Rightarrow> attempt_row \<Rightarrow> goal_db \<Rightarrow> step_end \<times> goal_db) option"
  co_stop :: "goal_db \<Rightarrow> bool"
  co_refresh :: "(goal_db \<Rightarrow> unit res \<times> goal_db) option"

text \<open>A reading call: its result, and the store as it is.\<close>

definition look :: "'a res \<Rightarrow> goal_db \<Rightarrow> 'a res \<times> goal_db" where
  "look r db = (r, db)"

section \<open>Expired leases\<close>

fun fence_effects :: "host \<Rightarrow> string \<Rightarrow> effect_row list \<Rightarrow> goal_db \<Rightarrow> unit res \<times> goal_db" where
  "fence_effects h gid [] db = (Inr (), db)"
| "fence_effects h gid (e # es) db =
     (if e_status e \<noteq> EfDispatched then fence_effects h gid es db
      else obind (look (require_goal gid db) db) (\<lambda>latest db.
        obind (update_effect h (e_id e) (g_version latest) ''unknown_effect'' [] []
          ''backend ownership ended before effect completion was reconciled''
          (system_caller ''goal-recovery'') db) (\<lambda>_ db. fence_effects h gid es db)))"

definition lease_expired :: "step_row \<Rightarrow> rat \<Rightarrow> bool" where
  "lease_expired s current \<longleftrightarrow> s_status s \<in> {SLeased, SRunning} \<and> expiry s \<noteq> 0 \<and> expiry s \<le> current"

definition fence_step :: "host \<Rightarrow> string \<Rightarrow> step_row \<Rightarrow> goal_db \<Rightarrow> (string \<times> bool) res \<times> goal_db" where
  "fence_step h gid step db =
     obind (look (list_effects gid db) db) (\<lambda>rows db.
     let effects = filter (\<lambda>r. e_step r = s_id step \<and> e_attempt r = s_attempts step) rows;
         unknown = list_ex (\<lambda>r. e_status r \<in> {EfDispatched, EfUnknown}) effects in
     obind (fence_effects h gid effects db) (\<lambda>_ db.
     obind (look (require_goal gid db) db) (\<lambda>latest db.
     obind (finish_step h gid (s_id step) (g_version latest)
       \<lparr>sf_status = ''blocked'', sf_result_ref = [], sf_error_ref = [],
        sf_error = (if unknown then ''expired lease has an uncertain external effect; explicit retry required''
                    else ''expired step lease; explicit retry required''),
        sf_attempt = None, sf_owner = [], sf_epoch = None\<rparr> (system_caller ''goal-recovery'') db) (\<lambda>(_, updated) db.
     (Inr (s_id updated, unknown), db)))))"

fun fence_steps :: "host \<Rightarrow> string \<Rightarrow> rat \<Rightarrow> step_row list \<Rightarrow> goal_db \<Rightarrow> (string \<times> bool) list res \<times> goal_db" where
  "fence_steps h gid current [] db = (Inr [], db)"
| "fence_steps h gid current (s # ss) db =
     (if \<not> lease_expired s current then fence_steps h gid current ss db
      else obind (look (require_goal gid db) db) (\<lambda>_ db.
        obind (fence_step h gid s db) (\<lambda>one db.
        obind (fence_steps h gid current ss db) (\<lambda>more db. (Inr (one # more), db)))))"

text \<open>\<^verbatim>\<open>reconcile_expired_step_leases\<close> of one goal: the steps it blocked, with their uncertainty.\<close>

definition reconcile_goal :: "host \<Rightarrow> string \<Rightarrow> rat \<Rightarrow> goal_db \<Rightarrow> (string \<times> bool) list res \<times> goal_db" where
  "reconcile_goal h gid current db =
     obind (look (require_goal gid db) db) (\<lambda>_ db.
     obind (look (list_steps gid db) db) (\<lambda>steps db. fence_steps h gid current steps db))"

section \<open>Waits that are due\<close>

definition resolved_value :: "json \<Rightarrow> jobject option" where
  "resolved_value v = (case v of JNull \<Rightarrow> None | JBool False \<Rightarrow> None | JObj kvs \<Rightarrow> Some kvs
     | _ \<Rightarrow> Some [(''value'', v)])"

definition resolve_wait :: "collaborators \<Rightarrow> rat \<Rightarrow> wait_row \<Rightarrow> goal_db \<Rightarrow> jobject option res \<times> goal_db" where
  "resolve_wait co now wait db =
     (case co_resolver co (w_source wait) of
        Some f \<Rightarrow> obind (f wait db) (\<lambda>v db. (Inr (resolved_value v), db))
      | None \<Rightarrow> (Inr (if wait_is_ready wait now None
          then Some [(''source'', JStr (w_source wait)),
            (''wake_at'', JFloat (case w_wake wait of None \<Rightarrow> 0 | Some t \<Rightarrow> t)),
            (''satisfied_by'', JStr ''supervisor_clock'')] else None), db))"

fun wake_loop :: "host \<Rightarrow> supervisor \<Rightarrow> collaborators \<Rightarrow> string \<Rightarrow> rat \<Rightarrow> wait_row list \<Rightarrow> goal_row \<Rightarrow> goal_db \<Rightarrow>
    goal_row res \<times> goal_db" where
  "wake_loop h sv co gid now [] goal db = (Inr goal, db)"
| "wake_loop h sv co gid now (w # ws) goal db =
     obind (resolve_wait co now w db) (\<lambda>resolved db.
     case resolved of
       None \<Rightarrow> wake_loop h sv co gid now ws goal db
     | Some v \<Rightarrow> obind (look (require_goal gid db) db) (\<lambda>latest db.
         obind (satisfy_wait h (w_id w) (g_version latest) v [] (system_caller (sv_worker sv)) db)
           (\<lambda>(g, _, _) db. wake_loop h sv co gid now ws g db)))"

definition wake_due :: "host \<Rightarrow> supervisor \<Rightarrow> collaborators \<Rightarrow> rat \<Rightarrow> goal_row \<Rightarrow> goal_db \<Rightarrow> goal_row res \<times> goal_db" where
  "wake_due h sv co now goal db =
     obind (look (list_waits (g_id goal) ''pending'' db) db) (\<lambda>waits db.
       wake_loop h sv co (g_id goal) now waits goal db)"

section \<open>Steps that are ready\<close>

definition step_dependencies :: "string \<Rightarrow> (string \<times> string list) list \<Rightarrow> string list" where
  "step_dependencies sid deps = (case map_of deps sid of None \<Rightarrow> [] | Some ds \<Rightarrow> ds)"

fun prepare_loop :: "host \<Rightarrow> supervisor \<Rightarrow> string \<Rightarrow> rat \<Rightarrow> (string \<times> string list) list \<Rightarrow> step_row list \<Rightarrow>
    (string \<Rightarrow> step_row option) \<Rightarrow> goal_row \<Rightarrow> goal_db \<Rightarrow> goal_row res \<times> goal_db" where
  "prepare_loop h sv gid now deps [] by_id goal db = (Inr goal, db)"
| "prepare_loop h sv gid now deps (s # ss) by_id goal db =
     (case get_step gid (s_id s) db of
        None \<Rightarrow> prepare_loop h sv gid now deps ss by_id goal db
      | Some current \<Rightarrow>
          if s_status current \<notin> {SPending, SRetryScheduled, SReady}
          then prepare_loop h sv gid now deps ss by_id goal db
          else
            let d = dependency_readiness current (step_dependencies (s_id current) deps) by_id now in
            if rd_state d \<in> {SReady, SBlocked} \<and> s_status current \<noteq> rd_state d
            then obind (set_step_status h gid (s_id current) (step_status_text (rd_state d)) (g_version goal)
                (Some (s_version current)) (rd_reason d) 0 (system_caller (sv_worker sv)) db)
              (\<lambda>(g, updated) db. prepare_loop h sv gid now deps ss (by_id(s_id updated \<mapsto> updated)) g db)
            else prepare_loop h sv gid now deps ss by_id goal db)"

definition prepare_ready :: "host \<Rightarrow> supervisor \<Rightarrow> rat \<Rightarrow> goal_row \<Rightarrow> goal_db \<Rightarrow> goal_row res \<times> goal_db" where
  "prepare_ready h sv now goal db =
     obind (look (list_steps (g_id goal) db) db) (\<lambda>steps db.
       prepare_loop h sv (g_id goal) now (goal_dependencies (g_id goal) db) steps
         (map_of (map (\<lambda>s. (s_id s, s)) steps)) goal db)"

section \<open>Results of steps\<close>

text \<open>Whether the attempt that produced the result still owns the step.\<close>

definition result_owned :: "host \<Rightarrow> step_row \<Rightarrow> int \<Rightarrow> step_row \<Rightarrow> bool" where
  "result_owned h step att current \<longleftrightarrow> s_attempts current = att \<and> s_epoch current = s_epoch step \<and>
     s_owner current = s_owner step \<and> s_status current \<in> {SLeased, SRunning} \<and>
     \<not> (expiry current \<noteq> 0 \<and> expiry current \<le> clock h)"

definition project_result ::
  "host \<Rightarrow> supervisor \<Rightarrow> string \<Rightarrow> string \<Rightarrow> int \<Rightarrow> jobject \<Rightarrow> goal_row \<Rightarrow> goal_db \<Rightarrow> goal_row res \<times> goal_db" where
  "project_result h sv gid sid att proj goal db =
     (case jget proj ''snapshot_cursor'' of
        Some (JObj cursor) \<Rightarrow>
          obind (update_attempt_projection h gid sid (g_version goal)
            \<lparr>ap_attempt = att, ap_cursor = cursor, ap_machine = text_of h (jget proj ''machine_revision''),
             ap_run = text_of h (jget proj ''native_run_id''),
             ap_receipt = text_of h (jget proj ''last_receipt_id'')\<rparr> (system_caller (sv_worker sv)) db)
          (\<lambda>_ db. look (require_goal gid db) db)
      | _ \<Rightarrow> (Inr goal, db))"

definition finish_owned ::
  "host \<Rightarrow> supervisor \<Rightarrow> goal_row \<Rightarrow> step_row \<Rightarrow> int \<Rightarrow> string \<Rightarrow> step_result \<Rightarrow> string \<Rightarrow> goal_db \<Rightarrow>
   (goal_row \<times> step_row) res \<times> goal_db" where
  "finish_owned h sv goal step att st r ref db =
     finish_step h (g_id goal) (s_id step) (g_version goal)
       \<lparr>sf_status = st, sf_result_ref = ref, sf_error_ref = xr_diagnostics r, sf_error = xr_error r,
        sf_attempt = Some att, sf_owner = s_owner step, sf_epoch = Some (s_epoch step)\<rparr>
       (system_caller (sv_worker sv)) db"

definition apply_owned ::
  "host \<Rightarrow> supervisor \<Rightarrow> collaborators \<Rightarrow> step_row \<Rightarrow> int \<Rightarrow> step_row \<Rightarrow> step_result \<Rightarrow> goal_row \<Rightarrow> goal_db \<Rightarrow>
   goal_row res \<times> goal_db" where
  "apply_owned h sv co step att current r goal db =
     (let gid = g_id goal; sid = s_id current in
      if xr_status r = ''waiting'' then
        obind (create_wait h gid sid (g_version goal)
          (if xr_wait_source r = [] then ''external'' else xr_wait_source r) (xr_wait_matcher r) (xr_wake_at r)
          (system_caller (sv_worker sv)) db) (\<lambda>_ db.
        obind (if xr_wait_source r \<in> set (co_event_driven co)
               then obind (look (require_goal gid db) db) (\<lambda>g db. wake_due h sv co (clock h) g db)
               else (Inr goal, db)) (\<lambda>_ db.
        look (require_goal gid db) db))
      else if xr_status r = ''retry_scheduled'' then
        obind (finish_owned h sv goal step att ''failed'' r [] db) (\<lambda>(g, _) db.
        if s_max_attempts current \<le> s_attempts current then (Inr g, db)
        else obind (look (float_or h (jget (s_retry_policy current) ''base_delay_s'') (1/2)) db) (\<lambda>delay db.
          obind (retry_step h gid sid (g_version g) delay False (system_caller (sv_worker sv)) db)
            (\<lambda>(g', _) db. (Inr g', db))))
      else obind (finish_owned h sv goal step att (xr_status r) r (xr_result_ref r) db) (\<lambda>(g, _) db. (Inr g, db)))"

definition apply_result ::
  "host \<Rightarrow> supervisor \<Rightarrow> collaborators \<Rightarrow> goal_row \<Rightarrow> step_row \<Rightarrow> int \<Rightarrow> step_result \<Rightarrow> goal_db \<Rightarrow>
   goal_row res \<times> goal_db" where
  "apply_result h sv co goal step att r db =
     (case get_step (g_id goal) (s_id step) db of
        None \<Rightarrow> (Inr goal, db)
      | Some current \<Rightarrow>
          if \<not> result_owned h step att current then look (require_goal (g_id goal) db) db
          else obind (look (require_goal (g_id goal) db) db) (\<lambda>goal1 db.
            obind (project_result h sv (g_id goal1) (s_id current) att (xr_projection r) goal1 db) (\<lambda>goal2 db.
            apply_owned h sv co step att current r goal2 db)))"

section \<open>Execution\<close>

text \<open>\<^verbatim>\<open>StepExecutor._coerce\<close>.\<close>

fun coerce_result :: "host \<Rightarrow> step_value \<Rightarrow> step_result res" where
  "coerce_result h StepNone = Inr (result_of ''succeeded'' [])"
| "coerce_result h (StepResult r) = Inr r"
| "coerce_result h (StepText t) = Inr ((result_of ''succeeded'' [])\<lparr>xr_result_ref := t\<rparr>)"
| "coerce_result h (StepMapping m) =
     ebind (dict_of (jget m ''wait_matcher'')) (\<lambda>matcher.
     ebind (float_or_zero h (jget m ''wake_at'')) (\<lambda>wake.
     ebind (dict_of (jget m ''snapshot_projection'')) (\<lambda>proj.
     Inr \<lparr>xr_status = (if given m ''status'' then text_of h (jget m ''status'') else ''succeeded''),
          xr_result_ref = text_of h (jget m ''result_ref''),
          xr_diagnostics = (if given m ''diagnostics_ref'' then text_of h (jget m ''diagnostics_ref'')
                            else text_of h (jget m ''error_ref'')),
          xr_error = text_of h (jget m ''error''), xr_wait_source = text_of h (jget m ''wait_source''),
          xr_wait_matcher = matcher, xr_wake_at = wake, xr_projection = proj\<rparr>)))"
| "coerce_result h StepOther = Inl (TypeErr ''goal step handler returned an unsupported result'')"

text \<open>Whether a handler should stop: the goal or its job is cancelled, or the step is not its own.\<close>

definition should_stop :: "host \<Rightarrow> collaborators \<Rightarrow> string \<Rightarrow> step_row \<Rightarrow> goal_db \<Rightarrow> bool res" where
  "should_stop h co gid step db =
     ebind (require_goal gid db) (\<lambda>goal.
     Inr (g_status goal = GCancelled \<or> co_stop co db \<or>
       (case get_step gid (s_id step) db of
          None \<Rightarrow> True
        | Some current \<Rightarrow> s_status current \<notin> {SLeased, SRunning} \<or> s_owner current \<noteq> s_owner step \<or>
            s_epoch current \<noteq> s_epoch step \<or> expiry current \<le> clock h)))"

definition renew_step :: "host \<Rightarrow> supervisor \<Rightarrow> collaborators \<Rightarrow> string \<Rightarrow> step_row \<Rightarrow> goal_db \<Rightarrow> step_row res \<times> goal_db" where
  "renew_step h sv co gid step db =
     obind (look (should_stop h co gid step db) db) (\<lambda>stop db.
     if stop then (Inl (GoalConflict ''step execution ownership revoked''), db)
     else heartbeat_step h gid (s_id step) (s_owner step) (s_epoch step) (sv_ttl sv) db)"

definition step_outcomes :: "string list" where
  "step_outcomes = [''succeeded'', ''failed'', ''blocked'', ''cancelled'', ''waiting'', ''retry_scheduled'']"

text \<open>\<^verbatim>\<open>StepExecutor.execute\<close>; an exception of the handler is the result its caller makes of it.\<close>

definition failed_with :: "string \<Rightarrow> step_result" where
  "failed_with msg = result_of ''failed'' msg"

definition stopped_result :: step_result where
  "stopped_result = result_of ''cancelled'' ''step execution cancelled''"

definition settle_value :: "host \<Rightarrow> step_result \<Rightarrow> bool res \<Rightarrow> step_result" where
  "settle_value h r stop =
     (case stop of
        Inl e \<Rightarrow> failed_with (exc_text e)
      | Inr b \<Rightarrow>
          if b \<and> xr_status r \<notin> {''cancelled'', ''failed''} then result_of ''cancelled'' ''goal cancelled''
          else if xr_status r \<notin> set step_outcomes
          then failed_with (''ValueError: unsupported step handler status: '' @ xr_status r)
          else r)"

definition execute_step ::
  "host \<Rightarrow> collaborators \<Rightarrow> goal_row \<Rightarrow> step_row \<Rightarrow> attempt_row \<Rightarrow> goal_db \<Rightarrow> step_result \<times> goal_db" where
  "execute_step h co goal step att db =
     (case should_stop h co (g_id goal) step db of
        Inl e \<Rightarrow> (failed_with (exc_text e), db)
      | Inr True \<Rightarrow> (result_of ''cancelled'' ''goal cancelled'', db)
      | Inr False \<Rightarrow> (case co_handler co (s_kind step) of
          None \<Rightarrow> (result_of ''blocked'' (''unsupported_step_handler:'' @ s_kind step), db)
        | Some f \<Rightarrow> (case f goal step att db of (ended, db1) \<Rightarrow>
            ((case ended of
               StepStopped \<Rightarrow> stopped_result
             | StepError msg \<Rightarrow> failed_with msg
             | StepReturned v \<Rightarrow> (case coerce_result h v of
                 Inl e \<Rightarrow> failed_with (exc_text e)
               | Inr r \<Rightarrow> settle_value h r (should_stop h co (g_id goal) step db1))), db1))))"


section \<open>Dispatch\<close>

text \<open>A step of kind \<^verbatim>\<open>wait\<close>: it waits, or fails when its time is missing.\<close>

definition wait_times :: "host \<Rightarrow> jobject \<Rightarrow> rat \<times> rat" where
  "wait_times h spec =
     (case ebind (float_or_zero h (jget spec ''wake_at'')) (\<lambda>w.
           ebind (float_or_zero h (jget spec ''delay_s'')) (\<lambda>d. Inr (w, d))) of
        Inl _ \<Rightarrow> (0, 0) | Inr p \<Rightarrow> p)"

definition dispatch_wait ::
  "host \<Rightarrow> supervisor \<Rightarrow> collaborators \<Rightarrow> goal_row \<Rightarrow> step_row \<Rightarrow> int \<Rightarrow> goal_db \<Rightarrow> goal_row res \<times> goal_db" where
  "dispatch_wait h sv co goal running att db =
     (let spec = (if s_wait_spec running \<noteq> [] then s_wait_spec running else s_config running);
          source = (let t = text_of h (jget spec ''source'') in if t = [] then ''time'' else t);
          times = wait_times h spec;
          wake = (if source = ''time'' \<and> fst times \<le> 0 \<and> 0 < snd times then clock h + snd times else fst times) in
      if source = ''time'' \<and> wake \<le> 0
      then apply_result h sv co goal running att
        (failed_with ''time wait requires a positive wake_at or delay_s'') db
      else obind (look (dict_of (jget spec ''matcher'')) db) (\<lambda>matcher db.
        obind (create_wait h (g_id goal) (s_id running) (g_version goal) source matcher wake
          (system_caller (sv_worker sv)) db) (\<lambda>_ db. look (require_goal (g_id goal) db) db)))"

definition dispatch_input ::
  "host \<Rightarrow> supervisor \<Rightarrow> goal_row \<Rightarrow> step_row \<Rightarrow> goal_db \<Rightarrow> goal_row res \<times> goal_db" where
  "dispatch_input h sv goal running db =
     (let prompt = text_of h (jget (s_config running) ''prompt'') in
      obind (look (dict_of (jget (s_config running) ''schema'')) db) (\<lambda>sch db.
      obind (request_input h (g_id goal) (s_id running) (g_version goal)
        (if prompt \<noteq> [] then prompt else if s_instructions running \<noteq> [] then s_instructions running
         else ''Input required'') sch (system_caller (sv_worker sv)) db) (\<lambda>_ db.
      look (require_goal (g_id goal) db) db)))"

text \<open>A verification step checks its own criteria, with itself as the only step, done.\<close>

definition evidence_of :: "json \<Rightarrow> jobject" where
  "evidence_of v = (case v of JObj kvs \<Rightarrow> kvs | _ \<Rightarrow> [])"

fun objects_of :: "json list \<Rightarrow> jobject list" where
  "objects_of [] = []"
| "objects_of (JObj kvs # xs) = kvs # objects_of xs"
| "objects_of (_ # xs) = objects_of xs"

definition verification_result :: "host \<Rightarrow> goal_row \<Rightarrow> step_row \<Rightarrow> goal_db \<Rightarrow> step_result res" where
  "verification_result h goal step db =
     (let criteria = (case jget (s_verification step) ''criteria'' of Some (JArr xs) \<Rightarrow> objects_of xs
        | _ \<Rightarrow> g_criteria goal) in
      ebind (state_get (g_id goal) (Some ''evidence'') db) (\<lambda>evidence.
      ebind (list_artifacts (g_id goal) db) (\<lambda>artifacts.
      ebind (verify_goal h (g_id goal) criteria [step\<lparr>s_status := SSucceeded\<rparr>] (evidence_of evidence) artifacts) (\<lambda>report.
      Inr (if vr_passed report then result_of ''succeeded'' [] else failed_with ''deterministic verification failed'')))))"

type_synonym external_step = "goal_row \<times> step_row \<times> attempt_row"

fun dispatch_loop :: "host \<Rightarrow> supervisor \<Rightarrow> collaborators \<Rightarrow> string \<Rightarrow> step_row list \<Rightarrow> goal_row \<Rightarrow>
    external_step list \<Rightarrow> goal_db \<Rightarrow> (goal_row \<times> external_step list) res \<times> goal_db" where
  "dispatch_loop h sv co gid [] goal ext db = (Inr (goal, ext), db)"
| "dispatch_loop h sv co gid (s # ss) goal ext db =
     obind (lease_step h gid (s_id s) (g_version goal) (sv_worker sv) (sv_ttl sv) (system_caller (sv_worker sv)) db)
       (\<lambda>(goal1, leased, _) db.
     obind (start_step h gid (s_id s) (g_version goal1) (s_owner leased) (s_epoch leased) (system_caller (sv_worker sv)) db)
       (\<lambda>(goal2, running, att) db.
     if s_kind running = ''wait'' then
       obind (dispatch_wait h sv co goal2 running (a_attempt att) db) (\<lambda>goal3 db. dispatch_loop h sv co gid ss goal3 ext db)
     else if s_kind running = ''input'' then
       obind (dispatch_input h sv goal2 running db) (\<lambda>goal3 db. dispatch_loop h sv co gid ss goal3 ext db)
     else if s_kind running = ''verification'' then
       obind (look (verification_result h goal2 running db) db) (\<lambda>r db.
       obind (apply_result h sv co goal2 running (a_attempt att) r db) (\<lambda>goal3 db. dispatch_loop h sv co gid ss goal3 ext db))
     else
       obind (look (goal_scope goal2 (s_id running) (a_attempt att)) db) (\<lambda>_ db.
       dispatch_loop h sv co gid ss goal2 (ext @ [(goal2, running, att)]) db)))"

text \<open>
  \<^verbatim>\<open>asyncio.gather\<close> over the owned executions: every step renews its lease before the first handler
  starts; then the handlers run, each with whatever else happens meanwhile.
\<close>

fun renew_all :: "host \<Rightarrow> supervisor \<Rightarrow> collaborators \<Rightarrow> external_step list \<Rightarrow> goal_db \<Rightarrow>
    step_result option list \<times> goal_db" where
  "renew_all h sv co [] db = ([], db)"
| "renew_all h sv co ((goal, step, att) # es) db =
     (case renew_step h sv co (g_id goal) step db of (r, db1) \<Rightarrow>
      case renew_all h sv co es db1 of (rs, db2) \<Rightarrow>
        ((case r of Inl e \<Rightarrow> Some (failed_with (exc_text e)) | Inr _ \<Rightarrow> None) # rs, db2))"

fun execute_all :: "host \<Rightarrow> collaborators \<Rightarrow> (external_step \<times> step_result option) list \<Rightarrow> goal_db \<Rightarrow>
    step_result list \<times> goal_db" where
  "execute_all h co [] db = ([], db)"
| "execute_all h co (((goal, step, att), renewed) # es) db =
     (case (case renewed of Some r \<Rightarrow> (r, db) | None \<Rightarrow> execute_step h co goal step att db) of (r, db1) \<Rightarrow>
      case execute_all h co es db1 of (rs, db2) \<Rightarrow> (r # rs, db2))"

fun apply_all :: "host \<Rightarrow> supervisor \<Rightarrow> collaborators \<Rightarrow> string \<Rightarrow> (external_step \<times> step_result) list \<Rightarrow> goal_row \<Rightarrow>
    goal_db \<Rightarrow> goal_row res \<times> goal_db" where
  "apply_all h sv co gid [] goal db = (Inr goal, db)"
| "apply_all h sv co gid (((_, step, att), r) # es) goal db =
     obind (look (require_goal gid db) db) (\<lambda>g db.
     obind (apply_result h sv co g step (a_attempt att) r db) (\<lambda>g db. apply_all h sv co gid es g db))"

text \<open>\<open>h\<close> is the host up to the handlers, \<open>h'\<close> the one after them, at a later time.\<close>

definition dispatch :: "host \<Rightarrow> host \<Rightarrow> supervisor \<Rightarrow> collaborators \<Rightarrow> goal_row \<Rightarrow> goal_db \<Rightarrow> goal_row res \<times> goal_db" where
  "dispatch h h' sv co goal db =
     obind (look (list_steps (g_id goal) db) db) (\<lambda>steps db.
     obind (dispatch_loop h sv co (g_id goal) (take (sv_max_dispatch sv) (filter (\<lambda>s. s_status s = SReady) steps)) goal [] db)
       (\<lambda>(goal1, ext) db.
     case renew_all h sv co ext db of (renewed, db1) \<Rightarrow>
     case execute_all h' co (zip ext renewed) db1 of (results, db2) \<Rightarrow>
     apply_all h' sv co (g_id goal) (zip ext results) goal1 db2))"

section \<open>A tick\<close>

datatype aggregate = AggVerify | AggStatus goal_status

definition aggregate_status :: "step_row list \<Rightarrow> aggregate" where
  "aggregate_status steps =
     (if steps = [] then AggStatus GBlocked
      else if list_all (\<lambda>s. \<not> s_required s \<or> s_status s \<in> {SSucceeded, SSkipped}) steps then AggVerify
      else if list_ex (\<lambda>s. s_status s = SWaiting \<and> s_kind s = ''input'') steps then AggStatus GWaitingUser
      else if list_ex (\<lambda>s. s_status s = SWaiting) steps then AggStatus GWaitingExternal
      else if list_ex (\<lambda>s. s_required s \<and> s_status s \<in> {SFailed, SBlocked, SCancelled}) steps then AggStatus GBlocked
      else AggStatus GRunning)"

definition verification_report_of :: "host \<Rightarrow> string \<Rightarrow> goal_db \<Rightarrow> verification_report res" where
  "verification_report_of h gid db =
     ebind (require_goal gid db) (\<lambda>goal.
     ebind (state_get gid (Some ''evidence'') db) (\<lambda>evidence.
     ebind (list_steps gid db) (\<lambda>steps.
     ebind (list_artifacts gid db) (\<lambda>artifacts.
     verify_goal h gid (g_criteria goal) steps (evidence_of evidence) artifacts))))"

record tick_report =
  tk_status :: goal_status
  tk_dispatched :: int
  tk_reason :: string

text \<open>A composer goal whose turn was blocked for a continuation: its step is scheduled again.\<close>

definition continue_blocked ::
  "host \<Rightarrow> supervisor \<Rightarrow> goal_row \<Rightarrow> aggregate \<Rightarrow> goal_db \<Rightarrow> aggregate res \<times> goal_db" where
  "continue_blocked h sv goal target db =
     obind (look (state_get (g_id goal) (Some ''objective_outcome'') db) db) (\<lambda>raw db.
     if target = AggStatus GBlocked \<and> given (g_policy goal) ''auto_continue'' then
       (case (if truthy raw then raw else JObj []) of
          JObj outcome \<Rightarrow>
            if jget outcome ''status'' = Some (JStr ''continuing'') \<and>
               (case jget outcome ''continuation_allowed'' of None \<Rightarrow> True | Some v \<Rightarrow> truthy v) then
              (case get_step (g_id goal) (text_of h (jget outcome ''step_id'')) db of
                 None \<Rightarrow> (Inr target, db)
               | Some step \<Rightarrow>
                   if s_status step \<noteq> SBlocked then (Inr target, db)
                   else obind (retry_step h (g_id goal) (s_id step) (g_version goal) 0 True
                       (system_caller (sv_worker sv)) db) (\<lambda>_ db. (Inr (AggStatus GRunning), db)))
            else (Inr target, db)
        | _ \<Rightarrow> (Inl (RuntimeErr ''AttributeError''), db))
     else (Inr target, db))"

text \<open>The end of a tick: the status the goal moves to, and the move.\<close>

definition target_status :: "host \<Rightarrow> string \<Rightarrow> aggregate \<Rightarrow> goal_db \<Rightarrow> (goal_status \<times> string) res" where
  "target_status h gid target db =
     (case target of
        AggVerify \<Rightarrow> ebind (verification_report_of h gid db) (\<lambda>report.
          Inr (if vr_passed report then (GSucceeded, [])
               else (GBlocked, ''required deterministic criteria are not satisfied'')))
      | AggStatus st \<Rightarrow> Inr (st, if st = GBlocked then ''required step failed or is blocked'' else []))"

definition move_goal :: "host \<Rightarrow> supervisor \<Rightarrow> string \<Rightarrow> goal_status \<Rightarrow> string \<Rightarrow> goal_db \<Rightarrow> goal_row res \<times> goal_db" where
  "move_goal h sv gid st reason db =
     obind (look (require_goal gid db) db) (\<lambda>latest db.
     if st = g_status latest then (Inr latest, db)
     else transition_goal h (g_id latest) (goal_status_text st) (g_version latest) reason []
       (system_caller (sv_worker sv)) [] db)"

definition settle_goal :: "host \<Rightarrow> supervisor \<Rightarrow> goal_row \<Rightarrow> goal_db \<Rightarrow> goal_row res \<times> goal_db" where
  "settle_goal h sv goal db =
     obind (look (list_steps (g_id goal) db) db) (\<lambda>steps db.
     obind (continue_blocked h sv goal (aggregate_status steps) db) (\<lambda>target db.
     obind (look (target_status h (g_id goal) target db) db) (\<lambda>(st, reason) db.
     move_goal h sv (g_id goal) st reason db)))"

definition attempts_made :: "step_row list \<Rightarrow> int" where
  "attempts_made steps = sum_list (map s_attempts steps)"

definition idle_after_wake :: "goal_status set" where
  "idle_after_wake = {GPaused, GSucceeded, GFailed, GCancelled, GArchived}"

definition run_ready ::
  "host \<Rightarrow> host \<Rightarrow> supervisor \<Rightarrow> collaborators \<Rightarrow> rat \<Rightarrow> goal_row \<Rightarrow> goal_db \<Rightarrow> tick_report res \<times> goal_db" where
  "run_ready h h' sv co now goal db =
     obind (prepare_ready h sv now goal db) (\<lambda>goal db.
     obind (look (list_steps (g_id goal) db) db) (\<lambda>before db.
     obind (dispatch h h' sv co goal db) (\<lambda>goal db.
     obind (look (list_steps (g_id goal) db) db) (\<lambda>after db.
     obind (look (require_goal (g_id goal) db) db) (\<lambda>goal db.
     let n = max 0 (attempts_made after - attempts_made before) in
     if g_status goal \<in> idle_after_wake
     then (Inr \<lparr>tk_status = g_status goal, tk_dispatched = n, tk_reason = []\<rparr>, db)
     else obind (settle_goal h' sv goal db) (\<lambda>goal db.
       (Inr \<lparr>tk_status = g_status goal, tk_dispatched = n, tk_reason = []\<rparr>, db)))))))"

definition tick ::
  "host \<Rightarrow> host \<Rightarrow> supervisor \<Rightarrow> collaborators \<Rightarrow> rat \<Rightarrow> string \<Rightarrow> goal_db \<Rightarrow> tick_report res \<times> goal_db" where
  "tick h h' sv co now gid db =
     (let c = system_caller (sv_worker sv);
          idle = (\<lambda>goal db. (Inr \<lparr>tk_status = g_status goal, tk_dispatched = 0, tk_reason = []\<rparr>, db)) in
      obind (reconcile_goal h gid now db) (\<lambda>_ db.
      obind (look (require_goal gid db) db) (\<lambda>goal db.
      if g_status goal \<in> {GDraft, GPaused, GSucceeded, GFailed, GCancelled, GArchived} then idle goal db
      else
        obind (if g_status goal = GQueued
               then transition_goal h gid ''running'' (g_version goal) [] [] c [] db else (Inr goal, db)) (\<lambda>goal db.
        obind (case co_refresh co of
            Some f \<Rightarrow> if jget (g_policy goal) ''execution_owner'' = Some (JStr ''parent'')
              then obind (f db) (\<lambda>_ db. look (require_goal gid db) db) else (Inr goal, db)
          | None \<Rightarrow> (Inr goal, db)) (\<lambda>goal db.
        let budget = budget_allows goal now in
        if \<not> bd_allowed budget then
          obind (transition_goal h gid ''paused'' (g_version goal) (bd_reason budget) [] c
            ''goal.budget_exhausted'' db) (\<lambda>goal db.
          (Inr \<lparr>tk_status = g_status goal, tk_dispatched = 0, tk_reason = bd_reason budget\<rparr>, db))
        else
          obind (wake_due h sv co now goal db) (\<lambda>_ db.
          obind (look (require_goal gid db) db) (\<lambda>goal db.
          if g_status goal \<in> idle_after_wake then idle goal db
          else run_ready h h' sv co now goal db)))))))"

section \<open>The next tick\<close>

text \<open>The times at which the work handler asks to be called again, and the first of them.\<close>

definition wakes_of_step ::
  "(string \<times> string list) list \<Rightarrow> (string \<Rightarrow> step_row option) \<Rightarrow> rat \<Rightarrow> step_row \<Rightarrow> rat list" where
  "wakes_of_step deps by_id now s =
     (if s_status s \<notin> {SPending, SReady, SRetryScheduled} then []
      else
        let d = dependency_readiness s (step_dependencies (s_id s) deps) by_id now in
        if rd_state d \<in> {SReady, SBlocked} then [max 0 (s_available s)]
        else if s_status s = SRetryScheduled \<and> now < s_available s then [s_available s] else [])"

definition wake_values ::
  "host \<Rightarrow> collaborators \<Rightarrow> step_row list \<Rightarrow> (string \<times> string list) list \<Rightarrow> wait_row list \<Rightarrow> rat list" where
  "wake_values h co steps deps waits =
     concat (map (wakes_of_step deps (map_of (map (\<lambda>s. (s_id s, s)) steps)) (clock h)) steps) @
     concat (map (\<lambda>w. case w_wake w of None \<Rightarrow> [] | Some t \<Rightarrow> if t = 0 then [] else [t]) waits) @
     (if list_ex (\<lambda>w. \<not> Option.is_none (co_resolver co (w_source w)) \<and> w_source w \<notin> set (co_event_driven co)) waits
      then [clock h + 1/2] else []) @
     concat (map (\<lambda>s. if s_status s \<in> {SLeased, SRunning} \<and> expiry s \<noteq> 0 then [expiry s] else []) steps)"

definition next_wake :: "host \<Rightarrow> collaborators \<Rightarrow> string \<Rightarrow> goal_db \<Rightarrow> rat option res" where
  "next_wake h co gid db =
     ebind (require_goal gid db) (\<lambda>goal.
     if g_status goal \<notin> {GQueued, GRunning, GWaitingUser, GWaitingExternal} then Inr None
     else ebind (list_steps gid db) (\<lambda>steps.
       ebind (list_waits gid ''pending'' db) (\<lambda>waits.
       let values = wake_values h co steps (goal_dependencies gid db) waits in
       Inr (if values = [] then None else Some (foldr min (tl values) (hd values))))))"

end
