(* ===== verification/Goal_Supervisor_Runs.thy ===== *)
theory Goal_Supervisor_Runs
  imports Goal_Runs Goal_Supervisor
begin

text \<open>
  Every tick of the supervisor is a run of the goal store: it changes the store only through the
  operations of the repository, so every invariant and every fencing theorem of the store holds
  across it.  One rule for each operation and combinator; the loops follow by induction.
\<close>

section \<open>Computations that are runs\<close>

named_theorems runs_rules "computations over the goal store that are runs of it"

definition runs :: "goal_db \<Rightarrow> 'a \<times> goal_db \<Rightarrow> bool" where
  "runs db r \<longleftrightarrow> goal_step\<^sup>*\<^sup>* db (snd r)"

lemma runs_same [runs_rules]: "runs db (x, db)"
  by (simp add: runs_def)

lemma runs_look [runs_rules]: "runs db (look r db)"
  by (simp add: look_def runs_same)

lemma runs_obind [runs_rules]: "runs db r \<Longrightarrow> (\<And>x db1. runs db1 (f x db1)) \<Longrightarrow> runs db (obind r f)"
  unfolding runs_def by (cases r; cases "fst r") (auto intro: rtranclp_trans)

lemma runs_if [runs_rules]: "(P \<Longrightarrow> runs db a) \<Longrightarrow> (\<not> P \<Longrightarrow> runs db b) \<Longrightarrow> runs db (if P then a else b)"
  by simp

lemma runs_option [runs_rules]:
  "(x = None \<Longrightarrow> runs db a) \<Longrightarrow> (\<And>y. x = Some y \<Longrightarrow> runs db (b y)) \<Longrightarrow> runs db (case x of None \<Rightarrow> a | Some y \<Rightarrow> b y)"
  by (cases x) simp_all

lemma runs_case_prod [runs_rules]: "(\<And>a b. p = (a, b) \<Longrightarrow> runs db (f a b)) \<Longrightarrow> runs db (case p of (a, b) \<Rightarrow> f a b)"
  by (cases p) simp

lemma runs_case_app [runs_rules]: "(\<And>a b. p = (a, b) \<Longrightarrow> runs db (f a b db1)) \<Longrightarrow> runs db ((case p of (a, b) \<Rightarrow> f a b) db1)"
  by (cases p) simp

lemma runs_trans: "runs db (x, db1) \<Longrightarrow> runs db1 r \<Longrightarrow> runs db r"
  unfolding runs_def by (auto intro: rtranclp_trans)

section \<open>The operations\<close>

text \<open>An operation that raises leaves the store; one that returns is a step.\<close>

lemma runs_op:
  assumes "\<And>x db'. r = (Inr x, db') \<Longrightarrow> goal_op gid db db'" and "\<And>e db'. r = (Inl e, db') \<Longrightarrow> db' = db"
  shows "runs db r"
proof (cases r)
  case (Pair a db')
  then show ?thesis
    using assms by (cases a) (auto simp: runs_def intro: r_into_rtranclp step_goal)
qed

lemma runs_versioned:
  assumes "\<And>x db'. r = (Inr x, db') \<Longrightarrow> versioned gid v db db'" and "\<And>e db'. r = (Inl e, db') \<Longrightarrow> db' = db"
  shows "runs db r"
  by (rule runs_op[where gid = gid]) (use assms op_versioned in blast)+

lemma runs_lease [runs_rules]: "runs db (lease_step h gid sid v w ttl c db)"
  by (rule runs_versioned, erule versioned.intros) (auto simp: lease_step_def split: sum.splits dest: goal_write_Inl)

lemma runs_start [runs_rules]: "runs db (start_step h gid sid v w e c db)"
  by (rule runs_versioned, erule versioned.intros) (auto simp: start_step_def dest: goal_write_Inl)

lemma runs_finish [runs_rules]: "runs db (finish_step h gid sid v q c db)"
  by (rule runs_versioned, erule versioned.intros)
    (auto simp: finish_step_def split: option.splits if_splits dest: goal_write_Inl)

lemma runs_set_status [runs_rules]: "runs db (set_step_status h gid sid st v sv reason av c db)"
  by (rule runs_versioned, erule versioned.intros)
    (auto simp: set_step_status_def split: sum.splits option.splits dest: goal_write_Inl)

lemma runs_projection [runs_rules]: "runs db (update_attempt_projection h gid sid v q c db)"
  by (rule runs_versioned, erule versioned.intros)
    (auto simp: update_attempt_projection_def split: sum.splits dest: goal_write_Inl)

lemma runs_retry [runs_rules]: "runs db (retry_step h gid sid v delay cont c db)"
  by (rule runs_versioned, erule versioned.intros) (auto simp: retry_step_def dest: goal_write_Inl)

lemma runs_wait [runs_rules]: "runs db (create_wait h gid sid v source matcher wake c db)"
  by (rule runs_versioned, erule versioned.intros) (auto simp: create_wait_def split: sum.splits dest: goal_write_Inl)

lemma runs_input [runs_rules]: "runs db (request_input h gid sid v q sch c db)"
  by (rule runs_versioned, erule versioned.intros) (auto simp: request_input_def split: sum.splits dest: goal_write_Inl)

lemma runs_transition [runs_rules]: "runs db (transition_goal h gid st v reason summary c etype db)"
  by (rule runs_versioned, erule versioned.intros)
    (auto simp: transition_goal_def split: sum.splits option.splits dest: goal_write_Inl)

lemma runs_heartbeat [runs_rules]: "runs db (heartbeat_step h gid sid w e ttl db)"
  by (rule runs_op, erule op_heartbeat) (auto simp: heartbeat_step_def dest: goal_write_Inl)

lemma runs_satisfy [runs_rules]: "runs db (satisfy_wait h wid v res ev c db)"
proof (cases "wait_row_of wid db")
  case None
  then have "satisfy_wait_tx h wid v res ev c db = Inl (GoalNotFound (''unknown wait: '' @ wid))" by (simp add: satisfy_wait_tx_def)
  then show ?thesis
    using goal_write_Inl[of h "satisfy_wait_tx h wid v res ev c" db]
    by (cases "satisfy_wait h wid v res ev c db"; cases "fst (satisfy_wait h wid v res ev c db)")
      (auto simp: satisfy_wait_def goal_write_Inr runs_def)
next
  case (Some w)
  show ?thesis
    by (rule runs_versioned, erule versioned.intros(13)[OF Some]) (auto simp: satisfy_wait_def dest: goal_write_Inl)
qed

lemma runs_effect [runs_rules]: "runs db (update_effect h eid v st resp receipt err c db)"
proof (cases "get_effect eid db")
  case None
  have "update_effect_tx h eid v s resp receipt err c db = Inl (GoalNotFound (''unknown effect: '' @ eid))" for s
    using None by (simp add: update_effect_tx_def)
  then show ?thesis
    by (intro runs_op[where gid = "[]"])
      (auto simp: update_effect_def goal_write_Inr split: option.splits dest: goal_write_Inl)
next
  case (Some r)
  show ?thesis
    by (rule runs_op, erule op_update[OF Some]) (auto simp: update_effect_def split: option.splits dest: goal_write_Inl)
qed

section \<open>The loops of a tick\<close>

text \<open>Collaborators that change the store only as other callers can.\<close>

definition collaborative :: "collaborators \<Rightarrow> bool" where
  "collaborative co \<longleftrightarrow>
     (\<forall>src f w db. co_resolver co src = Some f \<longrightarrow> runs db (f w db)) \<and>
     (\<forall>kind f g s a db. co_handler co kind = Some f \<longrightarrow> runs db (f g s a db)) \<and>
     (\<forall>f db. co_refresh co = Some f \<longrightarrow> runs db (f db))"

lemma runs_fence_effects [runs_rules]: "runs db (fence_effects h gid es db)"
  by (induction h gid es db rule: fence_effects.induct) (auto intro!: runs_rules)

lemma runs_fence_step [runs_rules]: "runs db (fence_step h gid s db)"
  unfolding fence_step_def Let_def by (intro runs_rules)

lemma runs_fence_steps [runs_rules]: "runs db (fence_steps h gid t ss db)"
  by (induction h gid t ss db rule: fence_steps.induct) (auto intro!: runs_rules)

lemma runs_reconcile [runs_rules]: "runs db (reconcile_goal h gid t db)"
  unfolding reconcile_goal_def by (intro runs_rules)

lemma runs_resolve [runs_rules]: "collaborative co \<Longrightarrow> runs db (resolve_wait co now w db)"
  unfolding resolve_wait_def by (intro runs_rules) (simp add: collaborative_def)

lemma runs_wake_loop [runs_rules]: "collaborative co \<Longrightarrow> runs db (wake_loop h sv co gid now ws goal db)"
  by (induction h sv co gid now ws goal db rule: wake_loop.induct) (auto intro!: runs_rules)

lemma runs_wake_due [runs_rules]: "collaborative co \<Longrightarrow> runs db (wake_due h sv co now goal db)"
  unfolding wake_due_def by (intro runs_rules)

lemma runs_prepare_loop [runs_rules]: "runs db (prepare_loop h sv gid now deps ss by_id goal db)"
proof (induction ss arbitrary: by_id goal db)
  case (Cons s ss)
  show ?case unfolding prepare_loop.simps Let_def by (intro runs_rules Cons.IH)
qed (simp add: runs_same)

lemma runs_prepare [runs_rules]: "runs db (prepare_ready h sv now goal db)"
  unfolding prepare_ready_def by (intro runs_rules)

lemma runs_project [runs_rules]: "runs db (project_result h sv gid sid att proj goal db)"
  unfolding project_result_def by (auto split: option.split json.split intro!: runs_rules)

lemma runs_finish_owned [runs_rules]: "runs db (finish_owned h sv goal step att st r ref db)"
  unfolding finish_owned_def by (intro runs_rules)

lemma runs_apply_owned [runs_rules]: "collaborative co \<Longrightarrow> runs db (apply_owned h sv co step att current r goal db)"
  unfolding apply_owned_def Let_def by (intro runs_rules)

lemma runs_apply_result [runs_rules]: "collaborative co \<Longrightarrow> runs db (apply_result h sv co goal step att r db)"
  unfolding apply_result_def by (intro runs_rules)

lemma runs_renew [runs_rules]: "runs db (renew_step h sv co gid step db)"
  unfolding renew_step_def by (intro runs_rules)

lemma runs_execute [runs_rules]: "collaborative co \<Longrightarrow> runs db (execute_step h co goal step att db)"
  unfolding execute_step_def
  by (auto simp: collaborative_def runs_def split: sum.split bool.split option.split prod.split)
    (metis snd_conv)

lemma runs_dispatch_wait [runs_rules]: "collaborative co \<Longrightarrow> runs db (dispatch_wait h sv co goal s att db)"
  unfolding dispatch_wait_def Let_def by (intro runs_rules)

lemma runs_dispatch_input [runs_rules]: "runs db (dispatch_input h sv goal s db)"
  unfolding dispatch_input_def Let_def by (intro runs_rules)

lemma runs_dispatch_loop [runs_rules]: "collaborative co \<Longrightarrow> runs db (dispatch_loop h sv co gid ss goal ext db)"
  by (induction h sv co gid ss goal ext db rule: dispatch_loop.induct) (auto intro!: runs_rules)

lemma runs_renew_all: "renew_all h sv co es db = (rs, db') \<Longrightarrow> goal_step\<^sup>*\<^sup>* db db'"
proof (induction h sv co es db arbitrary: rs db' rule: renew_all.induct)
  case (2 h sv co goal step att es db)
  obtain r db1 where r: "renew_step h sv co (g_id goal) step db = (r, db1)" by fastforce
  moreover obtain rs2 db2 where "renew_all h sv co es db1 = (rs2, db2)" by fastforce
  moreover have "goal_step\<^sup>*\<^sup>* db db1" using runs_renew[of db h sv co "g_id goal" step] r by (simp add: runs_def)
  ultimately show ?case using 2 by (auto intro: rtranclp_trans)
qed simp

lemma runs_execute_all: "collaborative co \<Longrightarrow> execute_all h co es db = (rs, db') \<Longrightarrow> goal_step\<^sup>*\<^sup>* db db'"
proof (induction h co es db arbitrary: rs db' rule: execute_all.induct)
  case (2 h co goal step att renewed es db)
  obtain r db1 where r: "(case renewed of Some r \<Rightarrow> (r, db) | None \<Rightarrow> execute_step h co goal step att db) = (r, db1)" by fastforce
  moreover obtain rs2 db2 where "execute_all h co es db1 = (rs2, db2)" by fastforce
  moreover have "goal_step\<^sup>*\<^sup>* db db1"
    using runs_execute[OF 2(2), of db h goal step att] r by (auto simp: runs_def split: option.splits)
  ultimately show ?case using 2 by (auto intro: rtranclp_trans)
qed simp

lemma runs_apply_all [runs_rules]: "collaborative co \<Longrightarrow> runs db (apply_all h sv co gid es goal db)"
  by (induction h sv co gid es goal db rule: apply_all.induct) (auto intro!: runs_rules)

lemma runs_dispatch [runs_rules]:
  assumes co: "collaborative co" shows "runs db (dispatch h h' sv co goal db)"
  unfolding dispatch_def
proof (intro runs_rules co)
  fix ext db1 renewed db2 results db3 goal1 db4
  assume "renew_all h sv co ext db1 = (renewed, db2)" "execute_all h' co (zip ext renewed) db2 = (results, db3)"
  then have "goal_step\<^sup>*\<^sup>* db1 db3" using runs_renew_all runs_execute_all[OF co] by (metis rtranclp_trans)
  then show "runs db1 (apply_all h' sv co (g_id goal) (zip ext results) goal1 db3)"
    using runs_apply_all[OF co, of db3] by (auto simp: runs_def intro: rtranclp_trans)
qed

lemma runs_continue [runs_rules]: "runs db (continue_blocked h sv goal target db)"
  unfolding continue_blocked_def by (auto split: json.split option.split intro!: runs_rules)

lemma runs_move [runs_rules]: "runs db (move_goal h sv gid st reason db)"
  unfolding move_goal_def by (intro runs_rules)

lemma runs_settle [runs_rules]: "runs db (settle_goal h sv goal db)"
  unfolding settle_goal_def by (intro runs_rules)

lemma runs_ready [runs_rules]: "collaborative co \<Longrightarrow> runs db (run_ready h h' sv co now goal db)"
  unfolding run_ready_def Let_def by (intro runs_rules)

lemma runs_tick: "collaborative co \<Longrightarrow> runs db (tick h h' sv co now gid db)"
  unfolding tick_def Let_def by (intro runs_rules) (simp add: collaborative_def)

end
