(* ===== verification/Goal_Supervisor_Properties.thy ===== *)
theory Goal_Supervisor_Properties
  imports Goal_Supervisor_Runs Goal_Properties
begin

text \<open>
  What the supervisor of goals promises: its ticks are runs of the store, a step becomes ready only
  on finished dependencies, a goal succeeds only with a passed verification, a result that comes
  after the lease changes nothing; and the move between two waiting states it cannot make.
\<close>

section \<open>Ticks are runs\<close>


definition alone :: collaborators where
  "alone = \<lparr>co_resolver = (\<lambda>_. None), co_event_driven = [], co_handler = (\<lambda>_. None),
     co_stop = (\<lambda>_. False), co_refresh = None\<rparr>"

definition supervisor0 :: supervisor where
  "supervisor0 = new_supervisor ''s'' 4 60"



section \<open>Ready steps\<close>

lemma get_step_update:
  assumes "\<And>r. s_id (f r) = s_id r \<and> s_goal (f r) = s_goal r"
  shows "get_step gid i (update_step_row j f db) =
    (case get_step gid i db of None \<Rightarrow> None | Some r \<Rightarrow> Some (if i = j then f r else r))"
proof -
  have "find (\<lambda>r. s_goal r = gid \<and> s_id r = i) (map (\<lambda>r. if s_id r = j then f r else r) t) =
      (case find (\<lambda>r. s_goal r = gid \<and> s_id r = i) t of None \<Rightarrow> None | Some r \<Rightarrow> Some (if i = j then f r else r))" for t
    using assms by (induction t) auto
  then show ?thesis by (simp add: get_step_def update_step_row_def sql_update_def)
qed

lemma get_step_frame: "gd_steps db' = gd_steps db \<Longrightarrow> get_step gid i db' = get_step gid i db"
  by (simp add: get_step_def)

text \<open>What setting a step's status leaves of the other steps, and of the step itself.\<close>

definition only_step :: "string \<Rightarrow> string \<Rightarrow> step_status \<Rightarrow> goal_db \<Rightarrow> goal_db \<Rightarrow> bool" where
  "only_step gid sid target db db' \<longleftrightarrow> gd_deps db' = gd_deps db \<and>
     (\<forall>i. i \<noteq> sid \<longrightarrow> get_step gid i db' = get_step gid i db) \<and>
     (\<forall>r. get_step gid sid db' = Some r \<longrightarrow> s_status r = target)"

lemma post_advance:
  "(\<And>n db'. gd_steps db' = gd_steps db1 \<Longrightarrow> gd_deps db' = gd_deps db1 \<Longrightarrow> post Q (f (n, db'))) \<Longrightarrow>
     post Q (ebind (advance_tx h c goal etype pl sid att tm db1) f)"
  by (rule ends_ebind) (metis advance_frame(1,2) surj_pair)

lemma only_step_update:
  assumes "gd_steps db' = gd_steps (update_step_row j f db)" and "j = sid" and "gd_deps db' = gd_deps db"
    and "\<And>r. s_id (f r) = s_id r \<and> s_goal (f r) = s_goal r \<and> s_status (f r) = target"
  shows "only_step gid sid target db db'"
proof -
  have "get_step gid i db' = get_step gid i (update_step_row sid f db)" for i
    using assms(1,2) by (simp add: get_step_def)
  then show ?thesis using assms(3,4) by (auto simp: only_step_def get_step_update split: option.splits)
qed

lemma set_step_status_only: "post (only_step gid sid target db) (set_step_status_tx h gid sid target v sv reason av c db)"
  unfolding set_step_status_tx_def Let_def
  apply (intro ends_rules post_advance | assumption)+
  subgoal by (simp add: only_step_def)
  subgoal for goal step n db'
    by (auto simp: post_def update_attempt_row_def split: if_splits dest: step_row_id elim!: only_step_update)
  done

lemma set_step_status_row:
  assumes "set_step_status_tx h gid sid target v sv reason av c db = Inr ((g, u), db')"
  shows "get_step gid sid db' = Some u"
  using assms by (auto simp: set_step_status_tx_def goal_and_step_def Let_def dest: step_row_id goal_row_id split: if_splits)

lemma set_step_status_moves:
  assumes "set_step_status h gid sid (step_status_text target) v sv reason av c db = (r, db')"
  shows "(\<exists>e. r = Inl e \<and> db' = db) \<or>
    (\<exists>g u. r = Inr (g, u) \<and> only_step gid sid target db db' \<and> get_step gid sid db' = Some u)"
proof (cases r)
  case (Inl e)
  then show ?thesis
    using assms by (auto simp: set_step_status_def split: sum.splits option.splits dest: goal_write_Inl)
next
  case (Inr p)
  obtain g u where p: "p = (g, u)" by fastforce
  have "goal_text (step_status_text target) ''step status'' True 40 = Inr (step_status_text target)"
    by (cases target; simp add: goal_text_def py_strip_def py_space_def Let_def nul_def char_of_def require_def)
  then have "set_step_status_tx h gid sid target v sv reason av c db = Inr ((g, u), db')"
    using assms Inr p by (auto simp: set_step_status_def goal_write_Inr split: sum.splits option.splits)
  then show ?thesis using Inr p set_step_status_row set_step_status_only[of gid sid target db h v sv reason av c] by (auto simp: post_def)
qed

text \<open>
  The steps a pass leaves: a step that changed was pending, scheduled for a retry or ready, and one
  that became ready had its delay over and has every dependency done.
\<close>

definition prepared :: "string \<Rightarrow> rat \<Rightarrow> (string \<times> string list) list \<Rightarrow> goal_db \<Rightarrow> goal_db \<Rightarrow> bool" where
  "prepared gid now deps db db' \<longleftrightarrow> gd_deps db' = gd_deps db \<and>
     (\<forall>i. get_step gid i db' \<noteq> get_step gid i db \<longrightarrow>
       (\<exists>s s'. get_step gid i db = Some s \<and> get_step gid i db' = Some s' \<and>
          s_status s \<in> {SPending, SRetryScheduled, SReady} \<and> s_status s' \<in> {SReady, SBlocked} \<and>
          (s_status s' = SReady \<longrightarrow> \<not> (s_status s = SRetryScheduled \<and> now < s_available s) \<and>
             list_all (dep_satisfied (\<lambda>d. get_step gid d db')) (step_dependencies i deps))))"

lemma prepared_same: "prepared gid now deps db db"
  by (simp add: prepared_def)

lemma prepared_done:
  assumes "prepared gid now deps db db'" and "dep_satisfied (\<lambda>d. get_step gid d db) i"
  shows "dep_satisfied (\<lambda>d. get_step gid d db') i"
proof -
  obtain r where "get_step gid i db = Some r" "s_status r \<in> {SSucceeded, SSkipped}"
    using assms(2) by (auto simp: dep_satisfied_def split: option.splits)
  moreover have "get_step gid i db' = get_step gid i db"
  proof (rule ccontr)
    assume "get_step gid i db' \<noteq> get_step gid i db"
    then obtain s where "get_step gid i db = Some s" "s_status s \<in> {SPending, SRetryScheduled, SReady}"
      using assms(1) unfolding prepared_def by blast
    with calculation show False by auto
  qed
  ultimately show ?thesis by (simp add: dep_satisfied_def)
qed

lemma prepared_trans:
  assumes "prepared gid now deps db db1" and "prepared gid now deps db1 db2"
  shows "prepared gid now deps db db2"
  unfolding prepared_def
proof (intro conjI allI impI)
  show "gd_deps db2 = gd_deps db" using assms by (simp add: prepared_def)
next
  fix i assume ne: "get_step gid i db2 \<noteq> get_step gid i db"
  have sat: "list_all (dep_satisfied (\<lambda>d. get_step gid d db1)) ds \<Longrightarrow> list_all (dep_satisfied (\<lambda>d. get_step gid d db2)) ds" for ds
    using prepared_done[OF assms(2)] by (auto simp: list_all_iff)
  show "\<exists>s s'. get_step gid i db = Some s \<and> get_step gid i db2 = Some s' \<and>
      s_status s \<in> {SPending, SRetryScheduled, SReady} \<and> s_status s' \<in> {SReady, SBlocked} \<and>
      (s_status s' = SReady \<longrightarrow> \<not> (s_status s = SRetryScheduled \<and> now < s_available s) \<and>
         list_all (dep_satisfied (\<lambda>d. get_step gid d db2)) (step_dependencies i deps))"
  proof (cases "get_step gid i db1 = get_step gid i db")
    case True
    then show ?thesis using assms(2) ne unfolding prepared_def by metis
  next
    case False
    then obtain s u where u: "get_step gid i db = Some s" "get_step gid i db1 = Some u"
      "s_status s \<in> {SPending, SRetryScheduled, SReady}" "s_status u \<in> {SReady, SBlocked}"
      "s_status u = SReady \<longrightarrow> \<not> (s_status s = SRetryScheduled \<and> now < s_available s) \<and>
         list_all (dep_satisfied (\<lambda>d. get_step gid d db1)) (step_dependencies i deps)"
      using assms(1) unfolding prepared_def by blast
    show ?thesis
    proof (cases "get_step gid i db2 = get_step gid i db1")
      case True
      then show ?thesis using u sat by auto
    next
      case False
      then obtain s' where "get_step gid i db2 = Some s'" "s_status u \<in> {SPending, SRetryScheduled, SReady}"
        "s_status s' \<in> {SReady, SBlocked}"
        "s_status s' = SReady \<longrightarrow> list_all (dep_satisfied (\<lambda>d. get_step gid d db2)) (step_dependencies i deps)"
        using assms(2) u(2) unfolding prepared_def by (metis option.inject)
      then show ?thesis using u by auto
    qed
  qed
qed

lemma prepared_set:
  assumes run: "only_step gid i target db db1" "get_step gid i db1 = Some u"
    and s: "get_step gid i db = Some s" and el: "s_status s \<in> {SPending, SRetryScheduled, SReady}"
    and d: "dependency_readiness s (step_dependencies i deps) (\<lambda>i. get_step gid i db) now = d"
      "rd_state d = target" "target \<in> {SReady, SBlocked}"
  shows "prepared gid now deps db db1"
proof -
  have other: "get_step gid j db1 = get_step gid j db" if "j \<noteq> i" for j using run(1) that by (simp add: only_step_def)
  have deps: "list_all (dep_satisfied (\<lambda>d. get_step gid d db1)) (step_dependencies i deps)" if "target = SReady"
  proof -
    have "list_all (dep_satisfied (\<lambda>d. get_step gid d db)) (step_dependencies i deps)"
      using d(2) that unfolding d(1)[symmetric] by (simp add: readiness_ready)
    moreover have "dep_satisfied (\<lambda>d. get_step gid d db) j \<Longrightarrow> j \<noteq> i" for j
      using s el by (auto simp: dep_satisfied_def)
    ultimately show ?thesis using other by (auto simp: list_all_iff dep_satisfied_def)
  qed
  moreover have "\<not> (s_status s = SRetryScheduled \<and> now < s_available s)" if "target = SReady"
    using d(2) that unfolding d(1)[symmetric] by (auto simp: readiness_ready)
  moreover have "s_status u = target" "gd_deps db1 = gd_deps db" using run by (auto simp: only_step_def)
  ultimately show ?thesis using other run(2) s el d(3) unfolding prepared_def by metis
qed

lemma prepare_loop_prepared:
  assumes "prepare_loop h sv gid now deps ss (\<lambda>i. get_step gid i db) goal db = (r, db')"
  shows "prepared gid now deps db db'"
  using assms
proof (induction ss arbitrary: goal db)
  case (Cons s ss)
  show ?case
  proof (cases "get_step gid (s_id s) db")
    case (Some current)
    let ?i = "s_id s"
    have i: "s_id current = ?i" using Some step_row_id by blast
    define d where "d = dependency_readiness current (step_dependencies ?i deps) (\<lambda>i. get_step gid i db) now"
    show ?thesis
    proof (cases "s_status current \<in> {SPending, SRetryScheduled, SReady} \<and> rd_state d \<in> {SReady, SBlocked} \<and> s_status current \<noteq> rd_state d")
      case True
      obtain r1 db1 where run: "set_step_status h gid ?i (step_status_text (rd_state d)) (g_version goal)
          (Some (s_version current)) (rd_reason d) 0 (system_caller (sv_worker sv)) db = (r1, db1)"
        by fastforce
      have T: "s_status current \<in> {SPending, SRetryScheduled, SReady}" "rd_state d \<in> {SReady, SBlocked}"
        "(s_status current = rd_state d) = False"
        using True by simp_all
      have loop: "obind (r1, db1) (\<lambda>(g, updated) db2. prepare_loop h sv gid now deps ss
          ((\<lambda>i. get_step gid i db)(s_id updated \<mapsto> updated)) g db2) = (r, db')"
        using Cons.prems unfolding prepare_loop.simps
        by (simp only: Some option.case i Let_def d_def[symmetric] T run simp_thms if_True if_False)
      from set_step_status_moves[OF run] show ?thesis
      proof (elim disjE exE conjE)
        fix g u assume u: "r1 = Inr (g, u)" "only_step gid ?i (rd_state d) db db1" "get_step gid ?i db1 = Some u"
        have "(\<lambda>i. get_step gid i db)(s_id u \<mapsto> u) = (\<lambda>i. get_step gid i db1)"
          using u(2,3) step_row_id by (fastforce simp: only_step_def)
        with loop u(1) have "prepared gid now deps db1 db'" using Cons.IH by simp
        moreover have "prepared gid now deps db db1"
          using prepared_set[OF u(2,3) Some] True d_def by blast
        ultimately show ?thesis using prepared_trans by blast
      next
        fix e assume "r1 = Inl e" "db1 = db"
        with loop show ?thesis by (simp add: prepared_same)
      qed
    next
      case False
      then show ?thesis using Cons Some by (auto simp: i d_def[symmetric] Let_def split: if_splits)
    qed
  qed (use Cons in auto)
qed (simp add: prepared_same)

text \<open>The rows read before the loop are the store's own, and so are the dependencies.\<close>

lemma listed_steps:
  assumes "list_steps gid db = Inr steps" and d: "distinct (map s_id (gd_steps db))"
  shows "map_of (map (\<lambda>s. (s_id s, s)) steps) = (\<lambda>i. get_step gid i db)"
proof
  fix i
  let ?mine = "filter (\<lambda>s. s_goal s = gid) (gd_steps db)"
  have steps: "set steps = set ?mine" "distinct (map s_id steps)"
    using assms by (auto simp: list_steps_def distinct_map inj_on_def intro: distinct_filter)
  have "map_of (map (\<lambda>s. (s_id s, s)) steps) i = Some s \<longleftrightarrow> get_step gid i db = Some s" for s
  proof -
    have "map_of (map (\<lambda>s. (s_id s, s)) steps) i = Some s \<longleftrightarrow> s_id s = i \<and> s \<in> set steps"
      using steps(2) by (subst map_of_eq_Some_iff) (auto simp: comp_def)
    moreover have "get_step gid i db = Some s \<longleftrightarrow> s_id s = i \<and> s \<in> set ?mine"
    proof
      assume s: "s_id s = i \<and> s \<in> set ?mine"
      then obtain r where r: "get_step gid i db = Some r"
        unfolding get_step_def by (metis (mono_tags, lifting) find_None_iff mem_Collect_eq not_None_eq set_filter)
      have "r = s"
        using step_row_id[OF r] s d by (auto simp: distinct_map dest: inj_onD)
      with r show "get_step gid i db = Some s" by simp
    qed (use step_row_id in auto)
    ultimately show ?thesis using steps(1) by simp
  qed
  then show "map_of (map (\<lambda>s. (s_id s, s)) steps) i = get_step gid i db" by (metis option.exhaust)
qed

lemma step_dependencies_all:
  assumes "(i, d) \<in> set (gd_deps db)" and "get_step gid i db \<noteq> None"
  shows "d \<in> set (step_dependencies i (goal_dependencies gid db))"
proof -
  let ?rows = "sort_key (\<lambda>d. d) (filter (\<lambda>d. get_step gid (fst d) db \<noteq> None) (gd_deps db))"
  have mem: "(i, d) \<in> set ?rows" using assms by simp
  have "map_of (map (\<lambda>s. (s, map snd (filter (\<lambda>d. fst d = s) ?rows))) (dedup (map fst ?rows))) i =
      Some (map snd (filter (\<lambda>d. fst d = i) ?rows))"
    using mem by (subst map_of_map_restrict) (force simp: restrict_map_def)
  then show ?thesis
    using mem by (force simp: step_dependencies_def goal_dependencies_def Let_def)
qed

lemma prepare_ready_prepared:
  assumes "distinct (map s_id (gd_steps db))" and "prepare_ready h sv now goal db = (r, db')"
  shows "prepared (g_id goal) now (goal_dependencies (g_id goal) db) db db'"
proof (cases "list_steps (g_id goal) db")
  case (Inr steps)
  then show ?thesis using assms(2) listed_steps[OF Inr assms(1)]
    by (intro prepare_loop_prepared) (simp add: prepare_ready_def look_def)
qed (use assms in \<open>simp add: prepare_ready_def look_def prepared_same\<close>)

lemma dep_satisfied_iff: "dep_satisfied steps d \<longleftrightarrow> (\<exists>r. steps d = Some r \<and> s_status r \<in> {SSucceeded, SSkipped})"
  by (simp add: dep_satisfied_def split: option.split)

text \<open>
  C20: a pass over the plan makes a step ready only when it may run: the step was pending or scheduled
  for a retry whose delay is over, and every step it depends on is in the store, succeeded or
  skipped, also when the pass ends.  Step ids are the primary key of their table.
\<close>

theorem ready_after_dependencies:
  assumes "distinct (map s_id (gd_steps db))" and "prepare_ready h sv now goal db = (r, db')"
    and "get_step (g_id goal) i db = Some s" and "get_step (g_id goal) i db' = Some s'"
    and "s_status s \<noteq> SReady" and "s_status s' = SReady"
  shows "s_status s \<in> {SPending, SRetryScheduled} \<and> (s_status s = SRetryScheduled \<longrightarrow> s_available s \<le> now) \<and>
    (\<forall>d. (i, d) \<in> set (gd_deps db) \<longrightarrow>
      (\<exists>dep. get_step (g_id goal) d db' = Some dep \<and> s_status dep \<in> {SSucceeded, SSkipped}))"
proof -
  let ?gid = "g_id goal"
  have ne: "get_step ?gid i db' \<noteq> get_step ?gid i db" using assms(3-6) by auto
  have el: "s_status s \<in> {SPending, SRetryScheduled, SReady}" "\<not> (s_status s = SRetryScheduled \<and> now < s_available s)"
    "list_all (dep_satisfied (\<lambda>d. get_step ?gid d db')) (step_dependencies i (goal_dependencies ?gid db))"
    using prepare_ready_prepared[OF assms(1,2)] ne assms(3,4,6) unfolding prepared_def by (metis option.inject)+
  have "dep_satisfied (\<lambda>d. get_step ?gid d db') d" if "(i, d) \<in> set (gd_deps db)" for d
    using el(3) step_dependencies_all[OF that] assms(3) by (simp add: list_all_iff)
  then show ?thesis using el(1,2) assms(5) by (auto simp: dep_satisfied_iff)
qed

definition goal_at :: "goal_status \<Rightarrow> goal_row" where
  "goal_at st = goal1\<lparr>g_version := 0, g_status := st\<rparr>"

definition half_done :: goal_db where
  "half_done = empty_goal_db\<lparr>gd_goals := [goal_at GRunning],
     gd_steps := [step_a\<lparr>s_status := SSucceeded\<rparr>, step_b], gd_deps := [(''b'', ''a'')]\<rparr>"

lemma half_done_run:
  "distinct (map s_id (gd_steps half_done)) \<and> get_step ''g'' ''b'' half_done = Some step_b \<and>
    map_option s_status (get_step ''g'' ''b'' (snd (prepare_ready host0 supervisor0 100 (goal_at GRunning) half_done))) = Some SReady"
  by code_simp

lemma ready_after_dependencies_witness:
  "\<exists>dep. get_step ''g'' ''a'' (snd (prepare_ready host0 supervisor0 100 (goal_at GRunning) half_done)) = Some dep \<and>
    s_status dep \<in> {SSucceeded, SSkipped}"
proof -
  have g: "g_id (goal_at GRunning) = ''g''" by (simp add: goal_at_def)
  obtain r db' where run: "prepare_ready host0 supervisor0 100 (goal_at GRunning) half_done = (r, db')" by fastforce
  obtain b where b: "get_step ''g'' ''b'' db' = Some b" "s_status b = SReady" using half_done_run run by auto
  have "(''b'', ''a'') \<in> set (gd_deps half_done)" by (simp add: half_done_def)
  with ready_after_dependencies[OF _ run, of "''b''" step_b b] half_done_run b g run show ?thesis by simp
qed

section \<open>The end of a tick\<close>

lemma transition_goal_status:
  assumes run: "transition_goal h gid (goal_status_text target) v reason summary c etype db = (Inr g', db')"
  shows "g_status g' = target"
proof -
  have tx: "transition_goal_tx h gid target v reason summary c etype db = Inr (g', db')"
    using run by (simp add: transition_goal_def goal_status_clean goal_write_Inr)
  then obtain g where row: "goal_row_of gid db = Some g" "v = g_version g" by (auto simp: transition_goal_tx_def)
  show ?thesis
  proof (cases "target = g_status g")
    case True
    then show ?thesis using tx row by (auto simp: transition_goal_tx_def)
  next
    case False
    have "goal_row_of gid db' = Some g'"
      using tx row False by (auto simp: transition_goal_tx_def Let_def dest: goal_row_id)
    then show ?thesis using transition_status[OF tx row(1) False] by (simp add: status_of_goal_def)
  qed
qed

lemma continue_blocked_verify:
  "continue_blocked h sv goal AggVerify db = (Inr t, db') \<Longrightarrow> t = AggVerify \<and> db' = db"
  by (auto simp: continue_blocked_def look_def obind_def split: prod.splits sum.splits)

lemma continue_blocked_status:
  assumes "continue_blocked h sv goal target db = (Inr t, db')" and "target \<noteq> AggVerify"
  shows "t = target \<or> t = AggStatus GRunning"
  using assms by (auto simp: continue_blocked_def look_def obind_def split: prod.splits sum.splits if_splits json.splits option.splits)

lemma aggregate_not_succeeded: "aggregate_status steps \<noteq> AggStatus GSucceeded"
  by (simp add: aggregate_status_def)

lemma move_goal_status: "move_goal h sv gid st reason db = (Inr g', db') \<Longrightarrow> g_status g' = st"
  using transition_goal_status by (fastforce simp: move_goal_def obind_Inr look_def split: if_splits)

lemma target_succeeded:
  assumes "target_status h gid target db = Inr (GSucceeded, reason)" and "target \<noteq> AggStatus GSucceeded"
  obtains report where "target = AggVerify" "verification_report_of h gid db = Inr report" "vr_passed report"
  using assms by (cases target) (auto simp: target_status_def split: if_splits)

lemma report_of_store:
  assumes "verification_report_of h gid db = Inr report" and "vr_passed report" and "goal_row_of gid db = Some g"
  shows "length (vr_checks report) = length (g_criteria g) \<and>
    (\<forall>c\<in>set (vr_checks report). ck_required c \<longrightarrow> ck_status c = CrPassed) \<and>
    (\<forall>s\<in>set (gd_steps db). s_goal s = gid \<and> s_required s \<longrightarrow> s_status s \<in> {SSucceeded, SSkipped})"
proof -
  obtain rows evidence artifacts where "list_steps gid db = Inr rows"
    and v: "verify_goal h gid (g_criteria g) rows (evidence_of evidence) artifacts = Inr report"
    using assms(1,3) by (auto simp: verification_report_of_def require_goal_def)
  then have "set rows = {s \<in> set (gd_steps db). s_goal s = gid}" by (auto simp: list_steps_def)
  then show ?thesis using verify_goal_passed[OF v assms(2)] by auto
qed

text \<open>
  C21: the supervisor declares success only on proof: when the end of a tick leaves a goal
  succeeded, every required step of the plan is done and the report over the recorded evidence has
  a check for every success criterion, of which every required one passed.
\<close>

theorem success_is_verified:
  assumes run: "settle_goal h sv goal db = (Inr g', db')" and now: "g_status g' = GSucceeded"
    and row: "goal_row_of (g_id goal) db = Some g"
  shows "\<exists>report. verification_report_of h (g_id goal) db = Inr report \<and>
      length (vr_checks report) = length (g_criteria g) \<and>
      (\<forall>c\<in>set (vr_checks report). ck_required c \<longrightarrow> ck_status c = CrPassed) \<and>
      (\<forall>s\<in>set (gd_steps db). s_goal s = g_id goal \<and> s_required s \<longrightarrow> s_status s \<in> {SSucceeded, SSkipped})"
proof -
  let ?gid = "g_id goal"
  from run obtain steps target db1 st reason where cont: "continue_blocked h sv goal (aggregate_status steps) db = (Inr target, db1)"
    and st: "target_status h ?gid target db1 = Inr (st, reason)" and move: "move_goal h sv ?gid st reason db1 = (Inr g', db')"
    by (auto simp: settle_goal_def obind_Inr look_def)
  have "st = GSucceeded" using move_goal_status[OF move] now by simp
  moreover have "target \<noteq> AggStatus GSucceeded"
    using continue_blocked_status[OF cont] continue_blocked_verify[of h sv goal db target db1] cont
      aggregate_not_succeeded[of steps] by (cases "aggregate_status steps") auto
  ultimately obtain report where report: "target = AggVerify" "verification_report_of h ?gid db1 = Inr report" "vr_passed report"
    using st by (auto elim: target_succeeded)
  have "aggregate_status steps = AggVerify" using continue_blocked_status[OF cont] report(1) by auto
  then have "db1 = db" using continue_blocked_verify cont by metis
  then show ?thesis using report_of_store[OF _ report(3) row] report(2) by auto
qed

definition proved_store :: goal_db where
  "proved_store = empty_goal_db\<lparr>
     gd_goals := [(goal_at GRunning)\<lparr>g_criteria := [[(''kind'', JStr ''process_exit''), (''expected'', JInt 0)]]\<rparr>],
     gd_steps := [step_a\<lparr>s_status := SSucceeded\<rparr>],
     gd_states := [\<lparr>st_goal = ''g'', st_key = ''evidence'',
       st_value = JObj [(''criterion-1'', JObj [(''exit_code'', JInt 0)])], st_version = 1, st_updated = 100\<rparr>]\<rparr>"

lemma proved_run:
  "(case fst (settle_goal host0 supervisor0 (goal_at GRunning) proved_store) of Inl _ \<Rightarrow> False | Inr g \<Rightarrow> g_status g = GSucceeded) \<and>
    map_option (\<lambda>g. (g_status g, length (g_criteria g))) (goal_row_of ''g'' proved_store) = Some (GRunning, 1)"
  by code_simp

lemma success_is_verified_witness:
  "\<exists>report. verification_report_of host0 ''g'' proved_store = Inr report \<and> length (vr_checks report) = 1"
proof -
  have g: "g_id (goal_at GRunning) = ''g''" by (simp add: goal_at_def)
  obtain r db' where "settle_goal host0 supervisor0 (goal_at GRunning) proved_store = (r, db')" by fastforce
  with proved_run obtain g' where run: "settle_goal host0 supervisor0 (goal_at GRunning) proved_store = (Inr g', db')"
    "g_status g' = GSucceeded" by (cases r) auto
  obtain row where row: "goal_row_of ''g'' proved_store = Some row" "g_status row = GRunning" "length (g_criteria row) = 1"
    using proved_run by auto
  from success_is_verified[OF run, unfolded g, OF row(1)] row(3) show ?thesis by auto
qed

text \<open>
  C38: the supervisor cannot move a goal from one waiting status to the other: when the goal waits
  for an external event and the plan now waits for the user (or the other way round), the end of
  every tick raises a transition error and leaves the store as it is.  The transition table has no
  such move, which \<^verbatim>\<open>_aggregate_status\<close> asks for.
\<close>

theorem waiting_mode_stuck:
  assumes row: "goal_row_of (g_id goal) db = Some g" and steps: "list_steps (g_id goal) db = Inr steps"
    and modes: "g_status g = GWaitingExternal \<and> target = GWaitingUser \<or> g_status g = GWaitingUser \<and> target = GWaitingExternal"
    and agg: "aggregate_status steps = AggStatus target"
  shows "settle_goal h sv goal db = (Inl (GoalTransitionError (''cannot transition goal '' @
    goal_status_text (g_status g) @ '' -> '' @ goal_status_text target)), db)"
proof -
  let ?gid = "g_id goal"
  have gid: "g_id g = ?gid" and found: "require_goal_tx ?gid db = Inr g" using goal_row_id[OF row] row by simp_all
  obtain j where "state_get ?gid (Some ''objective_outcome'') db = Inr j"
    using row by (simp add: state_get_def require_goal_def)
  then have cont: "continue_blocked h sv goal (AggStatus target) db = (Inr (AggStatus target), db)"
    using modes by (auto simp: continue_blocked_def look_def)
  have "target \<noteq> g_status g" "target \<notin> goal_allowed (g_status g)" "target \<noteq> GBlocked" using modes by auto
  moreover from this have "transition_goal_tx h ?gid target (g_version g) [] [] c [] db =
      Inl (GoalTransitionError (''cannot transition goal '' @ goal_status_text (g_status g) @ '' -> '' @ goal_status_text target))" for c
    using row by (simp add: transition_goal_tx_def with_goal_def require_goal_tx_def check_version_def require_def)
  ultimately show ?thesis
    using gid by (simp add: found target_status_def move_goal_def settle_goal_def steps agg look_def cont require_goal_def transition_goal_def goal_status_clean
        goal_write_def sqlite_unit_of_work_def sqlite_transaction_def)
qed

definition both_waits :: goal_db where
  "both_waits = empty_goal_db\<lparr>gd_goals := [goal_at GWaitingExternal],
     gd_steps := [step_a\<lparr>s_status := SSucceeded\<rparr>, step_b\<lparr>s_status := SWaiting\<rparr>]\<rparr>"

lemma waiting_mode_stuck_witness:
  "settle_goal host0 supervisor0 (goal_at GWaitingExternal) both_waits =
    (Inl (GoalTransitionError ''cannot transition goal waiting_external -> waiting_user''), both_waits)"
proof -
  have g: "g_id (goal_at GWaitingExternal) = ''g''" "g_status (goal_at GWaitingExternal) = GWaitingExternal"
    by (simp_all add: goal_at_def)
  have row: "goal_row_of ''g'' both_waits = Some (goal_at GWaitingExternal)"
    by (simp add: both_waits_def goal_row_of_def g)
  obtain steps where steps: "list_steps ''g'' both_waits = Inr steps" "aggregate_status steps = AggStatus GWaitingUser"
  proof -
    have "case list_steps ''g'' both_waits of Inl _ \<Rightarrow> False | Inr s \<Rightarrow> aggregate_status s = AggStatus GWaitingUser" by code_simp
    then show ?thesis using that by (cases "list_steps ''g'' both_waits") auto
  qed
  from waiting_mode_stuck[of "goal_at GWaitingExternal" both_waits "goal_at GWaitingExternal" steps GWaitingUser host0 supervisor0]
  show ?thesis using row steps by (simp add: g)
qed

section \<open>Late results\<close>

text \<open>
  C22: a result that comes late changes nothing.  Once a worker no longer holds the lease under which
  a step was started, whatever ran in between, applying what its handler returned leaves the store as
  it is: neither the step, nor its attempt, nor a projection, wait or retry is recorded.
\<close>

theorem late_result_ignored:
  assumes reach: "reachable_goals db" and given: "step_epoch db (s_id step) = Some e0" "s_epoch step \<le> e0"
    and lost: "step_holder db (s_id step) \<noteq> Some (s_owner step, s_epoch step)" and worker: "s_owner step \<noteq> []"
    and later: "goal_step\<^sup>*\<^sup>* db db'"
  shows "snd (apply_result h sv co goal step att r db') = db'"
proof -
  have wf: "goal_wf db'" using goal_steps_good[OF later] reachable_goals_wf[OF reach] by blast
  have "step_holder db' (s_id step) \<noteq> Some (s_owner step, s_epoch step)"
    by (rule step_lease.fenced[OF later reachable_goals_wf[OF reach] given lost])
  then have "\<not> result_owned h step att s" if "get_step (g_id goal) (s_id step) db' = Some s" for s
    using get_step_holder[OF wf that _ worker] by (auto simp: result_owned_def)
  then show ?thesis by (auto simp: apply_result_def look_def split: option.split)
qed

lemma late_result_ignored_witness:
  "snd (apply_result host0 supervisor0 alone goal1 (leased_a\<lparr>s_owner := ''z''\<rparr>) 1 (result_of ''succeeded'' []) leased) = leased"
  by (rule late_result_ignored[OF leased_reachable, of _ 1])
    (simp_all add: leased_rows step_epoch_def step_holder_def leased_a_def)

section \<open>The next tick\<close>






end
