(* ===== verification/Goal_Recovery.thy ===== *)
theory Goal_Recovery
  imports Goal_Supervisor_Properties
begin

text \<open>
  How a goal gets its ticks: the supervisor's jobs in the Work Fabric, one for every occurrence
  (\<^verbatim>\<open>GoalSupervisor.enqueue\<close>), and the startup recovery that recreates a missing one for each active
  goal (\<^verbatim>\<open>recover_goal_supervisors\<close>, the step for one goal; its scan over all goals is the keyset scan
  of \<^verbatim>\<open>Core_Store\<close>).
\<close>

section \<open>Occurrences\<close>







section \<open>Startup recovery\<close>




section \<open>Properties\<close>








end
