(* ===== verification/Spec2Isabelle.thy ===== *)
theory Spec2Isabelle
  imports Core_Properties Work_Log_Properties Work_Job_Properties Work_Item_Properties
    Work_Service_Properties Work_Scheduler_Properties Goal_Properties Goal_Supervisor_Properties Goal_Recovery
begin

text \<open>
  A model of the Work Fabric of the VARIANT-1 backend (\<^verbatim>\<open>src/backend/work_fabric\<close>), of the
  shared invariants it rests on (\<^verbatim>\<open>src/backend/core_invariants.py\<close>) and of the repository of durable
  goals built on it (\<^verbatim>\<open>src/backend/goals\<close>).

  The program.  The backend keeps its durable work in one SQLite database: an event log with
  per-aggregate versions, an outbox that delivers the events at least once, a queue of jobs that
  workers claim under leases with epochs, receipts of capability calls, questions to the user, and
  projections of the log.  \<^verbatim>\<open>WorkRepository\<close> owns the tables; \<^verbatim>\<open>InteractionService\<close>, \<^verbatim>\<open>JobService\<close>,
  \<^verbatim>\<open>JobExecutionContext\<close>, \<^verbatim>\<open>WorkEventService\<close>, \<^verbatim>\<open>WorkRecovery\<close>, \<^verbatim>\<open>WorkService\<close> and
  \<^verbatim>\<open>WorkScheduler\<close> are the services over it.  Any number of threads and processes call it at any
  time; every mutation is one \<^verbatim>\<open>BEGIN IMMEDIATE\<close> transaction, so a run of the program is a
  sequence of these transactions.  \<^verbatim>\<open>GoalRepository\<close> keeps goals, their plans of steps, leased
  attempts, waits, questions and external effects in tables of the same database; each of its
  mutations advances the goal's version and appends one event to the log in one transaction.
  \<^verbatim>\<open>GoalSupervisor\<close> is its client: run as a job of the Work Fabric, one tick at a time, it blocks the
  steps whose lease expired, satisfies the waits that are due, readies and leases steps, lets handlers
  execute them, applies what they return while the lease still holds, and moves the goal.

  How it is modelled.
  \<^item> A Python value is a \<open>pyval\<close>, a JSON value a \<open>json\<close>; a \<^verbatim>\<open>REAL\<close> column is a \<open>rat\<close>, an
    integer an \<open>int\<close> (Python's and SQLite's integers do not wrap at the sizes involved), a text a
    \<open>string\<close>.  An exception is an \<open>Inl\<close> with a \<open>py_err\<close>.
  \<^item> A table is a list in insertion (rowid) order, the database the record \<open>work_db\<close>, a
    transaction body a function \<open>work_db \<Rightarrow> ('a \<times> work_db) res\<close>; \<open>db_write\<close> runs one and discards
    its writes if it fails.  An \<^verbatim>\<open>UPDATE .. WHERE\<close> is \<open>sql_update\<close>, with its \<^verbatim>\<open>rowcount\<close>.
  \<^item> What is not under \<^verbatim>\<open>src/\<close> and is not the language is a field of the record \<open>host\<close>: SHA-256,
    the float formatter and parser, the identifiers \<^verbatim>\<open>uuid4\<close> draws, the clock, the injected faults.
    Handlers, reducers and loaders the services call back are function arguments.
  \<^item> The goal store is the record \<open>goal_db\<close>: the Work Fabric's \<open>work_db\<close> and one list per goal
    table.  \<open>goal_step\<close> is its step relation (every goal operation, and every operation of the Work
    Fabric, which never appends an event of a goal), \<open>reachable_goals\<close> its closure.
  \<^item> \<open>repo_step\<close> (theory \<^verbatim>\<open>Work_Repository\<close>) is the step relation: every mutating operation, with any
    arguments, at any clock, successful or failing; \<open>reachable\<close> is its closure from the empty
    database.  Properties of all interleavings are invariants or monotonicity facts of it.

  Theories.
  \<^item> \<^verbatim>\<open>Prelude\<close>: results, Python text, decimal rendering, tables.  \<^verbatim>\<open>Core_Json\<close>: strict JSON, its
    canonical text and fingerprints.  \<^verbatim>\<open>Core_Eval\<close>: code equations for evaluating the model.
    \<^verbatim>\<open>Core_Store\<close>: transactions with rollback, cancellation
    probes, keyset pagination (locale \<open>keyset_source\<close>).  \<^verbatim>\<open>Core_Lease\<close>: the locale \<open>lease_fence\<close>, what
    a table with owners and epochs promises, and the two fencing theorems any such table has.
  \<^item> \<^verbatim>\<open>Work_Scope\<close> (\<^verbatim>\<open>scope.py\<close>), \<^verbatim>\<open>Work_Models\<close> (\<^verbatim>\<open>models.py\<close>, the tables), \<^verbatim>\<open>Work_Events\<close> (events
    and outbox), \<^verbatim>\<open>Work_Projection\<close>, \<^verbatim>\<open>Work_Jobs\<close> with its invariant \<^verbatim>\<open>Work_Job_Inv\<close> and one lemma
    per operation \<^verbatim>\<open>Work_Job_Ops\<close>, \<^verbatim>\<open>Work_Operations\<close> (receipts), \<^verbatim>\<open>Work_Interactions\<close> with
    \<^verbatim>\<open>Work_Interaction_Inv\<close>: the parts of \<^verbatim>\<open>repository.py\<close> and \<^verbatim>\<open>interactions.py\<close>.
  \<^item> \<^verbatim>\<open>Work_Repository\<close>: the step relation, the invariant \<open>repo_wf\<close>, the interpretations of
    \<open>lease_fence\<close> for jobs and for deliveries.  \<^verbatim>\<open>Work_Settled\<close>: what no run changes.
  \<^item> \<^verbatim>\<open>Work_Service\<close>, \<^verbatim>\<open>Work_Service_Facts\<close>: \<^verbatim>\<open>jobs.py\<close>, \<^verbatim>\<open>events.py\<close>, \<^verbatim>\<open>recovery.py\<close>, \<^verbatim>\<open>service.py\<close>.
    \<^verbatim>\<open>Work_Scheduler\<close>: \<^verbatim>\<open>scheduler.py\<close>.
  \<^item> \<^verbatim>\<open>Goal_Models\<close> (\<^verbatim>\<open>goals/models.py\<close>, the tables), \<^verbatim>\<open>Goal_Plan\<close> (\<^verbatim>\<open>_normalize_plan\<close> and its
    search for cycles), \<^verbatim>\<open>Goal_Repository\<close> (creation, planning, transitions, budget, state,
    artifacts), \<^verbatim>\<open>Goal_Steps\<close> (steps, attempts, waits, inputs) and \<^verbatim>\<open>Goal_Effects\<close> (effects,
    cancellation, history): \<^verbatim>\<open>goals/repository.py\<close>.
  \<^item> \<^verbatim>\<open>Goal_Inv\<close>: the invariant \<open>goal_wf\<close>, and \<open>keeps gid\<close>, what an operation on goal \<open>gid\<close> may
    change.  \<^verbatim>\<open>Goal_Advance\<close>: the event of a mutation.  \<^verbatim>\<open>Goal_Keeps\<close>: a rule for each statement
    (collections \<open>keeps_rules\<close> and \<open>ends_rules\<close>) and, composed from them, one lemma per
    transaction; \<^verbatim>\<open>Goal_Cancel\<close> and \<^verbatim>\<open>Goal_Store\<close> the same for cancellation, planning and creation.
    \<^verbatim>\<open>Goal_Runs\<close>: the compare-and-swap of every versioned operation, the step relation, the
    interpretation of \<open>lease_fence\<close> for steps.
  \<^item> \<^verbatim>\<open>Goal_Conditions\<close> (\<^verbatim>\<open>goals/conditions.py\<close>, \<^verbatim>\<open>goals/verification.py\<close>) and \<^verbatim>\<open>Goal_Supervisor\<close>
    (\<^verbatim>\<open>goals/supervisor.py\<close>, \<^verbatim>\<open>goals/executor.py\<close>, \<^verbatim>\<open>goals/recovery.py\<close>): the decisions and the ticks, over
    a record \<open>collaborators\<close> of handlers and resolvers.  \<^verbatim>\<open>Goal_Supervisor_Runs\<close>: a tick is a run of
    the store (collection \<open>runs_rules\<close>), so what holds along runs holds across ticks.
    \<^verbatim>\<open>Goal_Recovery\<close>: the jobs that run the ticks, and the startup recovery of one goal.
  \<^item> \<^verbatim>\<open>Work_Samples\<close>, \<^verbatim>\<open>Goal_Samples\<close>: concrete runs, evaluated once.  The theories ending in \<^verbatim>\<open>_Properties\<close> state
    the properties, each with an instance at a concrete run.

  Loops and fuel.  \<open>recover_jobs\<close>, \<open>recover_operations\<close> and the claim loop are structural in the
  selected rows.  \<open>keyset_loop\<close> and \<open>delete_chat_loop\<close> carry fuel and return \<open>None\<close> when it runs
  out; they are started with fuel that the properties show to be enough.  \<^verbatim>\<open>JobService.wait\<close> and
  \<^verbatim>\<open>InteractionService.wait\<close> poll for ever unless the row settles: they are recursions over the
  sequence of polls.

  Not modelled: logging, the \<^verbatim>\<open>asyncio\<close> task bookkeeping of the scheduler (its polling loop, the
  follow-up task and shutdown), the SQL text, migrations and connection pragmas, the capability
  facade of \<^verbatim>\<open>work_fabric/capabilities.py\<close>; of the goals their service, the parent session, the
  composer and the handlers of the host (which drive model sessions and processes), the scan of the
  startup recovery over all goals and the recovery of the composer's workload; and the rest of the
  backend.
\<close>

end
